(* ===== verification/Prelude.thy ===== *)
theory Prelude
  imports
    Main
    "HOL-Library.Sublist"
    "HOL-Library.Char_ord"
    "HOL-Library.List_Lexorder"
begin

text \<open>
  What every component shares: the development's fact collections, the vocabulary of
  byte strings the Go source uses (package \<open>strings\<close>, \<open>sort.Strings\<close>, and the lexical
  part of \<open>path/filepath\<close> on a Unix system), and generic lemmas on lists that model SQL
  tables. A Go string is a sequence of bytes, here an HOL \<^typ>\<open>string\<close>.
\<close>

named_theorems table_simps \<open>rewriting row updates of a table\<close>
named_theorems row_facts \<open>facts about single rows that the store operations share\<close>
named_theorems op_defs \<open>the definitions of the store operations\<close>

section \<open>Package strings\<close>

definition HasPrefix :: "string \<Rightarrow> string \<Rightarrow> bool" where
  "HasPrefix s p \<longleftrightarrow> prefix p s"

definition HasSuffix :: "string \<Rightarrow> string \<Rightarrow> bool" where
  "HasSuffix s p \<longleftrightarrow> suffix p s"

definition TrimPrefix :: "string \<Rightarrow> string \<Rightarrow> string" where
  "TrimPrefix s p = (if prefix p s then drop (length p) s else s)"

definition TrimSuffix :: "string \<Rightarrow> string \<Rightarrow> string" where
  "TrimSuffix s p = (if suffix p s then take (length s - length p) s else s)"

fun Contains :: "string \<Rightarrow> string \<Rightarrow> bool" where
  "Contains [] sub \<longleftrightarrow> sub = []"
| "Contains (c # cs) sub \<longleftrightarrow> prefix sub (c # cs) \<or> Contains cs sub"

text \<open>\<open>ContainsAny\<close> and \<open>ContainsRune\<close> with ASCII characters compare bytes.\<close>

definition ContainsAny :: "string \<Rightarrow> string \<Rightarrow> bool" where
  "ContainsAny s chars \<longleftrightarrow> list_ex (\<lambda>c. c \<in> set chars) s"

text \<open>\<open>strings.Split\<close> with a one-byte separator.\<close>

fun Split :: "char \<Rightarrow> string \<Rightarrow> string list" where
  "Split sep [] = [[]]"
| "Split sep (c # cs) =
     (if c = sep then [] # Split sep cs
      else (case Split sep cs of [] \<Rightarrow> [[c]] | w # ws \<Rightarrow> (c # w) # ws))"

fun Join :: "string list \<Rightarrow> string \<Rightarrow> string" where
  "Join [] sep = []"
| "Join [w] sep = w"
| "Join (w # ws) sep = w @ sep @ Join ws sep"

text \<open>
  \<open>strings.TrimSpace\<close> removes the runes of \<open>unicode.IsSpace\<close>: six ASCII bytes, and the
  multi-byte spaces, which are listed with their UTF-8 encodings.
\<close>

definition space_runes :: "string list" where
  "space_runes =
     [[CHR 0x20], [CHR 0x09], [CHR 0x0A], [CHR 0x0B], [CHR 0x0C], [CHR 0x0D],
      [CHR 0xC2, CHR 0x85], [CHR 0xC2, CHR 0xA0],
      [CHR 0xE1, CHR 0x9A, CHR 0x80],
      [CHR 0xE2, CHR 0x80, CHR 0x80], [CHR 0xE2, CHR 0x80, CHR 0x81],
      [CHR 0xE2, CHR 0x80, CHR 0x82], [CHR 0xE2, CHR 0x80, CHR 0x83],
      [CHR 0xE2, CHR 0x80, CHR 0x84], [CHR 0xE2, CHR 0x80, CHR 0x85],
      [CHR 0xE2, CHR 0x80, CHR 0x86], [CHR 0xE2, CHR 0x80, CHR 0x87],
      [CHR 0xE2, CHR 0x80, CHR 0x88], [CHR 0xE2, CHR 0x80, CHR 0x89],
      [CHR 0xE2, CHR 0x80, CHR 0x8A], [CHR 0xE2, CHR 0x80, CHR 0xA8],
      [CHR 0xE2, CHR 0x80, CHR 0xA9], [CHR 0xE2, CHR 0x80, CHR 0xAF],
      [CHR 0xE2, CHR 0x81, CHR 0x9F], [CHR 0xE3, CHR 0x80, CHR 0x80]]"

text \<open>Every rune is at least one byte long, so the string shortens by one rune per round.\<close>

fun strip_runes :: "string list \<Rightarrow> nat \<Rightarrow> string \<Rightarrow> string" where
  "strip_runes rs 0 s = s"
| "strip_runes rs (Suc n) s =
     (case find (\<lambda>r. prefix r s) rs of
        None \<Rightarrow> s
      | Some r \<Rightarrow> strip_runes rs n (drop (length r) s))"

definition TrimLeftSpace :: "string \<Rightarrow> string" where
  "TrimLeftSpace s = strip_runes space_runes (length s) s"

definition TrimRightSpace :: "string \<Rightarrow> string" where
  "TrimRightSpace s = rev (strip_runes (map rev space_runes) (length s) (rev s))"

definition TrimSpace :: "string \<Rightarrow> string" where
  "TrimSpace s = TrimRightSpace (TrimLeftSpace s)"

text \<open>\<open>strings.ReplaceAll\<close> for a non-empty pattern: leftmost, non-overlapping.\<close>

fun replace_fuel :: "nat \<Rightarrow> string \<Rightarrow> string \<Rightarrow> string \<Rightarrow> string" where
  "replace_fuel 0 old new s = s"
| "replace_fuel (Suc n) old new [] = []"
| "replace_fuel (Suc n) old new (c # cs) =
     (if prefix old (c # cs) then new @ replace_fuel n old new (drop (length old) (c # cs))
      else c # replace_fuel n old new cs)"

definition ReplaceAll :: "string \<Rightarrow> string \<Rightarrow> string \<Rightarrow> string" where
  "ReplaceAll s old new = replace_fuel (Suc (length s)) old new s"

section \<open>Package path/filepath, on Unix\<close>

definition IsAbs :: "string \<Rightarrow> bool" where
  "IsAbs p \<longleftrightarrow> HasPrefix p ''/''"

text \<open>
  \<open>filepath.Clean\<close> applies its lexical rules to the slash-separated elements: empty and
  \<open>.\<close> elements vanish, \<open>..\<close> removes the element before it, and a \<open>..\<close> that has none is
  kept in a relative path and dropped in a rooted one. \<open>clean_elems\<close> keeps the output
  elements in reverse.
\<close>

fun clean_elems :: "bool \<Rightarrow> string list \<Rightarrow> string list \<Rightarrow> string list" where
  "clean_elems rooted [] out = rev out"
| "clean_elems rooted (e # es) out =
     (if e = [] \<or> e = ''.'' then clean_elems rooted es out
      else if e = ''..'' then
        (case out of
           [] \<Rightarrow> clean_elems rooted es (if rooted then [] else [''..''])
         | d # ds \<Rightarrow> if d = ''..'' then clean_elems rooted es (''..'' # out)
                     else clean_elems rooted es ds)
      else clean_elems rooted es (e # out))"

definition Clean :: "string \<Rightarrow> string" where
  "Clean p =
     (let rooted = IsAbs p;
          body = Join (clean_elems rooted (Split CHR ''/'' p) []) ''/''
      in if rooted then ''/'' @ body else if body = [] then ''.'' else body)"

text \<open>\<open>filepath.Join\<close> of two elements: empty elements are ignored, the rest is cleaned.\<close>

definition PathJoin :: "string \<Rightarrow> string \<Rightarrow> string" where
  "PathJoin a b =
     (if a = [] \<and> b = [] then []
      else if a = [] then Clean b
      else if b = [] then Clean a
      else Clean (a @ ''/'' @ b))"

section \<open>Decimal numerals\<close>

fun show_nat :: "nat \<Rightarrow> string" where
  "show_nat n = (if n < 10 then [char_of (48 + n)] else show_nat (n div 10) @ [char_of (48 + n mod 10)])"

declare show_nat.simps [simp del]

definition pad :: "nat \<Rightarrow> nat \<Rightarrow> string" where
  "pad w n = (let s = show_nat n in replicate (w - length s) CHR ''0'' @ s)"

definition show_int :: "int \<Rightarrow> string" where
  "show_int n = (if n < 0 then ''-'' @ show_nat (nat (- n)) else show_nat (nat n))"

section \<open>Lists as tables\<close>

text \<open>
  An \<open>UPDATE ... WHERE\<close> rewrites the rows that satisfy its condition in place and reports
  how many there were.
\<close>

definition update_rows :: "('r \<Rightarrow> bool) \<Rightarrow> ('r \<Rightarrow> 'r) \<Rightarrow> 'r list \<Rightarrow> nat \<times> 'r list" where
  "update_rows P f rows = (length (filter P rows), map (\<lambda>r. if P r then f r else r) rows)"

lemma update_rows_fst [table_simps]: "fst (update_rows P f rows) = length (filter P rows)"
  by (simp add: update_rows_def)

lemma update_rows_snd [table_simps]:
  "snd (update_rows P f rows) = map (\<lambda>r. if P r then f r else r) rows"
  by (simp add: update_rows_def)

lemma map_if_key [table_simps]:
  assumes "\<And>r. k (f r) = k r"
  shows "map k (map (\<lambda>r. if P r then f r else r) rows) = map k rows"
  using assms by (induction rows) auto

text \<open>With a unique key in its condition, an update touches at most one row.\<close>

lemma filter_key_le_1:
  assumes "distinct (map k rows)" and "\<And>r. P r \<Longrightarrow> k r = i"
  shows "length (filter P rows) \<le> 1"
  using assms(1)
proof (induction rows)
  case Nil
  then show ?case by simp
next
  case (Cons a rows)
  show ?case
  proof (cases "P a")
    case True
    then have "k a = i" by (rule assms(2))
    with Cons.prems have "i \<notin> k ` set rows" by simp
    then have "\<forall>r\<in>set rows. k r \<noteq> i" by blast
    then have "filter P rows = []" using assms(2) by (auto simp: filter_empty_conv)
    with True show ?thesis by simp
  next
    case False
    with Cons show ?thesis by simp
  qed
qed

lemma filter_one_exists:
  "length (filter P rows) = 1 \<Longrightarrow> \<exists>r\<in>set rows. P r"
  by (metis filter_False length_0_conv zero_neq_one)

lemma distinct_key_eq:
  assumes "distinct (map k rows)" and "r \<in> set rows" and "q \<in> set rows" and "k r = k q"
  shows "r = q"
  using assms by (auto simp: distinct_map inj_on_def)

lemma find_key_Some:
  "find (\<lambda>r. k r = i) rows = Some r \<Longrightarrow> r \<in> set rows \<and> k r = i"
  by (auto simp: find_Some_iff in_set_conv_nth)

lemma find_key_None:
  "find (\<lambda>r. k r = i) rows = None \<longleftrightarrow> i \<notin> k ` set rows"
  by (auto simp: find_None_iff)

lemma find_key_unique:
  assumes "distinct (map k rows)" and "r \<in> set rows"
  shows "find (\<lambda>q. k q = k r) rows = Some r"
proof -
  have "find (\<lambda>q. k q = k r) rows \<noteq> None"
    using assms(2) by (auto simp: find_None_iff)
  then obtain q where q: "find (\<lambda>q. k q = k r) rows = Some q" by blast
  then have "q \<in> set rows" "k q = k r" by (auto dest: find_key_Some)
  with assms have "q = r" by (blast intro: distinct_key_eq)
  with q show ?thesis by simp
qed

lemma filter_eq_single:
  "distinct rows \<Longrightarrow> r \<in> set rows \<Longrightarrow> (\<And>q. q \<in> set rows \<Longrightarrow> P q \<longleftrightarrow> q = r) \<Longrightarrow> filter P rows = [r]"
proof (induction rows)
  case Nil
  then show ?case by simp
next
  case (Cons a rows)
  show ?case
  proof (cases "a = r")
    case True
    with Cons.prems have "filter P rows = []" by (auto simp: filter_empty_conv)
    with True Cons.prems show ?thesis by simp
  next
    case False
    with Cons show ?thesis by simp
  qed
qed

text \<open>A condition that implies the key of a row it holds of selects exactly that row.\<close>

lemma filter_key_single:
  assumes "distinct (map k rows)" and "r \<in> set rows" and "P r" and "\<And>q. P q \<Longrightarrow> k q = k r"
  shows "filter P rows = [r]"
proof (rule filter_eq_single)
  show "distinct rows" using assms(1) by (simp add: distinct_map)
  show "P q \<longleftrightarrow> q = r" if "q \<in> set rows" for q
  proof
    assume "P q"
    then have "k q = k r" by (rule assms(4))
    with assms(1) that assms(2) show "q = r" by (rule distinct_key_eq)
  next
    assume "q = r"
    with assms(3) show "P q" by simp
  qed
qed (fact assms(2))

lemma filter_key_none:
  assumes "distinct (map k rows)" and "r \<in> set rows" and "\<not> P r" and "\<And>q. P q \<Longrightarrow> k q = k r"
  shows "filter P rows = []"
proof -
  have "\<not> P q" if "q \<in> set rows" for q
  proof
    assume "P q"
    then have "k q = k r" by (rule assms(4))
    with assms(1) that assms(2) have "q = r" by (rule distinct_key_eq)
    with \<open>P q\<close> assms(3) show False by simp
  qed
  then show ?thesis by simp
qed

end
