(* ===== verification/GoFloat.thy ===== *)
theory GoFloat
  imports Prelude "HOL-Library.Log_Nat"
begin

text \<open>
  The \<open>float64\<close> values the program computes with (disk sizes in GiB): finite values are
  rationals that the rounding below leaves alone, and NaN and the infinities are separate
  values, because the validation rejects them by name. Addition rounds to the nearest
  representable value, ties to even.
\<close>

datatype float64 = Fin rat | PInf | NInf | NaN

text \<open>\<open>exponent x\<close> is the integer \<open>e\<close> with \<open>2 ^ e \<le> x < 2 ^ (e + 1)\<close>, for positive \<open>x\<close>.\<close>

definition pow2 :: "int \<Rightarrow> rat" where
  "pow2 e = (if 0 \<le> e then 2 ^ nat e else 1 / 2 ^ nat (- e))"

definition exponent :: "rat \<Rightarrow> int" where
  "exponent x =
     (case quotient_of x of (n, d) \<Rightarrow>
        (let k = bitlen n - bitlen d in if pow2 k \<le> x then k else k - 1))"

definition round_half_even :: "rat \<Rightarrow> int" where
  "round_half_even r =
     (let f = floor r; rest = r - of_int f
      in if rest < 1 / 2 then f else if 1 / 2 < rest then f + 1
         else if even f then f else f + 1)"

definition round_pos :: "rat \<Rightarrow> rat" where
  "round_pos x =
     (let q = max (exponent x - 52) (- 1074)
      in of_int (round_half_even (x / pow2 q)) * pow2 q)"

definition of_rat64 :: "rat \<Rightarrow> float64" where
  "of_rat64 x =
     (if x = 0 then Fin 0
      else let r = (if 0 < x then round_pos x else - round_pos (- x))
           in if r < pow2 1024 \<and> - pow2 1024 < r then Fin r
              else if 0 < x then PInf else NInf)"

fun fadd :: "float64 \<Rightarrow> float64 \<Rightarrow> float64" where
  "fadd (Fin x) (Fin y) = of_rat64 (x + y)"
| "fadd NaN _ = NaN"
| "fadd _ NaN = NaN"
| "fadd PInf NInf = NaN"
| "fadd NInf PInf = NaN"
| "fadd PInf _ = PInf"
| "fadd _ PInf = PInf"
| "fadd NInf _ = NInf"
| "fadd _ NInf = NInf"

text \<open>The order of Go's \<open><\<close>: every comparison with NaN is false.\<close>

fun fless :: "float64 \<Rightarrow> float64 \<Rightarrow> bool" where
  "fless NaN _ = False"
| "fless _ NaN = False"
| "fless (Fin x) (Fin y) = (x < y)"
| "fless (Fin x) PInf = True"
| "fless (Fin x) NInf = False"
| "fless PInf _ = False"
| "fless NInf NInf = False"
| "fless NInf _ = True"

definition IsNaN :: "float64 \<Rightarrow> bool" where
  "IsNaN x \<longleftrightarrow> x = NaN"

definition IsInf :: "float64 \<Rightarrow> bool" where
  "IsInf x \<longleftrightarrow> x = PInf \<or> x = NInf"

lemma round_half_even_near: "\<bar>of_int (round_half_even r) - r\<bar> \<le> 1 / 2"
proof -
  have "of_int (floor r) \<le> r" and "r < of_int (floor r) + 1"
    using floor_correct [of r] by simp_all
  then show ?thesis by (auto simp: round_half_even_def Let_def abs_if) linarith
qed

lemma round_half_even_mono:
  assumes "r \<le> s"
  shows "round_half_even r \<le> round_half_even s"
proof (cases "floor r = floor s")
  case True
  with assms show ?thesis by (auto simp: round_half_even_def Let_def)
next
  case False
  with assms have "floor r + 1 \<le> floor s"
    using floor_mono [OF assms] by linarith
  moreover have "round_half_even r \<le> floor r + 1"
    by (auto simp: round_half_even_def Let_def)
  moreover have "floor s \<le> round_half_even s"
    by (auto simp: round_half_even_def Let_def)
  ultimately show ?thesis by linarith
qed

lemma round_half_even_int [simp]: "round_half_even (of_int n) = n"
  by (simp add: round_half_even_def)

end
