(* ===== verification/GoTime.thy ===== *)
theory GoTime
  imports Prelude
begin

text \<open>
  Package \<open>time\<close> as the program uses it. An instant (\<open>time.Time\<close>) is the number of
  nanoseconds since the Unix epoch, on the unbounded integers; \<open>After\<close>, \<open>Before\<close> and \<open>Add\<close>
  are the order and the addition of \<^typ>\<open>int\<close>. A duration is the 64-bit integer Go makes of
  it, with its wrap-around written out where the code multiplies. The civil calendar is the
  proleptic Gregorian one, and a \<open>time.Location\<close>, which comes from the machine's zone
  database, is the function giving the offset from UTC, in seconds, at an instant.
\<close>

type_synonym time = int
type_synonym duration = int
type_synonym location = "time \<Rightarrow> int"

definition second_ns :: duration where "second_ns = 1000000000"
definition minute_ns :: duration where "minute_ns = 60000000000"
definition hour_ns :: duration where "hour_ns = 3600000000000"

text \<open>The zero \<open>time.Time\<close> is the first instant of year 1, not the epoch.\<close>

definition zero_time :: time where
  "zero_time = -62135596800000000000"

definition IsZero :: "time \<Rightarrow> bool" where
  "IsZero t \<longleftrightarrow> t = zero_time"

text \<open>Two's complement reduction to 64 bits, the value of a wrapped \<open>int64\<close>.\<close>

definition int64 :: "int \<Rightarrow> int" where
  "int64 n = (n + 2 ^ 63) mod 2 ^ 64 - 2 ^ 63"

definition in_int64 :: "int \<Rightarrow> bool" where
  "in_int64 n \<longleftrightarrow> - (2 ^ 63) \<le> n \<and> n < 2 ^ 63"

lemma int64_id [simp]: "in_int64 n \<Longrightarrow> int64 n = n"
  by (simp add: int64_def in_int64_def)

lemma int64_range: "in_int64 (int64 n)"
  by (simp add: int64_def in_int64_def)

text \<open>\<open>UnixNano\<close>: the nanosecond count as an \<open>int64\<close>.\<close>

definition UnixNano :: "time \<Rightarrow> int" where
  "UnixNano t = int64 t"

text \<open>\<open>Sub\<close> saturates at the largest and the smallest duration.\<close>

definition Sub :: "time \<Rightarrow> time \<Rightarrow> duration" where
  "Sub t u = max (- (2 ^ 63)) (min (2 ^ 63 - 1) (t - u))"

lemma Sub_le_iff: "0 \<le> b \<Longrightarrow> b < 2 ^ 63 - 1 \<Longrightarrow> Sub t u \<le> b \<longleftrightarrow> t - u \<le> b"
  by (auto simp: Sub_def min_def max_def)

section \<open>The civil calendar\<close>

text \<open>Days since the epoch to (year, month, day) and back.\<close>

definition civil_of_days :: "int \<Rightarrow> int \<times> int \<times> int" where
  "civil_of_days days =
     (let z = days + 719468;
          era = z div 146097;
          doe = z mod 146097;
          yoe = (doe - doe div 1460 + doe div 36524 - doe div 146096) div 365;
          doy = doe - (365 * yoe + yoe div 4 - yoe div 100);
          mp = (5 * doy + 2) div 153;
          d = doy - (153 * mp + 2) div 5 + 1;
          m = (if mp < 10 then mp + 3 else mp - 9);
          y = yoe + era * 400
      in (if m \<le> 2 then y + 1 else y, m, d))"

definition days_of_civil :: "int \<Rightarrow> int \<Rightarrow> int \<Rightarrow> int" where
  "days_of_civil y m d =
     (let y' = (if m \<le> 2 then y - 1 else y);
          era = y' div 400;
          yoe = y' mod 400;
          mp = (if 2 < m then m - 3 else m + 9);
          doy = (153 * mp + 2) div 5 + d - 1;
          doe = yoe * 365 + yoe div 4 - yoe div 100 + doy
      in era * 146097 + doe - 719468)"

record civil =
  c_year :: int
  c_month :: int
  c_day :: int
  c_hour :: int
  c_minute :: int
  c_second :: int

text \<open>The wall clock of an instant in a location (\<open>t.In(loc)\<close>).\<close>

definition wall_clock :: "location \<Rightarrow> time \<Rightarrow> civil" where
  "wall_clock loc t =
     (let secs = t div second_ns + loc t;
          days = secs div 86400;
          sod = secs mod 86400
      in (case civil_of_days days of (y, m, d) \<Rightarrow>
            \<lparr>c_year = y, c_month = m, c_day = d, c_hour = sod div 3600,
             c_minute = sod mod 3600 div 60, c_second = sod mod 60\<rparr>))"

definition utc :: location where
  "utc = (\<lambda>_. 0)"

text \<open>
  The layouts the program formats with. Go writes a year with at least four digits and a sign
  when it is negative.
\<close>

definition fmt_year :: "int \<Rightarrow> string" where
  "fmt_year y = (if y < 0 then ''-'' @ pad 4 (nat (- y)) else pad 4 (nat y))"

definition fmt_2 :: "int \<Rightarrow> string" where
  "fmt_2 n = pad 2 (nat n)"

definition fmt_date :: "civil \<Rightarrow> string" where
  "fmt_date c = fmt_year (c_year c) @ ''-'' @ fmt_2 (c_month c) @ ''-'' @ fmt_2 (c_day c)"

definition fmt_wall_minute :: "civil \<Rightarrow> string" where
  "fmt_wall_minute c = fmt_date c @ ''T'' @ fmt_2 (c_hour c) @ '':'' @ fmt_2 (c_minute c)"

definition fmt_stamp :: "time \<Rightarrow> string" where
  "fmt_stamp t =
     (let c = wall_clock utc t
      in fmt_year (c_year c) @ fmt_2 (c_month c) @ fmt_2 (c_day c) @ ''T'' @
         fmt_2 (c_hour c) @ fmt_2 (c_minute c) @ fmt_2 (c_second c) @ ''Z'')"

section \<open>Durations as text\<close>

text \<open>\<open>Round(time.Second)\<close>: halves away from zero, saturating like the code of the package.\<close>

definition RoundSecond :: "duration \<Rightarrow> duration" where
  "RoundSecond d =
     (let r = \<bar>d\<bar> mod second_ns;
          a = (if 2 * r < second_ns then \<bar>d\<bar> - r else \<bar>d\<bar> + second_ns - r)
      in if d < 0 then (if 2 ^ 63 < a then - (2 ^ 63) else - a)
         else (if 2 ^ 63 \<le> a then 2 ^ 63 - 1 else a))"

text \<open>The fraction \<open>n / 10 ^ prec\<close> with its trailing zeros dropped, nothing when it is zero.\<close>

definition fmt_frac :: "nat \<Rightarrow> nat \<Rightarrow> string" where
  "fmt_frac n prec =
     (let ds = rev (dropWhile (\<lambda>c. c = CHR ''0'') (rev (pad prec (n mod 10 ^ prec))))
      in if ds = [] then [] else ''.'' @ ds)"

definition fmt_scaled :: "nat \<Rightarrow> nat \<Rightarrow> string" where
  "fmt_scaled n prec = show_nat (n div 10 ^ prec) @ fmt_frac n prec"

definition DurationString :: "duration \<Rightarrow> string" where
  "DurationString d =
     (let u = nat \<bar>d\<bar>;
          secs = u div 10 ^ 9;
          body =
            (if u = 0 then ''0s''
             else if u < 10 ^ 3 then show_nat u @ ''ns''
             else if u < 10 ^ 6 then fmt_scaled u 3 @ [CHR 0xC2, CHR 0xB5] @ ''s''
             else if u < 10 ^ 9 then fmt_scaled u 6 @ ''ms''
             else (if 3600 \<le> secs then show_nat (secs div 3600) @ ''h'' else [])
                  @ (if 60 \<le> secs then show_nat (secs div 60 mod 60) @ ''m'' else [])
                  @ show_nat (secs mod 60) @ fmt_frac u 9 @ ''s'')
      in if d < 0 then ''-'' @ body else body)"

section \<open>RFC 3339\<close>

text \<open>
  \<open>time.Parse(time.RFC3339, v)\<close>: four-digit year, two-digit fields in range, seconds with an
  optional fraction, and \<open>Z\<close> or a numeric zone.
\<close>

definition is_digit :: "char \<Rightarrow> bool" where
  "is_digit c \<longleftrightarrow> CHR ''0'' \<le> c \<and> c \<le> CHR ''9''"

definition digit_val :: "char \<Rightarrow> int" where
  "digit_val c = int (of_char c) - 48"

definition digits_val :: "string \<Rightarrow> int" where
  "digits_val s = foldl (\<lambda>n c. 10 * n + digit_val c) 0 s"

text \<open>The next \<open>n\<close> bytes as a number, and the rest.\<close>

definition take_num :: "nat \<Rightarrow> string \<Rightarrow> (int \<times> string) option" where
  "take_num n s =
     (if n \<le> length s \<and> list_all is_digit (take n s) then Some (digits_val (take n s), drop n s)
      else None)"

definition expect :: "char \<Rightarrow> string \<Rightarrow> string option" where
  "expect c s = (case s of [] \<Rightarrow> None | x # xs \<Rightarrow> if x = c then Some xs else None)"

definition days_in_month :: "int \<Rightarrow> int \<Rightarrow> int" where
  "days_in_month y m =
     (if m = 2 then (if y mod 4 = 0 \<and> (y mod 100 \<noteq> 0 \<or> y mod 400 = 0) then 29 else 28)
      else if m = 4 \<or> m = 6 \<or> m = 9 \<or> m = 11 then 30 else 31)"

definition parse_date :: "string \<Rightarrow> (int \<times> int \<times> int \<times> string) option" where
  "parse_date s =
     Option.bind (take_num 4 s) (\<lambda>(y, s). Option.bind (expect CHR ''-'' s) (\<lambda>s.
     Option.bind (take_num 2 s) (\<lambda>(m, s). Option.bind (expect CHR ''-'' s) (\<lambda>s.
     Option.bind (take_num 2 s) (\<lambda>(d, s).
       if 1 \<le> m \<and> m \<le> 12 \<and> 1 \<le> d \<and> d \<le> days_in_month y m then Some (y, m, d, s) else None)))))"

text \<open>A fraction is a dot or a comma and at least one digit; digits past the ninth are ignored.\<close>

definition parse_fraction :: "string \<Rightarrow> (int \<times> string) option" where
  "parse_fraction s =
     (case s of
        [] \<Rightarrow> Some (0, s)
      | c # cs \<Rightarrow>
          if c \<noteq> CHR ''.'' \<and> c \<noteq> CHR '','' then Some (0, s)
          else (let ds = takeWhile is_digit cs in
                if ds = [] then Some (0, s)
                else Some (digits_val (take 9 (ds @ replicate 9 CHR ''0'')), dropWhile is_digit cs)))"

definition parse_clock :: "string \<Rightarrow> (int \<times> string) option" where
  "parse_clock s =
     Option.bind (take_num 2 s) (\<lambda>(h, s). Option.bind (expect CHR '':'' s) (\<lambda>s.
     Option.bind (take_num 2 s) (\<lambda>(mi, s). Option.bind (expect CHR '':'' s) (\<lambda>s.
     Option.bind (take_num 2 s) (\<lambda>(se, s). Option.bind (parse_fraction s) (\<lambda>(ns, s).
       if h \<le> 23 \<and> mi \<le> 59 \<and> se \<le> 59
       then Some (((h * 60 + mi) * 60 + se) * second_ns + ns, s) else None))))))"

definition parse_zone :: "string \<Rightarrow> int option" where
  "parse_zone s =
     (if s = ''Z'' then Some 0
      else (case s of
        [] \<Rightarrow> None
      | sg # s \<Rightarrow>
          if sg \<noteq> CHR ''+'' \<and> sg \<noteq> CHR ''-'' then None
          else Option.bind (take_num 2 s) (\<lambda>(h, s). Option.bind (expect CHR '':'' s) (\<lambda>s.
               Option.bind (take_num 2 s) (\<lambda>(mi, s).
                 if s = [] \<and> h \<le> 24 \<and> mi < 60
                 then Some ((if sg = CHR ''-'' then -1 else 1) * (h * 3600 + mi * 60))
                 else None)))))"

definition ParseRFC3339 :: "string \<Rightarrow> time option" where
  "ParseRFC3339 v =
     Option.bind (parse_date v) (\<lambda>(y, m, d, s). Option.bind (expect CHR ''T'' s) (\<lambda>s.
     Option.bind (parse_clock s) (\<lambda>(ns, s). Option.bind (parse_zone s) (\<lambda>off.
       Some (days_of_civil y m d * 86400 * second_ns + ns - off * second_ns)))))"

end
