(* ===== verification/GoUtf8.thy ===== *)
theory GoUtf8
  imports Prelude
begin

text \<open>
  Package \<open>unicode/utf8\<close>: one decoding step, the runes a range over a string sees, the
  encoding of a rune and the text a sequence of runes makes. The lemmas show that every
  encoding decodes to its own rune, that whatever decodes to a rune is its encoding, and that
  runes of appended texts are appended where the second text does not start inside a rune.
\<close>

section \<open>Runes\<close>

text \<open>
  One step of \<open>utf8.DecodeRune\<close>: the code point and its width in bytes. A byte that starts no
  valid encoding (overlong forms, surrogates and values above U+10FFFF included) is one rune
  U+FFFD of width one.
\<close>

definition RuneError :: nat where
  "RuneError = 65533"

definition cont :: "nat \<Rightarrow> nat \<Rightarrow> nat \<Rightarrow> bool" where
  "cont lo hi b \<longleftrightarrow> lo \<le> b \<and> b \<le> hi"

fun decode_bytes :: "nat list \<Rightarrow> nat \<times> nat" where
  "decode_bytes (a # b # c # d # _) =
     (if a < 128 then (a, 1)
      else if cont 194 223 a \<and> cont 128 191 b then ((a - 192) * 64 + (b - 128), 2)
      else if cont 224 239 a \<and> cont (if a = 224 then 160 else 128) (if a = 237 then 159 else 191) b
              \<and> cont 128 191 c
      then ((a - 224) * 4096 + (b - 128) * 64 + (c - 128), 3)
      else if cont 240 244 a \<and> cont (if a = 240 then 144 else 128) (if a = 244 then 143 else 191) b
              \<and> cont 128 191 c \<and> cont 128 191 d
      then ((a - 240) * 262144 + (b - 128) * 4096 + (c - 128) * 64 + (d - 128), 4)
      else (RuneError, 1))"
| "decode_bytes _ = (RuneError, 1)"

text \<open>Bytes past the end never continue an encoding.\<close>

definition decode_rune :: "string \<Rightarrow> nat \<times> nat" where
  "decode_rune s = decode_bytes (take 4 (map of_char s @ [0, 0, 0, 0]))"

fun runes :: "string \<Rightarrow> nat list" where
  "runes [] = []"
| "runes (c # cs) =
     (case decode_rune (c # cs) of (r, w) \<Rightarrow> r # runes (drop (w - 1) cs))"

definition valid_rune :: "nat \<Rightarrow> bool" where
  "valid_rune r \<longleftrightarrow> r < 1114112 \<and> \<not> (55296 \<le> r \<and> r < 57344)"

definition utf8 :: "nat \<Rightarrow> string" where
  "utf8 n =
     (if n < 128 then [char_of n]
      else if n < 2048 then [char_of (192 + n div 64), char_of (128 + n mod 64)]
      else if n < 65536 then
        [char_of (224 + n div 4096), char_of (128 + n div 64 mod 64), char_of (128 + n mod 64)]
      else
        [char_of (240 + n div 262144), char_of (128 + n div 4096 mod 64),
         char_of (128 + n div 64 mod 64), char_of (128 + n mod 64)])"

text \<open>\<open>string(runes)\<close>.\<close>

definition of_runes :: "nat list \<Rightarrow> string" where
  "of_runes rs = concat (map (\<lambda>r. utf8 (if valid_rune r then r else RuneError)) rs)"

section \<open>Encodings decode\<close>

definition ascii :: "string \<Rightarrow> bool" where
  "ascii s \<longleftrightarrow> list_all (\<lambda>c. of_char c < (128 :: nat)) s"

text \<open>Every encoding of a rune decodes to it and to its own length.\<close>

lemma three_more: "\<exists>x y z rest. map of_char s @ [0, 0, 0, 0] = x # y # z # (rest :: nat list)"
proof -
  have "3 \<le> length (map of_char s @ [0, 0, 0, 0 :: nat])" by simp
  then show ?thesis by (metis Suc_le_length_iff numeral_3_eq_3)
qed

lemma split_digits:
  fixes r :: nat
  shows "r div 4096 * 4096 + r div 64 mod 64 * 64 + r mod 64 = r"
    and "r div 262144 * 262144 + r div 4096 mod 64 * 4096 + r div 64 mod 64 * 64 + r mod 64 = r"
proof -
  have a: "r div 64 * 64 + r mod 64 = r" by simp
  have b: "r div 4096 * 64 + r div 64 mod 64 = r div 64"
    using div_mult_mod_eq [of "r div 64" 64] by (simp add: div_mult2_eq [symmetric])
  have c: "r div 262144 * 64 + r div 4096 mod 64 = r div 4096"
    using div_mult_mod_eq [of "r div 4096" 64] by (simp add: div_mult2_eq [symmetric])
  from a b show "r div 4096 * 4096 + r div 64 mod 64 * 64 + r mod 64 = r" by linarith
  from a b c show "r div 262144 * 262144 + r div 4096 mod 64 * 4096 + r div 64 mod 64 * 64 + r mod 64 = r"
    by linarith
qed

lemma decode_3:
  assumes "a < 16" "b < 64" "c < 64" "a = 0 \<Longrightarrow> 32 \<le> b" "a = 13 \<Longrightarrow> b < 32"
  shows "decode_bytes [224 + a, 128 + b, 128 + c, x] = (a * 4096 + b * 64 + c, 3)"
  using assms by (auto simp: cont_def)

lemma decode_4:
  assumes "a \<le> 4" "b < 64" "c < 64" "d < 64" "a = 0 \<Longrightarrow> 16 \<le> b" "a = 4 \<Longrightarrow> b < 16"
  shows "decode_bytes [240 + a, 128 + b, 128 + c, 128 + d] = (a * 262144 + b * 4096 + c * 64 + d, 4)"
  using assms by (auto simp: cont_def)

lemma decode_utf8:
  assumes "valid_rune r"
  shows "decode_rune (utf8 r @ s) = (r, length (utf8 r))"
proof -
  from assms have r: "r < 1114112" "\<not> (55296 \<le> r \<and> r < 57344)" by (auto simp: valid_rune_def)
  obtain x y z rest where pad: "map of_char s @ [0, 0, 0, 0] = x # y # z # (rest :: nat list)"
    using three_more by blast
  have m: "r mod 64 < 64" "r div 64 mod 64 < 64" "r div 4096 mod 64 < 64" by simp_all
  consider "r < 128" | "128 \<le> r" "r < 2048" | "2048 \<le> r" "r < 65536" | "65536 \<le> r" by linarith
  then show ?thesis
  proof cases
    case 1
    with pad show ?thesis by (simp add: decode_rune_def utf8_def)
  next
    case 2
    have q: "2 \<le> r div 64" "r div 64 < 32" using 2 by auto
    have "decode_bytes (take 4 (map of_char (utf8 r @ s) @ [0, 0, 0, 0]))
        = decode_bytes [192 + r div 64, 128 + r mod 64, x, y]"
      using 2 q m pad by (simp add: utf8_def)
    also have "\<dots> = (r, 2)" using q m by (simp add: cont_def)
    finally show ?thesis using 2 by (simp add: decode_rune_def utf8_def)
  next
    case 3
    have q: "r div 4096 < 16" using 3 by auto
    have lo: "r div 4096 = 0 \<Longrightarrow> 32 \<le> r div 64 mod 64" and hi: "r div 4096 = 13 \<Longrightarrow> r div 64 mod 64 < 32"
      using split_digits(1) [of r] 3 r(2) m by linarith+
    have "decode_bytes (take 4 (map of_char (utf8 r @ s) @ [0, 0, 0, 0]))
        = decode_bytes [224 + r div 4096, 128 + r div 64 mod 64, 128 + r mod 64, x]"
      using 3 q m pad by (simp add: utf8_def)
    also have "\<dots> = (r div 4096 * 4096 + r div 64 mod 64 * 64 + r mod 64, 3)"
      using q m(2,1) lo hi by (rule decode_3)
    also have "\<dots> = (r, 3)" by (simp only: split_digits)
    finally show ?thesis using 3 by (simp add: decode_rune_def utf8_def)
  next
    case 4
    have q: "r div 262144 \<le> 4" using r(1) by auto
    have lo: "r div 262144 = 0 \<Longrightarrow> 16 \<le> r div 4096 mod 64" and hi: "r div 262144 = 4 \<Longrightarrow> r div 4096 mod 64 < 16"
      using split_digits(2) [of r] 4 r(1) m by linarith+
    have "decode_bytes (take 4 (map of_char (utf8 r @ s) @ [0, 0, 0, 0]))
        = decode_bytes [240 + r div 262144, 128 + r div 4096 mod 64, 128 + r div 64 mod 64, 128 + r mod 64]"
      using 4 q m pad by (simp add: utf8_def)
    also have "\<dots> = (r div 262144 * 262144 + r div 4096 mod 64 * 4096 + r div 64 mod 64 * 64 + r mod 64, 4)"
      using q m(3,2,1) lo hi by (rule decode_4)
    also have "\<dots> = (r, 4)" by (simp only: split_digits)
    finally show ?thesis using 4 by (simp add: decode_rune_def utf8_def)
  qed
qed

lemma utf8_nonempty [simp]: "utf8 r \<noteq> []"
  by (simp add: utf8_def)

lemma runes_utf8:
  assumes "valid_rune r"
  shows "runes (utf8 r @ s) = r # runes s"
proof -
  obtain c cs where u: "utf8 r = c # cs" by (cases "utf8 r") simp_all
  have "decode_rune (c # cs @ s) = (r, Suc (length cs))" using decode_utf8 [OF assms, of s] u by simp
  then show ?thesis by (simp add: u)
qed

lemma valid_RuneError: "valid_rune RuneError"
  by (simp add: valid_rune_def RuneError_def)

lemma runes_of_runes: "runes (of_runes rs @ s) = map (\<lambda>r. if valid_rune r then r else RuneError) rs @ runes s"
  by (induction rs) (simp_all add: of_runes_def runes_utf8 valid_RuneError)

lemma runes_ascii: "ascii s \<Longrightarrow> runes (s @ t) = map of_char s @ runes t"
proof (induction s)
  case Nil
  then show ?case by simp
next
  case (Cons c cs)
  from Cons.prems have c: "of_char c < (128 :: nat)" and cs: "ascii cs" by (simp_all add: ascii_def)
  from c have "utf8 (of_char c) = [c]" "valid_rune (of_char c)" by (simp_all add: utf8_def valid_rune_def)
  then have "runes (c # cs @ t) = of_char c # runes (cs @ t)" using runes_utf8 [of "of_char c" "cs @ t"] by simp
  with Cons.IH [OF cs] show ?case by simp
qed

lemma runes_length: "length (runes s) \<le> length s"
proof (induction s rule: runes.induct)
  case (2 c cs)
  obtain r w where d: "decode_rune (c # cs) = (r, w)" by (cases "decode_rune (c # cs)")
  have "length (runes (drop (w - 1) cs)) \<le> length (drop (w - 1) cs)" by (rule "2.IH" [OF d [symmetric]])
  then show ?case by (simp add: d)
qed simp

section \<open>Whatever decodes is an encoding\<close>

lemma low_digit: "k < 64 \<Longrightarrow> (m * 64 + k) div 64 = (m :: nat) \<and> (m * 64 + k) mod 64 = k"
  by simp

lemma encode_2:
  assumes "2 \<le> a" "a < 32" "b < 64"
  shows "utf8 (a * 64 + b) = [char_of (192 + a), char_of (128 + b)]" and "valid_rune (a * 64 + b)"
proof -
  have "(a * 64 + b) div 64 = a" "(a * 64 + b) mod 64 = b" using assms(3) by simp_all
  then show "utf8 (a * 64 + b) = [char_of (192 + a), char_of (128 + b)]" using assms by (simp add: utf8_def)
  show "valid_rune (a * 64 + b)" using assms by (simp add: valid_rune_def)
qed

lemma encode_3:
  assumes "a < 16" "b < 64" "c < 64" "a = 0 \<Longrightarrow> 32 \<le> b" "a = 13 \<Longrightarrow> b < 32"
  shows "utf8 (a * 4096 + b * 64 + c) = [char_of (224 + a), char_of (128 + b), char_of (128 + c)]"
    and "valid_rune (a * 4096 + b * 64 + c)"
proof -
  let ?n = "a * 4096 + b * 64 + c"
  have n: "?n = (a * 64 + b) * 64 + c" by simp
  have q: "?n div 64 = a * 64 + b" and m: "?n mod 64 = c" unfolding n using low_digit [OF assms(3)] by blast+
  have "?n div 4096 = ?n div 64 div 64" by (simp add: div_mult2_eq [symmetric])
  with q have d: "?n div 4096 = a" "?n div 64 mod 64 = b" using assms(2) by simp_all
  have "2048 \<le> ?n" using assms(4) by (cases "a = 0") simp_all
  moreover have "?n < 65536" using assms(1-3) by linarith
  ultimately show "utf8 ?n = [char_of (224 + a), char_of (128 + b), char_of (128 + c)]"
    using d m by (simp add: utf8_def)
  have "\<not> (55296 \<le> ?n \<and> ?n < 57344)"
  proof
    assume s: "55296 \<le> ?n \<and> ?n < 57344"
    have "a = 13" using s assms(2,3) by linarith
    with s assms(3) assms(5) show False by linarith
  qed
  with \<open>?n < 65536\<close> show "valid_rune ?n" by (simp add: valid_rune_def)
qed

lemma encode_4:
  assumes "a \<le> 4" "b < 64" "c < 64" "d < 64" "a = 0 \<Longrightarrow> 16 \<le> b" "a = 4 \<Longrightarrow> b < 16"
  shows "utf8 (a * 262144 + b * 4096 + c * 64 + d) =
      [char_of (240 + a), char_of (128 + b), char_of (128 + c), char_of (128 + d)]"
    and "valid_rune (a * 262144 + b * 4096 + c * 64 + d)"
proof -
  let ?n = "a * 262144 + b * 4096 + c * 64 + d"
  have n: "?n = (a * 4096 + b * 64 + c) * 64 + d" by simp
  have q': "?n div 64 = a * 4096 + b * 64 + c" and m: "?n mod 64 = d"
    unfolding n using low_digit [OF assms(4)] by blast+
  have q: "?n div 64 = (a * 64 + b) * 64 + c" unfolding q' by simp
  have "?n div 4096 = ?n div 64 div 64" by (simp add: div_mult2_eq [symmetric])
  then have q2: "?n div 4096 = a * 64 + b" and m2: "?n div 64 mod 64 = c"
    unfolding q using low_digit [OF assms(3), of "a * 64 + b"] by metis+
  have "?n div 262144 = ?n div 4096 div 64" by (simp add: div_mult2_eq [symmetric])
  with q2 have q3: "?n div 262144 = a" "?n div 4096 mod 64 = b" using assms(2) by simp_all
  have "65536 \<le> ?n" using assms(5) by (cases "a = 0") simp_all
  then show "utf8 ?n = [char_of (240 + a), char_of (128 + b), char_of (128 + c), char_of (128 + d)]"
    using q3 m m2 by (simp add: utf8_def)
  have "?n < 1114112"
  proof (cases "a = 4")
    case True
    with assms(3,4) assms(6) show ?thesis by linarith
  next
    case False
    with assms(1-4) show ?thesis by linarith
  qed
  with \<open>65536 \<le> ?n\<close> show "valid_rune ?n" by (simp add: valid_rune_def)
qed

text \<open>The bytes of a list that a decoding step reads.\<close>

definition encoded :: "nat list \<Rightarrow> nat \<Rightarrow> nat \<Rightarrow> bool" where
  "encoded bs r w \<longleftrightarrow> valid_rune r \<and> utf8 r = map char_of (take w bs) \<and> 0 < w \<and> w \<le> 4 \<and> 0 \<notin> set (tl (take w bs))"

lemma decode_bytes_encoded:
  assumes "decode_bytes (a # b # c # d # bs) = (r, w)"
  shows "r = RuneError \<and> w = 1 \<or> encoded (a # b # c # d # bs) r w"
proof -
  let ?two = "cont 194 223 a \<and> cont 128 191 b"
  let ?three = "cont 224 239 a \<and> cont (if a = 224 then 160 else 128) (if a = 237 then 159 else 191) b \<and> cont 128 191 c"
  let ?four = "cont 240 244 a \<and> cont (if a = 240 then 144 else 128) (if a = 244 then 143 else 191) b
      \<and> cont 128 191 c \<and> cont 128 191 d"
  show ?thesis
  proof (cases "a < 128")
    case True
    with assms have "a = r" "w = 1" by auto
    with True show ?thesis by (simp add: encoded_def valid_rune_def utf8_def)
  next
    case not1: False
    show ?thesis
    proof (cases ?two)
      case True
      define x y where "x = a - 192" and "y = b - 128"
      have xy: "a = 192 + x" "b = 128 + y" "2 \<le> x" "x < 32" "y < 64"
        using True by (auto simp: x_def y_def cont_def)
      from assms have "x * 64 + y = r" "w = 2"
        unfolding decode_bytes.simps if_not_P [OF not1] if_P [OF True] by (simp_all add: x_def y_def)
      with encode_2 [OF xy(3-5)] xy show ?thesis by (simp add: encoded_def)
    next
      case not2: False
      show ?thesis
      proof (cases ?three)
        case True
        define x y z where "x = a - 224" and "y = b - 128" and "z = c - 128"
        have xyz: "a = 224 + x" "b = 128 + y" "c = 128 + z" "x < 16" "y < 64" "z < 64"
          "x = 0 \<Longrightarrow> 32 \<le> y" "x = 13 \<Longrightarrow> y < 32"
          using True by (auto simp: x_def y_def z_def cont_def split: if_splits)
        from assms have "x * 4096 + y * 64 + z = r" "w = 3"
          unfolding decode_bytes.simps if_not_P [OF not1] if_not_P [OF not2] if_P [OF True]
          by (simp_all add: x_def y_def z_def)
        with encode_3 [OF xyz(4-8)] xyz(1-3) show ?thesis by (simp add: encoded_def)
      next
        case not3: False
        show ?thesis
        proof (cases ?four)
          case True
          define x y z v where "x = a - 240" and "y = b - 128" and "z = c - 128" and "v = d - 128"
          have xyz: "a = 240 + x" "b = 128 + y" "c = 128 + z" "d = 128 + v" "x \<le> 4" "y < 64" "z < 64" "v < 64"
            "x = 0 \<Longrightarrow> 16 \<le> y" "x = 4 \<Longrightarrow> y < 16"
            using True by (auto simp: x_def y_def z_def v_def cont_def split: if_splits)
          from assms have "x * 262144 + y * 4096 + z * 64 + v = r" "w = 4"
            unfolding decode_bytes.simps if_not_P [OF not1] if_not_P [OF not2] if_not_P [OF not3] if_P [OF True]
            by (simp_all add: x_def y_def z_def v_def)
          with encode_4 [OF xyz(5-10)] xyz(1-4) show ?thesis by (simp add: encoded_def)
        next
          case False
          from assms show ?thesis
            unfolding decode_bytes.simps if_not_P [OF not1] if_not_P [OF not2] if_not_P [OF not3] if_not_P [OF False]
            by simp
        qed
      qed
    qed
  qed
qed

lemma padded: "\<exists>a b c d bs. map of_char (x # xs) @ [0, 0, 0, 0] = a # b # c # d # (bs :: nat list)"
  using three_more [of xs] by simp

text \<open>Zeros after the text never belong to an encoding, so its bytes are the text's.\<close>

lemma take_unpadded: "0 \<notin> set (tl (take w (map of_char (x # xs) @ [0, 0, 0, 0 :: nat]))) \<Longrightarrow> w \<le> 4 \<Longrightarrow> w \<le> Suc (length xs)"
proof (rule ccontr)
  assume z: "0 \<notin> set (tl (take w (map of_char (x # xs) @ [0, 0, 0, 0 :: nat])))" and w: "w \<le> 4" "\<not> w \<le> Suc (length xs)"
  then obtain k where k: "w = Suc (length xs) + Suc k" by (metis add_Suc_right less_imp_Suc_add not_le)
  have "(0 :: nat) \<in> set (tl (take w (map of_char (x # xs) @ [0, 0, 0, 0])))" using k by simp
  with z show False by blast
qed

lemma decode_sound:
  assumes "decode_rune (x # xs) = (r, w)" and "\<not> (r = RuneError \<and> w = 1)"
  shows "valid_rune r" and "take w (x # xs) = utf8 r" and "w = length (utf8 r)" and "w \<le> Suc (length xs)"
proof -
  obtain a b c d bs where p: "map of_char (x # xs) @ [0, 0, 0, 0] = a # b # c # d # (bs :: nat list)"
    using padded by blast
  then have "take 4 (map of_char (x # xs) @ [0, 0, 0, 0]) = [a, b, c, d]" by (simp only: p) simp
  with assms(1) have "decode_bytes [a, b, c, d] = (r, w)" by (simp only: decode_rune_def)
  from decode_bytes_encoded [OF this] assms(2) have e: "encoded [a, b, c, d] r w" by blast
  then have w: "0 < w" "w \<le> 4" by (simp_all add: encoded_def)
  then have t: "take w [a, b, c, d] = take w (map of_char (x # xs) @ [0, 0, 0, 0])"
    unfolding p by (cases w rule: nat.exhaust; simp; cases "w - 1"; simp; cases "w - 2"; simp; cases "w - 3"; simp)
  show le: "w \<le> Suc (length xs)" using e w(2) unfolding encoded_def t by (intro take_unpadded [of w x]) simp_all
  have "take w (map of_char (x # xs) @ [0, 0, 0, 0]) = take w (map of_char (x # xs) :: nat list)"
    using le by (subst take_append) simp
  then have "utf8 r = map char_of (take w (map of_char (x # xs) :: nat list))"
    using e unfolding encoded_def t by simp
  also have "\<dots> = take w (x # xs)" unfolding take_map [symmetric] map_map by (simp add: comp_def del: list.map(2))
  finally show "take w (x # xs) = utf8 r" by simp
  with le show "w = length (utf8 r)" by (metis length_Cons length_take min.absorb2)
  show "valid_rune r" using e by (simp add: encoded_def)
qed

text \<open>A text is made well-formed by replacing every byte that starts no encoding.\<close>

definition coerce_utf8 :: "string \<Rightarrow> string" where
  "coerce_utf8 s = of_runes (runes s)"

lemma decode_width: "decode_rune (x # xs) = (r, w) \<Longrightarrow> 0 < w"
  using decode_sound(3) [of x xs r w] by (cases "r = RuneError \<and> w = 1") auto

lemma decode_valid: "decode_rune (x # xs) = (r, w) \<Longrightarrow> valid_rune r"
  using decode_sound(1) [of x xs r w] valid_RuneError by blast

lemma runes_valid: "r \<in> set (runes s) \<Longrightarrow> valid_rune r"
proof (induction s rule: runes.induct)
  case (2 c cs)
  obtain q w where d: "decode_rune (c # cs) = (q, w)" by (cases "decode_rune (c # cs)")
  with 2 decode_valid [OF d] show ?case by auto
qed simp

lemma coerce_Nil [simp]: "coerce_utf8 [] = []"
  by (simp add: coerce_utf8_def of_runes_def)

lemma coerce_Cons:
  "decode_rune (c # cs) = (r, w) \<Longrightarrow> coerce_utf8 (c # cs) = utf8 r @ coerce_utf8 (drop (w - 1) cs)"
  by (simp add: coerce_utf8_def of_runes_def decode_valid)

lemma runes_coerce [simp]: "runes (coerce_utf8 s) = runes s"
  using runes_of_runes [of "runes s" "[]"] runes_valid [of _ s]
  by (simp add: coerce_utf8_def map_idI)

lemma coerce_coerce [simp]: "coerce_utf8 (coerce_utf8 s) = coerce_utf8 s"
  by (simp add: coerce_utf8_def [of "coerce_utf8 s"] coerce_utf8_def [of s, symmetric])

lemma decode_ascii: "of_char c < (128 :: nat) \<Longrightarrow> decode_rune (c # cs) = (of_char c, 1)"
  using decode_utf8 [of "of_char c" cs] by (simp add: utf8_def valid_rune_def)

lemma coerce_ascii: "ascii s \<Longrightarrow> coerce_utf8 s = s"
proof (induction s)
  case (Cons c cs)
  then have c: "of_char c < (128 :: nat)" and cs: "ascii cs" by (simp_all add: ascii_def)
  from coerce_Cons [OF decode_ascii [OF c]] Cons.IH [OF cs] c show ?case by (simp add: utf8_def)
qed simp

lemma coerce_valid: "list_all valid_rune rs \<Longrightarrow> coerce_utf8 (of_runes rs) = of_runes rs"
  using runes_of_runes [of rs "[]"] by (simp add: coerce_utf8_def map_idI list_all_iff)

section \<open>Appended texts\<close>

text \<open>A text starts at a rune boundary when its first byte continues no encoding.\<close>

definition boundary :: "string \<Rightarrow> bool" where
  "boundary t \<longleftrightarrow> t = [] \<or> \<not> cont 128 191 (of_char (hd t))"

lemma decode_append:
  assumes "boundary t"
  shows "decode_rune ((c # cs) @ t) = decode_rune (c # cs)"
proof (cases t)
  case (Cons x xs)
  define a where "a = (of_char c :: nat)"
  define y where "y = (of_char x :: nat)"
  have "\<not> (128 \<le> y \<and> y \<le> 191)" using assms Cons by (simp add: boundary_def cont_def y_def)
  then have "\<not> cont lo hi x" if "128 \<le> lo" "hi \<le> 191" "x = y \<or> x = 0" for lo hi x
    using that by (auto simp: cont_def)
  then have y: "\<not> cont 128 191 x" "\<not> cont (if a = 224 then 160 else 128) (if a = 237 then 159 else 191) x"
    "\<not> cont (if a = 240 then 144 else 128) (if a = 244 then 143 else 191) x" if "x = y \<or> x = 0" for x
    using that by simp_all
  obtain p q r rest where pad: "map of_char xs @ [0, 0, 0, 0] = p # q # r # (rest :: nat list)"
    using three_more by blast
  show ?thesis
  proof (cases cs)
    case Nil
    have "decode_rune ((c # cs) @ t) = decode_bytes [a, y, p, q]"
      using pad by (simp add: decode_rune_def Cons Nil a_def y_def)
    moreover have "decode_rune (c # cs) = decode_bytes [a, 0, 0, 0]" by (simp add: decode_rune_def Nil a_def)
    ultimately show ?thesis by (simp only: decode_bytes.simps y simp_thms if_False)
  next
    case c1: (Cons d ds)
    define b where "b = (of_char d :: nat)"
    show ?thesis
    proof (cases ds)
      case Nil
      have "decode_rune ((c # cs) @ t) = decode_bytes [a, b, y, p]"
        using pad by (simp add: decode_rune_def Cons c1 Nil a_def b_def y_def)
      moreover have "decode_rune (c # cs) = decode_bytes [a, b, 0, 0]"
        by (simp add: decode_rune_def c1 Nil a_def b_def)
      ultimately show ?thesis by (simp only: decode_bytes.simps y simp_thms if_False)
    next
      case c2: (Cons e es)
      define g where "g = (of_char e :: nat)"
      show ?thesis
      proof (cases es)
        case Nil
        have "decode_rune ((c # cs) @ t) = decode_bytes [a, b, g, y]"
          using pad by (simp add: decode_rune_def Cons c1 c2 Nil a_def b_def g_def y_def)
        moreover have "decode_rune (c # cs) = decode_bytes [a, b, g, 0]"
          by (simp add: decode_rune_def c1 c2 Nil a_def b_def g_def)
        ultimately show ?thesis by (simp only: decode_bytes.simps y simp_thms if_False)
      next
        case c3: (Cons f fs)
        then show ?thesis by (simp add: decode_rune_def c1 c2 Cons)
      qed
    qed
  qed
qed simp

lemma runes_append: "boundary t \<Longrightarrow> runes (s @ t) = runes s @ runes t"
proof (induction s rule: runes.induct)
  case (2 c cs)
  obtain r w where d: "decode_rune (c # cs) = (r, w)" by (cases "decode_rune (c # cs)")
  have w: "w - 1 \<le> length cs"
    using decode_sound(4) [OF d] by (cases "r = RuneError \<and> w = 1") auto
  have "decode_rune ((c # cs) @ t) = (r, w)" using decode_append [OF "2.prems"] d by simp
  then have "runes ((c # cs) @ t) = r # runes (drop (w - 1) (cs @ t))" by simp
  also have "\<dots> = r # runes (drop (w - 1) cs @ t)" using w by simp
  also have "\<dots> = runes (c # cs) @ runes t" using "2.IH" [OF d [symmetric] "2.prems"] d by simp
  finally show ?case .
qed simp

lemma coerce_append: "boundary t \<Longrightarrow> coerce_utf8 (s @ t) = coerce_utf8 s @ coerce_utf8 t"
  by (simp add: coerce_utf8_def runes_append of_runes_def)

end
