(* ===== verification/Json.thy ===== *)
theory Json
  imports GoFloat GoTime GoUtf8
begin

text \<open>
  Package \<open>encoding/json\<close> as the program uses it: the values, the text they are parsed from,
  and the decoding into Go structs. Numbers keep their literal text until a decoder asks for
  an \<open>int\<close> or a \<open>float64\<close>. Both directions replace a byte that starts no UTF-8 encoding by
  U+FFFD, so a string comes back as \<open>coerce_utf8\<close> of what was written. The nesting limit of
  ten thousand is not modelled.
\<close>

datatype json =
    JNull
  | JBool bool
  | JNum string
  | JStr string
  | JArr "json list"
  | JObj "(string \<times> json) list"

section \<open>Parsing\<close>

definition is_json_ws :: "char \<Rightarrow> bool" where
  "is_json_ws c \<longleftrightarrow> c \<in> {CHR 0x20, CHR 0x09, CHR 0x0A, CHR 0x0D}"

definition skip_ws :: "string \<Rightarrow> string" where
  "skip_ws s = dropWhile is_json_ws s"

definition hex_digit :: "char \<Rightarrow> nat option" where
  "hex_digit c =
     (let n = of_char c :: nat
      in if 48 \<le> n \<and> n \<le> 57 then Some (n - 48)
         else if 97 \<le> n \<and> n \<le> 102 then Some (n - 87)
         else if 65 \<le> n \<and> n \<le> 70 then Some (n - 55)
         else None)"

text \<open>Four hexadecimal digits and the rest.\<close>

definition hex4 :: "string \<Rightarrow> (nat \<times> string) option" where
  "hex4 s =
     (case map hex_digit (take 4 s) of
        [Some a, Some b, Some c, Some d] \<Rightarrow> Some (((a * 16 + b) * 16 + c) * 16 + d, drop 4 s)
      | _ \<Rightarrow> None)"

text \<open>
  A \<open>\u\<close> escape after its backslash and letter: a surrogate pair is one code point, and a
  surrogate without its partner is the replacement character.
\<close>

definition unescape_u :: "string \<Rightarrow> (string \<times> string) option" where
  "unescape_u s =
     Option.bind (hex4 s) (\<lambda>(hi, rest).
       if 55296 \<le> hi \<and> hi < 57344 then
         (let low = (if prefix [CHR 0x5C, CHR ''u''] rest then hex4 (drop 2 rest) else None)
          in (case low of
                Some (lo, rest') \<Rightarrow>
                  if hi < 56320 \<and> 56320 \<le> lo \<and> lo < 57344
                  then Some (utf8 (65536 + (hi - 55296) * 1024 + (lo - 56320)), rest')
                  else Some (utf8 65533, rest)
              | None \<Rightarrow> Some (utf8 65533, rest)))
       else Some (utf8 hi, rest))"

definition unescape1 :: "char \<Rightarrow> char option" where
  "unescape1 c =
     (if c = CHR 0x22 then Some CHR 0x22
      else if c = CHR 0x5C then Some CHR 0x5C
      else if c = CHR ''/'' then Some CHR ''/''
      else if c = CHR ''b'' then Some CHR 0x08
      else if c = CHR ''f'' then Some CHR 0x0C
      else if c = CHR ''n'' then Some CHR 0x0A
      else if c = CHR ''r'' then Some CHR 0x0D
      else if c = CHR ''t'' then Some CHR 0x09
      else None)"

text \<open>
  The body of a string after its opening quote; every round consumes a byte. A byte outside
  ASCII starts a rune, which is written as its encoding: a byte that starts none is U+FFFD.
\<close>

fun parse_string :: "nat \<Rightarrow> string \<Rightarrow> (string \<times> string) option" where
  "parse_string 0 s = None"
| "parse_string (Suc n) [] = None"
| "parse_string (Suc n) (c # cs) =
     (if c = CHR 0x22 then Some ([], cs)
      else if c = CHR 0x5C then
        (case cs of
           [] \<Rightarrow> None
         | e # es \<Rightarrow>
             (case (if e = CHR ''u'' then unescape_u es
                    else map_option (\<lambda>x. ([x], es)) (unescape1 e)) of
                None \<Rightarrow> None
              | Some (u, rest) \<Rightarrow> map_option (\<lambda>(t, r). (u @ t, r)) (parse_string n rest)))
      else if c < CHR 0x20 then None
      else if c < CHR 0x80 then map_option (\<lambda>(t, r). (c # t, r)) (parse_string n cs)
      else (case decode_rune (c # cs) of (rn, w) \<Rightarrow>
              map_option (\<lambda>(t, r). (utf8 rn @ t, r)) (parse_string n (drop (w - 1) cs))))"

definition scan_digits1 :: "string \<Rightarrow> (string \<times> string) option" where
  "scan_digits1 s =
     (let ds = takeWhile is_digit s in if ds = [] then None else Some (ds, dropWhile is_digit s))"

definition scan_frac :: "string \<Rightarrow> (string \<times> string) option" where
  "scan_frac s =
     (if prefix ''.'' s then map_option (\<lambda>(ds, r). (CHR ''.'' # ds, r)) (scan_digits1 (drop 1 s))
      else Some ([], s))"

definition scan_exp :: "string \<Rightarrow> (string \<times> string) option" where
  "scan_exp s =
     (if prefix ''e'' s \<or> prefix ''E'' s then
        (let r = drop 1 s;
             sg = (if prefix ''+'' r \<or> prefix ''-'' r then take 1 r else [])
         in map_option (\<lambda>(ds, r'). (take 1 s @ sg @ ds, r')) (scan_digits1 (drop (length sg) r)))
      else Some ([], s))"

definition scan_number :: "string \<Rightarrow> (string \<times> string) option" where
  "scan_number s =
     (let sg = (if prefix ''-'' s then ''-'' else []); s1 = drop (length sg) s
      in Option.bind
           (if prefix ''0'' s1 then Some (''0'', drop 1 s1) else scan_digits1 s1) (\<lambda>(ip, s2).
         Option.bind (scan_frac s2) (\<lambda>(fp, s3).
         Option.bind (scan_exp s3) (\<lambda>(ep, s4). Some (sg @ ip @ fp @ ep, s4)))))"

definition parse_literal :: "string \<Rightarrow> (json \<times> string) option" where
  "parse_literal s =
     (if prefix ''null'' s then Some (JNull, drop 4 s)
      else if prefix ''true'' s then Some (JBool True, drop 4 s)
      else if prefix ''false'' s then Some (JBool False, drop 5 s)
      else map_option (\<lambda>(l, r). (JNum l, r)) (scan_number s))"

text \<open>
  Values, the members of an object and the elements of an array. Every call consumes at least
  one byte before the next, so the length of the text is fuel enough.
\<close>

fun parse_value :: "nat \<Rightarrow> string \<Rightarrow> (json \<times> string) option"
  and parse_members :: "nat \<Rightarrow> string \<Rightarrow> ((string \<times> json) list \<times> string) option"
  and parse_elements :: "nat \<Rightarrow> string \<Rightarrow> (json list \<times> string) option"
where
  "parse_value 0 s = None"
| "parse_value (Suc n) s =
     (case skip_ws s of
        [] \<Rightarrow> None
      | c # cs \<Rightarrow>
          if c = CHR ''{'' then
            (if prefix ''}'' (skip_ws cs) then Some (JObj [], drop 1 (skip_ws cs))
             else map_option (\<lambda>(ms, r). (JObj ms, r)) (parse_members n cs))
          else if c = CHR ''['' then
            (if prefix '']'' (skip_ws cs) then Some (JArr [], drop 1 (skip_ws cs))
             else map_option (\<lambda>(vs, r). (JArr vs, r)) (parse_elements n cs))
          else if c = CHR 0x22 then map_option (\<lambda>(t, r). (JStr t, r)) (parse_string (Suc (length cs)) cs)
          else parse_literal (c # cs))"
| "parse_members 0 s = None"
| "parse_members (Suc n) s =
     (case skip_ws s of
        [] \<Rightarrow> None
      | q # cs \<Rightarrow>
          if q \<noteq> CHR 0x22 then None
          else (case parse_string (Suc (length cs)) cs of
                  None \<Rightarrow> None
                | Some (k, r) \<Rightarrow>
                    (case expect CHR '':'' (skip_ws r) of
                       None \<Rightarrow> None
                     | Some r1 \<Rightarrow>
                         (case parse_value n r1 of
                            None \<Rightarrow> None
                          | Some (v, r2) \<Rightarrow>
                              (case skip_ws r2 of
                                 [] \<Rightarrow> None
                               | d # ds \<Rightarrow>
                                   if d = CHR ''}'' then Some ([(k, v)], ds)
                                   else if d = CHR '','' then
                                     map_option (\<lambda>(ms, r3). ((k, v) # ms, r3)) (parse_members n ds)
                                   else None)))))"
| "parse_elements 0 s = None"
| "parse_elements (Suc n) s =
     (case parse_value n s of
        None \<Rightarrow> None
      | Some (v, r) \<Rightarrow>
          (case skip_ws r of
             [] \<Rightarrow> None
           | d # ds \<Rightarrow>
               if d = CHR '']'' then Some ([v], ds)
               else if d = CHR '','' then
                 map_option (\<lambda>(vs, r1). (v # vs, r1)) (parse_elements n ds)
               else None))"

definition parse_json :: "string \<Rightarrow> json option" where
  "parse_json s =
     (case parse_value (Suc (length s)) s of
        None \<Rightarrow> None
      | Some (v, r) \<Rightarrow> if skip_ws r = [] then Some v else None)"

section \<open>Decoding into structs\<close>

text \<open>
  A decoder takes the JSON value and the Go variable it is decoded into and returns the
  variable updated, or \<open>None\<close> for \<open>json.Unmarshal\<close>'s error. JSON \<open>null\<close> leaves a
  non-pointer variable as it is.
\<close>

type_synonym ('a) decoder = "json \<Rightarrow> 'a \<Rightarrow> 'a option"

definition parse_int :: "string \<Rightarrow> int option" where
  "parse_int lit =
     (let neg = prefix ''-'' lit; ds = (if neg then drop 1 lit else lit);
          v = (if neg then - digits_val ds else digits_val ds)
      in if ds \<noteq> [] \<and> list_all is_digit ds \<and> in_int64 v then Some v else None)"

definition parse_float :: "string \<Rightarrow> float64 option" where
  "parse_float lit =
     (let neg = prefix ''-'' lit; s = (if neg then drop 1 lit else lit);
          mant = takeWhile (\<lambda>c. c \<noteq> CHR ''e'' \<and> c \<noteq> CHR ''E'') s;
          expo = drop (Suc (length mant)) s;
          ip = takeWhile is_digit mant;
          fp = drop (Suc (length ip)) mant;
          e = (if expo = [] then 0
               else if prefix ''-'' expo then - digits_val (drop 1 expo)
               else if prefix ''+'' expo then digits_val (drop 1 expo)
               else digits_val expo) - int (length fp);
          m = rat_of_int (digits_val (ip @ fp));
          v = (if 0 \<le> e then m * 10 ^ nat e else m / 10 ^ nat (- e))
      in (case of_rat64 (if neg then - v else v) of Fin x \<Rightarrow> Some (Fin x) | _ \<Rightarrow> None))"

definition dec_string :: "string decoder" where
  "dec_string v old = (case v of JNull \<Rightarrow> Some old | JStr s \<Rightarrow> Some s | _ \<Rightarrow> None)"

definition dec_int :: "int decoder" where
  "dec_int v old = (case v of JNull \<Rightarrow> Some old | JNum l \<Rightarrow> parse_int l | _ \<Rightarrow> None)"

definition dec_float :: "float64 decoder" where
  "dec_float v old = (case v of JNull \<Rightarrow> Some old | JNum l \<Rightarrow> parse_float l | _ \<Rightarrow> None)"

definition dec_bool :: "bool decoder" where
  "dec_bool v old = (case v of JNull \<Rightarrow> Some old | JBool b \<Rightarrow> Some b | _ \<Rightarrow> None)"

text \<open>A pointer: \<open>null\<close> makes it nil, anything else decodes into its target, new if it was nil.\<close>

definition dec_ptr :: "'a \<Rightarrow> 'a decoder \<Rightarrow> 'a option decoder" where
  "dec_ptr zero dec v old =
     (case v of
        JNull \<Rightarrow> Some None
      | _ \<Rightarrow> map_option Some (dec v (case old of None \<Rightarrow> zero | Some x \<Rightarrow> x)))"

text \<open>A slice is reset and filled with elements decoded into zero values; \<open>null\<close> makes it nil.\<close>

fun dec_all :: "'a \<Rightarrow> 'a decoder \<Rightarrow> json list \<Rightarrow> 'a list option" where
  "dec_all zero dec [] = Some []"
| "dec_all zero dec (v # vs) =
     (case dec v zero of
        None \<Rightarrow> None
      | Some x \<Rightarrow> map_option (\<lambda>xs. x # xs) (dec_all zero dec vs))"

definition dec_slice :: "'a \<Rightarrow> 'a decoder \<Rightarrow> 'a list decoder" where
  "dec_slice zero dec v old =
     (case v of JNull \<Rightarrow> Some [] | JArr vs \<Rightarrow> dec_all zero dec vs | _ \<Rightarrow> None)"

text \<open>
  Struct fields are found by name, or by the first name that is equal up to the case of ASCII
  letters; members with no field are ignored and a repeated member is decoded again.
\<close>

definition lower :: "string \<Rightarrow> string" where
  "lower s = map (\<lambda>c. if CHR ''A'' \<le> c \<and> c \<le> CHR ''Z'' then char_of (of_char c + 32 :: nat) else c) s"

definition find_field :: "(string \<times> 'b) list \<Rightarrow> string \<Rightarrow> 'b option" where
  "find_field fs k =
     (case map_of fs k of
        Some d \<Rightarrow> Some d
      | None \<Rightarrow> map_option snd (find (\<lambda>(n, _). lower n = lower k) fs))"

definition fld :: "('s \<Rightarrow> 'a) \<Rightarrow> ('a \<Rightarrow> 's \<Rightarrow> 's) \<Rightarrow> 'a decoder \<Rightarrow> 's decoder" where
  "fld get put dec v s = map_option (\<lambda>x. put x s) (dec v (get s))"

fun dec_members :: "(string \<times> 's decoder) list \<Rightarrow> (string \<times> json) list \<Rightarrow> 's \<Rightarrow> 's option" where
  "dec_members fs [] s = Some s"
| "dec_members fs ((k, v) # ms) s =
     (case find_field fs k of
        None \<Rightarrow> dec_members fs ms s
      | Some dec \<Rightarrow> (case dec v s of None \<Rightarrow> None | Some s' \<Rightarrow> dec_members fs ms s'))"

definition dec_struct :: "(string \<times> 's decoder) list \<Rightarrow> 's decoder" where
  "dec_struct fs v s =
     (case v of JNull \<Rightarrow> Some s | JObj ms \<Rightarrow> dec_members fs ms s | _ \<Rightarrow> None)"

definition Unmarshal :: "'s decoder \<Rightarrow> string \<Rightarrow> 's \<Rightarrow> 's option" where
  "Unmarshal dec text s = Option.bind (parse_json text) (\<lambda>v. dec v s)"

section \<open>Encoding\<close>

text \<open>
  The string encoder of \<open>json.Marshal\<close>: quotes, backslashes and control characters are
  escaped, the characters HTML gives a meaning are written as code points, and so are the two
  Unicode line separators; a byte that starts no encoding is written as U+FFFD.
\<close>

definition hex_char :: "nat \<Rightarrow> char" where
  "hex_char n = (if n < 10 then char_of (48 + n) else char_of (87 + n))"

definition escape_u :: "nat \<Rightarrow> string" where
  "escape_u n =
     [CHR 0x5C, CHR ''u'', hex_char (n div 4096 mod 16), hex_char (n div 256 mod 16),
      hex_char (n div 16 mod 16), hex_char (n mod 16)]"

definition escape_char :: "char \<Rightarrow> string" where
  "escape_char c =
     (if c = CHR 0x22 \<or> c = CHR 0x5C then [CHR 0x5C, c]
      else if c = CHR 0x08 then [CHR 0x5C, CHR ''b'']
      else if c = CHR 0x0C then [CHR 0x5C, CHR ''f'']
      else if c = CHR 0x0A then [CHR 0x5C, CHR ''n'']
      else if c = CHR 0x0D then [CHR 0x5C, CHR ''r'']
      else if c = CHR 0x09 then [CHR 0x5C, CHR ''t'']
      else if c < CHR 0x20 \<or> c = CHR ''<'' \<or> c = CHR ''>'' \<or> c = CHR 0x26 then escape_u (of_char c)
      else [c])"

fun escape_text :: "string \<Rightarrow> string" where
  "escape_text [] = []"
| "escape_text (c # cs) =
     (if c < CHR 0x80 then escape_char c @ escape_text cs
      else (case decode_rune (c # cs) of (r, w) \<Rightarrow>
              (if r = RuneError \<and> w = 1 then escape_u RuneError
               else if r = 8232 \<or> r = 8233 then escape_u r
               else take w (c # cs)) @ escape_text (drop (w - 1) cs)))"

definition json_quote :: "string \<Rightarrow> string" where
  "json_quote s = CHR 0x22 # escape_text s @ [CHR 0x22]"

text \<open>The members of an object, already encoded.\<close>

definition json_object :: "(string \<times> string) list \<Rightarrow> string" where
  "json_object ms = ''{'' @ Join (map (\<lambda>(k, v). json_quote k @ '':'' @ v) ms) '','' @ ''}''"

lemma hex_digit_hex_char: "n < 16 \<Longrightarrow> hex_digit (hex_char n) = Some n"
  by (auto simp: hex_digit_def hex_char_def Let_def)

lemma hex4_escape:
  assumes "n < 65536"
  shows "hex4 (drop 2 (escape_u n) @ rest) = Some (n, rest)"
proof -
  have a: "n div 4096 mod 16 = n div 4096" using assms by simp
  have "n div 256 div 16 = n div 4096" "n div 16 div 16 = n div 256"
    by (simp_all add: div_mult2_eq [symmetric])
  with div_mult_mod_eq [of "n div 256" 16] div_mult_mod_eq [of "n div 16" 16]
  have b: "n div 4096 * 16 + n div 256 mod 16 = n div 256"
    and c: "n div 256 * 16 + n div 16 mod 16 = n div 16"
    by (simp_all only:)
  have d: "((n div 4096 mod 16 * 16 + n div 256 mod 16) * 16 + n div 16 mod 16) * 16 + n mod 16 = n"
    by (simp only: a b c div_mult_mod_eq)
  have "n div 4096 < 16" using assms by simp
  with a d show ?thesis by (simp add: hex4_def escape_u_def hex_digit_hex_char)
qed

text \<open>Every string reads back as its well-formed version, an ASCII one as itself.\<close>

lemma below_128: "c < CHR 0x80 \<longleftrightarrow> of_char c < (128 :: nat)"
  by (simp add: less_char_def)

lemma parse_string_unicode:
  assumes "n < 65536" and "\<not> (55296 \<le> n \<and> n < 57344)" and "parse_string m rest = Some (t, r)"
  shows "parse_string (Suc m) (escape_u n @ rest) = Some (utf8 n @ t, r)"
proof -
  define e where "e = drop 2 (escape_u n)"
  have e: "escape_u n = CHR 0x5C # CHR ''u'' # e" by (simp only: e_def escape_u_def) simp
  have "unescape_u (e @ rest) = Some (utf8 n, rest)"
    unfolding e_def unescape_u_def using assms(1,2) by (auto simp: hex4_escape)
  then show ?thesis using assms(3) e by simp
qed

lemma parse_escape_char:
  assumes "of_char c < (128 :: nat)" and "parse_string n rest = Some (t, r)"
  shows "parse_string (Suc n) (escape_char c @ rest) = Some (c # t, r)"
proof -
  show ?thesis
  proof (cases "c \<in> {CHR 0x22, CHR 0x5C, CHR 0x08, CHR 0x0C, CHR 0x0A, CHR 0x0D, CHR 0x09}")
    case True
    then show ?thesis using assms(2) by (auto simp: escape_char_def unescape1_def)
  next
    case plain: False
    show ?thesis
    proof (cases "c < CHR 0x20 \<or> c = CHR ''<'' \<or> c = CHR ''>'' \<or> c = CHR 0x26")
      case True
      with plain have "escape_char c = escape_u (of_char c)" by (simp add: escape_char_def)
      with parse_string_unicode [OF _ _ assms(2), of "of_char c"] assms(1) show ?thesis by (simp add: utf8_def)
    next
      case False
      with plain have "escape_char c = [c]" by (simp add: escape_char_def)
      with plain False assms show ?thesis by (simp add: below_128)
    qed
  qed
qed

lemma high_byte: "\<not> c < CHR 0x80 \<Longrightarrow> c \<noteq> CHR 0x22 \<and> c \<noteq> CHR 0x5C \<and> \<not> c < CHR 0x20"
  by (auto simp: less_char_def)

lemma parse_raw_rune:
  assumes "\<not> c < CHR 0x80" and "decode_rune (c # cs) = (q, w)" and "\<not> (q = RuneError \<and> w = 1)"
    and "parse_string n rest = Some (t, r)"
  shows "parse_string (Suc n) (take w (c # cs) @ rest) = Some (utf8 q @ t, r)"
proof -
  have v: "valid_rune q" "take w (c # cs) = utf8 q" "w = length (utf8 q)" by (rule decode_sound [OF assms(2,3)])+
  have "0 < w" using v(3) by simp
  then have "utf8 q = c # take (w - 1) cs" using v(2) by (cases w) simp_all
  then obtain u where u: "utf8 q = c # u" by blast
  have "decode_rune (c # u @ rest) = (q, w)" using decode_utf8 [OF v(1), of rest] u v(3) by simp
  moreover have "drop (w - 1) (u @ rest) = rest" using v(3) u by simp
  ultimately show ?thesis using assms(1,4) high_byte [OF assms(1)] v(2) u by simp
qed

lemma parse_escape_text:
  assumes "length s < n"
  shows "parse_string n (escape_text s @ CHR 0x22 # rest) = Some (coerce_utf8 s, rest)"
  using assms
proof (induction s arbitrary: n rule: escape_text.induct)
  case 1
  then obtain k where "n = Suc k" using less_imp_Suc_add by blast
  then show ?case by simp
next
  case (2 c cs)
  then obtain k where k: "n = Suc k" "length cs < k" by (cases n) auto
  show ?case
  proof (cases "c < CHR 0x80")
    case True
    then have a: "of_char c < (128 :: nat)" by (simp add: below_128)
    have "parse_string k (escape_text cs @ CHR 0x22 # rest) = Some (coerce_utf8 cs, rest)"
      using "2.IH"(1) True k(2) by blast
    from parse_escape_char [OF a this] show ?thesis
      using True a coerce_Cons [OF decode_ascii [OF a]] by (simp add: k(1) utf8_def)
  next
    case high: False
    obtain q w where d: "decode_rune (c # cs) = (q, w)" by (cases "decode_rune (c # cs)")
    have "length (drop (w - 1) cs) < k" using k(2) by simp
    then have IH: "parse_string k (escape_text (drop (w - 1) cs) @ CHR 0x22 # rest)
        = Some (coerce_utf8 (drop (w - 1) cs), rest)"
      by (rule "2.IH"(2) [OF high d [symmetric]])
    note out = coerce_Cons [OF d]
    consider "q = RuneError \<and> w = 1" | "\<not> (q = RuneError \<and> w = 1)" "q = 8232 \<or> q = 8233"
      | "\<not> (q = RuneError \<and> w = 1)" "\<not> (q = 8232 \<or> q = 8233)" by blast
    then show ?thesis
    proof cases
      case 1
      with parse_string_unicode [OF _ _ IH, of RuneError] high d out show ?thesis
        by (simp add: k(1) RuneError_def del: parse_string.simps)
    next
      case 2
      with parse_string_unicode [OF _ _ IH, of q] high d out show ?thesis
        by (auto simp: k(1) del: parse_string.simps)
    next
      case 3
      with parse_raw_rune [OF high d 3(1) IH] high d out show ?thesis
        by (auto simp: k(1) simp del: parse_string.simps)
    qed
  qed
qed

lemma escape_char_length: "1 \<le> length (escape_char c) \<and> length (escape_char c) \<le> 6"
  by (simp add: escape_char_def escape_u_def)

lemma escape_text_runes: "length (escape_text s) \<le> 6 * length (runes s)"
proof (induction s rule: escape_text.induct)
  case (2 c cs)
  show ?case
  proof (cases "c < CHR 0x80")
    case True
    with 2 decode_ascii [of c cs] escape_char_length [of c] show ?thesis by (simp add: below_128)
  next
    case high: False
    obtain q w where d: "decode_rune (c # cs) = (q, w)" by (cases "decode_rune (c # cs)")
    have IH: "length (escape_text (drop (w - 1) cs)) \<le> 6 * length (runes (drop (w - 1) cs))"
      by (rule "2.IH"(2) [OF high d [symmetric]])
    have "w \<le> 6"
      using decode_sound(3) [OF d] by (cases "q = RuneError \<and> w = 1") (auto simp: utf8_def)
    then have "length (take w (c # cs)) \<le> 6" by simp
    with IH high d show ?thesis by (auto simp: escape_u_def)
  qed
qed simp

lemma escape_text_length: "length s \<le> length (escape_text s)"
proof (induction s rule: escape_text.induct)
  case (2 c cs)
  show ?case
  proof (cases "c < CHR 0x80")
    case True
    from "2.IH"(1) [OF True] have "1 + length cs \<le> length (escape_char c) + length (escape_text cs)"
      using escape_char_length [of c] by (intro add_mono) blast+
    with True show ?thesis by simp
  next
    case high: False
    obtain q w where d: "decode_rune (c # cs) = (q, w)" by (cases "decode_rune (c # cs)")
    have IH: "length (drop (w - 1) cs) \<le> length (escape_text (drop (w - 1) cs))"
      by (rule "2.IH"(2) [OF high d [symmetric]])
    have w: "0 < w" "w \<le> 4" "w \<le> Suc (length cs)"
      using decode_width [OF d] decode_sound(3,4) [OF d]
      by (cases "q = RuneError \<and> w = 1"; auto simp: utf8_def)+
    then have "w \<le> length (take w (c # cs))" by simp
    with IH high d w show ?thesis by (auto simp: escape_u_def)
  qed
qed simp

lemma json_quote_length: "length (json_quote s) \<le> 6 * length (runes s) + 2"
  using escape_text_runes [of s] by (simp add: json_quote_def)

end
