(* ===== verification/Sha256.thy ===== *)
theory Sha256
  imports Prelude "HOL-Library.Word"
begin

unbundle bit_operations_syntax

text \<open>
  Package \<open>crypto/sha256\<close>, which the program uses for the job snapshot hash, the sampling of
  terminal runs and the content hashes of bounded inputs: FIPS 180-4 on 32-bit words, and
  \<open>hex.EncodeToString\<close>. The constants are the first 32 fractional bits of the cube roots of
  the first 64 primes and of the square roots of the first eight.
\<close>

type_synonym w32 = "32 word"

definition round_constants :: "w32 list" where
  "round_constants =
     [1116352408, 1899447441, 3049323471, 3921009573, 961987163, 1508970993, 2453635748,
      2870763221, 3624381080, 310598401, 607225278, 1426881987, 1925078388, 2162078206,
      2614888103, 3248222580, 3835390401, 4022224774, 264347078, 604807628, 770255983,
      1249150122, 1555081692, 1996064986, 2554220882, 2821834349, 2952996808,
      3210313671, 3336571891, 3584528711, 113926993, 338241895, 666307205, 773529912,
      1294757372, 1396182291, 1695183700, 1986661051, 2177026350, 2456956037,
      2730485921, 2820302411, 3259730800, 3345764771, 3516065817, 3600352804,
      4094571909, 275423344, 430227734, 506948616, 659060556, 883997877, 958139571,
      1322822218, 1537002063, 1747873779, 1955562222, 2024104815, 2227730452,
      2361852424, 2428436474, 2756734187, 3204031479, 3329325298]"

definition initial_hash :: "w32 list" where
  "initial_hash =
     [1779033703, 3144134277, 1013904242, 2773480762, 1359893119, 2600822924, 528734635,
      1541459225]"

definition rotr :: "nat \<Rightarrow> w32 \<Rightarrow> w32" where
  "rotr n x = drop_bit n x OR push_bit (32 - n) x"

definition big_sigma0 :: "w32 \<Rightarrow> w32" where
  "big_sigma0 x = rotr 2 x XOR rotr 13 x XOR rotr 22 x"

definition big_sigma1 :: "w32 \<Rightarrow> w32" where
  "big_sigma1 x = rotr 6 x XOR rotr 11 x XOR rotr 25 x"

definition small_sigma0 :: "w32 \<Rightarrow> w32" where
  "small_sigma0 x = rotr 7 x XOR rotr 18 x XOR drop_bit 3 x"

definition small_sigma1 :: "w32 \<Rightarrow> w32" where
  "small_sigma1 x = rotr 17 x XOR rotr 19 x XOR drop_bit 10 x"

text \<open>The message schedule: \<open>n\<close> more words after the sixteen of the block.\<close>

fun schedule_words :: "nat \<Rightarrow> w32 list \<Rightarrow> w32 list" where
  "schedule_words 0 ws = ws"
| "schedule_words (Suc n) ws =
     (let t = length ws
      in schedule_words n
           (ws @ [small_sigma1 (ws ! (t - 2)) + ws ! (t - 7) + small_sigma0 (ws ! (t - 15))
                  + ws ! (t - 16)]))"

definition sha_round :: "w32 \<Rightarrow> w32 \<Rightarrow> w32 list \<Rightarrow> w32 list" where
  "sha_round k w s =
     (let a = s ! 0; b = s ! 1; c = s ! 2; e = s ! 4; f = s ! 5; g = s ! 6;
          t1 = s ! 7 + big_sigma1 e + ((e AND f) XOR (NOT e AND g)) + k + w;
          t2 = big_sigma0 a + ((a AND b) XOR (a AND c) XOR (b AND c))
      in [t1 + t2, a, b, c, s ! 3 + t1, e, f, g])"

fun sha_rounds :: "(w32 \<times> w32) list \<Rightarrow> w32 list \<Rightarrow> w32 list" where
  "sha_rounds [] s = s"
| "sha_rounds ((k, w) # kws) s = sha_rounds kws (sha_round k w s)"

fun bytes_word :: "nat list \<Rightarrow> w32" where
  "bytes_word bs = of_nat (foldl (\<lambda>n b. n * 256 + b) 0 bs)"

fun chunks :: "nat \<Rightarrow> nat \<Rightarrow> 'a list \<Rightarrow> 'a list list" where
  "chunks 0 n xs = []"
| "chunks (Suc m) n xs = take n xs # chunks m n (drop n xs)"

definition sha_block :: "w32 list \<Rightarrow> nat list \<Rightarrow> w32 list" where
  "sha_block s block =
     map2 (+) s (sha_rounds (zip round_constants (schedule_words 48 (map bytes_word (chunks 16 4 block)))) s)"

definition big_endian :: "nat \<Rightarrow> nat \<Rightarrow> nat list" where
  "big_endian width n = map (\<lambda>i. n div 256 ^ (width - 1 - i) mod 256) [0..<width]"

definition sha_pad :: "nat list \<Rightarrow> nat list" where
  "sha_pad bs = (let l = length bs; z = (119 - l mod 64) mod 64
                 in bs @ [128] @ replicate z 0 @ big_endian 8 (8 * l mod 2 ^ 64))"

definition Sum256 :: "string \<Rightarrow> nat list" where
  "Sum256 text =
     (let bs = sha_pad (map of_char text);
          s = foldl sha_block initial_hash (chunks (length bs div 64) 64 bs)
      in concat (map (\<lambda>w. big_endian 4 (unat w)) s))"

definition hex_chars :: string where
  "hex_chars = ''0123456789abcdef''"

definition EncodeToString :: "nat list \<Rightarrow> string" where
  "EncodeToString bs = concat (map (\<lambda>b. [hex_chars ! (b div 16), hex_chars ! (b mod 16)]) bs)"

definition sha256_hex :: "string \<Rightarrow> string" where
  "sha256_hex text = EncodeToString (Sum256 text)"

lemma length_sha_rounds: "length s = 8 \<Longrightarrow> length (sha_rounds kws s) = 8"
  by (induction kws s rule: sha_rounds.induct) (simp_all add: sha_round_def Let_def)

lemma length_sha_block: "length s = 8 \<Longrightarrow> length (sha_block s block) = 8"
  by (simp add: sha_block_def length_sha_rounds)

lemma length_foldl_sha_block: "length s = 8 \<Longrightarrow> length (foldl sha_block s blocks) = 8"
  by (induction blocks arbitrary: s) (simp_all add: length_sha_block)

lemma length_big_endian [simp]: "length (big_endian w n) = w"
  by (simp add: big_endian_def)

lemma length_Sum256 [simp]: "length (Sum256 text) = 32"
proof -
  have "length (concat (map (\<lambda>w. big_endian 4 (unat w)) ws)) = 4 * length ws" for ws :: "w32 list"
    by (induction ws) simp_all
  moreover have "length initial_hash = 8"
    by (simp add: initial_hash_def)
  ultimately show ?thesis
    by (simp add: Sum256_def Let_def length_foldl_sha_block)
qed

lemma length_sha256_hex [simp]: "length (sha256_hex text) = 64"
proof -
  have "length (EncodeToString bs) = 2 * length bs" for bs
    by (induction bs) (simp_all add: EncodeToString_def)
  then show ?thesis by (simp add: sha256_hex_def)
qed

end
