(* ===== verification/Config.thy ===== *)
theory Config
  imports Json Sha256
begin

text \<open>
  Package \<open>internal/config\<close>: the job definition file, its defaults and its validation, the
  classification of terminal runs and their sampling. Go pointers that mark an omitted field
  are options. What the file does not contain is the argument \<open>host\<close>: the home directory, the
  time zone database behind \<open>time.LoadLocation\<close>, and the cron parser, a third-party package,
  whose parse result is its \<open>Next\<close> function (on a location and an instant). The YAML decoder is
  third-party too, so \<open>Load\<close> receives the decoded configuration.
\<close>

section \<open>Constants and types\<close>

definition CurrentVersion :: int where "CurrentVersion = 1"
definition ConfigRequiredMode :: nat where "ConfigRequiredMode = 384"

definition DefaultMaxConcurrentRuns :: int where "DefaultMaxConcurrentRuns = 2"
definition DefaultMinFreeDiskGiB :: float64 where "DefaultMinFreeDiskGiB = Fin 3"
definition DefaultDiskReserveGiB :: float64 where "DefaultDiskReserveGiB = Fin (5 / 4)"

definition HarnessClaudeCode :: string where "HarnessClaudeCode = ''claude-code''"
definition HarnessPi :: string where "HarnessPi = ''pi''"
definition ScheduleCron :: string where "ScheduleCron = ''cron''"
definition ScheduleOnce :: string where "ScheduleOnce = ''once''"
definition ScheduleEvent :: string where "ScheduleEvent = ''event''"
definition WorkspaceWorktree :: string where "WorkspaceWorktree = ''worktree''"
definition PermissionReadOnly :: string where "PermissionReadOnly = ''read-only-no-network''"
definition PermissionRepoWrite :: string where "PermissionRepoWrite = ''repo-write-no-network''"
definition AcceptanceMandatory :: string where "AcceptanceMandatory = ''mandatory''"
definition AcceptanceAuto :: string where "AcceptanceAuto = ''auto''"
definition AcceptanceSample :: string where "AcceptanceSample = ''sample''"

definition MaxBoundedInputs :: nat where "MaxBoundedInputs = 32"
definition MaxAllowedWritePaths :: nat where "MaxAllowedWritePaths = 64"
definition BoundedInputsDir :: string where "BoundedInputsDir = ''.herdr-bots/inputs''"

lemmas config_strings =
  HarnessClaudeCode_def HarnessPi_def ScheduleCron_def ScheduleOnce_def ScheduleEvent_def
  WorkspaceWorktree_def PermissionReadOnly_def PermissionRepoWrite_def
  AcceptanceMandatory_def AcceptanceAuto_def AcceptanceSample_def

record capacity =
  MaxConcurrentRuns :: "int option"
  MinFreeDiskGiB :: "float64 option"

record schedule =
  Kind :: string
  Expression :: string
  At :: string
  Timezone :: string
  CatchUpGraceMinutes :: "int option"

record input_snapshot =
  Source :: string
  Destination :: string

record execution =
  Repository :: string
  Workspace :: string
  BaseRef :: string
  Harness :: string
  Provider :: string
  Model :: string
  Thinking :: string
  PermissionProfile :: string
  RequireModelAttestation :: "bool option"
  Inputs :: "input_snapshot list"
  AllowedWritePaths :: "string list"

record verifier =
  Command :: "string list"

record acceptance =
  Mode :: string
  SamplePercent :: int

record limits =
  MaxRunsPerDay :: int
  DiskReserveGiB :: "float64 option"

record attention =
  MaxUnread :: "int option"

record job =
  ID :: string
  Revision :: int
  Enabled :: "bool option"
  Schedule :: schedule
  Execution :: execution
  RunIfChanged :: bool
  Prompt :: string
  TimeoutMinutes :: int
  Overlap :: string
  Verifier :: "verifier option"
  Acceptance :: "acceptance option"
  Limits :: limits
  Attention :: "attention option"

record config =
  Version :: int
  Capacity :: capacity
  Jobs :: "job list"

record host =
  home_dir :: string
  LoadLocation :: "string \<Rightarrow> location option"
  cron_parse :: "string \<Rightarrow> (location \<Rightarrow> time \<Rightarrow> time) option"

text \<open>One constructor per message; the indices are those printed in it.\<close>

datatype schedule_err =
    BadScheduleKind | TimezoneRequired | BadTimezone | BadCatchUp
  | CronShape | BadCron | OnceShape | BadAt | EventShape

datatype source_err =
    SourceEmpty | SourceNul | SourcePlaceholders | SourceNotAbs | SourceTraversal

datatype destination_err =
    DestinationEmpty | DestinationNul | DestinationPlaceholders | DestinationAbs
  | DestinationTraversal | DestinationNotClean | DestinationIsDir | DestinationOutside

datatype write_err =
    WriteEmpty | WriteNul | WriteWildcard | WriteAbs | WriteRoot | WriteTraversal
  | WriteNotClean | WriteGit | WriteInputs | WriteInputsPrefix

datatype attestation_err =
    AttestationHarness | AttestationDefault | AttestationAlias | AttestationModel

datatype execution_err =
    RepositoryNotAbs | BadWorkspace | BadBaseRef | BadHarness | ModelRequired | PiNeedsProvider
  | ClaudeProvider | BadThinking | ClaudeThinking | BadPermissionProfile
  | AttestationErr attestation_err

datatype scope_err =
    TooManyInputs nat | SourceErr nat source_err | DestinationErr nat destination_err
  | DuplicateSource string | DuplicateDestination string
  | WriteProfile | TooManyWritePaths nat | WriteErr nat write_err

datatype acceptance_err =
    VerifierEmpty | VerifierEmptyArg | SamplePercentForbidden | AutoNeedsVerifier
  | SampleNeedsVerifier | BadSamplePercent | BadAcceptanceMode

datatype job_err =
    JobWithoutId | BadId | BadRevision | PromptRequired | BadTimeout | BadOverlap | BadMaxRuns
  | BadDiskReserve | BadMaxUnread | EventRunIfChanged | RunIfChangedBaseRef

datatype load_err =
    OpenFailed | ConfigSymlink | StatFailed | NotRegular | BadPermissions nat | WrongOwner int
  | RecheckFailed | BecameSymlink | ConfigReplaced | ParseFailed

datatype config_err =
    JobErr job_err | ScheduleErr schedule_err | ExecutionErr execution_err | ScopeErr scope_err
  | AcceptanceErr acceptance_err | LoadErr load_err | BadVersion int | DuplicateJobId string
  | BadMaxConcurrent | BadMinFreeDisk | BadEventId

section \<open>Small operations\<close>

definition IsEnabled :: "job \<Rightarrow> bool" where
  "IsEnabled j \<longleftrightarrow> Enabled j = Some True"

text \<open>\<open>time.Duration(m) * time.Minute\<close> is a 64-bit product: it wraps.\<close>

definition CatchUpGrace :: "job \<Rightarrow> duration" where
  "CatchUpGrace j =
     (case CatchUpGraceMinutes (Schedule j) of
        None \<Rightarrow> 0
      | Some m \<Rightarrow> int64 (m * minute_ns))"

definition DiskReserve :: "job \<Rightarrow> float64" where
  "DiskReserve j =
     (case DiskReserveGiB (Limits j) of None \<Rightarrow> DefaultDiskReserveGiB | Some v \<Rightarrow> v)"

definition MaxUnreadTerminalRuns :: "job \<Rightarrow> int" where
  "MaxUnreadTerminalRuns j =
     (case Attention j of
        None \<Rightarrow> 0
      | Some a \<Rightarrow> (case MaxUnread a of None \<Rightarrow> 0 | Some n \<Rightarrow> n))"

definition AcceptanceMode :: "job \<Rightarrow> string" where
  "AcceptanceMode j =
     (case Acceptance j of
        None \<Rightarrow> AcceptanceMandatory
      | Some a \<Rightarrow> if Mode a = [] then AcceptanceMandatory else Mode a)"

definition HasBoundedInputs :: "execution \<Rightarrow> bool" where
  "HasBoundedInputs e \<longleftrightarrow> length (Inputs e) > 0"

definition HasWriteScope :: "execution \<Rightarrow> bool" where
  "HasWriteScope e \<longleftrightarrow> length (AllowedWritePaths e) > 0"

definition modelAliases :: "string list" where
  "modelAliases = [''opus'', ''sonnet'', ''fable'', ''haiku'']"

definition RequiresModelAttestation :: "execution \<Rightarrow> bool" where
  "RequiresModelAttestation e \<longleftrightarrow> RequireModelAttestation e = Some True"

definition is_id_rune :: "char \<Rightarrow> bool" where
  "is_id_rune r \<longleftrightarrow>
     \<not> ((r < CHR ''a'' \<or> CHR ''z'' < r) \<and> (r < CHR ''0'' \<or> CHR ''9'' < r) \<and> r \<noteq> CHR ''-'')"

definition validID :: "string \<Rightarrow> bool" where
  "validID i \<longleftrightarrow>
     (if HasPrefix i ''-'' \<or> HasSuffix i ''-'' \<or> Contains i ''--'' then False
      else if list_ex (\<lambda>r. \<not> is_id_rune r) i then False
      else i \<noteq> [])"

definition ValidateEventID :: "string \<Rightarrow> config_err option" where
  "ValidateEventID i =
     (if length i < 1 \<or> 128 < length i \<or> \<not> validID i then Some BadEventId else None)"

definition expandHome :: "host \<Rightarrow> string \<Rightarrow> string" where
  "expandHome h path =
     (if HasPrefix path ''~/'' then PathJoin (home_dir h) (drop 2 path) else path)"

text \<open>\<open>strings.Split(path, "/")\<close> has a segment \<open>..\<close>.\<close>

definition hasTraversalSegment :: "string \<Rightarrow> bool" where
  "hasTraversalSegment path \<longleftrightarrow> list_ex (\<lambda>s. s = ''..'') (Split CHR ''/'' path)"

section \<open>Classification of terminal runs\<close>

definition hasDeterministicVerifier :: "job \<Rightarrow> bool" where
  "hasDeterministicVerifier j =
     (case Verifier j of
        None \<Rightarrow> False
      | Some v \<Rightarrow> Command v \<noteq> [] \<and> list_all (\<lambda>a. a \<noteq> []) (Command v))"

definition sample_bucket :: "string \<Rightarrow> nat" where
  "sample_bucket runID = foldl (\<lambda>n b. n * 256 + b) 0 (take 8 (Sum256 runID)) mod 100"

definition acceptanceSampled :: "string \<Rightarrow> int \<Rightarrow> bool" where
  "acceptanceSampled runID samplePercent =
     (if samplePercent \<le> 0 then False
      else if 100 \<le> samplePercent then True
      else int (sample_bucket runID) < samplePercent)"

definition normalizeVerdict :: "string \<Rightarrow> string" where
  "normalizeVerdict verdict =
     (let v = TrimSpace verdict in if v = [] then ''unverified'' else v)"

text \<open>Lane, reason, and whether an operator has to look at the run.\<close>

definition ClassifyTerminalRun :: "job \<Rightarrow> string \<Rightarrow> string \<Rightarrow> string \<Rightarrow> string \<times> string \<times> bool" where
  "ClassifyTerminalRun j runID state verdict =
     (let v = normalizeVerdict verdict
      in if v = ''failed'' then (AcceptanceMandatory, ''verifier_failed'', True)
         else if state \<noteq> ''succeeded'' then
           (if TrimSpace state = [] then (AcceptanceMandatory, ''state_unknown'', True)
            else (AcceptanceMandatory, ''state_'' @ state, True))
         else if v \<noteq> ''passed'' then (AcceptanceMandatory, ''unverified'', True)
         else if AcceptanceMode j = AcceptanceAuto then
           (if (case Acceptance j of None \<Rightarrow> False | Some a \<Rightarrow> SamplePercent a \<noteq> 0)
            then (AcceptanceMandatory, ''acceptance_invalid'', True)
            else if \<not> hasDeterministicVerifier j
            then (AcceptanceMandatory, ''verifier_missing'', True)
            else (AcceptanceAuto, ''verifier_passed'', False))
         else if AcceptanceMode j = AcceptanceSample then
           (case Acceptance j of
              None \<Rightarrow> (AcceptanceMandatory, ''acceptance_invalid'', True)
            | Some a \<Rightarrow>
                if SamplePercent a < 1 \<or> 100 < SamplePercent a
                then (AcceptanceMandatory, ''acceptance_invalid'', True)
                else if \<not> hasDeterministicVerifier j
                then (AcceptanceMandatory, ''verifier_missing'', True)
                else if acceptanceSampled runID (SamplePercent a)
                then (AcceptanceSample, ''sampled'', True)
                else (AcceptanceAuto, ''unsampled'', False))
         else if AcceptanceMode j = AcceptanceMandatory then
           (if Acceptance j = None then (AcceptanceMandatory, ''acceptance_missing'', True)
            else (AcceptanceMandatory, ''mode_mandatory'', True))
         else (AcceptanceMandatory, ''acceptance_unknown'', True))"

section \<open>Defaults\<close>

definition default_to :: "'a \<Rightarrow> 'a option \<Rightarrow> 'a option" where
  "default_to d x = (case x of None \<Rightarrow> Some d | Some _ \<Rightarrow> x)"

definition job_defaults :: "host \<Rightarrow> job \<Rightarrow> job" where
  "job_defaults h j =
     (let e = Execution j; s = Schedule j; l = Limits j
      in j\<lparr> Enabled := default_to True (Enabled j),
            Revision := (if Revision j = 0 then 1 else Revision j),
            Execution := e\<lparr> Workspace := (if Workspace e = [] then WorkspaceWorktree else Workspace e),
                            Thinking := (if Thinking e = [] then ''high'' else Thinking e),
                            Repository := expandHome h (Repository e) \<rparr>,
            TimeoutMinutes := (if TimeoutMinutes j = 0 then 60 else TimeoutMinutes j),
            Overlap := (if Overlap j = [] then ''forbid'' else Overlap j),
            Limits := l\<lparr> MaxRunsPerDay := (if MaxRunsPerDay l = 0 then 10 else MaxRunsPerDay l),
                         DiskReserveGiB := default_to DefaultDiskReserveGiB (DiskReserveGiB l) \<rparr>,
            Schedule := s\<lparr> CatchUpGraceMinutes := default_to 120 (CatchUpGraceMinutes s) \<rparr> \<rparr>)"

definition capacity_defaults :: "capacity \<Rightarrow> capacity" where
  "capacity_defaults c =
     c\<lparr> MaxConcurrentRuns := default_to DefaultMaxConcurrentRuns (MaxConcurrentRuns c),
        MinFreeDiskGiB := default_to DefaultMinFreeDiskGiB (MinFreeDiskGiB c) \<rparr>"

definition MaxConcurrent :: "capacity \<Rightarrow> int" where
  "MaxConcurrent c =
     (case MaxConcurrentRuns c of None \<Rightarrow> DefaultMaxConcurrentRuns | Some n \<Rightarrow> n)"

definition MinFreeDisk :: "capacity \<Rightarrow> float64" where
  "MinFreeDisk c =
     (case MinFreeDiskGiB c of None \<Rightarrow> DefaultMinFreeDiskGiB | Some x \<Rightarrow> x)"

definition capacity_validate :: "capacity \<Rightarrow> config_err option" where
  "capacity_validate c =
     (let m = MaxConcurrent c; f = MinFreeDisk c
      in if m < 1 \<or> 32 < m then Some BadMaxConcurrent
         else if IsNaN f \<or> IsInf f \<or> fless f (Fin (1 / 2)) \<or> fless (Fin 1024) f
         then Some BadMinFreeDisk
         else None)"

section \<open>Validation\<close>

definition schedule_validate :: "host \<Rightarrow> schedule \<Rightarrow> config_err option" where
  "schedule_validate h s =
     (if Kind s \<noteq> ScheduleCron \<and> Kind s \<noteq> ScheduleOnce \<and> Kind s \<noteq> ScheduleEvent
      then Some (ScheduleErr BadScheduleKind)
      else if Timezone s = [] then Some (ScheduleErr TimezoneRequired)
      else if LoadLocation h (Timezone s) = None then Some (ScheduleErr BadTimezone)
      else if (case CatchUpGraceMinutes s of None \<Rightarrow> True | Some m \<Rightarrow> m < 0) then Some (ScheduleErr BadCatchUp)
      else if Kind s = ScheduleCron then
        (if TrimSpace (Expression s) = [] \<or> At s \<noteq> [] then Some (ScheduleErr CronShape)
         else if cron_parse h (Expression s) = None then Some (ScheduleErr BadCron)
         else None)
      else if Kind s = ScheduleOnce then
        (if At s = [] \<or> Expression s \<noteq> [] then Some (ScheduleErr OnceShape)
         else if ParseRFC3339 (At s) = None then Some (ScheduleErr BadAt)
         else None)
      else if Expression s \<noteq> [] \<or> At s \<noteq> [] then Some (ScheduleErr EventShape)
      else None)"

definition placeholder_samples :: "(string \<times> string) list" where
  "placeholder_samples =
     [(''{date}'', ''2026-01-02''), (''{year}'', ''2026''), (''{month}'', ''01'')]"

text \<open>The code ranges over a map, so in an unspecified order; \<open>expand_in\<close> takes the order.\<close>

fun expand_in :: "(string \<times> string) list \<Rightarrow> string \<Rightarrow> string" where
  "expand_in [] s = s"
| "expand_in ((token, sample) # rest) s = expand_in rest (ReplaceAll s token sample)"

definition expandInputSamples :: "string \<Rightarrow> string option" where
  "expandInputSamples source =
     (let e = expand_in placeholder_samples source in if ContainsAny e ''{}'' then None else Some e)"

definition NUL :: char where "NUL = CHR 0x00"

definition source_check :: "nat \<Rightarrow> string \<Rightarrow> config_err option" where
  "source_check i source =
     (if source = [] then Some (ScopeErr (SourceErr i SourceEmpty))
      else if ContainsAny source [NUL] then Some (ScopeErr (SourceErr i SourceNul))
      else (case expandInputSamples source of
              None \<Rightarrow> Some (ScopeErr (SourceErr i SourcePlaceholders))
            | Some expanded \<Rightarrow>
                if \<not> IsAbs expanded then Some (ScopeErr (SourceErr i SourceNotAbs))
                else if hasTraversalSegment expanded then Some (ScopeErr (SourceErr i SourceTraversal))
                else None))"

definition destination_check :: "nat \<Rightarrow> string \<Rightarrow> config_err option" where
  "destination_check i d =
     (if d = [] then Some (ScopeErr (DestinationErr i DestinationEmpty))
      else if ContainsAny d [NUL] then Some (ScopeErr (DestinationErr i DestinationNul))
      else if ContainsAny d ''{}'' then Some (ScopeErr (DestinationErr i DestinationPlaceholders))
      else if IsAbs d then Some (ScopeErr (DestinationErr i DestinationAbs))
      else if hasTraversalSegment d then Some (ScopeErr (DestinationErr i DestinationTraversal))
      else if Clean d \<noteq> d then Some (ScopeErr (DestinationErr i DestinationNotClean))
      else if d = BoundedInputsDir then Some (ScopeErr (DestinationErr i DestinationIsDir))
      else if \<not> HasPrefix d (BoundedInputsDir @ ''/'') then Some (ScopeErr (DestinationErr i DestinationOutside))
      else None)"

fun validate_inputs_from ::
  "nat \<Rightarrow> string list \<Rightarrow> string list \<Rightarrow> input_snapshot list \<Rightarrow> config_err option" where
  "validate_inputs_from i sources destinations [] = None"
| "validate_inputs_from i sources destinations (input # inputs) =
     (case source_check i (Source input) of
        Some e \<Rightarrow> Some e
      | None \<Rightarrow>
          (case destination_check i (Destination input) of
             Some e \<Rightarrow> Some e
           | None \<Rightarrow>
               if Source input \<in> set sources then Some (ScopeErr (DuplicateSource (Source input)))
               else if Destination input \<in> set destinations
               then Some (ScopeErr (DuplicateDestination (Destination input)))
               else validate_inputs_from (Suc i) (Source input # sources)
                      (Destination input # destinations) inputs))"

definition validateInputs :: "execution \<Rightarrow> config_err option" where
  "validateInputs e =
     (if MaxBoundedInputs < length (Inputs e) then Some (ScopeErr (TooManyInputs (length (Inputs e))))
      else validate_inputs_from 0 [] [] (Inputs e))"

definition write_path_check :: "nat \<Rightarrow> string \<Rightarrow> config_err option" where
  "write_path_check i entry =
     (if entry = [] then Some (ScopeErr (WriteErr i WriteEmpty))
      else if ContainsAny entry [NUL] then Some (ScopeErr (WriteErr i WriteNul))
      else if ContainsAny entry ''*?['' then Some (ScopeErr (WriteErr i WriteWildcard))
      else if IsAbs entry then Some (ScopeErr (WriteErr i WriteAbs))
      else (let isPrefix = HasSuffix entry ''/''; path = TrimSuffix entry ''/''
            in if path = [] \<or> path = ''.'' then Some (ScopeErr (WriteErr i WriteRoot))
               else if hasTraversalSegment path then Some (ScopeErr (WriteErr i WriteTraversal))
               else if Clean path \<noteq> path then Some (ScopeErr (WriteErr i WriteNotClean))
               else if path = ''.git'' \<or> HasPrefix path ''.git/'' then Some (ScopeErr (WriteErr i WriteGit))
               else if path = BoundedInputsDir \<or> HasPrefix path (BoundedInputsDir @ ''/'')
               then Some (ScopeErr (WriteErr i WriteInputs))
               else if isPrefix \<and> HasPrefix (BoundedInputsDir @ ''/'') (path @ ''/'')
               then Some (ScopeErr (WriteErr i WriteInputsPrefix))
               else None))"

fun validate_write_paths_from :: "nat \<Rightarrow> string list \<Rightarrow> config_err option" where
  "validate_write_paths_from i [] = None"
| "validate_write_paths_from i (entry # entries) =
     (case write_path_check i entry of
        Some e \<Rightarrow> Some e
      | None \<Rightarrow> validate_write_paths_from (Suc i) entries)"

definition validateAllowedWritePaths :: "execution \<Rightarrow> config_err option" where
  "validateAllowedWritePaths e =
     (if AllowedWritePaths e = [] then None
      else if PermissionProfile e \<noteq> PermissionRepoWrite then Some (ScopeErr WriteProfile)
      else if MaxAllowedWritePaths < length (AllowedWritePaths e)
      then Some (ScopeErr (TooManyWritePaths (length (AllowedWritePaths e))))
      else validate_write_paths_from 0 (AllowedWritePaths e))"

definition allowedThinking :: "string list" where
  "allowedThinking = [''off'', ''minimal'', ''low'', ''medium'', ''high'', ''xhigh'', ''max'']"

text \<open>The \<open>switch\<close> on an explicit \<open>require_model_attestation: true\<close>.\<close>

definition attestation_check :: "string \<Rightarrow> config_err option" where
  "attestation_check m =
     (if m = ''harness-default'' then Some (ExecutionErr (AttestationErr AttestationDefault))
      else if m \<in> set modelAliases then Some (ExecutionErr (AttestationErr AttestationAlias))
      else if \<not> HasPrefix m ''claude-'' \<or> length m \<le> length ''claude-'' then Some (ExecutionErr (AttestationErr AttestationModel))
      else None)"

definition execution_validate :: "execution \<Rightarrow> config_err option" where
  "execution_validate e =
     (if \<not> IsAbs (Repository e) then Some (ExecutionErr RepositoryNotAbs)
      else if Workspace e \<noteq> WorkspaceWorktree then Some (ExecutionErr BadWorkspace)
      else if TrimSpace (BaseRef e) \<noteq> BaseRef e \<or> HasPrefix (BaseRef e) ''-''
              \<or> ContainsAny (BaseRef e) [NUL, CHR 0x0D, CHR 0x0A]
      then Some (ExecutionErr BadBaseRef)
      else if Harness e \<noteq> HarnessClaudeCode \<and> Harness e \<noteq> HarnessPi then Some (ExecutionErr BadHarness)
      else if Model e = [] then Some (ExecutionErr ModelRequired)
      else if Harness e = HarnessPi \<and> Provider e = [] then Some (ExecutionErr PiNeedsProvider)
      else if Harness e = HarnessClaudeCode \<and> Provider e \<noteq> [] then Some (ExecutionErr ClaudeProvider)
      else if RequireModelAttestation e \<noteq> None \<and> Harness e \<noteq> HarnessClaudeCode
      then Some (ExecutionErr (AttestationErr AttestationHarness))
      else (case (if RequireModelAttestation e = Some True then attestation_check (Model e) else None) of
              Some err \<Rightarrow> Some err
            | None \<Rightarrow>
                if Thinking e \<notin> set allowedThinking then Some (ExecutionErr BadThinking)
                else if Harness e = HarnessClaudeCode \<and> (Thinking e = ''off'' \<or> Thinking e = ''minimal'')
                then Some (ExecutionErr ClaudeThinking)
                else if PermissionProfile e \<noteq> PermissionReadOnly \<and> PermissionProfile e \<noteq> PermissionRepoWrite
                then Some (ExecutionErr BadPermissionProfile)
                else (case validateInputs e of
                        Some err \<Rightarrow> Some err
                      | None \<Rightarrow> validateAllowedWritePaths e)))"

definition verifier_check :: "verifier option \<Rightarrow> config_err option" where
  "verifier_check v =
     (case v of
        None \<Rightarrow> None
      | Some w \<Rightarrow>
          if Command w = [] then Some (AcceptanceErr VerifierEmpty)
          else if list_ex (\<lambda>a. a = []) (Command w) then Some (AcceptanceErr VerifierEmptyArg)
          else None)"

definition acceptance_check :: "verifier option \<Rightarrow> acceptance option \<Rightarrow> config_err option" where
  "acceptance_check v acc =
     (case acc of
        None \<Rightarrow> None
      | Some a \<Rightarrow>
          if Mode a = AcceptanceMandatory then
            (if SamplePercent a \<noteq> 0 then Some (AcceptanceErr SamplePercentForbidden) else None)
          else if Mode a = AcceptanceAuto then
            (if SamplePercent a \<noteq> 0 then Some (AcceptanceErr SamplePercentForbidden)
             else if v = None then Some (AcceptanceErr AutoNeedsVerifier) else None)
          else if Mode a = AcceptanceSample then
            (if v = None then Some (AcceptanceErr SampleNeedsVerifier)
             else if SamplePercent a < 1 \<or> 100 < SamplePercent a then Some (AcceptanceErr BadSamplePercent)
             else None)
          else Some (AcceptanceErr BadAcceptanceMode))"

definition attention_check :: "attention option \<Rightarrow> config_err option" where
  "attention_check a =
     (case a of
        None \<Rightarrow> None
      | Some x \<Rightarrow>
          (case MaxUnread x of
             None \<Rightarrow> None
           | Some n \<Rightarrow> if n < 1 \<or> 1000 < n then Some (JobErr BadMaxUnread) else None))"

definition job_validate :: "host \<Rightarrow> job \<Rightarrow> config_err option" where
  "job_validate h j =
     (let reserve = DiskReserve j
      in if ID j = [] then Some (JobErr JobWithoutId)
         else if \<not> validID (ID j) then Some (JobErr BadId)
         else if Revision j < 1 then Some (JobErr BadRevision)
         else if TrimSpace (Prompt j) = [] then Some (JobErr PromptRequired)
         else if TimeoutMinutes j < 1 \<or> 24 * 60 < TimeoutMinutes j then Some (JobErr BadTimeout)
         else if Overlap j \<noteq> ''forbid'' \<and> Overlap j \<noteq> ''queue_one'' \<and> Overlap j \<noteq> ''allow''
         then Some (JobErr BadOverlap)
         else if MaxRunsPerDay (Limits j) < 1 then Some (JobErr BadMaxRuns)
         else if IsNaN reserve \<or> IsInf reserve \<or> fless reserve (Fin (1 / 4)) \<or> fless (Fin 64) reserve
         then Some (JobErr BadDiskReserve)
         else (case attention_check (Attention j) of
           Some err \<Rightarrow> Some err
         | None \<Rightarrow> (case schedule_validate h (Schedule j) of
           Some err \<Rightarrow> Some err
         | None \<Rightarrow> (case execution_validate (Execution j) of
           Some err \<Rightarrow> Some err
         | None \<Rightarrow>
             if RunIfChanged j \<and> Kind (Schedule j) = ScheduleEvent then Some (JobErr EventRunIfChanged)
             else if RunIfChanged j \<and> BaseRef (Execution j) = [] then Some (JobErr RunIfChangedBaseRef)
             else (case verifier_check (Verifier j) of
               Some err \<Rightarrow> Some err
             | None \<Rightarrow> acceptance_check (Verifier j) (Acceptance j))))))"

section \<open>Load\<close>

text \<open>
  What the file system reports: \<open>fstat\<close> of the descriptor that \<open>O_NOFOLLOW\<close> admitted, and
  \<open>lstat\<close> of the path just before parsing. \<open>perm\<close> is the nine permission bits.
\<close>

record file_stat =
  is_regular :: bool
  is_symlink :: bool
  perm :: nat
  special_bits :: bool
  uid :: int
  dev :: int
  inode :: int

datatype open_result = OpenError | OpenLoop | Opened "file_stat option"

record config_file =
  opened :: open_result
  current :: "file_stat option"
  decoded :: "config option"
  euid :: int

definition SameFile :: "file_stat \<Rightarrow> file_stat \<Rightarrow> bool" where
  "SameFile a b \<longleftrightarrow> dev a = dev b \<and> inode a = inode b"

text \<open>The checks on the file before a byte of it is parsed.\<close>

definition admit_file :: "config_file \<Rightarrow> load_err option" where
  "admit_file f =
     (case opened f of
        OpenLoop \<Rightarrow> Some ConfigSymlink
      | OpenError \<Rightarrow> Some OpenFailed
      | Opened None \<Rightarrow> Some StatFailed
      | Opened (Some st) \<Rightarrow>
          if \<not> is_regular st then Some NotRegular
          else if perm st \<noteq> ConfigRequiredMode \<or> special_bits st then Some (BadPermissions (perm st))
          else if uid st \<noteq> euid f then Some (WrongOwner (uid st))
          else (case current f of
                  None \<Rightarrow> Some RecheckFailed
                | Some cur \<Rightarrow>
                    if is_symlink cur then Some BecameSymlink
                    else if \<not> SameFile cur st then Some ConfigReplaced
                    else None))"

fun load_jobs :: "host \<Rightarrow> string list \<Rightarrow> job list \<Rightarrow> config_err + job list" where
  "load_jobs h seen [] = Inr []"
| "load_jobs h seen (j # js) =
     (let j' = job_defaults h j
      in case job_validate h j' of
           Some e \<Rightarrow> Inl e
         | None \<Rightarrow>
             if ID j' \<in> set seen then Inl (DuplicateJobId (ID j'))
             else (case load_jobs h (ID j' # seen) js of
                     Inl e \<Rightarrow> Inl e
                   | Inr js' \<Rightarrow> Inr (j' # js')))"

definition Load :: "host \<Rightarrow> config_file \<Rightarrow> config_err + config" where
  "Load h f =
     (case admit_file f of
        Some e \<Rightarrow> Inl (LoadErr e)
      | None \<Rightarrow>
          (case decoded f of
             None \<Rightarrow> Inl (LoadErr ParseFailed)
           | Some raw \<Rightarrow>
               (let v = (if Version raw = 0 then CurrentVersion else Version raw);
                    cap = capacity_defaults (Capacity raw)
                in if v \<noteq> CurrentVersion then Inl (BadVersion v)
                   else (case capacity_validate cap of
                           Some e \<Rightarrow> Inl e
                         | None \<Rightarrow>
                             (case load_jobs h [] (Jobs raw) of
                                Inl e \<Rightarrow> Inl e
                              | Inr js \<Rightarrow> Inr \<lparr> Version = v, Capacity = cap, Jobs = js \<rparr>)))))"

section \<open>The job snapshot\<close>

text \<open>
  Job definitions are stored as JSON and decoded again when a run ends. The decoders follow
  the \<open>json\<close> tags of the structs; the zero values are those of the Go types.
\<close>

definition zero_schedule :: schedule where
  "zero_schedule = \<lparr> Kind = [], Expression = [], At = [], Timezone = [], CatchUpGraceMinutes = None \<rparr>"

definition zero_input :: input_snapshot where
  "zero_input = \<lparr> Source = [], Destination = [] \<rparr>"

definition zero_execution :: execution where
  "zero_execution =
     \<lparr> Repository = [], Workspace = [], BaseRef = [], Harness = [], Provider = [], Model = [],
       Thinking = [], PermissionProfile = [], RequireModelAttestation = None, Inputs = [],
       AllowedWritePaths = [] \<rparr>"

definition zero_job :: job where
  "zero_job =
     \<lparr> ID = [], Revision = 0, Enabled = None, Schedule = zero_schedule, Execution = zero_execution,
       RunIfChanged = False, Prompt = [], TimeoutMinutes = 0, Overlap = [], Verifier = None,
       Acceptance = None, Limits = \<lparr> MaxRunsPerDay = 0, DiskReserveGiB = None \<rparr>, Attention = None \<rparr>"

definition dec_schedule :: "schedule decoder" where
  "dec_schedule = dec_struct
     [(''kind'', fld Kind (\<lambda>x s. s\<lparr>Kind := x\<rparr>) dec_string),
      (''expression'', fld Expression (\<lambda>x s. s\<lparr>Expression := x\<rparr>) dec_string),
      (''at'', fld At (\<lambda>x s. s\<lparr>At := x\<rparr>) dec_string),
      (''timezone'', fld Timezone (\<lambda>x s. s\<lparr>Timezone := x\<rparr>) dec_string),
      (''catch_up_grace_minutes'',
         fld CatchUpGraceMinutes (\<lambda>x s. s\<lparr>CatchUpGraceMinutes := x\<rparr>) (dec_ptr 0 dec_int))]"

definition dec_input :: "input_snapshot decoder" where
  "dec_input = dec_struct
     [(''source'', fld Source (\<lambda>x s. s\<lparr>Source := x\<rparr>) dec_string),
      (''destination'', fld Destination (\<lambda>x s. s\<lparr>Destination := x\<rparr>) dec_string)]"

definition dec_execution :: "execution decoder" where
  "dec_execution = dec_struct
     [(''repository'', fld Repository (\<lambda>x s. s\<lparr>Repository := x\<rparr>) dec_string),
      (''workspace'', fld Workspace (\<lambda>x s. s\<lparr>Workspace := x\<rparr>) dec_string),
      (''base_ref'', fld BaseRef (\<lambda>x s. s\<lparr>BaseRef := x\<rparr>) dec_string),
      (''harness'', fld Harness (\<lambda>x s. s\<lparr>Harness := x\<rparr>) dec_string),
      (''provider'', fld Provider (\<lambda>x s. s\<lparr>Provider := x\<rparr>) dec_string),
      (''model'', fld Model (\<lambda>x s. s\<lparr>Model := x\<rparr>) dec_string),
      (''thinking'', fld Thinking (\<lambda>x s. s\<lparr>Thinking := x\<rparr>) dec_string),
      (''permission_profile'', fld PermissionProfile (\<lambda>x s. s\<lparr>PermissionProfile := x\<rparr>) dec_string),
      (''require_model_attestation'',
         fld RequireModelAttestation (\<lambda>x s. s\<lparr>RequireModelAttestation := x\<rparr>) (dec_ptr False dec_bool)),
      (''inputs'', fld Inputs (\<lambda>x s. s\<lparr>Inputs := x\<rparr>) (dec_slice zero_input dec_input)),
      (''allowed_write_paths'',
         fld AllowedWritePaths (\<lambda>x s. s\<lparr>AllowedWritePaths := x\<rparr>) (dec_slice [] dec_string))]"

definition dec_verifier :: "verifier decoder" where
  "dec_verifier = dec_struct [(''command'', fld Command (\<lambda>x s. s\<lparr>Command := x\<rparr>) (dec_slice [] dec_string))]"

definition dec_acceptance :: "acceptance decoder" where
  "dec_acceptance = dec_struct
     [(''mode'', fld Mode (\<lambda>x s. s\<lparr>Mode := x\<rparr>) dec_string),
      (''sample_percent'', fld SamplePercent (\<lambda>x s. s\<lparr>SamplePercent := x\<rparr>) dec_int)]"

definition dec_limits :: "limits decoder" where
  "dec_limits = dec_struct
     [(''max_runs_per_day'', fld MaxRunsPerDay (\<lambda>x s. s\<lparr>MaxRunsPerDay := x\<rparr>) dec_int),
      (''disk_reserve_gib'', fld DiskReserveGiB (\<lambda>x s. s\<lparr>DiskReserveGiB := x\<rparr>) (dec_ptr (Fin 0) dec_float))]"

definition dec_attention :: "attention decoder" where
  "dec_attention = dec_struct
     [(''max_unread_terminal_runs'', fld MaxUnread (\<lambda>x s. s\<lparr>MaxUnread := x\<rparr>) (dec_ptr 0 dec_int))]"

definition dec_job :: "job decoder" where
  "dec_job = dec_struct
     [(''id'', fld ID (\<lambda>x s. s\<lparr>ID := x\<rparr>) dec_string),
      (''revision'', fld Revision (\<lambda>x s. s\<lparr>Revision := x\<rparr>) dec_int),
      (''enabled'', fld Enabled (\<lambda>x s. s\<lparr>Enabled := x\<rparr>) (dec_ptr False dec_bool)),
      (''schedule'', fld Schedule (\<lambda>x s. s\<lparr>Schedule := x\<rparr>) dec_schedule),
      (''execution'', fld Execution (\<lambda>x s. s\<lparr>Execution := x\<rparr>) dec_execution),
      (''run_if_changed'', fld RunIfChanged (\<lambda>x s. s\<lparr>RunIfChanged := x\<rparr>) dec_bool),
      (''prompt'', fld Prompt (\<lambda>x s. s\<lparr>Prompt := x\<rparr>) dec_string),
      (''timeout_minutes'', fld TimeoutMinutes (\<lambda>x s. s\<lparr>TimeoutMinutes := x\<rparr>) dec_int),
      (''overlap'', fld Overlap (\<lambda>x s. s\<lparr>Overlap := x\<rparr>) dec_string),
      (''verifier'', fld Verifier (\<lambda>x s. s\<lparr>Verifier := x\<rparr>)
         (dec_ptr \<lparr> Command = [] \<rparr> dec_verifier)),
      (''acceptance'', fld Acceptance (\<lambda>x s. s\<lparr>Acceptance := x\<rparr>)
         (dec_ptr \<lparr> Mode = [], SamplePercent = 0 \<rparr> dec_acceptance)),
      (''limits'', fld Limits (\<lambda>x s. s\<lparr>Limits := x\<rparr>) dec_limits),
      (''attention'', fld Attention (\<lambda>x s. s\<lparr>Attention := x\<rparr>)
         (dec_ptr \<lparr> MaxUnread = None \<rparr> dec_attention))]"

definition decode_job :: "string \<Rightarrow> job option" where
  "decode_job text = Unmarshal dec_job text zero_job"

section \<open>Lemmas\<close>

lemma config_strings_distinct [simp]:
  "AcceptanceMandatory \<noteq> AcceptanceAuto" "AcceptanceAuto \<noteq> AcceptanceMandatory"
  "AcceptanceMandatory \<noteq> AcceptanceSample" "AcceptanceSample \<noteq> AcceptanceMandatory"
  "AcceptanceAuto \<noteq> AcceptanceSample" "AcceptanceSample \<noteq> AcceptanceAuto"
  "HarnessClaudeCode \<noteq> HarnessPi" "HarnessPi \<noteq> HarnessClaudeCode"
  "ScheduleCron \<noteq> ScheduleOnce" "ScheduleOnce \<noteq> ScheduleCron"
  "ScheduleCron \<noteq> ScheduleEvent" "ScheduleEvent \<noteq> ScheduleCron"
  "ScheduleOnce \<noteq> ScheduleEvent" "ScheduleEvent \<noteq> ScheduleOnce"
  "PermissionReadOnly \<noteq> PermissionRepoWrite" "PermissionRepoWrite \<noteq> PermissionReadOnly"
  by (simp_all add: config_strings)

lemma Classify_required_iff:
  "ClassifyTerminalRun j r s v = (lane, reason, required) \<Longrightarrow> required \<longleftrightarrow> lane \<noteq> AcceptanceAuto"
  by (auto simp: ClassifyTerminalRun_def Let_def split: if_splits option.splits)

lemma Classify_auto:
  assumes "ClassifyTerminalRun j r s v = (AcceptanceAuto, reason, required)"
  shows "s = ''succeeded'' \<and> normalizeVerdict v = ''passed'' \<and> hasDeterministicVerifier j
         \<and> AcceptanceMode j \<noteq> AcceptanceMandatory"
  using assms by (auto simp: ClassifyTerminalRun_def Let_def split: if_splits option.splits)

lemma Classify_lane:
  "ClassifyTerminalRun j r s v = (lane, reason, required) \<Longrightarrow>
     lane \<in> {AcceptanceMandatory, AcceptanceAuto, AcceptanceSample}"
  by (auto simp: ClassifyTerminalRun_def Let_def split: if_splits option.splits)

lemma Classify_reason_nonempty:
  "ClassifyTerminalRun j r s v = (lane, reason, required) \<Longrightarrow> reason \<noteq> []"
  by (auto simp: ClassifyTerminalRun_def Let_def split: if_splits option.splits)

lemma sampled_mono: "acceptanceSampled r p \<Longrightarrow> p \<le> q \<Longrightarrow> acceptanceSampled r q"
  by (auto simp: acceptanceSampled_def split: if_splits)

lemma default_to_idem [simp]: "default_to d (default_to d x) = default_to d x"
  by (simp add: default_to_def split: option.split)

lemma default_to_neq_None [simp]: "default_to d x \<noteq> None"
  by (simp add: default_to_def split: option.split)

lemma Clean_rooted: "IsAbs p \<Longrightarrow> IsAbs (Clean p)"
  by (simp add: Clean_def IsAbs_def HasPrefix_def)

lemma PathJoin_abs: "IsAbs a \<Longrightarrow> IsAbs (PathJoin a b)"
  by (auto simp: PathJoin_def IsAbs_def HasPrefix_def intro!: Clean_rooted[unfolded IsAbs_def HasPrefix_def])

lemma expandHome_idem:
  assumes "IsAbs (home_dir h)"
  shows "expandHome h (expandHome h p) = expandHome h p"
proof -
  have "\<not> HasPrefix q ''~/''" if "IsAbs q" for q
    using that by (auto simp: IsAbs_def HasPrefix_def prefix_def)
  then show ?thesis
    using PathJoin_abs [OF assms] by (auto simp: expandHome_def)
qed

lemma load_jobs_Inr:
  "load_jobs h seen js = Inr js' \<Longrightarrow>
     js' = map (job_defaults h) js \<and> (\<forall>j\<in>set js'. job_validate h j = None)
     \<and> distinct (map ID js') \<and> set (map ID js') \<inter> set seen = {}"
  by (induction h seen js arbitrary: js' rule: load_jobs.induct)
     (auto simp: Let_def split: if_splits option.splits sum.splits; fastforce)+

lemma validate_inputs_from_sound:
  "validate_inputs_from i ss ds inputs = None \<Longrightarrow>
     (\<forall>x\<in>set inputs. (\<exists>k. source_check k (Source x) = None) \<and> (\<exists>k. destination_check k (Destination x) = None))
     \<and> distinct (map Source inputs) \<and> distinct (map Destination inputs)
     \<and> set (map Source inputs) \<inter> set ss = {} \<and> set (map Destination inputs) \<inter> set ds = {}"
  by (induction i ss ds inputs rule: validate_inputs_from.induct)
     (auto split: if_splits option.splits)

lemma validate_write_paths_from_sound:
  "validate_write_paths_from i entries = None \<Longrightarrow> p \<in> set entries \<Longrightarrow> \<exists>k. write_path_check k p = None"
  by (induction i entries rule: validate_write_paths_from.induct) (auto split: option.splits)

lemma job_validate_parts:
  assumes "job_validate h j = None"
  shows "validID (ID j)" and "1 \<le> Revision j" and "schedule_validate h (Schedule j) = None"
    and "execution_validate (Execution j) = None" and "verifier_check (Verifier j) = None"
    and "acceptance_check (Verifier j) (Acceptance j) = None" and "attention_check (Attention j) = None"
    and "1 \<le> MaxRunsPerDay (Limits j)" and "Overlap j \<in> {''forbid'', ''queue_one'', ''allow''}"
    and "1 \<le> TimeoutMinutes j \<and> TimeoutMinutes j \<le> 1440"
  using assms by (auto simp: job_validate_def Let_def split: if_splits option.splits)

lemma execution_validate_parts:
  assumes "execution_validate e = None"
  shows "validateInputs e = None" and "validateAllowedWritePaths e = None"
    and "IsAbs (Repository e)" and "Workspace e = WorkspaceWorktree"
    and "PermissionProfile e = PermissionReadOnly \<or> PermissionProfile e = PermissionRepoWrite"
  using assms by (auto simp: execution_validate_def split: if_splits option.splits)

end
