(* ===== verification/Schedule.thy ===== *)
theory Schedule
  imports Config
begin

text \<open>
  Package \<open>internal/schedule\<close>: the occurrences of a job that fell due in the half-open
  interval after its last evaluation. The loop over the cron schedule's \<open>Next\<close> has no bound
  of its own, so it is a partial function whose value \<open>None\<close> means that it does not return.
\<close>

definition NormalPollTolerance :: duration where
  "NormalPollTolerance = 60 * second_ns"

record occurrence =
  Key :: string
  ScheduledFor :: time
  Trigger :: string
  Outcome :: string
  Detail :: string

datatype sched_err =
    UnknownTimezone | CronParseError | TooManyDue | AtParseError | UnsupportedKind string

definition wall_key :: "location \<Rightarrow> time \<Rightarrow> string" where
  "wall_key loc t = fmt_wall_minute (wall_clock loc t)"

definition occurrenceKey :: "string \<Rightarrow> time \<Rightarrow> location \<Rightarrow> string" where
  "occurrenceKey kind moment loc = kind @ '':'' @ wall_key loc moment"

text \<open>
  The body of the \<open>for\<close> loop: \<open>moments\<close> is the slice in reverse, \<open>seen\<close> the wall-clock
  minutes already used and \<open>n\<close> the loop variable.
\<close>

partial_function (option) cron_moments ::
  "(time \<Rightarrow> time) \<Rightarrow> location \<Rightarrow> time \<Rightarrow> time list \<Rightarrow> string list \<Rightarrow> time \<Rightarrow> (sched_err + time list) option"
where
  "cron_moments nxt loc now moments seen n =
     (if now < n then Some (Inr (rev moments))
      else let fresh = wall_key loc n \<notin> set seen;
               moments' = (if fresh then n # moments else moments);
               seen' = (if fresh then wall_key loc n # seen else seen)
           in if 1000 \<le> length moments' then Some (Inl TooManyDue)
              else cron_moments nxt loc now moments' seen' (nxt n))"

text \<open>The classification of one moment by its lateness.\<close>

definition occurrence_of :: "job \<Rightarrow> location \<Rightarrow> time \<Rightarrow> time \<Rightarrow> occurrence" where
  "occurrence_of j loc now moment =
     (let late = Sub now moment;
          occ = \<lparr> Key = occurrenceKey (Kind (Schedule j)) moment loc, ScheduledFor = moment,
                  Trigger = (if Kind (Schedule j) = ScheduleOnce then ''once'' else ''cron''),
                  Outcome = ''due'', Detail = [] \<rparr>
      in if late \<le> NormalPollTolerance then occ
         else if late \<le> CatchUpGrace j
         then occ\<lparr> Trigger := ''catchup'',
                   Detail := ''started '' @ DurationString (RoundSecond late) @ '' late'' \<rparr>
         else occ\<lparr> Outcome := ''missed'',
                   Detail := ''due '' @ DurationString (RoundSecond late) @ '' ago, beyond ''
                             @ DurationString (CatchUpGrace j) @ '' catch-up grace'' \<rparr>)"

definition Between :: "host \<Rightarrow> job \<Rightarrow> time \<Rightarrow> time \<Rightarrow> (sched_err + occurrence list) option" where
  "Between h j after now =
     (case LoadLocation h (Timezone (Schedule j)) of
        None \<Rightarrow> Some (Inl UnknownTimezone)
      | Some loc \<Rightarrow>
          if Kind (Schedule j) = ScheduleCron then
            (case cron_parse h (Expression (Schedule j)) of
               None \<Rightarrow> Some (Inl CronParseError)
             | Some next_in \<Rightarrow>
                 map_option (map_sum id (map (occurrence_of j loc now)))
                   (cron_moments (next_in loc) loc now [] [] (next_in loc after)))
          else if Kind (Schedule j) = ScheduleOnce then
            (case ParseRFC3339 (At (Schedule j)) of
               None \<Rightarrow> Some (Inl AtParseError)
             | Some due_at \<Rightarrow>
                 Some (Inr (map (occurrence_of j loc now)
                              (if after < due_at \<and> due_at \<le> now then [due_at] else []))))
          else if Kind (Schedule j) = ScheduleEvent then Some (Inr [])
          else Some (Inl (UnsupportedKind (Kind (Schedule j)))))"

section \<open>Lemmas on the loop\<close>

text \<open>The firing times of the schedule up to \<open>now\<close>, the \<open>n\<close>-th first.\<close>

definition fire :: "(time \<Rightarrow> time) \<Rightarrow> time \<Rightarrow> nat \<Rightarrow> time" where
  "fire nxt n k = (nxt ^^ k) n"

lemma fire_Suc: "fire nxt (nxt n) k = fire nxt n (Suc k)"
  by (simp add: fire_def funpow_swap1)

lemma cron_moments_returns:
  assumes "\<And>t. lo \<le> t \<Longrightarrow> t \<le> now \<Longrightarrow> t < nxt t" and "lo \<le> n"
  shows "\<exists>y. cron_moments nxt loc now ms seen n = Some y"
  using assms(2)
proof (induction "nat (now + 1 - n)" arbitrary: ms seen n rule: less_induct)
  case less
  show ?case
  proof (cases "now < n")
    case True
    then show ?thesis by (subst cron_moments.simps) simp
  next
    case False
    with assms(1) [of n] less(2) have next_n: "nat (now + 1 - nxt n) < nat (now + 1 - n)" "lo \<le> nxt n" by linarith+
    from less(1) [OF this] have "\<exists>y. cron_moments nxt loc now ms' seen' (nxt n) = Some y" for ms' seen' .
    then show ?thesis by (subst cron_moments.simps) (auto simp: Let_def)
  qed
qed

definition moments_ok :: "location \<Rightarrow> time list \<Rightarrow> string list \<Rightarrow> bool" where
  "moments_ok loc ms seen \<longleftrightarrow>
     set seen = wall_key loc ` set ms \<and> distinct (map (wall_key loc) ms) \<and> length ms < 1000"

text \<open>One round keeps the bookkeeping and covers the wall-clock minute of \<open>n\<close>.\<close>

lemma moments_ok_step:
  assumes "moments_ok loc ms seen"
    and "ms' = (if wall_key loc n \<notin> set seen then n # ms else ms)"
    and "seen' = (if wall_key loc n \<notin> set seen then wall_key loc n # seen else seen)"
    and "length ms' < 1000"
  shows "moments_ok loc ms' seen'" and "set ms \<subseteq> set ms'" and "wall_key loc n \<in> wall_key loc ` set ms'"
    and "set ms' \<subseteq> insert n (set ms)"
  using assms by (auto simp: moments_ok_def split: if_splits)

definition moments_post :: "(time \<Rightarrow> time) \<Rightarrow> location \<Rightarrow> time \<Rightarrow> time list \<Rightarrow> time \<Rightarrow> time list \<Rightarrow> bool" where
  "moments_post nxt loc now ms n out \<longleftrightarrow>
     distinct (map (wall_key loc) out) \<and> length out < 1000 \<and> set ms \<subseteq> set out
     \<and> (\<forall>m\<in>set out. m \<in> set ms \<or> (\<exists>k. m = fire nxt n k \<and> (\<forall>i\<le>k. fire nxt n i \<le> now)))
     \<and> (\<forall>k. (\<forall>i\<le>k. fire nxt n i \<le> now) \<longrightarrow> wall_key loc (fire nxt n k) \<in> wall_key loc ` set out)"

lemma moments_post_step:
  assumes ok: "moments_ok loc ms seen" and n: "n \<le> now"
    and ms': "ms' = (if wall_key loc n \<notin> set seen then n # ms else ms)"
    and seen': "seen' = (if wall_key loc n \<notin> set seen then wall_key loc n # seen else seen)"
    and len: "length ms' < 1000"
    and post: "moments_post nxt loc now ms' (nxt n) out"
  shows "moments_post nxt loc now ms n out"
proof -
  note step = moments_ok_step [OF ok ms' seen' len]
  have sub: "set ms' \<subseteq> set out" and fires: "\<forall>m\<in>set out. m \<in> set ms' \<or> (\<exists>k. m = fire nxt (nxt n) k \<and> (\<forall>i\<le>k. fire nxt (nxt n) i \<le> now))"
    and cover: "\<forall>k. (\<forall>i\<le>k. fire nxt (nxt n) i \<le> now) \<longrightarrow> wall_key loc (fire nxt (nxt n) k) \<in> wall_key loc ` set out"
    using post by (simp_all add: moments_post_def)
  have zero: "fire nxt n 0 = n" by (simp add: fire_def)
  have upto: "\<forall>i\<le>Suc k. fire nxt n i \<le> now" if "\<forall>i\<le>k. fire nxt (nxt n) i \<le> now" for k
  proof (intro allI impI)
    fix i assume "i \<le> Suc k"
    then show "fire nxt n i \<le> now" using that n zero by (cases i) (simp_all add: fire_Suc)
  qed
  have "m \<in> set ms \<or> (\<exists>k. m = fire nxt n k \<and> (\<forall>i\<le>k. fire nxt n i \<le> now))" if "m \<in> set out" for m
  proof -
    from that fires consider "m \<in> set ms'" | k where "\<forall>i\<le>k. fire nxt (nxt n) i \<le> now" "m = fire nxt (nxt n) k"
      by blast
    then show ?thesis
    proof cases
      case 1
      with step(4) have "m = n \<or> m \<in> set ms" by blast
      with n zero show ?thesis by (auto intro: exI [of _ 0])
    next
      case 2
      with upto [OF 2(1)] show ?thesis by (intro disjI2 exI [of _ "Suc k"]) (simp add: fire_Suc)
    qed
  qed
  moreover have "wall_key loc (fire nxt n k) \<in> wall_key loc ` set out"
    if le: "\<forall>i\<le>k. fire nxt n i \<le> now" for k
  proof (cases k)
    case 0
    with zero step(3) sub show ?thesis by auto
  next
    case (Suc k')
    with le have "\<forall>i\<le>k'. fire nxt (nxt n) i \<le> now" by (simp add: fire_Suc)
    with cover Suc show ?thesis by (simp add: fire_Suc)
  qed
  ultimately show ?thesis
    using post step(2) sub by (auto simp: moments_post_def)
qed

lemma cron_moments_sound:
  assumes "cron_moments nxt loc now ms seen n = Some r" and "r = Inr out" and "moments_ok loc ms seen"
  shows "moments_post nxt loc now ms n out"
  using assms
proof (induction nxt loc now ms seen n r rule: cron_moments.raw_induct [rotated, consumes 1])
  case (1 cm nxt loc now ms seen n r)
  show ?case
  proof (cases "now < n")
    case True
    with 1 have "out = rev ms" by simp
    moreover have "fire nxt n 0 = n" by (simp add: fire_def)
    ultimately show ?thesis
      using 1(4) True by (fastforce simp: moments_post_def moments_ok_def rev_map [symmetric])
  next
    case False
    define ms' where "ms' = (if wall_key loc n \<notin> set seen then n # ms else ms)"
    define seen' where "seen' = (if wall_key loc n \<notin> set seen then wall_key loc n # seen else seen)"
    from 1(2,3) False have len: "length ms' < 1000" and rec: "cm nxt loc now ms' seen' (nxt n) = Some r"
      by (auto simp: ms'_def seen'_def Let_def split: if_splits)
    have "moments_ok loc ms' seen'"
      using moments_ok_step(1) [OF 1(4) ms'_def seen'_def len] .
    with 1(1) [OF rec 1(3)] have "moments_post nxt loc now ms' (nxt n) out" by blast
    with False show ?thesis
      by (intro moments_post_step [OF 1(4) _ ms'_def seen'_def len]) auto
  qed
qed

text \<open>A \<open>Next\<close> that stays where it is below \<open>now\<close> never ends the loop.\<close>

lemma cron_moments_stuck:
  assumes "cron_moments nxt loc now ms seen n = Some r"
    and "nxt n = n" and "n \<le> now" and "wall_key loc n \<in> set seen" and "length ms < 1000"
  shows False
  using assms
proof (induction nxt loc now ms seen n r rule: cron_moments.raw_induct [rotated, consumes 1])
  case (1 cm nxt loc now ms seen n r)
  from 1(2-6) have "cm nxt loc now ms seen n = Some r"
    by (simp add: Let_def)
  from 1(1) [OF this] 1(3-6) show ?case by simp
qed

lemma cron_moments_fixpoint:
  assumes "nxt n = n" and "n \<le> now"
  shows "cron_moments nxt loc now [] [] n = None"
proof (rule ccontr)
  assume "cron_moments nxt loc now [] [] n \<noteq> None"
  then obtain r where "cron_moments nxt loc now [] [] n = Some r" by blast
  with assms have "cron_moments nxt loc now [n] [wall_key loc n] n = Some r"
    by (subst (asm) cron_moments.simps) simp
  then show False using assms by (rule cron_moments_stuck) simp_all
qed

lemma occurrence_of_simps [simp]:
  "Key (occurrence_of j loc now m) = occurrenceKey (Kind (Schedule j)) m loc"
  "ScheduledFor (occurrence_of j loc now m) = m"
  by (simp_all add: occurrence_of_def Let_def)

lemma occurrenceKey_inj: "occurrenceKey k a loc = occurrenceKey k b loc \<longleftrightarrow> wall_key loc a = wall_key loc b"
  by (simp add: occurrenceKey_def)

lemma Between_cron:
  assumes "Kind (Schedule j) = ScheduleCron"
    and "LoadLocation h (Timezone (Schedule j)) = Some loc"
    and "cron_parse h (Expression (Schedule j)) = Some next_in"
  shows "Between h j after now =
     map_option (map_sum id (map (occurrence_of j loc now)))
       (cron_moments (next_in loc) loc now [] [] (next_in loc after))"
  using assms by (simp add: Between_def)

lemma map_sum_Inr: "map_sum id f s = Inr y \<longleftrightarrow> (\<exists>x. s = Inr x \<and> y = f x)"
  by (cases s) auto

lemma moments_ok_Nil [simp]: "moments_ok loc [] []"
  by (simp add: moments_ok_def)

text \<open>The grace period is the configured one exactly while it fits 64 bits.\<close>

lemma CatchUpGrace_exact:
  "CatchUpGraceMinutes (Schedule j) = Some m \<Longrightarrow> 0 \<le> m \<Longrightarrow> m \<le> 153722867 \<Longrightarrow> CatchUpGrace j = m * minute_ns"
  by (simp add: CatchUpGrace_def in_int64_def minute_ns_def)

lemma CatchUpGrace_negative:
  assumes "CatchUpGraceMinutes (Schedule j) = Some m" and "153722868 \<le> m" and "m \<le> 307445734"
  shows "CatchUpGrace j < 0"
proof -
  have "(m * minute_ns + 2 ^ 63) mod 2 ^ 64 = (m * minute_ns + 2 ^ 63 - 2 ^ 64) mod 2 ^ 64"
    by (rule minus_mod_self2 [symmetric])
  also have "\<dots> = m * minute_ns + 2 ^ 63 - 2 ^ 64"
    using assms(2,3) by (intro mod_pos_pos_trivial) (simp_all add: minute_ns_def)
  finally have "(m * minute_ns + 2 ^ 63) mod 2 ^ 64 = m * minute_ns + 2 ^ 63 - 2 ^ 64" .
  then show ?thesis using assms by (simp add: CatchUpGrace_def int64_def minute_ns_def)
qed

section \<open>Properties\<close>

text \<open>C25: When \<open>Between\<close> returns for a cron job, every occurrence it reports is a firing
  time of the schedule after \<open>after\<close> and no later than \<open>now\<close>, its keys are pairwise distinct
  (a wall-clock minute repeated by a DST change is one occurrence) and there are fewer than a
  thousand; and no firing time is lost: each has its key among the reported ones.\<close>

theorem Between_cron_exact:
  assumes "Kind (Schedule j) = ScheduleCron"
    and "LoadLocation h (Timezone (Schedule j)) = Some loc"
    and "cron_parse h (Expression (Schedule j)) = Some next_in"
    and "Between h j after now = Some (Inr out)"
  shows "distinct (map Key out) \<and> length out < 1000
    \<and> (\<forall>occ\<in>set out. ScheduledFor occ \<le> now \<and> (\<exists>k. ScheduledFor occ = fire (next_in loc) (next_in loc after) k)
                       \<and> occ = occurrence_of j loc now (ScheduledFor occ))
    \<and> (\<forall>k. (\<forall>i\<le>k. fire (next_in loc) (next_in loc after) i \<le> now) \<longrightarrow>
           occurrenceKey ScheduleCron (fire (next_in loc) (next_in loc after) k) loc \<in> Key ` set out)"
proof -
  from assms obtain ms where ms: "cron_moments (next_in loc) loc now [] [] (next_in loc after) = Some (Inr ms)"
    and out: "out = map (occurrence_of j loc now) ms"
    by (auto simp: Between_cron map_sum_Inr)
  from cron_moments_sound [OF ms refl] have post: "moments_post (next_in loc) loc now [] (next_in loc after) ms"
    by simp
  then have "distinct (map Key out)"
    by (auto simp: moments_post_def out distinct_map inj_on_def occurrenceKey_inj)
  moreover have "occurrenceKey ScheduleCron m loc \<in> Key ` set out"
    if "wall_key loc m \<in> wall_key loc ` set ms" for m
  proof -
    from that obtain m' where "m' \<in> set ms" "wall_key loc m = wall_key loc m'" by blast
    then have "occurrence_of j loc now m' \<in> set out"
      "Key (occurrence_of j loc now m') = occurrenceKey ScheduleCron m loc"
      using assms(1) by (auto simp: out occurrenceKey_inj)
    then show ?thesis by force
  qed
  moreover have "ScheduledFor occ \<le> now \<and> (\<exists>k. ScheduledFor occ = fire (next_in loc) (next_in loc after) k)
      \<and> occ = occurrence_of j loc now (ScheduledFor occ)" if "occ \<in> set out" for occ
    using that post by (auto simp: moments_post_def out)
  ultimately show ?thesis using post by (auto simp: moments_post_def out)
qed

definition demo_next :: "location \<Rightarrow> time \<Rightarrow> time" where
  "demo_next loc t = (t div minute_ns + 1) * minute_ns"

lemma demo_next_values:
  "demo_next loc 0 = 60000000000" "demo_next loc 60000000000 = 120000000000"
  "demo_next loc 120000000000 = 180000000000"
  by (simp_all add: demo_next_def minute_ns_def)

definition demo_host :: host where
  "demo_host = \<lparr> home_dir = ''/home/u'', LoadLocation = (\<lambda>_. Some utc),
                 cron_parse = (\<lambda>e. if e = ''never'' then Some (\<lambda>_ _. zero_time)
                                   else Some demo_next) \<rparr>"

definition demo_cron :: "string \<Rightarrow> int \<Rightarrow> job" where
  "demo_cron e grace = zero_job\<lparr> ID := ''nightly'', Revision := 1,
     Schedule := \<lparr> Kind = ScheduleCron, Expression = e, At = [], Timezone = ''UTC'',
                   CatchUpGraceMinutes = Some grace \<rparr> \<rparr>"

lemma demo_fires:
  "cron_moments (demo_next utc) utc (150 * second_ns) [] [] 60000000000
     = Some (Inr [60000000000, 120000000000])"
proof -
  have "wall_key utc 120000000000 \<noteq> wall_key utc 60000000000" by code_simp
  then show ?thesis
    by (subst cron_moments.simps, subst cron_moments.simps, subst cron_moments.simps)
       (simp add: second_ns_def demo_next_values)
qed

theorem Between_cron_exact_witness:
  "distinct (map Key (map (occurrence_of (demo_cron ''* * * * *'' 5) utc (150 * second_ns)) [60000000000, 120000000000]))"
proof -
  have "Between demo_host (demo_cron ''* * * * *'' 5) 0 (150 * second_ns)
          = Some (Inr (map (occurrence_of (demo_cron ''* * * * *'' 5) utc (150 * second_ns))
                         [60000000000, 120000000000]))"
    using demo_fires
    by (subst Between_cron [where loc = utc and next_in = demo_next])
       (simp_all add: demo_cron_def demo_host_def demo_next_values)
  then show ?thesis
    by (rule Between_cron_exact [THEN conjunct1, rotated 3])
       (simp_all add: demo_cron_def demo_host_def)
qed

text \<open>C26: \<open>Between\<close> always returns for a job whose own schedule moves strictly forward over the
  interval it asks about: \<open>Next\<close> of the job's expression, in the job's time zone, gives a later time
  for every instant from \<open>after\<close> to \<open>now\<close>. Nothing is asked of other expressions or of instants
  outside the interval, and nothing of jobs that are not cron jobs. Every occurrence it then reports
  lies strictly after \<open>after\<close> and no later than \<open>now\<close>.\<close>

theorem Between_returns:
  assumes "\<And>loc next_in t. Kind (Schedule j) = ScheduleCron \<Longrightarrow> LoadLocation h (Timezone (Schedule j)) = Some loc \<Longrightarrow>
      cron_parse h (Expression (Schedule j)) = Some next_in \<Longrightarrow> after \<le> t \<Longrightarrow> t \<le> max after now \<Longrightarrow> t < next_in loc t"
  shows "\<exists>r. Between h j after now = Some r \<and>
    (\<forall>out. r = Inr out \<longrightarrow> (\<forall>occ\<in>set out. after < ScheduledFor occ \<and> ScheduledFor occ \<le> now))"
proof (cases "Kind (Schedule j) = ScheduleCron")
  case False
  then show ?thesis by (auto simp: Between_def split: option.splits)
next
  case True
  show ?thesis
  proof (cases "LoadLocation h (Timezone (Schedule j)) = None \<or> cron_parse h (Expression (Schedule j)) = None")
    case True
    with \<open>Kind (Schedule j) = ScheduleCron\<close> show ?thesis
      by (auto simp: Between_def split: option.splits)
  next
    case False
    then obtain loc next_in where ln: "LoadLocation h (Timezone (Schedule j)) = Some loc"
      "cron_parse h (Expression (Schedule j)) = Some next_in" by auto
    from assms [OF True ln] have adv: "t < next_in loc t" if "after \<le> t" "t \<le> max after now" for t
      using that by blast
    have first: "after < next_in loc after" by (rule adv) simp_all
    have later: "after < fire (next_in loc) (next_in loc after) k"
      if "\<forall>i\<le>k. fire (next_in loc) (next_in loc after) i \<le> now" for k
      using that
    proof (induction k)
      case 0
      then show ?case using first by (simp add: fire_def)
    next
      case (Suc k)
      then have "after < fire (next_in loc) (next_in loc after) k" "fire (next_in loc) (next_in loc after) k \<le> now"
        by simp_all
      with adv [of "fire (next_in loc) (next_in loc after) k"] show ?case by (simp add: fire_def)
    qed
    have "\<exists>y. cron_moments (next_in loc) loc now [] [] (next_in loc after) = Some y"
      by (rule cron_moments_returns [OF _ less_imp_le [OF first]]) (use adv in auto)
    then obtain r where r: "cron_moments (next_in loc) loc now [] [] (next_in loc after) = Some r" by blast
    show ?thesis
    proof (cases r)
      case (Inl e)
      with r show ?thesis by (simp add: Between_cron [OF True ln])
    next
      case (Inr ms)
      with cron_moments_sound [OF r] have post: "moments_post (next_in loc) loc now [] (next_in loc after) ms"
        by simp
      have "after < m \<and> m \<le> now" if "m \<in> set ms" for m
        using post that later by (auto simp: moments_post_def)
      with r Inr show ?thesis by (simp add: Between_cron [OF True ln])
    qed
  qed
qed

text \<open>Another expression this parser accepts never fires; the job's own does.\<close>

theorem Between_returns_witness:
  "\<exists>r. Between (demo_host\<lparr>cron_parse := \<lambda>e. Some (\<lambda>_ t. if e = ''never'' then zero_time else t + minute_ns)\<rparr>)
     (demo_cron ''* * * * *'' 5) 0 (90 * second_ns) = Some r"
  using Between_returns [of "demo_cron ''* * * * *'' 5"
    "demo_host\<lparr>cron_parse := \<lambda>e. Some (\<lambda>_ t. if e = ''never'' then zero_time else t + minute_ns)\<rparr>"]
  by (force simp: minute_ns_def demo_cron_def)

text \<open>When the cron package reports that a valid expression has no next time, by the zero
  time, the loop of \<open>Between\<close> does not return at all: the zero time is not after \<open>now\<close>, and it
  is its own successor.\<close>

theorem Between_diverges_without_next:
  assumes "Kind (Schedule j) = ScheduleCron"
    and "LoadLocation h (Timezone (Schedule j)) \<noteq> None"
    and "cron_parse h (Expression (Schedule j)) = Some (\<lambda>_ _. zero_time)"
    and "zero_time \<le> now"
  shows "Between h j after now = None"
  using assms(2) by (auto simp: Between_cron [OF assms(1) _ assms(3)] cron_moments_fixpoint assms(4))

theorem Between_diverges_without_next_witness:
  "schedule_validate demo_host (Schedule (demo_cron ''never'' 5)) = None
   \<and> Between demo_host (demo_cron ''never'' 5) 0 0 = None"
proof
  show "schedule_validate demo_host (Schedule (demo_cron ''never'' 5)) = None" by code_simp
  show "Between demo_host (demo_cron ''never'' 5) 0 0 = None"
    by (rule Between_diverges_without_next) (simp_all add: demo_cron_def demo_host_def zero_time_def)
qed

text \<open>C24: An occurrence is due while it is at most a minute late, caught up while it is at
  most the configured grace late, and missed beyond: as configured for every grace of up to
  153722867 minutes, but never caught up for the larger ones below 307445735, whose
  nanoseconds overflow into a negative duration although validation accepts them.\<close>

theorem occurrence_classified:
  assumes "CatchUpGraceMinutes (Schedule j) = Some m" and "0 \<le> m" and "m \<le> 307445734"
    and "now - moment < 2 ^ 63 - 1"
  shows "(Outcome (occurrence_of j loc now moment) = ''missed'' \<longleftrightarrow>
           minute_ns < now - moment \<and> (153722867 < m \<or> m * minute_ns < now - moment))
         \<and> (Trigger (occurrence_of j loc now moment) = ''catchup'' \<longleftrightarrow>
           minute_ns < now - moment \<and> m \<le> 153722867 \<and> now - moment \<le> m * minute_ns)"
proof -
  have tol: "Sub now moment \<le> NormalPollTolerance \<longleftrightarrow> now - moment \<le> minute_ns"
    unfolding NormalPollTolerance_def by (subst Sub_le_iff) (simp_all add: second_ns_def minute_ns_def)
  show ?thesis
  proof (cases "m \<le> 153722867")
    case True
    with assms have "CatchUpGrace j = m * minute_ns" by (simp add: CatchUpGrace_exact)
    moreover have "Sub now moment \<le> m * minute_ns \<longleftrightarrow> now - moment \<le> m * minute_ns"
      using True assms(2) by (intro Sub_le_iff) (simp_all add: minute_ns_def)
    ultimately show ?thesis using True tol by (auto simp: occurrence_of_def Let_def)
  next
    case False
    with assms have "CatchUpGrace j < 0" by (simp add: CatchUpGrace_negative)
    moreover have "NormalPollTolerance > 0" by (simp add: NormalPollTolerance_def second_ns_def)
    ultimately show ?thesis using False tol by (auto simp: occurrence_of_def Let_def)
  qed
qed

theorem occurrence_classified_witness:
  "Outcome (occurrence_of (demo_cron ''* * * * *'' 200000000) utc (61 * second_ns) 0) = ''missed''
   \<and> Trigger (occurrence_of (demo_cron ''* * * * *'' 2) utc (61 * second_ns) 0) = ''catchup''"
  using occurrence_classified [of "demo_cron ''* * * * *'' 200000000" 200000000 "61 * second_ns" 0 utc]
    occurrence_classified [of "demo_cron ''* * * * *'' 2" 2 "61 * second_ns" 0 utc]
  by (simp add: demo_cron_def second_ns_def minute_ns_def)

end
