(* ===== verification/StoreTypes.thy ===== *)
theory StoreTypes
  imports Schedule "HOL-Library.Product_Lexorder"
begin

text \<open>
  The tables of \<open>internal/store\<close> and the statements its operations are made of. A row of
  \<open>runs\<close> has the columns of \<open>runColumns\<close>; the same record is the Go struct \<open>Run\<close>, in which
  the two lease columns hold instants. Text columns that hold a time are instants here,
  because \<open>formatTime\<close> and \<open>parseTime\<close> are inverse on them. Operations map a database to an
  outcome and the committed database; a rolled-back transaction returns the database it began
  with. Faults of SQLite itself (I/O, busy, cancelled contexts) are not modelled.
\<close>

section \<open>States\<close>

definition StateAccepted :: string where "StateAccepted = ''accepted''"
definition StateProvisioning :: string where "StateProvisioning = ''provisioning''"
definition StateStarting :: string where "StateStarting = ''starting''"
definition StateRunning :: string where "StateRunning = ''running''"
definition StateSettled :: string where "StateSettled = ''settled''"
definition StateVerifying :: string where "StateVerifying = ''verifying''"
definition StateSucceeded :: string where "StateSucceeded = ''succeeded''"
definition StateFailed :: string where "StateFailed = ''failed''"
definition StateBlocked :: string where "StateBlocked = ''blocked''"
definition StateTimedOut :: string where "StateTimedOut = ''timed_out''"
definition StateCancelled :: string where "StateCancelled = ''cancelled''"
definition StateInterrupted :: string where "StateInterrupted = ''interrupted''"

lemmas state_defs =
  StateAccepted_def StateProvisioning_def StateStarting_def StateRunning_def StateSettled_def StateVerifying_def StateSucceeded_def StateFailed_def StateBlocked_def StateTimedOut_def StateCancelled_def StateInterrupted_def

lemma state_neq [simp]:
  "StateAccepted \<noteq> StateProvisioning" "StateAccepted \<noteq> StateStarting" "StateAccepted \<noteq> StateRunning" "StateAccepted \<noteq> StateSettled" "StateAccepted \<noteq> StateVerifying" "StateAccepted \<noteq> StateSucceeded" "StateAccepted \<noteq> StateFailed" "StateAccepted \<noteq> StateBlocked" "StateAccepted \<noteq> StateTimedOut" "StateAccepted \<noteq> StateCancelled" "StateAccepted \<noteq> StateInterrupted"
  "StateProvisioning \<noteq> StateAccepted" "StateProvisioning \<noteq> StateStarting" "StateProvisioning \<noteq> StateRunning" "StateProvisioning \<noteq> StateSettled" "StateProvisioning \<noteq> StateVerifying" "StateProvisioning \<noteq> StateSucceeded" "StateProvisioning \<noteq> StateFailed" "StateProvisioning \<noteq> StateBlocked" "StateProvisioning \<noteq> StateTimedOut" "StateProvisioning \<noteq> StateCancelled" "StateProvisioning \<noteq> StateInterrupted"
  "StateStarting \<noteq> StateAccepted" "StateStarting \<noteq> StateProvisioning" "StateStarting \<noteq> StateRunning" "StateStarting \<noteq> StateSettled" "StateStarting \<noteq> StateVerifying" "StateStarting \<noteq> StateSucceeded" "StateStarting \<noteq> StateFailed" "StateStarting \<noteq> StateBlocked" "StateStarting \<noteq> StateTimedOut" "StateStarting \<noteq> StateCancelled" "StateStarting \<noteq> StateInterrupted"
  "StateRunning \<noteq> StateAccepted" "StateRunning \<noteq> StateProvisioning" "StateRunning \<noteq> StateStarting" "StateRunning \<noteq> StateSettled" "StateRunning \<noteq> StateVerifying" "StateRunning \<noteq> StateSucceeded" "StateRunning \<noteq> StateFailed" "StateRunning \<noteq> StateBlocked" "StateRunning \<noteq> StateTimedOut" "StateRunning \<noteq> StateCancelled" "StateRunning \<noteq> StateInterrupted"
  "StateSettled \<noteq> StateAccepted" "StateSettled \<noteq> StateProvisioning" "StateSettled \<noteq> StateStarting" "StateSettled \<noteq> StateRunning" "StateSettled \<noteq> StateVerifying" "StateSettled \<noteq> StateSucceeded" "StateSettled \<noteq> StateFailed" "StateSettled \<noteq> StateBlocked" "StateSettled \<noteq> StateTimedOut" "StateSettled \<noteq> StateCancelled" "StateSettled \<noteq> StateInterrupted"
  "StateVerifying \<noteq> StateAccepted" "StateVerifying \<noteq> StateProvisioning" "StateVerifying \<noteq> StateStarting" "StateVerifying \<noteq> StateRunning" "StateVerifying \<noteq> StateSettled" "StateVerifying \<noteq> StateSucceeded" "StateVerifying \<noteq> StateFailed" "StateVerifying \<noteq> StateBlocked" "StateVerifying \<noteq> StateTimedOut" "StateVerifying \<noteq> StateCancelled" "StateVerifying \<noteq> StateInterrupted"
  "StateSucceeded \<noteq> StateAccepted" "StateSucceeded \<noteq> StateProvisioning" "StateSucceeded \<noteq> StateStarting" "StateSucceeded \<noteq> StateRunning" "StateSucceeded \<noteq> StateSettled" "StateSucceeded \<noteq> StateVerifying" "StateSucceeded \<noteq> StateFailed" "StateSucceeded \<noteq> StateBlocked" "StateSucceeded \<noteq> StateTimedOut" "StateSucceeded \<noteq> StateCancelled" "StateSucceeded \<noteq> StateInterrupted"
  "StateFailed \<noteq> StateAccepted" "StateFailed \<noteq> StateProvisioning" "StateFailed \<noteq> StateStarting" "StateFailed \<noteq> StateRunning" "StateFailed \<noteq> StateSettled" "StateFailed \<noteq> StateVerifying" "StateFailed \<noteq> StateSucceeded" "StateFailed \<noteq> StateBlocked" "StateFailed \<noteq> StateTimedOut" "StateFailed \<noteq> StateCancelled" "StateFailed \<noteq> StateInterrupted"
  "StateBlocked \<noteq> StateAccepted" "StateBlocked \<noteq> StateProvisioning" "StateBlocked \<noteq> StateStarting" "StateBlocked \<noteq> StateRunning" "StateBlocked \<noteq> StateSettled" "StateBlocked \<noteq> StateVerifying" "StateBlocked \<noteq> StateSucceeded" "StateBlocked \<noteq> StateFailed" "StateBlocked \<noteq> StateTimedOut" "StateBlocked \<noteq> StateCancelled" "StateBlocked \<noteq> StateInterrupted"
  "StateTimedOut \<noteq> StateAccepted" "StateTimedOut \<noteq> StateProvisioning" "StateTimedOut \<noteq> StateStarting" "StateTimedOut \<noteq> StateRunning" "StateTimedOut \<noteq> StateSettled" "StateTimedOut \<noteq> StateVerifying" "StateTimedOut \<noteq> StateSucceeded" "StateTimedOut \<noteq> StateFailed" "StateTimedOut \<noteq> StateBlocked" "StateTimedOut \<noteq> StateCancelled" "StateTimedOut \<noteq> StateInterrupted"
  "StateCancelled \<noteq> StateAccepted" "StateCancelled \<noteq> StateProvisioning" "StateCancelled \<noteq> StateStarting" "StateCancelled \<noteq> StateRunning" "StateCancelled \<noteq> StateSettled" "StateCancelled \<noteq> StateVerifying" "StateCancelled \<noteq> StateSucceeded" "StateCancelled \<noteq> StateFailed" "StateCancelled \<noteq> StateBlocked" "StateCancelled \<noteq> StateTimedOut" "StateCancelled \<noteq> StateInterrupted"
  "StateInterrupted \<noteq> StateAccepted" "StateInterrupted \<noteq> StateProvisioning" "StateInterrupted \<noteq> StateStarting" "StateInterrupted \<noteq> StateRunning" "StateInterrupted \<noteq> StateSettled" "StateInterrupted \<noteq> StateVerifying" "StateInterrupted \<noteq> StateSucceeded" "StateInterrupted \<noteq> StateFailed" "StateInterrupted \<noteq> StateBlocked" "StateInterrupted \<noteq> StateTimedOut" "StateInterrupted \<noteq> StateCancelled"
  by (simp_all add: state_defs)

lemma state_nonempty [simp]:
  "StateAccepted \<noteq> []" "StateProvisioning \<noteq> []" "StateStarting \<noteq> []" "StateRunning \<noteq> []" "StateSettled \<noteq> []" "StateVerifying \<noteq> []" "StateSucceeded \<noteq> []" "StateFailed \<noteq> []" "StateBlocked \<noteq> []" "StateTimedOut \<noteq> []" "StateCancelled \<noteq> []" "StateInterrupted \<noteq> []"
  by (simp_all add: state_defs)

definition terminalStates :: "string list" where
  "terminalStates =
     [StateSucceeded, StateFailed, StateBlocked, StateTimedOut, StateCancelled, StateInterrupted]"

definition nonterminalStates :: "string list" where
  "nonterminalStates =
     [StateAccepted, StateProvisioning, StateStarting, StateRunning, StateSettled, StateVerifying]"

definition IsTerminalState :: "string \<Rightarrow> bool" where
  "IsTerminalState s \<longleftrightarrow> s \<in> set terminalStates"

lemma IsTerminalState_simps [simp]:
  "\<not> IsTerminalState StateAccepted" "\<not> IsTerminalState StateProvisioning"
  "\<not> IsTerminalState StateStarting" "\<not> IsTerminalState StateRunning"
  "\<not> IsTerminalState StateSettled" "\<not> IsTerminalState StateVerifying"
  "IsTerminalState StateSucceeded" "IsTerminalState StateFailed" "IsTerminalState StateBlocked"
  "IsTerminalState StateTimedOut" "IsTerminalState StateCancelled" "IsTerminalState StateInterrupted"
  by (simp_all add: IsTerminalState_def terminalStates_def)

lemma terminal_not_nonterminal: "IsTerminalState s \<Longrightarrow> s \<notin> set nonterminalStates"
  by (auto simp: IsTerminalState_def terminalStates_def nonterminalStates_def)

definition MaxProvisioningLease :: duration where "MaxProvisioningLease = 2 * minute_ns"
definition MaxEffectLease :: duration where "MaxEffectLease = 10 * minute_ns"
definition EffectVerifier :: string where "EffectVerifier = ''verifier''"
definition EffectWorkspaceClose :: string where "EffectWorkspaceClose = ''workspace_close''"
definition PauseReasonManual :: string where "PauseReasonManual = ''manual''"
definition PauseReasonUnread :: string where "PauseReasonUnread = ''unread_terminal_runs''"

lemma effect_kind_neq [simp]:
  "EffectVerifier \<noteq> EffectWorkspaceClose" "EffectWorkspaceClose \<noteq> EffectVerifier"
  "EffectVerifier \<noteq> []" "EffectWorkspaceClose \<noteq> []"
  by (simp_all add: EffectVerifier_def EffectWorkspaceClose_def)

section \<open>Tables\<close>

record run =
  run_id :: string
  job_id :: string
  job_revision :: string
  run_definition :: string
  trigger :: string
  scheduled_for :: "time option"
  state :: string
  infrastructure_result :: string
  agent_result :: string
  task_verdict :: string
  accepted_at :: time
  accepted_unix_nano :: int
  updated_at :: time
  workspace_id :: string
  pane_id :: string
  branch :: string
  worktree_path :: string
  execution_mode :: string
  completion_marker :: string
  source_base_revision :: string
  source_revision :: string
  input_context :: string
  error_code :: string
  error_detail :: string
  provisioning_owner :: string
  provisioning_lease_until :: int
  effect_owner :: string
  effect_claim :: string
  effect_kind :: string
  effect_lease_until :: int
  effect_receipt :: string
  disk_device :: string
  disk_reserve_gib :: float64
  acceptance_lane :: string
  acceptance_reason :: string
  unread :: bool
  model_attestation :: string
  input_receipt :: string
  change_receipt :: string

record job_row =
  job_key :: string
  config_revision :: int
  snapshot_hash :: string
  job_definition :: string
  enabled :: bool
  paused :: bool
  pause_reason :: string
  pause_at :: "time option"
  completed :: bool
  cursor :: time
  job_updated_at :: time

record occ_row =
  occ_job :: string
  occurrence_key :: string
  occ_scheduled_for :: time
  outcome :: string
  occ_run :: "string option"
  occ_detail :: string
  created_at :: time
  created_unix_nano :: int

record event_row =
  event_id :: nat
  event_run :: string
  from_state :: string
  to_state :: string
  event_at :: time
  event_code :: string
  event_detail :: string

record db =
  jobs :: "job_row list"
  occurrences :: "occ_row list"
  runs :: "run list"
  events :: "event_row list"
  metadata :: "(string \<times> string) list"

text \<open>A new database file after \<open>migrate\<close>: empty tables and the two serialization rows.\<close>

definition init_db :: db where
  "init_db = \<lparr> jobs = [], occurrences = [], runs = [], events = [],
               metadata = [(''admission_lock'', ''0''), (''authority_lock'', ''0'')] \<rparr>"

text \<open>
  The sentinel errors of the package, \<open>sql.ErrNoRows\<close>, a violated constraint, and other
  errors by their fixed text.
\<close>

datatype store_err =
    ErrStateConflict | ErrJobDisabled | ErrJobPaused | ErrGlobalPaused | ErrJobRevisionChanged
  | ErrJobUnreadPaused | ErrNoRows | ErrConstraint | ErrMsg string

type_synonym 'a outcome_db = "(store_err + 'a) \<times> db"

section \<open>Statements\<close>

definition find_run :: "string \<Rightarrow> db \<Rightarrow> run option" where
  "find_run i d = find (\<lambda>r. run_id r = i) (runs d)"

definition find_job :: "string \<Rightarrow> db \<Rightarrow> job_row option" where
  "find_job i d = find (\<lambda>j. job_key j = i) (jobs d)"

definition find_occ :: "string \<Rightarrow> string \<Rightarrow> db \<Rightarrow> occ_row option" where
  "find_occ i k d = find (\<lambda>oc. occ_job oc = i \<and> occurrence_key oc = k) (occurrences d)"

definition meta :: "string \<Rightarrow> db \<Rightarrow> string option" where
  "meta k d = map_of (metadata d) k"

text \<open>\<open>UPDATE runs SET ... WHERE ...\<close> and the number of rows it changed.\<close>

definition update_runs :: "(run \<Rightarrow> bool) \<Rightarrow> (run \<Rightarrow> run) \<Rightarrow> db \<Rightarrow> nat \<times> db" where
  "update_runs P f d = (case update_rows P f (runs d) of (n, rs) \<Rightarrow> (n, d\<lparr>runs := rs\<rparr>))"

text \<open>A compare-and-set: \<open>None\<close> when the number of affected rows is not one.\<close>

definition cas_run :: "(run \<Rightarrow> bool) \<Rightarrow> (run \<Rightarrow> run) \<Rightarrow> db \<Rightarrow> db option" where
  "cas_run P f d = (case update_runs P f d of (n, d') \<Rightarrow> if n = 1 then Some d' else None)"

text \<open>
  \<open>INSERT INTO events\<close>. Events are never deleted, so the next \<open>AUTOINCREMENT\<close> id follows the
  number of rows. Every caller inserts for a run it has just read or changed, so the foreign
  key holds.
\<close>

definition add_event :: "string \<Rightarrow> string \<Rightarrow> string \<Rightarrow> time \<Rightarrow> string \<Rightarrow> string \<Rightarrow> db \<Rightarrow> db" where
  "add_event i from to now code detail d =
     d\<lparr>events := events d @
        [\<lparr> event_id = Suc (length (events d)), event_run = i, from_state = from, to_state = to,
           event_at = now, event_code = code, event_detail = detail \<rparr>]\<rparr>"

text \<open>\<open>INSERT INTO runs\<close>: the primary key and the foreign key on the job are checked.\<close>

definition insert_run :: "run \<Rightarrow> db \<Rightarrow> db option" where
  "insert_run r d =
     (if find_run (run_id r) d \<noteq> None \<or> find_job (job_id r) d = None then None
      else Some (d\<lparr>runs := runs d @ [r]\<rparr>))"

definition insert_occ :: "occ_row \<Rightarrow> db \<Rightarrow> db option" where
  "insert_occ oc d =
     (if find_occ (occ_job oc) (occurrence_key oc) d \<noteq> None \<or> find_job (occ_job oc) d = None then None
      else Some (d\<lparr>occurrences := occurrences d @ [oc]\<rparr>))"

text \<open>\<open>INSERT OR IGNORE\<close> passes over a duplicate key, but not over a missing job.\<close>

definition insert_or_ignore_occ :: "occ_row \<Rightarrow> db \<Rightarrow> (nat \<times> db) option" where
  "insert_or_ignore_occ oc d =
     (if find_occ (occ_job oc) (occurrence_key oc) d \<noteq> None then Some (0, d)
      else if find_job (occ_job oc) d = None then None
      else Some (1, d\<lparr>occurrences := occurrences d @ [oc]\<rparr>))"

definition update_jobs :: "(job_row \<Rightarrow> bool) \<Rightarrow> (job_row \<Rightarrow> job_row) \<Rightarrow> db \<Rightarrow> nat \<times> db" where
  "update_jobs P f d = (case update_rows P f (jobs d) of (n, js) \<Rightarrow> (n, d\<lparr>jobs := js\<rparr>))"

text \<open>The columns of a run inserted with their defaults.\<close>

definition new_run :: "string \<Rightarrow> string \<Rightarrow> string \<Rightarrow> string \<Rightarrow> string \<Rightarrow> time option \<Rightarrow> time \<Rightarrow> run" where
  "new_run i j revision def trig sched now =
     \<lparr> run_id = i, job_id = j, job_revision = revision, run_definition = def, trigger = trig,
       scheduled_for = sched, state = StateAccepted, infrastructure_result = [], agent_result = [],
       task_verdict = ''unverified'', accepted_at = now, accepted_unix_nano = UnixNano now,
       updated_at = now, workspace_id = [], pane_id = [], branch = [], worktree_path = [],
       execution_mode = ''agent'', completion_marker = [], source_base_revision = [],
       source_revision = [], input_context = [], error_code = [], error_detail = [],
       provisioning_owner = [], provisioning_lease_until = 0, effect_owner = [], effect_claim = [],
       effect_kind = [], effect_lease_until = 0, effect_receipt = [], disk_device = [],
       disk_reserve_gib = Fin 0, acceptance_lane = [], acceptance_reason = [], unread = True,
       model_attestation = [], input_receipt = [], change_receipt = [] \<rparr>"

definition lockAuthorityWrites :: "db \<Rightarrow> store_err option" where
  "lockAuthorityWrites d =
     (if meta ''authority_lock'' d = None then Some (ErrMsg ''authority serialization lock is missing'') else None)"

definition lockOccurrenceWrites :: "db \<Rightarrow> store_err option" where
  "lockOccurrenceWrites d =
     (if meta ''admission_lock'' d = None then Some (ErrMsg ''occurrence serialization lock is missing'') else None)"

section \<open>Scalars\<close>

text \<open>
  \<open>newRunID\<close> and \<open>newEffectClaim\<close> render the bytes \<open>crypto/rand\<close> filled in (five and sixteen
  of them), which are an argument here.
\<close>

definition newRunID :: "string \<Rightarrow> time \<Rightarrow> nat list \<Rightarrow> string" where
  "newRunID jobID now rnd = jobID @ ''-'' @ fmt_stamp now @ ''-'' @ EncodeToString rnd"

definition newEffectClaim :: "nat list \<Rightarrow> string" where
  "newEffectClaim token = EncodeToString token"

definition validEffectClaim :: "string \<Rightarrow> bool" where
  "validEffectClaim claim \<longleftrightarrow>
     length claim = 32 \<and>
     list_all (\<lambda>c. \<not> ((c < CHR ''0'' \<or> CHR ''9'' < c) \<and> (c < CHR ''a'' \<or> CHR ''f'' < c))) claim"

definition leaseNanos :: "time \<Rightarrow> int" where
  "leaseNanos lease = (if IsZero lease then 0 else UnixNano lease)"

definition lease_time :: "int \<Rightarrow> time" where
  "lease_time n = (if n \<noteq> 0 then n else zero_time)"

text \<open>\<open>scanRun\<close>: the lease columns become instants.\<close>

definition scanRun :: "run \<Rightarrow> run" where
  "scanRun r = r\<lparr> provisioning_lease_until := lease_time (provisioning_lease_until r),
                  effect_lease_until := lease_time (effect_lease_until r) \<rparr>"

definition validateProvisioningLease :: "string \<Rightarrow> time \<Rightarrow> time \<Rightarrow> store_err option" where
  "validateProvisioningLease owner now leaseUntil =
     (if owner = [] then Some (ErrMsg ''provisioning owner is required'')
      else if \<not> now < leaseUntil then Some (ErrMsg ''provisioning lease must expire after its claim time'')
      else if MaxProvisioningLease < Sub leaseUntil now
      then Some (ErrMsg ''provisioning lease exceeds maximum'')
      else None)"

definition validateEffectLease :: "string \<Rightarrow> string \<Rightarrow> time \<Rightarrow> time \<Rightarrow> store_err option" where
  "validateEffectLease kind owner now leaseUntil =
     (if owner = [] then Some (ErrMsg ''effect owner is required'')
      else if kind \<noteq> EffectVerifier \<and> kind \<noteq> EffectWorkspaceClose
      then Some (ErrMsg ''unsupported run effect'')
      else if \<not> now < leaseUntil then Some (ErrMsg ''effect lease must expire after its claim time'')
      else if MaxEffectLease < Sub leaseUntil now then Some (ErrMsg ''effect lease exceeds maximum'')
      else None)"

definition classifyTerminalRun :: "string \<Rightarrow> string \<Rightarrow> string \<Rightarrow> string \<Rightarrow> string \<times> string \<times> bool" where
  "classifyTerminalRun runID def st verdict =
     (let v = normalizeVerdict verdict
      in if v = ''failed'' then (AcceptanceMandatory, ''verifier_failed'', True)
         else if st \<noteq> StateSucceeded then
           (if TrimSpace st = [] then (AcceptanceMandatory, ''state_unknown'', True)
            else if st \<in> {StateFailed, StateBlocked, StateTimedOut, StateCancelled, StateInterrupted}
            then (AcceptanceMandatory, ''state_'' @ st, True)
            else if st \<in> set nonterminalStates then (AcceptanceMandatory, ''state_nonterminal'', True)
            else (AcceptanceMandatory, ''state_unknown'', True))
         else if v \<noteq> ''passed'' then (AcceptanceMandatory, ''unverified'', True)
         else (case decode_job def of
                 None \<Rightarrow> (AcceptanceMandatory, ''snapshot_invalid'', True)
               | Some snapshot \<Rightarrow> ClassifyTerminalRun snapshot runID st v))"

text \<open>\<open>terminalAcceptanceTx\<close> reads the definition of the row; no row is \<open>sql.ErrNoRows\<close>.\<close>

definition terminalAcceptanceTx :: "string \<Rightarrow> string \<Rightarrow> string \<Rightarrow> db \<Rightarrow> (string \<times> string \<times> bool) option" where
  "terminalAcceptanceTx i st verdict d =
     map_option (\<lambda>r. classifyTerminalRun i (run_definition r) st verdict) (find_run i d)"

section \<open>Lemmas\<close>

lemma cas_run_Some:
  "cas_run P f d = Some d' \<longleftrightarrow>
     length (filter P (runs d)) = 1 \<and> d' = d\<lparr>runs := map (\<lambda>r. if P r then f r else r) (runs d)\<rparr>"
  by (auto simp: cas_run_def update_runs_def update_rows_def split: if_splits)

lemma cas_run_None: "cas_run P f d = None \<longleftrightarrow> length (filter P (runs d)) \<noteq> 1"
  by (auto simp: cas_run_def update_runs_def update_rows_def)

lemma add_event_simps [simp]:
  "runs (add_event i a b now c e d) = runs d" "jobs (add_event i a b now c e d) = jobs d"
  "occurrences (add_event i a b now c e d) = occurrences d"
  "metadata (add_event i a b now c e d) = metadata d"
  by (simp_all add: add_event_def)

lemma find_run_Some: "find_run i d = Some r \<Longrightarrow> r \<in> set (runs d) \<and> run_id r = i"
  unfolding find_run_def by (rule find_key_Some)

lemma find_run_None: "find_run i d = None \<longleftrightarrow> i \<notin> run_id ` set (runs d)"
  unfolding find_run_def by (rule find_key_None)

lemma find_run_eq:
  assumes "distinct (map run_id (runs d))" and "r \<in> set (runs d)"
  shows "find_run (run_id r) d = Some r"
  unfolding find_run_def using assms by (rule find_key_unique)

lemma find_job_Some: "find_job i d = Some j \<Longrightarrow> j \<in> set (jobs d) \<and> job_key j = i"
  unfolding find_job_def by (rule find_key_Some)

lemma find_job_None: "find_job i d = None \<longleftrightarrow> i \<notin> job_key ` set (jobs d)"
  unfolding find_job_def by (rule find_key_None)

lemma find_occ_None:
  "find_occ i k d = None \<longleftrightarrow> (i, k) \<notin> (\<lambda>oc. (occ_job oc, occurrence_key oc)) ` set (occurrences d)"
  by (auto simp: find_occ_def find_None_iff)

lemma find_occ_Some:
  "find_occ i k d = Some oc \<Longrightarrow> oc \<in> set (occurrences d) \<and> occ_job oc = i \<and> occurrence_key oc = k"
  by (auto simp: find_occ_def find_Some_iff in_set_conv_nth)

text \<open>
  A compare-and-set on the row with a given id: it succeeds exactly when the row meets the
  condition, and changes only that row.
\<close>

lemma cas_run_id:
  assumes "distinct (map run_id (runs d))" and "find_run i d = Some r" and "\<And>q. P q \<Longrightarrow> run_id q = i"
  shows "cas_run P f d =
    (if P r then Some (d\<lparr>runs := map (\<lambda>q. if P q then f q else q) (runs d)\<rparr>) else None)"
proof -
  from find_run_Some [OF assms(2)] have r: "r \<in> set (runs d)" "run_id r = i" by blast+
  have key: "run_id q = run_id r" if "P q" for q using assms(3) [OF that] r(2) by simp
  show ?thesis
  proof (cases "P r")
    case True
    with filter_key_single [where P = P, OF assms(1) r(1) _ key] show ?thesis
      by (simp add: cas_run_def update_runs_def update_rows_def)
  next
    case False
    with filter_key_none [where P = P, OF assms(1) r(1) _ key] show ?thesis
      by (simp add: cas_run_def update_runs_def update_rows_def)
  qed
qed

lemma cas_run_missing:
  assumes "find_run i d = None" and "\<And>q. P q \<Longrightarrow> run_id q = i"
  shows "cas_run P f d = None"
proof -
  have "filter P (runs d) = []"
    using assms find_run_None [of i d] by (auto simp: filter_empty_conv)
  then show ?thesis by (simp add: cas_run_def update_runs_def update_rows_def)
qed

text \<open>The row after an update of the row with a given id.\<close>

lemma find_run_map:
  assumes "\<And>q. run_id (g q) = run_id q"
  shows "find_run i (d\<lparr>runs := map g (runs d)\<rparr>) = map_option g (find_run i d)"
proof -
  have "find (\<lambda>r. run_id r = i) (map g rs) = map_option g (find (\<lambda>r. run_id r = i) rs)" for rs
    using assms by (induction rs) auto
  then show ?thesis by (simp add: find_run_def)
qed

lemma lease_time_nanos [simp]: "in_int64 n \<Longrightarrow> n \<noteq> zero_time \<Longrightarrow> leaseNanos (lease_time n) = n"
  by (auto simp: leaseNanos_def lease_time_def IsZero_def UnixNano_def)

lemma EncodeToString_Cons:
  "EncodeToString (b # bs) = hex_chars ! (b div 16) # hex_chars ! (b mod 16) # EncodeToString bs"
  by (simp add: EncodeToString_def)

lemma hex_chars_lower:
  assumes "n < 16"
  shows "\<not> ((hex_chars ! n < CHR ''0'' \<or> CHR ''9'' < hex_chars ! n)
            \<and> (hex_chars ! n < CHR ''a'' \<or> CHR ''f'' < hex_chars ! n))"
proof -
  have "list_all (\<lambda>c. \<not> ((c < CHR ''0'' \<or> CHR ''9'' < c) \<and> (c < CHR ''a'' \<or> CHR ''f'' < c))) hex_chars"
    by code_simp
  moreover have "length hex_chars = 16" by (simp add: hex_chars_def)
  ultimately show ?thesis using assms by (simp add: list_all_length)
qed

lemma newEffectClaim_valid:
  assumes "length token = 16" and "\<forall>b\<in>set token. b < 256"
  shows "validEffectClaim (newEffectClaim token)"
proof -
  have "length (EncodeToString bs) = 2 * length bs" for bs
    by (induction bs) (simp_all add: EncodeToString_def)
  moreover have "list_all (\<lambda>c. \<not> ((c < CHR ''0'' \<or> CHR ''9'' < c) \<and> (c < CHR ''a'' \<or> CHR ''f'' < c)))
      (EncodeToString bs)" if "\<forall>b\<in>set bs. b < 256" for bs
    using that
  proof (induction bs)
    case Nil
    then show ?case by (simp add: EncodeToString_def)
  next
    case (Cons b bs)
    then have "b div 16 < 16" "b mod 16 < 16" by auto
    with Cons show ?case using hex_chars_lower by (auto simp: EncodeToString_Cons)
  qed
  ultimately show ?thesis using assms by (simp add: validEffectClaim_def newEffectClaim_def)
qed

lemma classify_auto:
  assumes "classifyTerminalRun i def st v = (AcceptanceAuto, reason, req)"
  shows "st = StateSucceeded \<and> normalizeVerdict v = ''passed''
         \<and> (\<exists>j. decode_job def = Some j \<and> hasDeterministicVerifier j \<and> AcceptanceMode j \<noteq> AcceptanceMandatory) \<and> \<not> req"
  using assms
  by (auto simp: classifyTerminalRun_def Let_def dest: Classify_auto Classify_required_iff
      split: if_splits option.splits)

lemma lane_nonempty [simp]:
  "AcceptanceMandatory \<noteq> []" "AcceptanceAuto \<noteq> []" "AcceptanceSample \<noteq> []"
  by (simp_all add: config_strings)

lemmas nonempty_sym [simp] =
  lane_nonempty [symmetric] state_nonempty [symmetric] effect_kind_neq(3,4) [symmetric]

lemma classify_nonempty:
  assumes "classifyTerminalRun i def st v = (lane, reason, req)"
  shows "lane \<noteq> [] \<and> reason \<noteq> []"
proof -
  have "lane' \<noteq> [] \<and> reason' \<noteq> []" if "ClassifyTerminalRun j i st w = (lane', reason', req')" for j w lane' reason' req'
    using Classify_lane [OF that] Classify_reason_nonempty [OF that] by auto
  with assms show ?thesis
    unfolding classifyTerminalRun_def Let_def by (simp split: if_splits option.splits) blast+
qed

end
