(* ===== verification/StoreAdmission.thy ===== *)
theory StoreAdmission
  imports StoreTypes
begin

text \<open>
  The authority side of \<open>internal/store\<close>: saved jobs and their monotone revision, pauses, the
  unread-work guard, and the acceptance of occurrences, events and attended runs. Everything
  here inserts rows or updates \<open>jobs\<close>; no operation of this theory changes an existing run.
\<close>

section \<open>Saved jobs\<close>

definition configRevisionFromDefinition :: "string \<Rightarrow> int option" where
  "configRevisionFromDefinition def =
     (case Unmarshal (dec_struct [(''revision'', fld id (\<lambda>x _. x) dec_int)]) def 0 of
        None \<Rightarrow> None
      | Some r \<Rightarrow> if r = 0 then Some 1 else if r < 1 then None else Some r)"

definition new_job :: "string \<Rightarrow> int \<Rightarrow> string \<Rightarrow> string \<Rightarrow> bool \<Rightarrow> time \<Rightarrow> job_row" where
  "new_job i crev hash def en now =
     \<lparr> job_key = i, config_revision = crev, snapshot_hash = hash, job_definition = def, enabled = en,
       paused = False, pause_reason = [], pause_at = None, completed = False, cursor = now,
       job_updated_at = now \<rparr>"

definition set_job :: "string \<Rightarrow> (job_row \<Rightarrow> job_row) \<Rightarrow> db \<Rightarrow> db" where
  "set_job i f d = snd (update_jobs (\<lambda>j. job_key j = i) f d)"

definition syncJobAuthorityTx ::
  "string \<Rightarrow> int \<Rightarrow> string \<Rightarrow> string \<Rightarrow> bool \<Rightarrow> time \<Rightarrow> db \<Rightarrow> store_err + db" where
  "syncJobAuthorityTx i crev hash def en now d =
     (case configRevisionFromDefinition def of
        None \<Rightarrow> Inl ErrJobRevisionChanged
      | Some drev \<Rightarrow>
          if crev < 1 \<or> drev \<noteq> crev then Inl ErrJobRevisionChanged
          else if hash = [] then Inl ErrJobRevisionChanged
          else (case find_job i d of
                  None \<Rightarrow> Inr (d\<lparr>jobs := jobs d @ [new_job i crev hash def en now]\<rparr>)
                | Some saved \<Rightarrow>
                    if crev < config_revision saved then Inl ErrJobRevisionChanged
                    else if crev = config_revision saved
                            \<and> (hash \<noteq> snapshot_hash saved \<or> en \<noteq> enabled saved)
                    then Inl ErrJobRevisionChanged
                    else if crev = config_revision saved
                    then Inr (set_job i (\<lambda>j. j\<lparr>job_updated_at := now\<rparr>) d)
                    else Inr (set_job i (\<lambda>j. j\<lparr>config_revision := crev, snapshot_hash := hash,
                                job_definition := def, enabled := en, completed := False,
                                job_updated_at := now\<rparr>) d)))"

definition Job :: "string \<Rightarrow> db \<Rightarrow> store_err + job_row" where
  "Job i d = (case find_job i d of None \<Rightarrow> Inl ErrNoRows | Some j \<Rightarrow> Inr j)"

definition SyncJobAuthority ::
  "string \<Rightarrow> int \<Rightarrow> string \<Rightarrow> string \<Rightarrow> bool \<Rightarrow> time \<Rightarrow> db \<Rightarrow> job_row outcome_db" where
  "SyncJobAuthority i crev hash def en now d =
     (case lockAuthorityWrites d of
        Some e \<Rightarrow> (Inl e, d)
      | None \<Rightarrow>
          (case syncJobAuthorityTx i crev hash def en now d of
             Inl e \<Rightarrow> (Inl e, d)
           | Inr d' \<Rightarrow> (Job i d', d')))"

definition SyncJob :: "string \<Rightarrow> string \<Rightarrow> string \<Rightarrow> bool \<Rightarrow> time \<Rightarrow> db \<Rightarrow> job_row outcome_db" where
  "SyncJob i hash def en now d =
     (case configRevisionFromDefinition def of
        None \<Rightarrow> (Inl (ErrMsg ''invalid revision''), d)
      | Some crev \<Rightarrow> SyncJobAuthority i crev hash def en now d)"

text \<open>The plain setters; \<open>clock\<close> is \<open>time.Now()\<close>.\<close>

definition SetCursor :: "string \<Rightarrow> time \<Rightarrow> time \<Rightarrow> db \<Rightarrow> unit outcome_db" where
  "SetCursor i cur clock d = (Inr (), set_job i (\<lambda>j. j\<lparr>cursor := cur, job_updated_at := clock\<rparr>) d)"

definition SetCompleted :: "string \<Rightarrow> bool \<Rightarrow> time \<Rightarrow> db \<Rightarrow> unit outcome_db" where
  "SetCompleted i c clock d = (Inr (), set_job i (\<lambda>j. j\<lparr>completed := c, job_updated_at := clock\<rparr>) d)"

definition SetPaused :: "string \<Rightarrow> bool \<Rightarrow> time \<Rightarrow> db \<Rightarrow> unit outcome_db" where
  "SetPaused i p clock d =
     (let f = (if p then (\<lambda>j. j\<lparr>paused := True, pause_reason := PauseReasonManual,
                                pause_at := Some clock, job_updated_at := clock\<rparr>)
               else (\<lambda>j. j\<lparr>paused := False, pause_reason := [], pause_at := None,
                            job_updated_at := clock\<rparr>))
      in case update_jobs (\<lambda>j. job_key j = i) f d of
           (n, d') \<Rightarrow> if n = 0 then (Inl ErrNoRows, d') else (Inr (), d'))"

definition SetGlobalPaused :: "bool \<Rightarrow> db \<Rightarrow> unit outcome_db" where
  "SetGlobalPaused p d =
     (Inr (), d\<lparr>metadata := (''global_paused'', if p then ''1'' else ''0'')
                             # filter (\<lambda>(k, _). k \<noteq> ''global_paused'') (metadata d)\<rparr>)"

definition GlobalPaused :: "db \<Rightarrow> bool" where
  "GlobalPaused d \<longleftrightarrow> meta ''global_paused'' d = Some ''1''"

definition requireJobAuthorityTx :: "string \<Rightarrow> int \<Rightarrow> string \<Rightarrow> bool \<Rightarrow> db \<Rightarrow> store_err option" where
  "requireJobAuthorityTx i crev hash requireRunnable d =
     (case find_job i d of
        None \<Rightarrow> Some ErrNoRows
      | Some saved \<Rightarrow>
          if config_revision saved \<noteq> crev \<or> snapshot_hash saved \<noteq> hash then Some ErrJobRevisionChanged
          else if \<not> requireRunnable then None
          else if \<not> enabled saved then Some ErrJobDisabled
          else if paused saved then Some ErrJobPaused
          else if GlobalPaused d then Some ErrGlobalPaused
          else None)"

definition updateJobIfAuthority ::
  "string \<Rightarrow> int \<Rightarrow> string \<Rightarrow> bool \<Rightarrow> (db \<Rightarrow> store_err + db) \<Rightarrow> db \<Rightarrow> unit outcome_db" where
  "updateJobIfAuthority i crev hash requireRunnable upd d =
     (case lockAuthorityWrites d of
        Some e \<Rightarrow> (Inl e, d)
      | None \<Rightarrow>
          (case requireJobAuthorityTx i crev hash requireRunnable d of
             Some e \<Rightarrow> (Inl e, d)
           | None \<Rightarrow> (case upd d of Inl e \<Rightarrow> (Inl e, d) | Inr d' \<Rightarrow> (Inr (), d'))))"

definition SetCursorIfAuthority ::
  "string \<Rightarrow> int \<Rightarrow> string \<Rightarrow> time \<Rightarrow> bool \<Rightarrow> time \<Rightarrow> db \<Rightarrow> unit outcome_db" where
  "SetCursorIfAuthority i crev hash cur requireRunnable clock =
     updateJobIfAuthority i crev hash requireRunnable
       (\<lambda>d. case find_job i d of
               None \<Rightarrow> Inl ErrNoRows
             | Some j \<Rightarrow>
                 if \<not> cursor j < cur then Inr d
                 else Inr (set_job i (\<lambda>j. j\<lparr>cursor := cur, job_updated_at := clock\<rparr>) d))"

definition SetCompletedIfAuthority :: "string \<Rightarrow> int \<Rightarrow> string \<Rightarrow> bool \<Rightarrow> time \<Rightarrow> db \<Rightarrow> unit outcome_db" where
  "SetCompletedIfAuthority i crev hash c clock =
     updateJobIfAuthority i crev hash True
       (\<lambda>d. Inr (set_job i (\<lambda>j. j\<lparr>completed := c, job_updated_at := clock\<rparr>) d))"

section \<open>Acceptance\<close>

record accept_request =
  req_JobID :: string
  req_JobConfigRevision :: int
  req_JobRevision :: string
  req_JobEnabled :: bool
  req_OccurrenceKey :: string
  req_Definition :: string
  req_Trigger :: string
  req_ScheduledFor :: time
  req_Overlap :: string
  req_DayStart :: time
  req_DayEnd :: time
  req_MaxRunsPerDay :: int
  req_SourceBaseRevision :: string
  req_SourceRevision :: string
  req_InputContext :: string
  req_Now :: time
  req_MaxUnread :: int

record accept_result =
  ar_Inserted :: bool
  ar_Outcome :: string
  ar_Run :: "run option"
  ar_Detail :: string

definition req_occ :: "accept_request \<Rightarrow> string \<Rightarrow> string \<Rightarrow> string option \<Rightarrow> occ_row" where
  "req_occ req out detail ro =
     \<lparr> occ_job = req_JobID req, occurrence_key = req_OccurrenceKey req,
       occ_scheduled_for = req_ScheduledFor req, outcome = out, occ_run = ro, occ_detail = detail,
       created_at = req_Now req, created_unix_nano = UnixNano (req_Now req) \<rparr>"

definition RecordOccurrence ::
  "string \<Rightarrow> string \<Rightarrow> time \<Rightarrow> time \<Rightarrow> string \<Rightarrow> string \<Rightarrow> db \<Rightarrow> bool outcome_db" where
  "RecordOccurrence jobID key scheduled now out detail d =
     (case insert_or_ignore_occ
             \<lparr> occ_job = jobID, occurrence_key = key, occ_scheduled_for = scheduled, outcome = out,
               occ_run = None, occ_detail = detail, created_at = now, created_unix_nano = UnixNano now \<rparr> d of
        None \<Rightarrow> (Inl ErrConstraint, d)
      | Some (n, d') \<Rightarrow> (Inr (n = 1), d'))"

definition RecordMissed :: "string \<Rightarrow> string \<Rightarrow> time \<Rightarrow> time \<Rightarrow> string \<Rightarrow> db \<Rightarrow> bool outcome_db" where
  "RecordMissed jobID key scheduled now detail = RecordOccurrence jobID key scheduled now ''missed'' detail"

definition RecordOccurrenceIfAuthority :: "accept_request \<Rightarrow> string \<Rightarrow> string \<Rightarrow> db \<Rightarrow> bool outcome_db" where
  "RecordOccurrenceIfAuthority req out detail d =
     (if req_OccurrenceKey req = [] then (Inl (ErrMsg ''occurrence key is required''), d)
      else case lockAuthorityWrites d of Some e \<Rightarrow> (Inl e, d) | None \<Rightarrow>
          (case lockOccurrenceWrites d of Some e \<Rightarrow> (Inl e, d) | None \<Rightarrow>
          (case requireJobAuthorityTx (req_JobID req) (req_JobConfigRevision req) (req_JobRevision req) True d of
             Some e \<Rightarrow> (Inl e, d)
           | None \<Rightarrow>
               (case insert_or_ignore_occ (req_occ req out detail None) d of
                  None \<Rightarrow> (Inl ErrConstraint, d)
                | Some (n, d') \<Rightarrow> (Inr (n = 1), d')))))"

definition existingOccurrence :: "string \<Rightarrow> string \<Rightarrow> db \<Rightarrow> store_err + accept_result option" where
  "existingOccurrence jobID key d =
     (case find_occ jobID key d of
        None \<Rightarrow> Inr None
      | Some oc \<Rightarrow>
          (let res = \<lparr> ar_Inserted = False, ar_Outcome = outcome oc, ar_Run = None, ar_Detail = occ_detail oc \<rparr>
           in case occ_run oc of
                None \<Rightarrow> Inr (Some res)
              | Some i \<Rightarrow>
                  if i = [] then Inr (Some res)
                  else (case find_run i d of
                          None \<Rightarrow> Inl ErrNoRows
                        | Some r \<Rightarrow> Inr (Some (res\<lparr>ar_Run := Some (scanRun r)\<rparr>)))))"

definition countUnreadTerminalRunsTx :: "string \<Rightarrow> db \<Rightarrow> int" where
  "countUnreadTerminalRunsTx jobID d =
     int (length (filter (\<lambda>r. job_id r = jobID \<and> unread r \<and> state r \<in> set terminalStates) (runs d)))"

definition pause_unread :: "string \<Rightarrow> time \<Rightarrow> db \<Rightarrow> db" where
  "pause_unread i now d =
     set_job i (\<lambda>j. j\<lparr>paused := True, pause_reason := PauseReasonUnread, pause_at := Some now,
                      job_updated_at := now\<rparr>) d"

definition enforceUnreadGuardTx :: "accept_request \<Rightarrow> db \<Rightarrow> (accept_result \<times> db) option" where
  "enforceUnreadGuardTx req d =
     (let n = countUnreadTerminalRunsTx (req_JobID req) d
      in if req_MaxUnread req \<le> 0 then None
         else if n < req_MaxUnread req then None
         else Some (\<lparr> ar_Inserted = False, ar_Outcome = ''paused_unread_limit'', ar_Run = None,
                      ar_Detail = show_int n @ '' unread terminal runs reached the configured limit ''
                        @ show_int (req_MaxUnread req) @ ''; job paused until explicit resume'' \<rparr>,
                    pause_unread (req_JobID req) (req_Now req) d))"

text \<open>\<open>d0\<close> is the database at the start of the transaction, to which a failure rolls back.\<close>

definition finishOccurrence ::
  "accept_request \<Rightarrow> string \<Rightarrow> string \<Rightarrow> string \<Rightarrow> db \<Rightarrow> db \<Rightarrow> accept_result outcome_db" where
  "finishOccurrence req out detail runID d0 d =
     (case insert_occ (req_occ req out detail (if runID = [] then None else Some runID)) d of
        None \<Rightarrow> (Inl ErrConstraint, d0)
      | Some d' \<Rightarrow> (Inr \<lparr> ar_Inserted = True, ar_Outcome = out, ar_Run = None, ar_Detail = detail \<rparr>, d'))"

definition day_end :: "accept_request \<Rightarrow> time" where
  "day_end req = (if IsZero (req_DayEnd req) then req_DayStart req + 24 * hour_ns else req_DayEnd req)"

definition day_count :: "accept_request \<Rightarrow> db \<Rightarrow> int" where
  "day_count req d =
     int (length (filter (\<lambda>r. job_id r = req_JobID req \<and> UnixNano (req_DayStart req) \<le> accepted_unix_nano r
                               \<and> accepted_unix_nano r < UnixNano (day_end req)) (runs d)))"

definition executing_count :: "string \<Rightarrow> db \<Rightarrow> nat" where
  "executing_count i d =
     length (filter (\<lambda>r. job_id r = i \<and> state r \<in> set nonterminalStates \<and> state r \<noteq> StateAccepted) (runs d))"

definition queued_count :: "string \<Rightarrow> db \<Rightarrow> nat" where
  "queued_count i d = length (filter (\<lambda>r. job_id r = i \<and> state r = StateAccepted) (runs d))"

definition accepted_run :: "accept_request \<Rightarrow> string \<Rightarrow> run" where
  "accepted_run req i =
     (new_run i (req_JobID req) (req_JobRevision req) (req_Definition req) (req_Trigger req)
        (Some (req_ScheduledFor req)) (req_Now req))
     \<lparr> source_base_revision := req_SourceBaseRevision req, source_revision := req_SourceRevision req,
       input_context := req_InputContext req \<rparr>"

text \<open>The Go value returned for an inserted row: the columns it does not mention are zero.\<close>

definition returned_run :: "run \<Rightarrow> run" where
  "returned_run r = r\<lparr> execution_mode := [], provisioning_lease_until := zero_time, effect_lease_until := zero_time \<rparr>"

definition acceptOccurrenceTx :: "accept_request \<Rightarrow> nat list \<Rightarrow> db \<Rightarrow> db \<Rightarrow> accept_result outcome_db" where
  "acceptOccurrenceTx req rnd d0 d =
     (case existingOccurrence (req_JobID req) (req_OccurrenceKey req) d of
        Inl e \<Rightarrow> (Inl e, d0)
      | Inr (Some res) \<Rightarrow> (Inr res, d0)
      | Inr None \<Rightarrow>
          (case enforceUnreadGuardTx req d of
             Some (res, d') \<Rightarrow> (Inr res, d')
           | None \<Rightarrow>
               if req_MaxRunsPerDay req \<le> day_count req d
               then finishOccurrence req ''skipped_limit'' ''daily run limit reached'' [] d0 d
               else if req_Overlap req = ''forbid''
                       \<and> 0 < executing_count (req_JobID req) d + queued_count (req_JobID req) d
               then finishOccurrence req ''skipped_overlap'' ''previous run is still active'' [] d0 d
               else if req_Overlap req = ''queue_one'' \<and> 0 < queued_count (req_JobID req) d
               then finishOccurrence req ''skipped_overlap'' ''one run is already queued'' [] d0 d
               else (let i = newRunID (req_JobID req) (req_Now req) rnd; r = accepted_run req i
                     in case insert_run r d of
                          None \<Rightarrow> (Inl ErrConstraint, d0)
                        | Some d1 \<Rightarrow>
                            (case finishOccurrence req ''accepted'' [] i d0
                                    (add_event i [] StateAccepted (req_Now req) [] ''occurrence accepted'' d1) of
                               (Inl e, d2) \<Rightarrow> (Inl e, d2)
                             | (Inr res, d2) \<Rightarrow> (Inr (res\<lparr>ar_Run := Some (returned_run r)\<rparr>), d2)))))"

definition AcceptOccurrence :: "accept_request \<Rightarrow> nat list \<Rightarrow> db \<Rightarrow> accept_result outcome_db" where
  "AcceptOccurrence req rnd d =
     (if req_OccurrenceKey req = [] then (Inl (ErrMsg ''occurrence key is required''), d)
      else if req_MaxUnread req \<noteq> 0
      then (Inl (ErrMsg ''unread terminal-run guard requires authority-fenced admission''), d)
      else case lockOccurrenceWrites d of Some e \<Rightarrow> (Inl e, d) | None \<Rightarrow> acceptOccurrenceTx req rnd d d)"

definition AcceptScheduledOccurrence :: "accept_request \<Rightarrow> nat list \<Rightarrow> db \<Rightarrow> accept_result outcome_db" where
  "AcceptScheduledOccurrence req rnd d =
     (if req_OccurrenceKey req = [] \<or> req_Trigger req = ''event''
      then (Inl (ErrMsg ''scheduled acceptance requires a non-event occurrence key''), d)
      else case lockAuthorityWrites d of Some e \<Rightarrow> (Inl e, d) | None \<Rightarrow>
          (case lockOccurrenceWrites d of Some e \<Rightarrow> (Inl e, d) | None \<Rightarrow>
          (case requireJobAuthorityTx (req_JobID req) (req_JobConfigRevision req) (req_JobRevision req) True d of
             Some e \<Rightarrow> (Inl e, d)
           | None \<Rightarrow> acceptOccurrenceTx req rnd d d)))"

definition sync_request :: "accept_request \<Rightarrow> db \<Rightarrow> store_err + db" where
  "sync_request req =
     syncJobAuthorityTx (req_JobID req) (req_JobConfigRevision req) (req_JobRevision req)
       (req_Definition req) (req_JobEnabled req) (req_Now req)"

text \<open>The refusals of \<open>EnqueueEvent\<close> commit the synchronization that precedes them.\<close>

definition event_refusal :: "string \<Rightarrow> db \<Rightarrow> store_err option" where
  "event_refusal i d =
     (case find_job i d of
        None \<Rightarrow> None
      | Some j \<Rightarrow>
          if \<not> enabled j then Some ErrJobDisabled
          else if paused j then Some ErrJobPaused
          else if GlobalPaused d then Some ErrGlobalPaused
          else None)"

definition EnqueueEvent :: "accept_request \<Rightarrow> nat list \<Rightarrow> db \<Rightarrow> accept_result outcome_db" where
  "EnqueueEvent req rnd d =
     (if req_Trigger req \<noteq> ''event'' \<or> req_OccurrenceKey req = []
      then (Inl (ErrMsg ''event enqueue requires an event occurrence key and trigger''), d)
      else case lockAuthorityWrites d of Some e \<Rightarrow> (Inl e, d) | None \<Rightarrow>
          (case lockOccurrenceWrites d of Some e \<Rightarrow> (Inl e, d) | None \<Rightarrow>
          (case existingOccurrence (req_JobID req) (req_OccurrenceKey req) d of
             Inl e \<Rightarrow> (Inl e, d)
           | Inr (Some existing) \<Rightarrow>
               (case sync_request req d of
                  Inl e \<Rightarrow> if e = ErrJobRevisionChanged then (Inr existing, d) else (Inl e, d)
                | Inr d' \<Rightarrow> (Inr existing, d'))
           | Inr None \<Rightarrow>
               (case sync_request req d of
                  Inl e \<Rightarrow> (Inl e, d)
                | Inr d1 \<Rightarrow>
                    if find_job (req_JobID req) d1 = None then (Inl ErrNoRows, d)
                    else (case event_refusal (req_JobID req) d1 of
                            Some e \<Rightarrow> (Inl e, d1)
                          | None \<Rightarrow> acceptOccurrenceTx req rnd d d1)))))"

definition attended_run :: "run \<Rightarrow> string \<Rightarrow> time \<Rightarrow> db \<Rightarrow> run outcome_db" where
  "attended_run r detail now d =
     (case insert_run r d of
        None \<Rightarrow> (Inl ErrConstraint, d)
      | Some d1 \<Rightarrow> (Inr (returned_run r), add_event (run_id r) [] StateAccepted now [] detail d1))"

definition CreateManualRunIfAuthority :: "accept_request \<Rightarrow> nat list \<Rightarrow> db \<Rightarrow> run outcome_db" where
  "CreateManualRunIfAuthority req rnd d =
     (let i = newRunID (req_JobID req) (req_Now req) rnd
      in case lockAuthorityWrites d of Some e \<Rightarrow> (Inl e, d) | None \<Rightarrow>
          (case requireJobAuthorityTx (req_JobID req) (req_JobConfigRevision req) (req_JobRevision req) True d of
             Some e \<Rightarrow> (Inl e, d)
           | None \<Rightarrow>
               if 0 < req_MaxUnread req \<and> req_MaxUnread req \<le> countUnreadTerminalRunsTx (req_JobID req) d
               then (Inl ErrJobUnreadPaused, pause_unread (req_JobID req) (req_Now req) d)
               else attended_run
                      (new_run i (req_JobID req) (req_JobRevision req) (req_Definition req) ''manual'' None (req_Now req))
                      ''manual run accepted'' (req_Now req) d))"

definition createAttendedRun ::
  "string \<Rightarrow> string \<Rightarrow> string \<Rightarrow> string \<Rightarrow> time \<Rightarrow> nat list \<Rightarrow> db \<Rightarrow> run outcome_db" where
  "createAttendedRun jobID revision def trig now rnd d =
     (if trig \<noteq> ''manual'' \<and> trig \<noteq> ''canary'' then (Inl (ErrMsg ''unsupported attended trigger''), d)
      else attended_run (new_run (newRunID jobID now rnd) jobID revision def trig None now)
             (trig @ '' run accepted'') now d)"

definition CreateManualRun :: "string \<Rightarrow> string \<Rightarrow> string \<Rightarrow> time \<Rightarrow> nat list \<Rightarrow> db \<Rightarrow> run outcome_db" where
  "CreateManualRun jobID revision def = createAttendedRun jobID revision def ''manual''"

definition CreateCanaryRun :: "string \<Rightarrow> string \<Rightarrow> string \<Rightarrow> time \<Rightarrow> nat list \<Rightarrow> db \<Rightarrow> run outcome_db" where
  "CreateCanaryRun jobID revision def = createAttendedRun jobID revision def ''canary''"

end
