(* ===== verification/StoreRuns.thy ===== *)
theory StoreRuns
  imports StoreTypes
begin

text \<open>
  The operations of \<open>internal/store\<close> that change existing runs. Each SQL statement
  \<open>UPDATE runs SET ... WHERE ...\<close> is a pair of definitions, the condition on a row
  (\<open>..._where\<close>) and the assignment (\<open>..._set\<close>); an operation checks its arguments, runs the
  compare-and-set and, where the code does, inserts the event of the transition in the same
  transaction. \<open>clock\<close> is the instant an operation reads from \<open>time.Now()\<close> itself.
\<close>

section \<open>Building blocks\<close>

text \<open>The terminal state and the outcome columns a caller hands to a finishing operation.\<close>

record finish =
  f_state :: string
  f_infra :: string
  f_agent :: string
  f_verdict :: string
  f_code :: string
  f_detail :: string

definition outcome_set :: "finish \<Rightarrow> string \<times> string \<times> bool \<Rightarrow> time \<Rightarrow> run \<Rightarrow> run" where
  "outcome_set f cls now r =
     (case cls of (lane, reason, u) \<Rightarrow>
        r\<lparr> state := f_state f, infrastructure_result := f_infra f, agent_result := f_agent f,
           task_verdict := f_verdict f, error_code := f_code f, error_detail := f_detail f,
           acceptance_lane := lane, acceptance_reason := reason, unread := u, updated_at := now \<rparr>)"

definition clear_provisioning :: "run \<Rightarrow> run" where
  "clear_provisioning r = r\<lparr> provisioning_owner := [], provisioning_lease_until := 0 \<rparr>"

definition clear_effect :: "run \<Rightarrow> run" where
  "clear_effect r =
     r\<lparr> effect_owner := [], effect_claim := [], effect_kind := [], effect_lease_until := 0,
        effect_receipt := [] \<rparr>"

definition no_effect :: "run \<Rightarrow> bool" where
  "no_effect r \<longleftrightarrow> effect_owner r = [] \<and> effect_claim r = [] \<and> effect_kind r = [] \<and> effect_receipt r = []"

text \<open>\<open>(provisioning_owner='' OR provisioning_lease_until<=?)\<close> and its live counterpart.\<close>

definition unleased :: "time \<Rightarrow> run \<Rightarrow> bool" where
  "unleased now r \<longleftrightarrow> provisioning_owner r = [] \<or> provisioning_lease_until r \<le> UnixNano now"

definition leased_by :: "string \<Rightarrow> time \<Rightarrow> run \<Rightarrow> bool" where
  "leased_by owner now r \<longleftrightarrow> provisioning_owner r = owner \<and> UnixNano now < provisioning_lease_until r"

text \<open>A compare-and-set that reports success, without and with its event.\<close>

definition cas_bool :: "(run \<Rightarrow> bool) \<Rightarrow> (run \<Rightarrow> run) \<Rightarrow> db \<Rightarrow> bool outcome_db" where
  "cas_bool P f d = (case cas_run P f d of None \<Rightarrow> (Inr False, d) | Some d' \<Rightarrow> (Inr True, d'))"

definition cas_event ::
  "(run \<Rightarrow> bool) \<Rightarrow> (run \<Rightarrow> run) \<Rightarrow> string \<Rightarrow> string \<Rightarrow> string \<Rightarrow> time \<Rightarrow> string \<Rightarrow> string \<Rightarrow> db \<Rightarrow> db option"
where
  "cas_event P f i from to now code detail d =
     map_option (add_event i from to now code detail) (cas_run P f d)"

definition cas_event_bool ::
  "(run \<Rightarrow> bool) \<Rightarrow> (run \<Rightarrow> run) \<Rightarrow> string \<Rightarrow> string \<Rightarrow> string \<Rightarrow> time \<Rightarrow> string \<Rightarrow> string \<Rightarrow> db \<Rightarrow> bool outcome_db"
where
  "cas_event_bool P f i from to now code detail d =
     (case cas_event P f i from to now code detail d of
        None \<Rightarrow> (Inr False, d)
      | Some d' \<Rightarrow> (Inr True, d'))"

section \<open>Transition and Finish\<close>

definition transition_where :: "string \<Rightarrow> string \<Rightarrow> run \<Rightarrow> bool" where
  "transition_where i from r \<longleftrightarrow> run_id r = i \<and> state r = from \<and> effect_owner r = []"

definition transition_set :: "string \<Rightarrow> time \<Rightarrow> run \<Rightarrow> run" where
  "transition_set to now r = r\<lparr> state := to, updated_at := now \<rparr>"

definition Transition :: "string \<Rightarrow> string \<Rightarrow> string \<Rightarrow> string \<Rightarrow> time \<Rightarrow> db \<Rightarrow> unit outcome_db" where
  "Transition i from to detail now d =
     (if IsTerminalState from then (Inl (ErrMsg ''run is terminal''), d)
      else if IsTerminalState to then (Inl (ErrMsg ''use Finish''), d)
      else case cas_event (transition_where i from) (transition_set to now) i from to now [] detail d of
             None \<Rightarrow> (Inl ErrStateConflict, d)
           | Some d' \<Rightarrow> (Inr (), d'))"

definition finish_set :: "finish \<Rightarrow> string \<times> string \<times> bool \<Rightarrow> time \<Rightarrow> run \<Rightarrow> run" where
  "finish_set f cls now r = outcome_set f cls now (clear_effect (clear_provisioning r))"

definition Finish :: "string \<Rightarrow> string \<Rightarrow> finish \<Rightarrow> time \<Rightarrow> db \<Rightarrow> unit outcome_db" where
  "Finish i from f now d =
     (if \<not> IsTerminalState (f_state f) then (Inl (ErrMsg ''state is not terminal''), d)
      else if IsTerminalState from then (Inl (ErrMsg ''run is already terminal''), d)
      else case lockOccurrenceWrites d of Some e \<Rightarrow> (Inl e, d) | None \<Rightarrow>
          (case terminalAcceptanceTx i (f_state f) (f_verdict f) d of
             None \<Rightarrow> (Inl ErrNoRows, d)
           | Some cls \<Rightarrow>
               (case cas_event (transition_where i from) (finish_set f cls now) i from (f_state f) now []
                       (f_detail f) d of
                  None \<Rightarrow> (Inl ErrStateConflict, d)
                | Some d' \<Rightarrow> (Inr (), d'))))"

section \<open>Effect claims\<close>

definition claim_where :: "string \<Rightarrow> string \<Rightarrow> time \<Rightarrow> run \<Rightarrow> bool" where
  "claim_where i from now r \<longleftrightarrow> run_id r = i \<and> state r = from \<and> no_effect r \<and> unleased now r"

definition claim_set :: "string \<Rightarrow> string \<Rightarrow> string \<Rightarrow> time \<Rightarrow> string \<Rightarrow> time \<Rightarrow> run \<Rightarrow> run" where
  "claim_set owner claim kind leaseUntil receipt now r =
     r\<lparr> effect_owner := owner, effect_claim := claim, effect_kind := kind,
        effect_lease_until := UnixNano leaseUntil, effect_receipt := receipt, updated_at := now \<rparr>"

definition claim_result :: "string \<Rightarrow> (run \<Rightarrow> bool) \<Rightarrow> (run \<Rightarrow> run) \<Rightarrow> db \<Rightarrow> string outcome_db" where
  "claim_result claim P f d =
     (case cas_run P f d of None \<Rightarrow> (Inr [], d) | Some d' \<Rightarrow> (Inr claim, d'))"

definition ClaimEffect ::
  "string \<Rightarrow> string \<Rightarrow> string \<Rightarrow> string \<Rightarrow> time \<Rightarrow> time \<Rightarrow> nat list \<Rightarrow> db \<Rightarrow> string outcome_db" where
  "ClaimEffect i from kind owner now leaseUntil token d =
     (if IsTerminalState from then (Inl (ErrMsg ''run is already terminal''), d)
      else case validateEffectLease kind owner now leaseUntil of Some e \<Rightarrow> (Inl e, d) | None \<Rightarrow>
        (let claim = newEffectClaim token
         in claim_result claim (claim_where i from now) (claim_set owner claim kind leaseUntil [] now) d))"

definition ClaimWorkspaceClose ::
  "string \<Rightarrow> string \<Rightarrow> string \<Rightarrow> string \<Rightarrow> time \<Rightarrow> time \<Rightarrow> nat list \<Rightarrow> db \<Rightarrow> string outcome_db" where
  "ClaimWorkspaceClose i from owner intent now leaseUntil token d =
     (if IsTerminalState from then (Inl (ErrMsg ''run is already terminal''), d)
      else if intent = [] then (Inl (ErrMsg ''workspace-close intent is required''), d)
      else case validateEffectLease EffectWorkspaceClose owner now leaseUntil of Some e \<Rightarrow> (Inl e, d) | None \<Rightarrow>
        (let claim = newEffectClaim token
         in claim_result claim (claim_where i from now)
              (claim_set owner claim EffectWorkspaceClose leaseUntil intent now) d))"

text \<open>\<open>json.Marshal\<close> of the durable intent; the last three members have \<open>omitempty\<close>.\<close>

definition intent_json :: "finish \<Rightarrow> (string \<times> string \<times> bool) option \<Rightarrow> string" where
  "intent_json f cls =
     json_object
       ([(''terminal_state'', json_quote (f_state f)), (''infrastructure'', json_quote (f_infra f)),
         (''agent'', json_quote (f_agent f)), (''verdict'', json_quote (f_verdict f)),
         (''code'', json_quote (f_code f)), (''detail'', json_quote (f_detail f))]
        @ (case cls of
             None \<Rightarrow> []
           | Some (lane, reason, u) \<Rightarrow>
               (if lane = [] then [] else [(''acceptance_lane'', json_quote lane)])
               @ (if reason = [] then [] else [(''acceptance_reason'', json_quote reason)])
               @ [(''unread'', if u then ''true'' else ''false'')]))"

definition late_where :: "string \<Rightarrow> string \<Rightarrow> run \<Rightarrow> bool" where
  "late_where i st r \<longleftrightarrow> run_id r = i \<and> state r = st \<and> workspace_id r = [] \<and> no_effect r"

definition late_set ::
  "string \<Rightarrow> string \<Rightarrow> string \<Rightarrow> string \<Rightarrow> string \<Rightarrow> string \<Rightarrow> time \<Rightarrow> string \<Rightarrow> time \<Rightarrow> run \<Rightarrow> run" where
  "late_set wsID paneID br path owner claim leaseUntil intent now r =
     (claim_set owner claim EffectWorkspaceClose leaseUntil intent now r)
     \<lparr> workspace_id := wsID, pane_id := paneID, branch := br, worktree_path := path, unread := True \<rparr>"

definition late_eligible :: "string \<Rightarrow> time \<Rightarrow> run \<Rightarrow> bool" where
  "late_eligible owner now r \<longleftrightarrow>
     IsTerminalState (state r)
     \<or> (state r = StateProvisioning
        \<and> (provisioning_owner r = owner \<or> \<not> now < lease_time (provisioning_lease_until r)))"

definition row_finish :: "run \<Rightarrow> finish" where
  "row_finish r =
     \<lparr> f_state = state r, f_infra = infrastructure_result r, f_agent = agent_result r,
       f_verdict = task_verdict r, f_code = error_code r, f_detail = error_detail r \<rparr>"

text \<open>The result carries no run when the final compare-and-set loses (the zero \<open>Run\<close>).\<close>

definition ClaimLateProvisioningCleanup ::
  "string \<Rightarrow> string \<Rightarrow> string \<Rightarrow> string \<Rightarrow> string \<Rightarrow> string \<Rightarrow> finish \<Rightarrow> time \<Rightarrow> time \<Rightarrow> nat list \<Rightarrow> db
   \<Rightarrow> (run option \<times> string) outcome_db" where
  "ClaimLateProvisioningCleanup i owner wsID paneID br path f now leaseUntil token d =
     (if wsID = [] \<or> br = []
      then (Inl (ErrMsg ''late provisioning cleanup requires workspace identity and branch''), d)
      else case validateEffectLease EffectWorkspaceClose owner now leaseUntil of Some e \<Rightarrow> (Inl e, d) | None \<Rightarrow>
          (case lockOccurrenceWrites d of Some e \<Rightarrow> (Inl e, d) | None \<Rightarrow>
          (case find_run i d of
             None \<Rightarrow> (Inl ErrNoRows, d)
           | Some r \<Rightarrow>
               if workspace_id r \<noteq> [] \<or> effect_kind r \<noteq> [] then (Inr (Some (scanRun r), []), d)
               else if \<not> late_eligible owner now r then (Inr (Some (scanRun r), []), d)
               else (let term = IsTerminalState (state r);
                         intent = intent_json (if term then row_finish r else f)
                                    (if term then Some (acceptance_lane r, acceptance_reason r, unread r) else None);
                         claim = newEffectClaim token
                     in case cas_event (late_where i (state r))
                               (late_set wsID paneID br path owner claim leaseUntil intent now)
                               i (state r) (state r) now ''late_workspace_cleanup_claimed''
                               ''known provisioning workspace adopted for durable cleanup'' d of
                          None \<Rightarrow> (Inr (None, []), d)
                        | Some d' \<Rightarrow>
                            (Inr (Some ((scanRun r)\<lparr> workspace_id := wsID, pane_id := paneID, branch := br,
                                worktree_path := path, effect_owner := owner, effect_claim := claim,
                                effect_kind := EffectWorkspaceClose, effect_lease_until := leaseUntil,
                                effect_receipt := intent \<rparr>), claim), d')))))"

definition reclaim_where :: "string \<Rightarrow> string \<Rightarrow> string \<Rightarrow> time \<Rightarrow> run \<Rightarrow> bool" where
  "reclaim_where i from kind now r \<longleftrightarrow>
     run_id r = i \<and> state r = from \<and> effect_owner r \<noteq> [] \<and> effect_kind r = kind
     \<and> effect_lease_until r \<le> UnixNano now \<and> unleased now r"

definition reclaim_set :: "string \<Rightarrow> string \<Rightarrow> time \<Rightarrow> time \<Rightarrow> run \<Rightarrow> run" where
  "reclaim_set owner claim leaseUntil now r =
     r\<lparr> effect_owner := owner, effect_claim := claim, effect_lease_until := UnixNano leaseUntil,
        updated_at := now \<rparr>"

definition ReclaimEffect ::
  "string \<Rightarrow> string \<Rightarrow> string \<Rightarrow> string \<Rightarrow> time \<Rightarrow> time \<Rightarrow> nat list \<Rightarrow> db \<Rightarrow> string outcome_db" where
  "ReclaimEffect i from kind owner now leaseUntil token d =
     (if kind \<noteq> EffectWorkspaceClose then (Inl (ErrMsg ''effect cannot be reclaimed''), d)
      else case validateEffectLease kind owner now leaseUntil of Some e \<Rightarrow> (Inl e, d) | None \<Rightarrow>
        (let claim = newEffectClaim token
         in claim_result claim (reclaim_where i from kind now) (reclaim_set owner claim leaseUntil now) d))"

definition VerifierReceiptPath :: "string \<Rightarrow> string \<Rightarrow> store_err + string" where
  "VerifierReceiptPath stateDir claim =
     (if \<not> validEffectClaim claim then Inl (ErrMsg ''invalid verifier claim'')
      else if stateDir = [] \<or> \<not> IsAbs stateDir then Inl (ErrMsg ''state directory is not canonical'')
      else Inr (PathJoin stateDir (''verifiers/verifier-'' @ claim @ ''.result'')))"

definition verifier_where :: "string \<Rightarrow> run \<Rightarrow> bool" where
  "verifier_where i r \<longleftrightarrow> run_id r = i \<and> state r = StateSettled \<and> no_effect r"

definition verifier_set :: "string \<Rightarrow> string \<Rightarrow> time \<Rightarrow> string \<Rightarrow> time \<Rightarrow> run \<Rightarrow> run" where
  "verifier_set owner claim leaseUntil receipt now r =
     (claim_set owner claim EffectVerifier leaseUntil receipt now r)\<lparr> state := StateVerifying \<rparr>"

definition ClaimVerifier ::
  "string \<Rightarrow> string \<Rightarrow> string \<Rightarrow> time \<Rightarrow> time \<Rightarrow> nat list \<Rightarrow> db \<Rightarrow> (string \<times> string) outcome_db" where
  "ClaimVerifier stateDir i owner now leaseUntil token d =
     (case validateEffectLease EffectVerifier owner now leaseUntil of Some e \<Rightarrow> (Inl e, d) | None \<Rightarrow>
        (let claim = newEffectClaim token
         in case VerifierReceiptPath stateDir claim of
              Inl e \<Rightarrow> (Inl e, d)
            | Inr receipt \<Rightarrow>
                (case cas_event (verifier_where i) (verifier_set owner claim leaseUntil receipt now)
                        i StateSettled StateVerifying now [] ''deterministic verifier claimed'' d of
                   None \<Rightarrow> (Inr ([], []), d)
                 | Some d' \<Rightarrow> (Inr (claim, receipt), d'))))"

definition held_where :: "string \<Rightarrow> string \<Rightarrow> string \<Rightarrow> string \<Rightarrow> string \<Rightarrow> run \<Rightarrow> bool" where
  "held_where i from owner claim kind r \<longleftrightarrow>
     run_id r = i \<and> state r = from \<and> effect_owner r = owner \<and> effect_claim r = claim \<and> effect_kind r = kind"

definition held_live_where :: "string \<Rightarrow> string \<Rightarrow> string \<Rightarrow> string \<Rightarrow> string \<Rightarrow> time \<Rightarrow> run \<Rightarrow> bool" where
  "held_live_where i from owner claim kind now r \<longleftrightarrow>
     held_where i from owner claim kind r \<and> UnixNano now < effect_lease_until r"

definition FinishEffect ::
  "string \<Rightarrow> string \<Rightarrow> string \<Rightarrow> string \<Rightarrow> string \<Rightarrow> finish \<Rightarrow> time \<Rightarrow> db \<Rightarrow> bool outcome_db" where
  "FinishEffect i from owner claim kind f now d =
     (if claim = [] then (Inl (ErrMsg ''effect claim is required''), d)
      else if \<not> IsTerminalState (f_state f) then (Inl (ErrMsg ''state is not terminal''), d)
      else case lockOccurrenceWrites d of Some e \<Rightarrow> (Inl e, d) | None \<Rightarrow>
        (if IsTerminalState from then
           (if kind \<noteq> EffectWorkspaceClose then (Inl (ErrMsg ''run is terminal''), d)
            else if f_state f \<noteq> from
            then (Inl (ErrMsg ''terminal state cannot change during workspace close''), d)
            else (case find_run i d of
                    None \<Rightarrow> (Inl ErrNoRows, d)
                  | Some cur \<Rightarrow>
                      cas_event_bool (held_live_where i from owner claim kind now)
                        (finish_set (row_finish cur)
                           (acceptance_lane cur, acceptance_reason cur, unread cur) now)
                        i from (f_state f) now (f_code f) (f_detail f) d))
         else (case terminalAcceptanceTx i (f_state f) (f_verdict f) d of
                 None \<Rightarrow> (Inl ErrNoRows, d)
               | Some cls \<Rightarrow>
                   cas_event_bool (held_live_where i from owner claim kind now) (finish_set f cls now)
                     i from (f_state f) now (f_code f) (f_detail f) d)))"

definition expired_verifier_where :: "string \<Rightarrow> time \<Rightarrow> run \<Rightarrow> bool" where
  "expired_verifier_where i now r \<longleftrightarrow>
     run_id r = i \<and> state r = StateVerifying
     \<and> ((effect_kind r = EffectVerifier \<and> effect_lease_until r \<le> UnixNano now)
        \<or> (effect_owner r = [] \<and> effect_kind r = []))"

definition expired_verifier_set :: "finish \<Rightarrow> string \<times> string \<times> bool \<Rightarrow> time \<Rightarrow> run \<Rightarrow> run" where
  "expired_verifier_set f cls now r = outcome_set f cls now (clear_effect r)"

definition FinishExpiredVerifier :: "string \<Rightarrow> finish \<Rightarrow> time \<Rightarrow> db \<Rightarrow> bool outcome_db" where
  "FinishExpiredVerifier i f now d =
     (if \<not> IsTerminalState (f_state f) then (Inl (ErrMsg ''state is not terminal''), d)
      else case lockOccurrenceWrites d of Some e \<Rightarrow> (Inl e, d) | None \<Rightarrow>
          (case find_run i d of
             None \<Rightarrow> (Inl ErrNoRows, d)
           | Some r \<Rightarrow>
               cas_event_bool (expired_verifier_where i now)
                 (expired_verifier_set f
                    (if effect_kind r = EffectVerifier
                     then classifyTerminalRun i (run_definition r) (f_state f) (f_verdict f)
                     else (AcceptanceMandatory, ''legacy_verifier'', True)) now)
                 i StateVerifying (f_state f) now (f_code f) (f_detail f) d))"

definition InterruptExpiredVerifier :: "string \<Rightarrow> string \<Rightarrow> time \<Rightarrow> db \<Rightarrow> bool outcome_db" where
  "InterruptExpiredVerifier i detail =
     FinishExpiredVerifier i
       \<lparr> f_state = StateInterrupted, f_infra = ''completed'', f_agent = ''completed'',
         f_verdict = ''unverified'', f_code = ''restart_during_verifier'', f_detail = detail \<rparr>"

definition release_set :: "time \<Rightarrow> run \<Rightarrow> run" where
  "release_set now r = (clear_effect r)\<lparr> updated_at := now \<rparr>"

definition ReleaseEffect ::
  "string \<Rightarrow> string \<Rightarrow> string \<Rightarrow> string \<Rightarrow> string \<Rightarrow> time \<Rightarrow> db \<Rightarrow> bool outcome_db" where
  "ReleaseEffect i from owner claim kind now d =
     (if claim = [] then (Inl (ErrMsg ''effect claim is required''), d)
      else cas_bool (held_where i from owner claim kind) (release_set now) d)"

section \<open>Receipts\<close>

definition receipt_set ::
  "string \<Rightarrow> string \<Rightarrow> string \<Rightarrow> string \<Rightarrow> string \<Rightarrow> string \<Rightarrow> time \<Rightarrow> run \<Rightarrow> run" where
  "receipt_set wsID paneID br path mode marker now r =
     r\<lparr> workspace_id := wsID, pane_id := paneID, branch := br, worktree_path := path,
        execution_mode := mode, completion_marker := marker, updated_at := now \<rparr>"

definition SetReceipt ::
  "string \<Rightarrow> string \<Rightarrow> string \<Rightarrow> string \<Rightarrow> string \<Rightarrow> string \<Rightarrow> string \<Rightarrow> time \<Rightarrow> db \<Rightarrow> unit outcome_db" where
  "SetReceipt i wsID paneID br path mode marker clock d =
     (Inr (), snd (update_runs (\<lambda>r. run_id r = i) (receipt_set wsID paneID br path mode marker clock) d))"

definition source_where :: "string \<Rightarrow> run \<Rightarrow> bool" where
  "source_where i r \<longleftrightarrow> run_id r = i \<and> (state r = StateAccepted \<or> state r = StateProvisioning)"

definition source_set :: "string \<Rightarrow> string \<Rightarrow> string \<Rightarrow> time \<Rightarrow> run \<Rightarrow> run" where
  "source_set base revision ctx now r =
     r\<lparr> source_base_revision := base, source_revision := revision, input_context := ctx, updated_at := now \<rparr>"

definition SetSourceContext :: "string \<Rightarrow> string \<Rightarrow> string \<Rightarrow> string \<Rightarrow> time \<Rightarrow> db \<Rightarrow> unit outcome_db" where
  "SetSourceContext i base revision ctx clock d =
     (case cas_run (source_where i) (source_set base revision ctx clock) d of
        None \<Rightarrow> (Inl (ErrMsg ''could not persist source context before start''), d)
      | Some d' \<Rightarrow> (Inr (), d'))"

text \<open>
  The write-once receipts. \<open>receipt_kind\<close> is the closed set of columns; the attestation has
  its own operation with the same shape.
\<close>

datatype receipt_kind = runReceiptInput | runReceiptChange

definition once_where :: "(run \<Rightarrow> string) \<Rightarrow> string \<Rightarrow> string \<Rightarrow> run \<Rightarrow> bool" where
  "once_where col i st r \<longleftrightarrow> run_id r = i \<and> state r = st \<and> col r = []"

definition write_once ::
  "string \<Rightarrow> (run \<Rightarrow> string) \<Rightarrow> (run \<Rightarrow> run) \<Rightarrow> string \<Rightarrow> string \<Rightarrow> db \<Rightarrow> unit outcome_db" where
  "write_once required col setter i receipt d =
     (if receipt = [] then (Inl (ErrMsg required), d)
      else case find_run i d of
             None \<Rightarrow> (Inl ErrStateConflict, d)
           | Some r \<Rightarrow>
               if IsTerminalState (state r) then (Inl ErrStateConflict, d)
               else if col r = receipt then (Inr (), d)
               else if col r \<noteq> [] then (Inl ErrStateConflict, d)
               else (case cas_run (once_where col i (state r)) setter d of
                       None \<Rightarrow> (Inl ErrStateConflict, d)
                     | Some d' \<Rightarrow> (Inr (), d')))"

definition SetModelAttestation :: "string \<Rightarrow> string \<Rightarrow> time \<Rightarrow> db \<Rightarrow> unit outcome_db" where
  "SetModelAttestation i receipt clock =
     write_once ''model attestation receipt is required'' model_attestation
       (\<lambda>r. r\<lparr>model_attestation := receipt, updated_at := clock\<rparr>) i receipt"

definition setImmutableRunReceipt :: "receipt_kind \<Rightarrow> string \<Rightarrow> string \<Rightarrow> time \<Rightarrow> db \<Rightarrow> unit outcome_db" where
  "setImmutableRunReceipt kind i receipt clock =
     (case kind of
        runReceiptInput \<Rightarrow>
          write_once ''bounded review input receipt is required'' input_receipt
            (\<lambda>r. r\<lparr>input_receipt := receipt, updated_at := clock\<rparr>) i receipt
      | runReceiptChange \<Rightarrow>
          write_once ''bounded review change receipt is required'' change_receipt
            (\<lambda>r. r\<lparr>change_receipt := receipt, updated_at := clock\<rparr>) i receipt)"

definition SetInputReceipt :: "string \<Rightarrow> string \<Rightarrow> time \<Rightarrow> db \<Rightarrow> unit outcome_db" where
  "SetInputReceipt = setImmutableRunReceipt runReceiptInput"

definition SetChangeReceipt :: "string \<Rightarrow> string \<Rightarrow> time \<Rightarrow> db \<Rightarrow> unit outcome_db" where
  "SetChangeReceipt = setImmutableRunReceipt runReceiptChange"

section \<open>Provisioning\<close>

definition provisioning_where :: "string \<Rightarrow> string \<Rightarrow> string \<Rightarrow> time \<Rightarrow> run \<Rightarrow> bool" where
  "provisioning_where st i owner now r \<longleftrightarrow> run_id r = i \<and> state r = st \<and> leased_by owner now r"

definition SaveProvisioningPlan :: "string \<Rightarrow> string \<Rightarrow> string \<Rightarrow> time \<Rightarrow> db \<Rightarrow> bool outcome_db" where
  "SaveProvisioningPlan i owner br now d =
     (if owner = [] \<or> br = [] then (Inl (ErrMsg ''provisioning owner and planned branch are required''), d)
      else cas_bool (provisioning_where StateProvisioning i owner now)
             (\<lambda>r. r\<lparr>branch := br, updated_at := now\<rparr>) d)"

definition recover_workspace_where :: "string \<Rightarrow> string \<Rightarrow> time \<Rightarrow> run \<Rightarrow> bool" where
  "recover_workspace_where i br now r \<longleftrightarrow>
     run_id r = i \<and> state r = StateProvisioning \<and> branch r = br \<and> unleased now r \<and> effect_owner r = []"

definition RecoverProvisioningWorkspace ::
  "string \<Rightarrow> string \<Rightarrow> string \<Rightarrow> string \<Rightarrow> time \<Rightarrow> db \<Rightarrow> bool outcome_db" where
  "RecoverProvisioningWorkspace i br wsID path now d =
     (if br = [] \<or> wsID = []
      then (Inl (ErrMsg ''planned branch and recovered workspace identity are required''), d)
      else cas_bool (recover_workspace_where i br now)
             (\<lambda>r. r\<lparr>workspace_id := wsID, worktree_path := path, updated_at := now\<rparr>) d)"

definition SavePartialProvisioningReceipt ::
  "string \<Rightarrow> string \<Rightarrow> string \<Rightarrow> string \<Rightarrow> string \<Rightarrow> time \<Rightarrow> db \<Rightarrow> bool outcome_db" where
  "SavePartialProvisioningReceipt i owner wsID paneID br now d =
     (if owner = [] \<or> wsID = [] \<or> br = []
      then (Inl (ErrMsg ''owner, workspace, and branch are required for a partial provisioning receipt''), d)
      else cas_bool (provisioning_where StateProvisioning i owner now)
             (\<lambda>r. r\<lparr>workspace_id := wsID, pane_id := paneID, branch := br, updated_at := now\<rparr>) d)"

definition starting_set ::
  "string \<Rightarrow> string \<Rightarrow> string \<Rightarrow> string \<Rightarrow> string \<Rightarrow> string \<Rightarrow> time \<Rightarrow> run \<Rightarrow> run" where
  "starting_set wsID paneID br path mode marker now r =
     (receipt_set wsID paneID br path mode marker now r)\<lparr> state := StateStarting \<rparr>"

definition SaveProvisioningReceipt ::
  "string \<Rightarrow> string \<Rightarrow> string \<Rightarrow> string \<Rightarrow> string \<Rightarrow> string \<Rightarrow> string \<Rightarrow> string \<Rightarrow> time \<Rightarrow> db \<Rightarrow> bool outcome_db" where
  "SaveProvisioningReceipt i owner wsID paneID br path mode marker now d =
     (if owner = [] then (Inl (ErrMsg ''provisioning owner is required''), d)
      else cas_event_bool (provisioning_where StateProvisioning i owner now)
             (starting_set wsID paneID br path mode marker now)
             i StateProvisioning StateStarting now [] ''workspace provisioned and receipt persisted'' d)"

definition renew_where :: "string \<Rightarrow> string \<Rightarrow> time \<Rightarrow> run \<Rightarrow> bool" where
  "renew_where i owner now r \<longleftrightarrow>
     run_id r = i \<and> (state r = StateProvisioning \<or> state r = StateStarting) \<and> leased_by owner now r"

definition RenewProvisioningClaim :: "string \<Rightarrow> string \<Rightarrow> time \<Rightarrow> time \<Rightarrow> db \<Rightarrow> bool outcome_db" where
  "RenewProvisioningClaim i owner now leaseUntil d =
     (case validateProvisioningLease owner now leaseUntil of Some e \<Rightarrow> (Inl e, d) | None \<Rightarrow>
        cas_bool (renew_where i owner now)
          (\<lambda>r. r\<lparr>provisioning_lease_until := UnixNano leaseUntil, updated_at := now\<rparr>) d)"

definition running_set :: "time \<Rightarrow> run \<Rightarrow> run" where
  "running_set now r = (clear_provisioning r)\<lparr> state := StateRunning, updated_at := now \<rparr>"

definition confirm_where :: "string \<Rightarrow> string \<Rightarrow> time \<Rightarrow> run \<Rightarrow> bool" where
  "confirm_where i owner now r \<longleftrightarrow> provisioning_where StateStarting i owner now r \<and> effect_owner r = []"

definition ConfirmStartingClaim :: "string \<Rightarrow> string \<Rightarrow> string \<Rightarrow> time \<Rightarrow> db \<Rightarrow> bool outcome_db" where
  "ConfirmStartingClaim i owner detail now d =
     (if owner = [] then (Inl (ErrMsg ''provisioning owner is required''), d)
      else cas_event_bool (confirm_where i owner now) (running_set now)
             i StateStarting StateRunning now [] detail d)"

definition claim_finish_set :: "finish \<Rightarrow> string \<times> string \<times> bool \<Rightarrow> time \<Rightarrow> run \<Rightarrow> run" where
  "claim_finish_set f cls now r = outcome_set f cls now (clear_provisioning r)"

text \<open>The two finishing operations of a live claim; only the start failure records its code.\<close>

definition finish_claim ::
  "string \<Rightarrow> (finish \<Rightarrow> string) \<Rightarrow> string \<Rightarrow> string \<Rightarrow> finish \<Rightarrow> time \<Rightarrow> db \<Rightarrow> bool outcome_db" where
  "finish_claim st code i owner f now d =
     (if owner = [] then (Inl (ErrMsg ''provisioning owner is required''), d)
      else if \<not> IsTerminalState (f_state f) then (Inl (ErrMsg ''state is not terminal''), d)
      else case lockOccurrenceWrites d of Some e \<Rightarrow> (Inl e, d) | None \<Rightarrow>
          (case terminalAcceptanceTx i (f_state f) (f_verdict f) d of
             None \<Rightarrow> (Inl ErrNoRows, d)
           | Some cls \<Rightarrow>
               cas_event_bool (provisioning_where st i owner now) (claim_finish_set f cls now)
                 i st (f_state f) now (code f) (f_detail f) d))"

definition FinishStartingClaim :: "string \<Rightarrow> string \<Rightarrow> finish \<Rightarrow> time \<Rightarrow> db \<Rightarrow> bool outcome_db" where
  "FinishStartingClaim = finish_claim StateStarting f_code"

definition FinishProvisioningClaim :: "string \<Rightarrow> string \<Rightarrow> finish \<Rightarrow> time \<Rightarrow> db \<Rightarrow> bool outcome_db" where
  "FinishProvisioningClaim = finish_claim StateProvisioning (\<lambda>_. [])"

section \<open>Recovery of expired claims\<close>

definition uncertain_finish :: "string \<Rightarrow> string \<Rightarrow> finish" where
  "uncertain_finish code detail =
     \<lparr> f_state = StateInterrupted, f_infra = ''uncertain'', f_agent = ''not_started'',
       f_verdict = ''unverified'', f_code = code, f_detail = detail \<rparr>"

definition expired_provisioning_where :: "string \<Rightarrow> time \<Rightarrow> run \<Rightarrow> bool" where
  "expired_provisioning_where i now r \<longleftrightarrow>
     run_id r = i \<and> state r = StateProvisioning \<and> workspace_id r = [] \<and> unleased now r \<and> effect_owner r = []"

definition expired_starting_where :: "string \<Rightarrow> time \<Rightarrow> run \<Rightarrow> bool" where
  "expired_starting_where i now r \<longleftrightarrow>
     run_id r = i \<and> state r = StateStarting \<and> unleased now r \<and> effect_owner r = []"

definition interrupt_claim ::
  "(run \<Rightarrow> bool) \<Rightarrow> string \<Rightarrow> string \<Rightarrow> finish \<Rightarrow> string \<Rightarrow> time \<Rightarrow> db \<Rightarrow> bool outcome_db" where
  "interrupt_claim P st i f code now d =
     (case lockOccurrenceWrites d of Some e \<Rightarrow> (Inl e, d) | None \<Rightarrow>
        (case terminalAcceptanceTx i StateInterrupted ''unverified'' d of
           None \<Rightarrow> (Inl ErrNoRows, d)
         | Some cls \<Rightarrow>
             cas_event_bool P (claim_finish_set f cls now) i st StateInterrupted now code (f_detail f) d))"

definition InterruptExpiredProvisioning :: "string \<Rightarrow> time \<Rightarrow> db \<Rightarrow> bool outcome_db" where
  "InterruptExpiredProvisioning i now =
     interrupt_claim (expired_provisioning_where i now) StateProvisioning i
       (uncertain_finish ''restart_during_provisioning''
          ''service restarted after the provisioning claim expired before a durable Herdr receipt'') [] now"

definition InterruptExpiredStarting :: "string \<Rightarrow> string \<Rightarrow> string \<Rightarrow> time \<Rightarrow> db \<Rightarrow> bool outcome_db" where
  "InterruptExpiredStarting i code detail now =
     interrupt_claim (expired_starting_where i now) StateStarting i (uncertain_finish code detail) code now"

definition ConfirmExpiredCommandStart :: "string \<Rightarrow> string \<Rightarrow> time \<Rightarrow> db \<Rightarrow> bool outcome_db" where
  "ConfirmExpiredCommandStart i detail now d =
     cas_event_bool (expired_starting_where i now) (running_set now)
       i StateStarting StateRunning now [] detail d"

definition RecoveryCodeProvisioning :: string where
  "RecoveryCodeProvisioning = ''explicit_provisioning_recovery''"

definition recoveryDetailProvisioning :: string where
  "recoveryDetailProvisioning =
     ''explicit recovery verified the planned branch no longer names a workspace or worktree and retired the run as interrupted''"

text \<open>\<open>observed\<close> is a Go \<open>Run\<close>: its lease columns are instants.\<close>

definition recovered_where :: "run \<Rightarrow> time \<Rightarrow> run \<Rightarrow> bool" where
  "recovered_where observed now r \<longleftrightarrow>
     run_id r = run_id observed \<and> state r = state observed \<and> workspace_id r = workspace_id observed
     \<and> pane_id r = pane_id observed \<and> worktree_path r = worktree_path observed \<and> branch r = branch observed
     \<and> run_definition r = run_definition observed \<and> updated_at r = updated_at observed
     \<and> provisioning_owner r = provisioning_owner observed
     \<and> provisioning_lease_until r = leaseNanos (provisioning_lease_until observed)
     \<and> effect_owner r = effect_owner observed \<and> effect_claim r = effect_claim observed
     \<and> effect_kind r = effect_kind observed \<and> effect_receipt r = effect_receipt observed
     \<and> effect_lease_until r = leaseNanos (effect_lease_until observed)
     \<and> workspace_id r = [] \<and> pane_id r = [] \<and> worktree_path r = [] \<and> no_effect r
     \<and> provisioning_lease_until r \<le> UnixNano now"

definition recovery_refusal :: "run \<Rightarrow> time \<Rightarrow> store_err option" where
  "recovery_refusal observed now =
     (if run_id observed = [] then Some (ErrMsg ''explicit recovery requires the observed run row'')
      else if state observed \<noteq> StateProvisioning
      then Some (ErrMsg ''explicit recovery target is not provisioning'')
      else if workspace_id observed \<noteq> [] \<or> pane_id observed \<noteq> [] \<or> worktree_path observed \<noteq> []
      then Some (ErrMsg ''explicit recovery target already carries a receipt'')
      else if effect_owner observed \<noteq> [] \<or> effect_claim observed \<noteq> [] \<or> effect_kind observed \<noteq> []
              \<or> effect_receipt observed \<noteq> []
      then Some (ErrMsg ''explicit recovery target already carries a run effect'')
      else if \<not> IsZero (effect_lease_until observed) \<and> now < effect_lease_until observed
      then Some (ErrMsg ''explicit recovery target has a live effect lease'')
      else if now < provisioning_lease_until observed
      then Some (ErrMsg ''explicit recovery target has a live provisioning lease'')
      else None)"

definition InterruptRecoveredProvisioning :: "run \<Rightarrow> time \<Rightarrow> db \<Rightarrow> bool outcome_db" where
  "InterruptRecoveredProvisioning observed now d =
     (case recovery_refusal observed now of
        Some e \<Rightarrow> (Inl e, d)
      | None \<Rightarrow>
          interrupt_claim (recovered_where observed now) StateProvisioning (run_id observed)
            (uncertain_finish RecoveryCodeProvisioning recoveryDetailProvisioning)
            RecoveryCodeProvisioning now d)"

section \<open>Admission\<close>

record decision =
  Admit :: bool
  FailureCode :: string
  FailureDetail :: string
  HoldCode :: string
  HoldDetail :: string

definition run_order :: "run list \<Rightarrow> run list" where
  "run_order rs = sort_key (\<lambda>r. (accepted_unix_nano r, run_id r)) rs"

definition active_runs :: "db \<Rightarrow> run list" where
  "active_runs d =
     map scanRun (run_order (filter (\<lambda>r. state r \<in> set (tl nonterminalStates)) (runs d)))"

definition admit_set :: "string \<Rightarrow> time \<Rightarrow> string \<Rightarrow> float64 \<Rightarrow> time \<Rightarrow> run \<Rightarrow> run" where
  "admit_set owner leaseUntil dev_id reserve now r =
     r\<lparr> state := StateProvisioning, provisioning_owner := owner,
        provisioning_lease_until := UnixNano leaseUntil, disk_device := dev_id,
        disk_reserve_gib := reserve, updated_at := now \<rparr>"

definition accepted_where :: "string \<Rightarrow> run \<Rightarrow> bool" where
  "accepted_where i r \<longleftrightarrow> run_id r = i \<and> state r = StateAccepted"

definition refusal :: "string \<Rightarrow> string \<Rightarrow> string \<Rightarrow> string \<Rightarrow> finish" where
  "refusal st infra code detail =
     \<lparr> f_state = st, f_infra = infra, f_agent = ''not_started'', f_verdict = ''unverified'',
       f_code = code, f_detail = detail \<rparr>"

definition finishAdmissionTx :: "string \<Rightarrow> finish \<Rightarrow> time \<Rightarrow> db \<Rightarrow> bool outcome_db" where
  "finishAdmissionTx i f now d =
     (case terminalAcceptanceTx i (f_state f) ''unverified'' d of
        None \<Rightarrow> (Inl ErrNoRows, d)
      | Some cls \<Rightarrow>
          (case cas_event (accepted_where i) (outcome_set f cls now) i StateAccepted (f_state f) now
                  (f_code f) (f_detail f) d of
             None \<Rightarrow> (Inr False, d)
           | Some d' \<Rightarrow> (Inr False, d')))"

text \<open>The \<open>overlap\<close> member of the stored definition; \<open>None\<close> is the error of \<open>json.Unmarshal\<close>.\<close>

definition snapshot_overlap :: "string \<Rightarrow> string option" where
  "snapshot_overlap def =
     map_option (\<lambda>ov. if ov = [] then ''forbid'' else ov)
       (Unmarshal (dec_struct [(''overlap'', fld id (\<lambda>x _. x) dec_string)]) def [])"

definition conflicting_runs :: "string \<Rightarrow> string \<Rightarrow> db \<Rightarrow> nat" where
  "conflicting_runs j i d =
     length (filter (\<lambda>r. job_id r = j \<and> run_id r \<noteq> i \<and> state r \<in> set nonterminalStates) (runs d))"

text \<open>
  What stops a canary before the capacity check. The decoder's message is not modelled; its
  place is taken by a fixed text.
\<close>

definition canary_refusal :: "run \<Rightarrow> db \<Rightarrow> finish option" where
  "canary_refusal r d =
     (case snapshot_overlap (run_definition r) of
        None \<Rightarrow> Some (refusal StateFailed ''failed'' ''snapshot_invalid'' ''invalid snapshot'')
      | Some ov \<Rightarrow>
          if ov \<noteq> ''allow'' \<and> 0 < conflicting_runs (job_id r) (run_id r) d
          then Some (refusal StateBlocked ''not_started'' ''overlap_hold''
                       ''another run for this job is nonterminal'')
          else None)"

definition authority_hold :: "job_row \<Rightarrow> db \<Rightarrow> finish option" where
  "authority_hold j d =
     (if \<not> enabled j then Some (refusal StateBlocked ''not_started'' ''job_disabled'' ''current job authority is disabled'')
      else if paused j then Some (refusal StateBlocked ''not_started'' ''job_paused'' ''current job authority is paused'')
      else if meta ''global_paused'' d = Some ''1''
      then Some (refusal StateBlocked ''not_started'' ''global_paused'' ''automation execution is globally paused'')
      else None)"

definition decide ::
  "run \<Rightarrow> string \<Rightarrow> string \<Rightarrow> float64 \<Rightarrow> time \<Rightarrow> time \<Rightarrow> decision \<Rightarrow> db \<Rightarrow> bool outcome_db" where
  "decide r owner dev_id reserve now leaseUntil dc d =
     (if Admit dc \<and> (FailureCode dc \<noteq> [] \<or> HoldCode dc \<noteq> [])
      then (Inl (ErrMsg ''admission decision cannot both admit and refuse''), d)
      else if FailureCode dc \<noteq> [] \<and> HoldCode dc \<noteq> []
      then (Inl (ErrMsg ''admission decision cannot both fail and hold''), d)
      else if FailureCode dc \<noteq> []
      then finishAdmissionTx (run_id r) (refusal StateFailed ''failed'' (FailureCode dc) (FailureDetail dc)) now d
      else if \<not> Admit dc then
        (if trigger r = ''canary'' then
           (if HoldCode dc = []
            then finishAdmissionTx (run_id r) (refusal StateBlocked ''not_started'' ''admission_hold''
                   ''attended canary could not be claimed during this call'') now d
            else finishAdmissionTx (run_id r) (refusal StateBlocked ''not_started'' (HoldCode dc) (HoldDetail dc)) now d)
         else (Inr False, d))
      else cas_event_bool (accepted_where (run_id r)) (admit_set owner leaseUntil dev_id reserve now)
             (run_id r) StateAccepted StateProvisioning now [] ''capacity admitted; route validation pending'' d)"

definition DecideAdmission ::
  "string \<Rightarrow> string \<Rightarrow> string \<Rightarrow> float64 \<Rightarrow> time \<Rightarrow> time \<Rightarrow> (run list \<Rightarrow> store_err + decision) \<Rightarrow> db \<Rightarrow> bool outcome_db"
where
  "DecideAdmission i owner dev_id reserve now leaseUntil check d =
     (case validateProvisioningLease owner now leaseUntil of Some e \<Rightarrow> (Inl e, d) | None \<Rightarrow>
      (if meta ''admission_lock'' d = None
       then (Inl (ErrMsg ''admission lock row is missing''), d)
       else case find_run i d of
              None \<Rightarrow> (Inr False, d)
            | Some r \<Rightarrow>
                (case find_job (job_id r) d of
                   None \<Rightarrow> (Inr False, d)
                 | Some j \<Rightarrow>
                     if state r \<noteq> StateAccepted then (Inr False, d)
                     else (case authority_hold j d of
                             Some f \<Rightarrow> if trigger r = ''canary'' then finishAdmissionTx i f now d else (Inr False, d)
                           | None \<Rightarrow>
                               (case (if trigger r = ''canary'' then canary_refusal r d else None) of
                                  Some f \<Rightarrow> finishAdmissionTx i f now d
                                | None \<Rightarrow>
                                    (case check (active_runs d) of
                                       Inl e \<Rightarrow> (Inl e, d)
                                     | Inr dc \<Rightarrow> decide r owner dev_id reserve now leaseUntil dc d))))))"

section \<open>Events and the inbox\<close>

definition last_event :: "string \<Rightarrow> db \<Rightarrow> event_row option" where
  "last_event i d =
     (case filter (\<lambda>e. event_run e = i) (events d) of [] \<Rightarrow> None | es \<Rightarrow> Some (last es))"

definition RecordRunEvent :: "string \<Rightarrow> string \<Rightarrow> string \<Rightarrow> time \<Rightarrow> db \<Rightarrow> unit outcome_db" where
  "RecordRunEvent i code detail now d =
     (if code = [] then (Inl (ErrMsg ''event code is required''), d)
      else case lockOccurrenceWrites d of Some e \<Rightarrow> (Inl e, d) | None \<Rightarrow>
          (case find_run i d of
             None \<Rightarrow> (Inl ErrNoRows, d)
           | Some r \<Rightarrow>
               if (case last_event i d of None \<Rightarrow> False | Some e \<Rightarrow> event_code e = code \<and> event_detail e = detail)
               then (Inr (), d)
               else (case cas_run (\<lambda>r. run_id r = i) (\<lambda>r. r\<lparr>unread := True, updated_at := now\<rparr>)
                            (add_event i (state r) (state r) now code detail d) of
                       None \<Rightarrow> (Inl ErrNoRows, d)
                     | Some d' \<Rightarrow> (Inr (), d'))))"

definition MarkRead :: "string \<Rightarrow> db \<Rightarrow> unit outcome_db" where
  "MarkRead i d = (Inr (), snd (update_runs (\<lambda>r. run_id r = i) (\<lambda>r. r\<lparr>unread := False\<rparr>) d))"

definition Events :: "string \<Rightarrow> db \<Rightarrow> event_row list" where
  "Events i d = filter (\<lambda>e. event_run e = i) (events d)"

end
