(* ===== verification/StoreLaws.thy ===== *)
theory StoreLaws
  imports StoreAdmission StoreRuns
begin

text \<open>
  What every write of the store promises of a row, and the commits the operations are made
  of. \<open>row_step\<close> is the contract of an \<open>UPDATE\<close> on one row; the locales \<open>state_keeper\<close> and
  \<open>transitioner\<close> turn a statement that meets it into a commit of the database, and they are
  interpreted on the statements of \<open>StoreRuns\<close>.
\<close>

section \<open>The contract of a row\<close>

definition same_identity :: "run \<Rightarrow> run \<Rightarrow> bool" where
  "same_identity r r' \<longleftrightarrow>
     run_id r' = run_id r \<and> job_id r' = job_id r \<and> job_revision r' = job_revision r
     \<and> run_definition r' = run_definition r \<and> trigger r' = trigger r \<and> scheduled_for r' = scheduled_for r
     \<and> accepted_at r' = accepted_at r \<and> accepted_unix_nano r' = accepted_unix_nano r"

definition same_outcome :: "run \<Rightarrow> run \<Rightarrow> bool" where
  "same_outcome r r' \<longleftrightarrow>
     state r' = state r \<and> infrastructure_result r' = infrastructure_result r
     \<and> agent_result r' = agent_result r \<and> task_verdict r' = task_verdict r
     \<and> error_code r' = error_code r \<and> error_detail r' = error_detail r
     \<and> acceptance_lane r' = acceptance_lane r \<and> acceptance_reason r' = acceptance_reason r
     \<and> model_attestation r' = model_attestation r \<and> input_receipt r' = input_receipt r
     \<and> change_receipt r' = change_receipt r"

definition once :: "string \<Rightarrow> string \<Rightarrow> bool" where
  "once a b \<longleftrightarrow> a = b \<or> a = []"

definition receipts_once :: "run \<Rightarrow> run \<Rightarrow> bool" where
  "receipts_once r r' \<longleftrightarrow>
     once (model_attestation r) (model_attestation r') \<and> once (input_receipt r) (input_receipt r')
     \<and> once (change_receipt r) (change_receipt r')"

text \<open>Either no effect is recorded at all, or it has an owner, a valid claim and a known kind.\<close>

definition effect_wf :: "run \<Rightarrow> bool" where
  "effect_wf r \<longleftrightarrow>
     (no_effect r \<and> effect_lease_until r = 0)
     \<or> (effect_owner r \<noteq> [] \<and> validEffectClaim (effect_claim r)
        \<and> (effect_kind r = EffectVerifier \<or> effect_kind r = EffectWorkspaceClose))"

text \<open>
  A terminal row carries the classification of its own definition, state and verdict. The one other
  lane and reason the store writes are those of a verification that had no claim: \<open>row_step\<close> allows
  both, and \<open>ends_classified\<close> the first only.
\<close>

definition classified :: "run \<Rightarrow> bool" where
  "classified r \<longleftrightarrow>
     (case classifyTerminalRun (run_id r) (run_definition r) (state r) (task_verdict r) of
        (lane, reason, _) \<Rightarrow> acceptance_lane r = lane \<and> acceptance_reason r = reason)"

definition legacy_classified :: "run \<Rightarrow> bool" where
  "legacy_classified r \<longleftrightarrow> acceptance_lane r = AcceptanceMandatory \<and> acceptance_reason r = ''legacy_verifier''"

definition ends_classified :: "run \<Rightarrow> run \<Rightarrow> bool" where
  "ends_classified r r' \<longleftrightarrow> (\<not> IsTerminalState (state r) \<longrightarrow> IsTerminalState (state r') \<longrightarrow> classified r')"

definition row_step :: "run \<Rightarrow> run \<Rightarrow> bool" where
  "row_step r r' \<longleftrightarrow>
     same_identity r r'
     \<and> (IsTerminalState (state r) \<longrightarrow> same_outcome r r')
     \<and> receipts_once r r'
     \<and> (effect_wf r \<longrightarrow> effect_wf r')
     \<and> (\<not> IsTerminalState (state r) \<longrightarrow> IsTerminalState (state r') \<longrightarrow> classified r' \<or> legacy_classified r')"

lemma row_step_refl [simp]: "row_step r r"
  by (auto simp: row_step_def same_identity_def same_outcome_def receipts_once_def once_def)

lemma row_step_id: "row_step r r' \<Longrightarrow> run_id r' = run_id r"
  by (simp add: row_step_def same_identity_def)

lemma classified_cong:
  "same_identity r r' \<Longrightarrow> same_outcome r r' \<Longrightarrow> classified r' = classified r"
  "same_outcome r r' \<Longrightarrow> legacy_classified r' = legacy_classified r"
  by (simp_all add: classified_def legacy_classified_def same_identity_def same_outcome_def)

lemma once_trans: "once a b \<Longrightarrow> once b c \<Longrightarrow> once a c"
  by (auto simp: once_def)

lemma row_step_trans:
  assumes "row_step r r'" and "row_step r' r''"
  shows "row_step r r''"
proof -
  have "same_identity r r''"
    using assms by (simp add: row_step_def same_identity_def)
  moreover have "receipts_once r r''"
  proof -
    have "receipts_once r r'" "receipts_once r' r''" using assms by (simp_all add: row_step_def)
    then show ?thesis by (auto simp: receipts_once_def intro: once_trans)
  qed
  moreover have "same_outcome r r''" if "IsTerminalState (state r)"
  proof -
    from that assms(1) have "same_outcome r r'" by (simp add: row_step_def)
    moreover from this that assms(2) have "same_outcome r' r''"
      by (simp add: row_step_def same_outcome_def)
    ultimately show ?thesis by (simp add: same_outcome_def)
  qed
  moreover have "classified r'' \<or> legacy_classified r''" if "\<not> IsTerminalState (state r)" "IsTerminalState (state r'')"
  proof (cases "IsTerminalState (state r')")
    case True
    with that assms(1) have "classified r' \<or> legacy_classified r'" by (simp add: row_step_def)
    with True assms(2) show ?thesis using classified_cong by (auto simp: row_step_def)
  next
    case False
    with that assms(2) show ?thesis by (simp add: row_step_def)
  qed
  ultimately show ?thesis using assms by (simp add: row_step_def)
qed

text \<open>What every statement but one does to a row: a step, and no end without its own classification.\<close>

definition row_write :: "run \<Rightarrow> run \<Rightarrow> bool" where
  "row_write r r' \<longleftrightarrow> row_step r r' \<and> ends_classified r r'"

lemma row_writeD: "row_write r r' \<Longrightarrow> row_step r r'" "row_write r r' \<Longrightarrow> ends_classified r r'"
  by (simp_all add: row_write_def)

text \<open>A write that leaves outcome, receipts and identity alone only has the effect columns to answer for.\<close>

lemma row_write_quiet:
  assumes "same_identity r r'" and "same_outcome r r'" and "effect_wf r \<Longrightarrow> effect_wf r'"
  shows "row_write r r'"
  using assms by (auto simp: row_write_def ends_classified_def row_step_def same_outcome_def receipts_once_def once_def)

text \<open>A write that moves a row between states that are not terminal.\<close>

lemma row_write_live:
  assumes "same_identity r r'" and "receipts_once r r'" and "effect_wf r \<Longrightarrow> effect_wf r'"
    and "\<not> IsTerminalState (state r)" and "\<not> IsTerminalState (state r')"
  shows "row_write r r'"
  using assms by (auto simp: row_write_def ends_classified_def row_step_def)

text \<open>A write that ends a row with the classification of its own columns.\<close>

lemma row_write_finish:
  assumes "same_identity r r'" and "receipts_once r r'" and "effect_wf r \<Longrightarrow> effect_wf r'"
    and "\<not> IsTerminalState (state r)" and "classified r'"
  shows "row_write r r'"
  using assms by (auto simp: row_write_def ends_classified_def row_step_def)

lemmas row_defs [row_facts] =
  same_identity_def same_outcome_def receipts_once_def once_def effect_wf_def no_effect_def

lemmas setter_defs [row_facts] =
  clear_provisioning_def clear_effect_def outcome_set_def transition_set_def finish_set_def
  claim_set_def late_set_def reclaim_set_def verifier_set_def expired_verifier_set_def
  release_set_def receipt_set_def source_set_def starting_set_def running_set_def
  claim_finish_set_def admit_set_def

section \<open>Commits\<close>

definition rewrite :: "(run \<Rightarrow> bool) \<Rightarrow> (run \<Rightarrow> run) \<Rightarrow> db \<Rightarrow> db" where
  "rewrite P f d = d\<lparr>runs := map (\<lambda>r. if P r then f r else r) (runs d)\<rparr>"

lemma rewrite_simps [simp]:
  "runs (rewrite P f d) = map (\<lambda>r. if P r then f r else r) (runs d)"
  "jobs (rewrite P f d) = jobs d" "occurrences (rewrite P f d) = occurrences d"
  "events (rewrite P f d) = events d" "metadata (rewrite P f d) = metadata d"
  by (simp_all add: rewrite_def)

text \<open>
  Jobs are never removed, the saved revision of a job never decreases, and that of a new job
  is positive.
\<close>

definition job_step :: "job_row list \<Rightarrow> job_row list \<Rightarrow> bool" where
  "job_step js js' \<longleftrightarrow>
     (distinct (map job_key js) \<longrightarrow>
        distinct (map job_key js')
        \<and> (\<forall>j\<in>set js. \<exists>j'\<in>set js'. job_key j' = job_key j \<and> config_revision j \<le> config_revision j')
        \<and> (\<forall>j'\<in>set js'. 1 \<le> config_revision j' \<or> (\<exists>j\<in>set js. config_revision j \<le> config_revision j')))"

text \<open>
  One commit. A strict one does not end a row without its own classification.
\<close>

inductive commit :: "bool \<Rightarrow> db \<Rightarrow> db \<Rightarrow> bool" for strict :: bool where
  rows: "commit strict d (rewrite P f d)"
    if "\<And>r. r \<in> set (runs d) \<Longrightarrow> P r \<Longrightarrow> row_step r (f r) \<and> state (f r) = state r"
| event: "commit strict d (add_event i from to now code detail (rewrite P f d))"
    if "\<And>r. r \<in> set (runs d) \<Longrightarrow> P r \<Longrightarrow> run_id r = i \<and> state r = from \<and> row_step r (f r) \<and> state (f r) = to
      \<and> (strict \<longrightarrow> ends_classified r (f r))"
    and "\<exists>r\<in>set (runs d). P r"
| new_run: "commit strict d (add_event (run_id r) [] StateAccepted now [] detail (d\<lparr>runs := runs d @ [r]\<rparr>))"
    if "find_run (run_id r) d = None" and "find_job (job_id r) d \<noteq> None"
    and "state r = StateAccepted" and "no_effect r \<and> effect_lease_until r = 0"
    and "accepted_unix_nano r = UnixNano (accepted_at r)"
| new_occ: "commit strict d (d\<lparr>occurrences := occurrences d @ [oc]\<rparr>)"
    if "find_occ (occ_job oc) (occurrence_key oc) d = None" and "find_job (occ_job oc) d \<noteq> None"
    and "\<And>i. occ_run oc = Some i \<Longrightarrow> find_run i d \<noteq> None"
    and "created_unix_nano oc = UnixNano (created_at oc)"
| new_jobs: "commit strict d (d\<lparr>jobs := js\<rparr>)" if "job_step (jobs d) js"
| new_metadata: "commit strict d (d\<lparr>metadata := m\<rparr>)"
    if "\<And>k. k \<noteq> ''global_paused'' \<Longrightarrow> map_of m k = map_of (metadata d) k"

text \<open>
  A strict sequence of commits ends a run only with its own classification; the other sequences may
  hold the end of a verification without a claim.
\<close>

abbreviation commits :: "db \<Rightarrow> db \<Rightarrow> bool" where
  "commits \<equiv> (commit True)\<^sup>*\<^sup>*"

abbreviation loose_commits :: "db \<Rightarrow> db \<Rightarrow> bool" where
  "loose_commits \<equiv> (commit False)\<^sup>*\<^sup>*"

lemma commits1: "commit True d d' \<Longrightarrow> commits d d'"
  by (rule r_into_rtranclp)

lemma commit_loose: "commit strict d d' \<Longrightarrow> commit False d d'"
  by (induction rule: commit.induct) (auto intro: commit.intros)

lemma commits_loose: "commits d d' \<Longrightarrow> loose_commits d d'"
  by (induction rule: rtranclp_induct) (auto intro: rtranclp.rtrancl_into_rtrancl commit_loose)

section \<open>Statements that keep the contract\<close>

text \<open>
  \<open>ok\<close> is what the operation has established about the row and its own arguments before the
  statement runs.
\<close>

locale row_writer =
  fixes ok :: "run \<Rightarrow> bool" and guard :: "run \<Rightarrow> bool" and assign :: "run \<Rightarrow> run"
  assumes writes: "ok r \<Longrightarrow> guard r \<Longrightarrow> row_write r (assign r)"

locale state_keeper = row_writer +
  assumes keeps: "state (assign r) = state r"
begin

lemma update_commits:
  assumes "\<And>r. r \<in> set (runs d) \<Longrightarrow> guard r \<Longrightarrow> ok r"
  shows "commits d (snd (update_runs guard assign d))"
proof -
  have "snd (update_runs guard assign d) = rewrite guard assign d"
    by (simp add: update_runs_def update_rows_def rewrite_def)
  moreover have "commit True d (rewrite guard assign d)"
    using assms writes keeps row_writeD by (intro commit.rows) blast
  ultimately show ?thesis by (simp add: commits1)
qed

lemma cas_commits:
  assumes "\<And>r. r \<in> set (runs d) \<Longrightarrow> guard r \<Longrightarrow> ok r" and "cas_run guard assign d = Some d'"
  shows "commits d d'"
  using assms(2) update_commits [OF assms(1)]
  by (auto simp: cas_run_Some update_runs_def update_rows_def)

lemma cas_bool_commits:
  assumes "\<And>r. r \<in> set (runs d) \<Longrightarrow> guard r \<Longrightarrow> ok r"
  shows "commits d (snd (cas_bool guard assign d))"
  using cas_commits [OF assms] by (auto simp: cas_bool_def split: option.split)

lemma claim_commits:
  assumes "\<And>r. r \<in> set (runs d) \<Longrightarrow> guard r \<Longrightarrow> ok r"
  shows "commits d (snd (claim_result claim guard assign d))"
  using cas_commits [OF assms] by (auto simp: claim_result_def split: option.split)

end

locale transitioner = row_writer +
  fixes i :: string and from_st to_st :: string
  assumes guarded: "guard r \<Longrightarrow> run_id r = i \<and> state r = from_st"
    and lands: "guard r \<Longrightarrow> state (assign r) = to_st"
begin

lemma event_commits:
  assumes "\<And>r. r \<in> set (runs d) \<Longrightarrow> guard r \<Longrightarrow> ok r"
    and "cas_event guard assign i from_st to_st now code detail d = Some d'"
  shows "commits d d'"
proof -
  from assms(2) have d': "d' = add_event i from_st to_st now code detail (rewrite guard assign d)"
    and one: "length (filter guard (runs d)) = 1"
    by (auto simp: cas_event_def cas_run_Some rewrite_def)
  have "commit True d d'"
    unfolding d'
  proof (rule commit.event)
    fix r assume r: "r \<in> set (runs d)" "guard r"
    with assms(1) have "row_write r (assign r)" by (intro writes) simp_all
    then show "run_id r = i \<and> state r = from_st \<and> row_step r (assign r) \<and> state (assign r) = to_st
        \<and> (True \<longrightarrow> ends_classified r (assign r))"
      using guarded [OF r(2)] lands [OF r(2)] by (simp add: row_write_def)
  next
    show "\<exists>r\<in>set (runs d). guard r" using filter_one_exists [OF one] .
  qed
  then show ?thesis by (rule commits1)
qed

lemma event_bool_commits:
  assumes "\<And>r. r \<in> set (runs d) \<Longrightarrow> guard r \<Longrightarrow> ok r"
  shows "commits d (snd (cas_event_bool guard assign i from_st to_st now code detail d))"
  using event_commits [OF assms] by (auto simp: cas_event_bool_def split: option.split)

end

section \<open>The statements of the store\<close>

text \<open>Moves between states that are not terminal.\<close>

interpretation transition: transitioner
  "\<lambda>_. \<not> IsTerminalState fr \<and> \<not> IsTerminalState to" "transition_where i fr" "transition_set to now" i fr to
  for i fr to now
  by unfold_locales (auto simp: transition_where_def row_facts intro!: row_write_live)

interpretation verifier: transitioner
  "\<lambda>_. owner \<noteq> [] \<and> validEffectClaim claim" "verifier_where i" "verifier_set owner claim leaseUntil receipt now"
  i StateSettled StateVerifying
  for i owner claim leaseUntil receipt now
  by unfold_locales (auto simp: verifier_where_def row_facts intro!: row_write_live)

interpretation starting: transitioner
  "\<lambda>_. True" "provisioning_where StateProvisioning i owner now" "starting_set w p b pa m k now"
  i StateProvisioning StateStarting
  for i owner w p b pa m k now
  by unfold_locales (auto simp: provisioning_where_def row_facts intro!: row_write_live)

interpretation confirm: transitioner
  "\<lambda>_. True" "confirm_where i owner now" "running_set now" i StateStarting StateRunning
  for i owner now
  by unfold_locales (auto simp: confirm_where_def provisioning_where_def row_facts intro!: row_write_live)

interpretation confirm_expired: transitioner
  "\<lambda>_. True" "expired_starting_where i now" "running_set now" i StateStarting StateRunning
  for i now
  by unfold_locales (auto simp: expired_starting_where_def row_facts intro!: row_write_live)

interpretation admit: transitioner
  "\<lambda>_. True" "accepted_where i" "admit_set owner leaseUntil dev_id reserve now" i StateAccepted StateProvisioning
  for i owner leaseUntil dev_id reserve now
  by unfold_locales (auto simp: accepted_where_def row_facts intro!: row_write_live)

interpretation late: transitioner
  "\<lambda>_. owner \<noteq> [] \<and> validEffectClaim c" "late_where i st" "late_set w p b pa owner c leaseUntil intent now" i st st
  for i st w p b pa owner c leaseUntil intent now
  by unfold_locales (auto simp: late_where_def row_facts intro!: row_write_quiet)

text \<open>Ends of a run: the classification is that of the row the statement changes.\<close>

definition ends :: "string \<Rightarrow> finish \<Rightarrow> string \<times> string \<times> bool \<Rightarrow> run \<Rightarrow> bool" where
  "ends fr f cls r \<longleftrightarrow>
     \<not> IsTerminalState fr \<and> IsTerminalState (f_state f)
     \<and> classifyTerminalRun (run_id r) (run_definition r) (f_state f) (f_verdict f) = cls"

lemma effect_wf_outcome [simp]: "effect_wf (outcome_set f cls now r) = effect_wf r"
  by (cases cls) (simp add: effect_wf_def no_effect_def outcome_set_def)

lemma effect_wf_clear [simp]:
  "effect_wf (clear_effect r)" "effect_wf (clear_provisioning r) = effect_wf r"
  by (simp_all add: effect_wf_def no_effect_def clear_effect_def clear_provisioning_def)

lemma state_outcome_set [simp]: "state (outcome_set f cls now r) = f_state f"
  by (cases cls) (simp add: outcome_set_def)

lemma outcome_set_step:
  assumes "ends fr f cls r" and "state r = fr"
    and q: "same_identity r q" "same_outcome r q" "effect_wf r \<Longrightarrow> effect_wf q"
  shows "row_write r (outcome_set f cls now q)"
proof (rule row_write_finish)
  obtain lane reason u where cls: "cls = (lane, reason, u)" by (cases cls)
  show "same_identity r (outcome_set f cls now q)" "receipts_once r (outcome_set f cls now q)"
    using q(1,2) by (simp_all add: row_defs outcome_set_def cls)
  show "effect_wf (outcome_set f cls now q)" if "effect_wf r"
    using q(3) that by simp
  show "\<not> IsTerminalState (state r)"
    using assms(1,2) by (simp add: ends_def)
  show "classified (outcome_set f cls now q)"
    using assms(1) q(1) by (auto simp: ends_def classified_def outcome_set_def cls same_identity_def)
qed

lemma clear_quiet:
  "same_identity r (clear_effect r)" "same_outcome r (clear_effect r)"
  "same_identity r (clear_provisioning r)" "same_outcome r (clear_provisioning r)"
  "same_identity r (clear_effect (clear_provisioning r))" "same_outcome r (clear_effect (clear_provisioning r))"
  by (simp_all add: same_identity_def same_outcome_def clear_effect_def clear_provisioning_def)

lemma finish_set_step:
  "ends fr f cls r \<Longrightarrow> state r = fr \<Longrightarrow> row_write r (finish_set f cls now r)"
  unfolding finish_set_def by (rule outcome_set_step) (simp_all add: clear_quiet)

lemma claim_finish_set_step:
  "ends fr f cls r \<Longrightarrow> state r = fr \<Longrightarrow> row_write r (claim_finish_set f cls now r)"
  unfolding claim_finish_set_def by (rule outcome_set_step) (simp_all add: clear_quiet)

lemma expired_verifier_set_step:
  "ends fr f cls r \<Longrightarrow> state r = fr \<Longrightarrow> row_write r (expired_verifier_set f cls now r)"
  unfolding expired_verifier_set_def by (rule outcome_set_step) (simp_all add: clear_quiet)

lemma plain_outcome_step:
  "ends fr f cls r \<Longrightarrow> state r = fr \<Longrightarrow> row_write r (outcome_set f cls now r)"
  by (rule outcome_set_step) (simp_all add: same_identity_def same_outcome_def)

lemma state_finish_sets [simp]:
  "state (finish_set f cls now r) = f_state f" "state (claim_finish_set f cls now r) = f_state f"
  "state (expired_verifier_set f cls now r) = f_state f"
  by (simp_all add: finish_set_def claim_finish_set_def expired_verifier_set_def)

interpretation finish_run: transitioner
  "ends fr f cls" "transition_where i fr" "finish_set f cls now" i fr "f_state f"
  for i fr f cls now
  by unfold_locales (auto simp: transition_where_def intro: finish_set_step)

interpretation finish_effect: transitioner
  "ends fr f cls" "held_live_where i fr owner claim kind now" "finish_set f cls now" i fr "f_state f"
  for i fr f cls owner claim kind now
  by unfold_locales (auto simp: held_live_where_def held_where_def intro: finish_set_step)

interpretation finish_verifier: transitioner
  "ends StateVerifying f cls" "expired_verifier_where i now" "expired_verifier_set f cls now"
  i StateVerifying "f_state f"
  for i f cls now
  by unfold_locales (auto simp: expired_verifier_where_def intro: expired_verifier_set_step)

interpretation finish_claimed: transitioner
  "ends st f cls" "provisioning_where st i owner now" "claim_finish_set f cls now" i st "f_state f"
  for st i owner f cls now
  by unfold_locales (auto simp: provisioning_where_def intro: claim_finish_set_step)

lemma uncertain_simps [simp]:
  "f_state (uncertain_finish code detail) = StateInterrupted"
  "f_verdict (uncertain_finish code detail) = ''unverified''"
  by (simp_all add: uncertain_finish_def)

interpretation interrupt_provisioning: transitioner
  "ends StateProvisioning (uncertain_finish c t) cls" "expired_provisioning_where i now" "claim_finish_set (uncertain_finish c t) cls now"
  i StateProvisioning StateInterrupted
  for i c t cls now
  by unfold_locales (auto simp: expired_provisioning_where_def intro: claim_finish_set_step)

interpretation interrupt_starting: transitioner
  "ends StateStarting (uncertain_finish c t) cls" "expired_starting_where i now" "claim_finish_set (uncertain_finish c t) cls now"
  i StateStarting StateInterrupted
  for i c t cls now
  by unfold_locales (auto simp: expired_starting_where_def intro: claim_finish_set_step)

interpretation interrupt_recovered: transitioner
  "ends (state ob) (uncertain_finish c t) cls" "recovered_where ob now"
  "claim_finish_set (uncertain_finish c t) cls now" "run_id ob" "state ob" StateInterrupted
  for ob c t cls now
  by unfold_locales (auto simp: recovered_where_def intro: claim_finish_set_step)

interpretation finish_admission: transitioner
  "ends StateAccepted f cls" "accepted_where i" "outcome_set f cls now" i StateAccepted "f_state f"
  for i f cls now
  by unfold_locales (auto simp: accepted_where_def intro: plain_outcome_step)

text \<open>Writes that leave the state alone.\<close>

interpretation claim: state_keeper
  "\<lambda>_. owner \<noteq> [] \<and> validEffectClaim c \<and> (kind = EffectVerifier \<or> kind = EffectWorkspaceClose)"
  "claim_where i fr now" "claim_set owner c kind leaseUntil receipt now"
  for i fr owner c kind leaseUntil receipt now
  by unfold_locales (auto simp: claim_where_def row_facts intro!: row_write_quiet)

interpretation reclaim: state_keeper
  "\<lambda>_. owner \<noteq> [] \<and> validEffectClaim c \<and> kind = EffectWorkspaceClose"
  "reclaim_where i fr kind now" "reclaim_set owner c leaseUntil now"
  for i fr kind owner c leaseUntil now
  by unfold_locales (auto simp: reclaim_where_def row_facts intro!: row_write_quiet)

interpretation release: state_keeper "\<lambda>_. True" "held_where i fr owner c kind" "release_set now"
  for i fr owner c kind now
  by unfold_locales (auto simp: row_facts intro!: row_write_quiet)

interpretation receipt: state_keeper "\<lambda>_. True" "\<lambda>r. run_id r = i" "receipt_set w p b pa m k now"
  for i w p b pa m k now
  by unfold_locales (auto simp: row_facts intro!: row_write_quiet)

interpretation source: state_keeper "\<lambda>_. True" "source_where i" "source_set base revision ctx now"
  for i base revision ctx now
  by unfold_locales (auto simp: row_facts intro!: row_write_quiet)

interpretation plan: state_keeper "\<lambda>_. True" P "\<lambda>r. r\<lparr>branch := b, updated_at := now\<rparr>"
  for P b now
  by unfold_locales (auto simp: row_facts intro!: row_write_quiet)

interpretation recover_workspace: state_keeper "\<lambda>_. True" P
  "\<lambda>r. r\<lparr>workspace_id := w, worktree_path := p, updated_at := now\<rparr>"
  for P w p now
  by unfold_locales (auto simp: row_facts intro!: row_write_quiet)

interpretation partial_receipt: state_keeper "\<lambda>_. True" P
  "\<lambda>r. r\<lparr>workspace_id := w, pane_id := p, branch := b, updated_at := now\<rparr>"
  for P w p b now
  by unfold_locales (auto simp: row_facts intro!: row_write_quiet)

interpretation renew: state_keeper "\<lambda>_. True" "renew_where i owner now"
  "\<lambda>r. r\<lparr>provisioning_lease_until := n, updated_at := now\<rparr>"
  for i owner n now
  by unfold_locales (auto simp: row_facts intro!: row_write_quiet)

interpretation mark_read: state_keeper "\<lambda>_. True" "\<lambda>r. run_id r = i" "\<lambda>r. r\<lparr>unread := False\<rparr>"
  for i
  by unfold_locales (auto simp: row_facts intro!: row_write_quiet)

end
