(* ===== verification/StoreContracts.thy ===== *)
theory StoreContracts
  imports StoreLaws
begin

text \<open>
  Two contracts several operations of the store share: the write-once receipt column and the
  bounded lease. Each is a locale, interpreted on every definition that provides it.
\<close>

section \<open>Write-once columns\<close>

text \<open>
  The value a write-once column shows to readers is \<open>None\<close> until a receipt is stored; \<open>put\<close>
  on this view is the abstract operation the SQL transaction implements.
\<close>

definition column_view :: "(run \<Rightarrow> string) \<Rightarrow> string \<Rightarrow> db \<Rightarrow> string option" where
  "column_view col i d =
     (case find_run i d of None \<Rightarrow> None | Some r \<Rightarrow> if col r = [] then None else Some (col r))"

locale write_once_column =
  fixes col :: "run \<Rightarrow> string" and assign :: "string \<Rightarrow> time \<Rightarrow> run \<Rightarrow> run" and required :: string
  assumes col_assign: "col (assign x now r) = x"
    and keeps_row: "run_id (assign x now r) = run_id r" "state (assign x now r) = state r"
    and fills: "\<not> IsTerminalState (state r) \<Longrightarrow> col r = [] \<Longrightarrow> row_write r (assign x now r)"
begin

lemma keeper: "state_keeper (\<lambda>r. \<not> IsTerminalState (state r) \<and> state r = st) (once_where col i st) (assign x now)"
  by unfold_locales (auto simp: once_where_def keeps_row intro: fills)

lemma commits_put: "commits d (snd (write_once required col (assign x now) i x d))"
proof -
  have "commits d d'" if "cas_run (once_where col i st) (assign x now) d = Some d'" "\<not> IsTerminalState st" for st d'
    using that by (intro state_keeper.cas_commits [OF keeper]) (auto simp: once_where_def)
  then show ?thesis by (auto simp: write_once_def split: option.split)
qed

text \<open>A receipt is stored in a live row whose column is empty, and only there.\<close>

lemma put_fills:
  assumes "distinct (map run_id (runs d))" and "find_run i d = Some r"
    and "\<not> IsTerminalState (state r)" and "col r = []" and "x \<noteq> []"
  shows "\<exists>d'. write_once required col (assign x now) i x d = (Inr (), d')
           \<and> find_run i d' = Some (assign x now r)
           \<and> (\<forall>j. j \<noteq> i \<longrightarrow> find_run j d' = find_run j d)"
proof -
  let ?P = "once_where col i (state r)"
  let ?g = "\<lambda>q. if ?P q then assign x now q else q"
  have id: "run_id r = i" using find_run_Some [OF assms(2)] by blast
  have "cas_run ?P (assign x now) d = Some (d\<lparr>runs := map ?g (runs d)\<rparr>)"
    using assms id by (subst cas_run_id [OF assms(1,2)]) (auto simp: once_where_def)
  moreover have "find_run j (d\<lparr>runs := map ?g (runs d)\<rparr>) = map_option ?g (find_run j d)" for j
    by (rule find_run_map) (simp add: keeps_row)
  moreover have "map_option ?g (find_run j d) = find_run j d" if "j \<noteq> i" for j
    using that by (cases "find_run j d") (auto simp: once_where_def dest: find_run_Some)
  ultimately show ?thesis
    using assms id by (auto simp: write_once_def once_where_def)
qed

text \<open>Everything else leaves the database as it was: the repeat, the conflict and the closed row.\<close>

lemma put_refuses:
  assumes "x = [] \<or> find_run i d = None \<or>
    (\<exists>r. find_run i d = Some r \<and> (IsTerminalState (state r) \<or> col r \<noteq> []))"
  shows "snd (write_once required col (assign x now) i x d) = d"
    and "fst (write_once required col (assign x now) i x d) = Inr () \<longleftrightarrow>
         x \<noteq> [] \<and> (\<exists>r. find_run i d = Some r \<and> \<not> IsTerminalState (state r) \<and> col r = x)"
  using assms by (auto simp: write_once_def split: if_splits)

text \<open>The refinement: on the column's view, a successful \<open>put\<close> means that it now holds \<open>x\<close>.\<close>

lemma put_success:
  assumes "distinct (map run_id (runs d))" and "write_once required col (assign x now) i x d = (Inr (), d')"
  shows "column_view col i d' = Some x \<and> column_view col i d \<in> {None, Some x}
         \<and> (\<exists>r. find_run i d = Some r \<and> \<not> IsTerminalState (state r))"
proof -
  have x: "x \<noteq> []" using assms(2) by (auto simp: write_once_def split: if_splits)
  from assms(2) x obtain r where r: "find_run i d = Some r" "\<not> IsTerminalState (state r)"
    by (auto simp: write_once_def split: option.splits if_splits)
  show ?thesis
  proof (cases "col r = []")
    case True
    from put_fills [OF assms(1) r True x, of now] assms(2)
    have "find_run i d' = Some (assign x now r)" by auto
    with r True x show ?thesis by (simp add: column_view_def col_assign)
  next
    case False
    with r put_refuses [of x i d now] assms(2) have "d' = d" "col r = x" by auto
    with r False show ?thesis by (simp add: column_view_def)
  qed
qed

text \<open>A second, different receipt is refused and changes nothing.\<close>

lemma put_again:
  assumes "distinct (map run_id (runs d))" and "write_once required col (assign x now) i x d = (Inr (), d')"
    and "y \<noteq> x"
  shows "snd (write_once required col (assign y later) i y d') = d'
         \<and> fst (write_once required col (assign y later) i y d') \<noteq> Inr ()"
proof -
  from put_success [OF assms(1,2)] obtain r where r: "find_run i d' = Some r" "col r = x" "x \<noteq> []"
    by (auto simp: column_view_def split: option.splits if_splits)
  with assms(3) put_refuses [of y i d' later] show ?thesis by auto
qed

text \<open>Repeating the same receipt before the run ends succeeds and changes nothing.\<close>

lemma put_repeat:
  assumes "distinct (map run_id (runs d))" and "write_once required col (assign x now) i x d = (Inr (), d')"
  shows "write_once required col (assign x later) i x d' = (Inr (), d')"
proof -
  have x: "x \<noteq> []" using assms(2) by (auto simp: write_once_def split: if_splits)
  from put_success [OF assms] obtain r where r: "find_run i d = Some r" "\<not> IsTerminalState (state r)"
    by blast
  have "\<exists>q. find_run i d' = Some q \<and> \<not> IsTerminalState (state q) \<and> col q = x"
  proof (cases "col r = []")
    case True
    from put_fills [OF assms(1) r True x, of now] assms(2) r
    show ?thesis by (auto simp: col_assign keeps_row)
  next
    case False
    with r put_refuses [of x i d now] assms(2) show ?thesis by auto
  qed
  with x show ?thesis by (auto simp: write_once_def)
qed

end

interpretation attestation: write_once_column model_attestation
  "\<lambda>x now r. r\<lparr>model_attestation := x, updated_at := now\<rparr>" "''model attestation receipt is required''"
  by unfold_locales (auto simp: row_facts intro!: row_write_live)

interpretation input_receipt: write_once_column input_receipt
  "\<lambda>x now r. r\<lparr>input_receipt := x, updated_at := now\<rparr>" "''bounded review input receipt is required''"
  by unfold_locales (auto simp: row_facts intro!: row_write_live)

interpretation change_receipt: write_once_column change_receipt
  "\<lambda>x now r. r\<lparr>change_receipt := x, updated_at := now\<rparr>" "''bounded review change receipt is required''"
  by unfold_locales (auto simp: row_facts intro!: row_write_live)

section \<open>Bounded leases\<close>

text \<open>
  A lease is granted for a positive time of at most \<open>limit\<close>. Whatever its holder does, a later
  clock reads it as expired: the claim of a crashed process blocks the others no longer than
  that.
\<close>

locale bounded_lease =
  fixes validate :: "string \<Rightarrow> time \<Rightarrow> time \<Rightarrow> store_err option" and limit :: duration
  assumes grants: "validate owner now l = None \<longleftrightarrow> owner \<noteq> [] \<and> now < l \<and> l - now \<le> limit"
begin

lemma expires:
  assumes "validate owner now l = None" and "now + limit \<le> later" and "in_int64 l" and "in_int64 later"
  shows "UnixNano l \<le> UnixNano later"
  using assms by (simp add: grants UnixNano_def)

lemma live_at_grant:
  assumes "validate owner now l = None" and "in_int64 l" and "in_int64 now"
  shows "UnixNano now < UnixNano l"
  using assms by (simp add: grants UnixNano_def)

text \<open>A granted lease stays within the bound when it is cut short.\<close>

lemma shorter: "validate owner now l = None \<Longrightarrow> now < l' \<Longrightarrow> l' \<le> l \<Longrightarrow> validate owner now l' = None"
  by (auto simp: grants)

lemma expires_unleased:
  assumes "validate owner now l = None" and "now + limit \<le> later" and "in_int64 l" and "in_int64 later"
    and "provisioning_lease_until r = UnixNano l"
  shows "unleased later r"
  using expires [OF assms(1-4)] assms(5) by (simp add: unleased_def)

end

interpretation provisioning_lease: bounded_lease validateProvisioningLease MaxProvisioningLease
proof
  have "MaxProvisioningLease < Sub l now \<longleftrightarrow> MaxProvisioningLease < l - now" for l now
    unfolding not_le [symmetric]
    by (subst Sub_le_iff) (simp_all add: MaxProvisioningLease_def minute_ns_def)
  then show "validateProvisioningLease owner now l = None \<longleftrightarrow>
      owner \<noteq> [] \<and> now < l \<and> l - now \<le> MaxProvisioningLease" for owner now l
    by (auto simp: validateProvisioningLease_def)
qed

lemma effect_bounded:
  assumes "kind = EffectVerifier \<or> kind = EffectWorkspaceClose"
  shows "validateEffectLease kind owner now l = None \<longleftrightarrow> owner \<noteq> [] \<and> now < l \<and> l - now \<le> MaxEffectLease"
proof -
  have "MaxEffectLease < Sub l now \<longleftrightarrow> MaxEffectLease < l - now"
    unfolding not_le [symmetric]
    by (subst Sub_le_iff) (simp_all add: MaxEffectLease_def minute_ns_def)
  with assms show ?thesis by (auto simp: validateEffectLease_def)
qed

interpretation verifier_lease: bounded_lease "validateEffectLease EffectVerifier" MaxEffectLease
  by unfold_locales (simp add: effect_bounded)

interpretation close_lease: bounded_lease "validateEffectLease EffectWorkspaceClose" MaxEffectLease
  by unfold_locales (simp add: effect_bounded)

end
