(* ===== verification/StoreSteps.thy ===== *)
theory StoreSteps
  imports StoreContracts
begin

text \<open>
  Every operation of the store as a sequence of commits, the labelled step relation over the
  operations, and the states reachable from a new database.
\<close>

definition run_keys :: "db \<Rightarrow> bool" where
  "run_keys d \<longleftrightarrow> distinct (map run_id (runs d))"

definition good_token :: "nat list \<Rightarrow> bool" where
  "good_token token \<longleftrightarrow> length token = 16 \<and> (\<forall>b\<in>set token. b < 256)"

lemma good_token_claim: "good_token token \<Longrightarrow> validEffectClaim (newEffectClaim token)"
  by (simp add: good_token_def newEffectClaim_valid)

lemma effect_lease_facts:
  "validateEffectLease kind owner now l = None \<Longrightarrow>
     owner \<noteq> [] \<and> (kind = EffectVerifier \<or> kind = EffectWorkspaceClose) \<and> now < l \<and> Sub l now \<le> MaxEffectLease"
  by (auto simp: validateEffectLease_def split: if_splits)

lemma run_keys_find: "run_keys d \<Longrightarrow> r \<in> set (runs d) \<Longrightarrow> find_run (run_id r) d = Some r"
  unfolding run_keys_def by (rule find_run_eq)

lemma acceptance_ends:
  assumes "run_keys d" and "terminalAcceptanceTx i (f_state f) (f_verdict f) d = Some cls"
    and "\<not> IsTerminalState fr" and "IsTerminalState (f_state f)"
    and "r \<in> set (runs d)" and "run_id r = i"
  shows "ends fr f cls r"
  using assms run_keys_find [OF assms(1,5)] by (auto simp: ends_def terminalAcceptanceTx_def)

section \<open>Operations on runs\<close>

named_theorems op_commits \<open>every operation is a sequence of commits\<close>

lemma Transition_commits [op_commits]: "commits d (snd (Transition i fr to detail now d))"
  by (auto simp: Transition_def split: option.split intro: transition.event_commits)

lemma Finish_commits [op_commits]:
  assumes "run_keys d"
  shows "commits d (snd (Finish i fr f now d))"
  using assms
  by (auto simp: Finish_def transition_where_def split: option.split
      intro!: finish_run.event_commits acceptance_ends)

lemma ClaimEffect_commits [op_commits]:
  assumes "good_token token"
  shows "commits d (snd (ClaimEffect i fr kind owner now l token d))"
  using good_token_claim [OF assms]
  by (auto simp: ClaimEffect_def Let_def split: option.split dest: effect_lease_facts
      intro!: claim.claim_commits)

lemma ClaimWorkspaceClose_commits [op_commits]:
  assumes "good_token token"
  shows "commits d (snd (ClaimWorkspaceClose i fr owner intent now l token d))"
  using good_token_claim [OF assms]
  by (auto simp: ClaimWorkspaceClose_def Let_def split: option.split dest: effect_lease_facts
      intro!: claim.claim_commits)

lemma ReclaimEffect_commits [op_commits]:
  assumes "good_token token"
  shows "commits d (snd (ReclaimEffect i fr kind owner now l token d))"
  using good_token_claim [OF assms]
  by (auto simp: ReclaimEffect_def Let_def split: option.split dest: effect_lease_facts
      intro!: reclaim.claim_commits)

lemma ClaimVerifier_commits [op_commits]:
  assumes "good_token token"
  shows "commits d (snd (ClaimVerifier sd i owner now l token d))"
  using good_token_claim [OF assms]
  by (auto simp: ClaimVerifier_def Let_def split: option.split sum.split dest: effect_lease_facts
      intro!: verifier.event_commits [rotated])

lemma ClaimLate_commits [op_commits]:
  assumes "good_token token"
  shows "commits d (snd (ClaimLateProvisioningCleanup i owner w p b pa f now l token d))"
  using good_token_claim [OF assms]
  by (auto simp: ClaimLateProvisioningCleanup_def Let_def split: option.split dest: effect_lease_facts
      intro!: late.event_commits [rotated])

lemma held_live_id: "held_live_where i fr owner c kind now r \<Longrightarrow> run_id r = i \<and> state r = fr"
  by (simp add: held_live_where_def held_where_def)

text \<open>
  A workspace close on a terminal row writes back what it read, so it keeps the state; the
  event it adds goes from the state to itself.
\<close>

lemma close_terminal_step:
  assumes "IsTerminalState (state r)"
  shows "row_write r (finish_set (row_finish r) (acceptance_lane r, acceptance_reason r, unread r) now r)"
  by (rule row_write_quiet)
     (simp_all add: row_facts row_finish_def)

lemma close_terminal_commits:
  assumes "run_keys d" and "find_run i d = Some cur" and "IsTerminalState fr"
  shows "commits d (snd (cas_event_bool (held_live_where i fr owner c kind now)
           (finish_set (row_finish cur) (acceptance_lane cur, acceptance_reason cur, unread cur) now)
           i fr fr now code detail d))"
proof -
  let ?P = "held_live_where i fr owner c kind now"
  let ?f = "finish_set (row_finish cur) (acceptance_lane cur, acceptance_reason cur, unread cur) now"
  have same: "r = cur" if "r \<in> set (runs d)" "?P r" for r
    using run_keys_find [OF assms(1) that(1)] held_live_id [OF that(2)] assms(2) by simp
  show ?thesis
  proof (cases "cas_event ?P ?f i fr fr now code detail d")
    case None
    then show ?thesis by (simp add: cas_event_bool_def)
  next
    case (Some d')
    then have d': "d' = add_event i fr fr now code detail (rewrite ?P ?f d)"
      and one: "length (filter ?P (runs d)) = 1"
      by (auto simp: cas_event_def cas_run_Some rewrite_def)
    have "commit True d d'"
      unfolding d'
    proof (rule commit.event)
      fix r assume r: "r \<in> set (runs d)" "?P r"
      then have "r = cur" "run_id r = i" "state r = fr" using same held_live_id by blast+
      then show "run_id r = i \<and> state r = fr \<and> row_step r (?f r) \<and> state (?f r) = fr
          \<and> (True \<longrightarrow> ends_classified r (?f r))"
        using close_terminal_step [of r now] assms(3) by (simp add: row_finish_def row_write_def)
    next
      show "\<exists>r\<in>set (runs d). ?P r" using filter_one_exists [OF one] .
    qed
    then show ?thesis using Some by (simp add: cas_event_bool_def commits1)
  qed
qed

lemma FinishEffect_commits [op_commits]:
  assumes "run_keys d"
  shows "commits d (snd (FinishEffect i fr owner c kind f now d))"
proof (cases "IsTerminalState fr")
  case True
  with assms show ?thesis
    by (auto simp: FinishEffect_def split: option.split intro: close_terminal_commits)
next
  case False
  with assms show ?thesis
    by (auto simp: FinishEffect_def split: option.split dest: held_live_id
        intro!: finish_effect.event_bool_commits acceptance_ends)
qed

text \<open>
  A verification that expired ends with its own classification, or, when it had no claim, with the
  lane kept for those.
\<close>

lemma legacy_end_step:
  assumes "state r = StateVerifying" and "IsTerminalState (f_state f)"
  shows "row_step r (expired_verifier_set f (AcceptanceMandatory, ''legacy_verifier'', True) now r)"
  using assms
  by (auto simp: row_step_def legacy_classified_def row_facts)

lemma legacy_commit:
  assumes "run_keys d" and "find_run i d = Some q" and "IsTerminalState (f_state f)"
  shows "loose_commits d (snd (cas_event_bool (expired_verifier_where i now)
           (expired_verifier_set f (AcceptanceMandatory, ''legacy_verifier'', True) now)
           i StateVerifying (f_state f) now code detail d))"
proof -
  let ?P = "expired_verifier_where i now"
  let ?f = "expired_verifier_set f (AcceptanceMandatory, ''legacy_verifier'', True) now"
  show ?thesis
  proof (cases "cas_event ?P ?f i StateVerifying (f_state f) now code detail d")
    case None
    then show ?thesis by (simp add: cas_event_bool_def)
  next
    case (Some d')
    then have d': "d' = add_event i StateVerifying (f_state f) now code detail (rewrite ?P ?f d)"
      and one: "length (filter ?P (runs d)) = 1"
      by (auto simp: cas_event_def cas_run_Some rewrite_def)
    have "commit False d d'"
      unfolding d'
    proof (rule commit.event)
      fix r assume "r \<in> set (runs d)" "?P r"
      then have "run_id r = i" "state r = StateVerifying" by (simp_all add: expired_verifier_where_def)
      with legacy_end_step assms(3)
      show "run_id r = i \<and> state r = StateVerifying \<and> row_step r (?f r) \<and> state (?f r) = f_state f
          \<and> (False \<longrightarrow> ends_classified r (?f r))" by simp
    next
      show "\<exists>r\<in>set (runs d). ?P r" using filter_one_exists [OF one] .
    qed
    with Some show ?thesis by (simp add: cas_event_bool_def r_into_rtranclp)
  qed
qed

lemma FinishExpiredVerifier_commits:
  assumes "run_keys d"
  shows "loose_commits d (snd (FinishExpiredVerifier i f now d))"
proof (cases "IsTerminalState (f_state f) \<and> lockOccurrenceWrites d = None \<and> find_run i d \<noteq> None")
  case False
  then show ?thesis by (auto simp: FinishExpiredVerifier_def split: option.split)
next
  case True
  then obtain q where q: "find_run i d = Some q" by auto
  have "ends StateVerifying f (classifyTerminalRun i (run_definition q) (f_state f) (f_verdict f)) r"
    if "r \<in> set (runs d)" "expired_verifier_where i now r" for r
  proof -
    have "run_id r = i" using that(2) by (simp add: expired_verifier_where_def)
    with run_keys_find [OF assms that(1)] q have "r = q" by simp
    with True \<open>run_id r = i\<close> show ?thesis by (simp add: ends_def)
  qed
  from commits_loose [OF finish_verifier.event_bool_commits [OF this]] legacy_commit [OF assms q] True q
  show ?thesis by (simp add: FinishExpiredVerifier_def)
qed

lemma InterruptExpiredVerifier_commits:
  "run_keys d \<Longrightarrow> loose_commits d (snd (InterruptExpiredVerifier i detail now d))"
  unfolding InterruptExpiredVerifier_def by (rule FinishExpiredVerifier_commits)

lemma ReleaseEffect_commits [op_commits]: "commits d (snd (ReleaseEffect i fr owner c kind now d))"
  by (auto simp: ReleaseEffect_def intro: release.cas_bool_commits)

lemma SetReceipt_commits [op_commits]: "commits d (snd (SetReceipt i w p b pa m k clock d))"
  by (auto simp: SetReceipt_def intro: receipt.update_commits)

lemma SetSourceContext_commits [op_commits]: "commits d (snd (SetSourceContext i base revision ctx clock d))"
  by (auto simp: SetSourceContext_def split: option.split intro: source.cas_commits)

lemma SaveProvisioningPlan_commits [op_commits]: "commits d (snd (SaveProvisioningPlan i owner b now d))"
  by (auto simp: SaveProvisioningPlan_def intro: plan.cas_bool_commits)

lemma RecoverProvisioningWorkspace_commits [op_commits]:
  "commits d (snd (RecoverProvisioningWorkspace i b w p now d))"
  by (auto simp: RecoverProvisioningWorkspace_def intro: recover_workspace.cas_bool_commits)

lemma SavePartialProvisioningReceipt_commits [op_commits]:
  "commits d (snd (SavePartialProvisioningReceipt i owner w p b now d))"
  by (auto simp: SavePartialProvisioningReceipt_def intro: partial_receipt.cas_bool_commits)

lemma SaveProvisioningReceipt_commits [op_commits]:
  "commits d (snd (SaveProvisioningReceipt i owner w p b pa m k now d))"
  by (auto simp: SaveProvisioningReceipt_def intro: starting.event_bool_commits)

lemma RenewProvisioningClaim_commits [op_commits]: "commits d (snd (RenewProvisioningClaim i owner now l d))"
  by (auto simp: RenewProvisioningClaim_def split: option.split intro: renew.cas_bool_commits)

lemma ConfirmStartingClaim_commits [op_commits]: "commits d (snd (ConfirmStartingClaim i owner detail now d))"
  by (auto simp: ConfirmStartingClaim_def intro: confirm.event_bool_commits)

lemma ConfirmExpiredCommandStart_commits [op_commits]:
  "commits d (snd (ConfirmExpiredCommandStart i detail now d))"
  by (auto simp: ConfirmExpiredCommandStart_def intro: confirm_expired.event_bool_commits)

lemma finish_claim_commits:
  assumes "run_keys d" and "\<not> IsTerminalState st"
  shows "commits d (snd (finish_claim st code i owner f now d))"
  using assms
  by (auto simp: finish_claim_def provisioning_where_def split: option.split
      intro!: finish_claimed.event_bool_commits acceptance_ends)

lemma FinishStartingClaim_commits [op_commits]:
  "run_keys d \<Longrightarrow> commits d (snd (FinishStartingClaim i owner f now d))"
  by (simp add: FinishStartingClaim_def finish_claim_commits)

lemma FinishProvisioningClaim_commits [op_commits]:
  "run_keys d \<Longrightarrow> commits d (snd (FinishProvisioningClaim i owner f now d))"
  by (simp add: FinishProvisioningClaim_def finish_claim_commits)

lemma uncertain_ends:
  assumes "run_keys d" and "terminalAcceptanceTx i StateInterrupted ''unverified'' d = Some cls"
    and "\<not> IsTerminalState fr" and "r \<in> set (runs d)" and "run_id r = i"
  shows "ends fr (uncertain_finish code detail) cls r"
  using assms by (intro acceptance_ends) simp_all

lemma InterruptExpiredProvisioning_commits [op_commits]:
  assumes "run_keys d"
  shows "commits d (snd (InterruptExpiredProvisioning i now d))"
  using assms
  by (auto simp: InterruptExpiredProvisioning_def interrupt_claim_def expired_provisioning_where_def
      split: option.split intro!: interrupt_provisioning.event_bool_commits uncertain_ends)

lemma InterruptExpiredStarting_commits [op_commits]:
  assumes "run_keys d"
  shows "commits d (snd (InterruptExpiredStarting i code detail now d))"
  using assms
  by (auto simp: InterruptExpiredStarting_def interrupt_claim_def expired_starting_where_def
      split: option.split intro!: interrupt_starting.event_bool_commits uncertain_ends)

lemma InterruptRecoveredProvisioning_commits [op_commits]:
  assumes "run_keys d"
  shows "commits d (snd (InterruptRecoveredProvisioning ob now d))"
proof (cases "recovery_refusal ob now")
  case (Some e)
  then show ?thesis by (simp add: InterruptRecoveredProvisioning_def)
next
  case None
  then have ob: "state ob = StateProvisioning"
    by (auto simp: recovery_refusal_def split: if_splits)
  have "commits d (snd (cas_event_bool (recovered_where ob now) (claim_finish_set (uncertain_finish c t) cls now)
          (run_id ob) StateProvisioning StateInterrupted now code detail d))"
    if "terminalAcceptanceTx (run_id ob) StateInterrupted ''unverified'' d = Some cls" for cls c t code detail
    unfolding ob [symmetric]
    using that ob by (intro interrupt_recovered.event_bool_commits uncertain_ends [OF assms])
      (auto simp: recovered_where_def)
  then show ?thesis
    using None by (auto simp: InterruptRecoveredProvisioning_def interrupt_claim_def split: option.split)
qed

lemma SetModelAttestation_commits [op_commits]: "commits d (snd (SetModelAttestation i x clock d))"
  unfolding SetModelAttestation_def by (rule attestation.commits_put)

lemma setImmutableRunReceipt_commits [op_commits]: "commits d (snd (setImmutableRunReceipt k i x clock d))"
  using input_receipt.commits_put change_receipt.commits_put
  by (cases k) (simp_all add: setImmutableRunReceipt_def)

lemma refusal_simps [simp]:
  "f_state (refusal st infra code detail) = st" "f_verdict (refusal st infra code detail) = ''unverified''"
  by (simp_all add: refusal_def)

lemma finishAdmissionTx_commits:
  assumes "run_keys d" and "f_verdict f = ''unverified''" and "IsTerminalState (f_state f)"
  shows "commits d (snd (finishAdmissionTx i f now d))"
proof -
  have "ends StateAccepted f cls r"
    if "terminalAcceptanceTx i (f_state f) ''unverified'' d = Some cls" "r \<in> set (runs d)" "accepted_where i r" for cls r
    using that assms by (intro acceptance_ends) (auto simp: accepted_where_def)
  then show ?thesis
    by (auto simp: finishAdmissionTx_def split: option.split intro!: finish_admission.event_commits [rotated])
qed

lemma canary_refusal_shape:
  "canary_refusal r d = Some f \<Longrightarrow> f_verdict f = ''unverified'' \<and> IsTerminalState (f_state f)"
  by (auto simp: canary_refusal_def split: option.splits if_splits)

lemma authority_hold_shape:
  "authority_hold j d = Some f \<Longrightarrow> f_verdict f = ''unverified'' \<and> IsTerminalState (f_state f)"
  by (auto simp: authority_hold_def split: if_splits)

lemma decide_commits:
  assumes "run_keys d"
  shows "commits d (snd (decide r owner dev_id reserve now l dc d))"
  using assms by (auto simp: decide_def intro!: finishAdmissionTx_commits admit.event_bool_commits)

lemma DecideAdmission_commits [op_commits]:
  assumes "run_keys d"
  shows "commits d (snd (DecideAdmission i owner dev_id reserve now l check d))"
  using assms
  by (auto simp: DecideAdmission_def split: option.split sum.split
      dest: canary_refusal_shape authority_hold_shape
      intro!: finishAdmissionTx_commits decide_commits)

lemma MarkRead_commits [op_commits]: "commits d (snd (MarkRead i d))"
  by (auto simp: MarkRead_def intro: mark_read.update_commits)

lemma RecordRunEvent_commits [op_commits]: "run_keys d \<Longrightarrow> commits d (snd (RecordRunEvent i code detail now d))"
proof -
  assume keys: "run_keys d"
  let ?P = "\<lambda>r. run_id r = i" and ?f = "\<lambda>r. r\<lparr>unread := True, updated_at := now\<rparr>"
  have "commits d d'"
    if r: "find_run i d = Some r" and d': "cas_run ?P ?f (add_event i (state r) (state r) now code detail d) = Some d'"
    for r d'
  proof -
    from d' have eq: "d' = add_event i (state r) (state r) now code detail (rewrite ?P ?f d)"
      by (auto simp: cas_run_Some rewrite_def add_event_def)
    have unique: "q = r" if "q \<in> set (runs d)" "run_id q = i" for q
      using run_keys_find [OF keys that(1)] that(2) r by simp
    have "row_write q (?f q)" for q
      by (auto simp: row_facts intro!: row_write_quiet)
    then have "commit True d d'"
      unfolding eq using unique find_run_Some [OF r] by (intro commit.event) (auto simp: row_write_def)
    then show ?thesis by (rule commits1)
  qed
  then show ?thesis
    by (auto simp: RecordRunEvent_def split: option.split)
qed

section \<open>Operations on jobs and occurrences\<close>

lemma set_job_commits:
  assumes "\<And>j. distinct (map job_key (jobs d)) \<Longrightarrow> j \<in> set (jobs d) \<Longrightarrow> job_key j = i \<Longrightarrow>
             config_revision j \<le> config_revision (f j)"
    and "\<And>j. job_key (f j) = job_key j"
  shows "commits d (set_job i f d)"
proof -
  let ?js = "map (\<lambda>j. if job_key j = i then f j else j) (jobs d)"
  have keys: "map job_key ?js = map job_key (jobs d)" using assms(2) by auto
  have "\<exists>j'\<in>set ?js. job_key j' = job_key j \<and> config_revision j \<le> config_revision j'"
    if "distinct (map job_key (jobs d))" "j \<in> set (jobs d)" for j
    using that assms(1) [OF that] assms(2)
    by (intro bexI [where x = "if job_key j = i then f j else j"]) auto
  moreover have "\<exists>j\<in>set (jobs d). config_revision j \<le> config_revision j'"
    if "distinct (map job_key (jobs d))" "j' \<in> set ?js" for j'
    using that(2) assms(1) [OF that(1)] by fastforce
  ultimately have "job_step (jobs d) ?js" unfolding job_step_def using keys by (simp only:) blast
  moreover have "set_job i f d = d\<lparr>jobs := ?js\<rparr>"
    by (simp add: set_job_def update_jobs_def update_rows_def)
  ultimately show ?thesis by (simp add: commit.new_jobs commits1)
qed

lemma find_job_unique:
  assumes "distinct (map job_key (jobs d))" and "find_job i d = Some saved" and "j \<in> set (jobs d)" and "job_key j = i"
  shows "j = saved"
proof (rule distinct_key_eq [OF assms(1,3)])
  show "saved \<in> set (jobs d)" "job_key j = job_key saved"
    using find_job_Some [OF assms(2)] assms(4) by auto
qed

lemma sync_commits:
  assumes "syncJobAuthorityTx i crev hash def en now d = Inr d'"
  shows "commits d d'"
proof (cases "find_job i d")
  case None
  have "job_step (jobs d) (jobs d @ [new_job i crev hash def en now])"
    using None assms by (auto simp: job_step_def new_job_def find_job_None syncJobAuthorityTx_def split: option.splits if_splits)
  moreover have "d' = d\<lparr>jobs := jobs d @ [new_job i crev hash def en now]\<rparr>"
    using assms None by (auto simp: syncJobAuthorityTx_def split: option.splits if_splits)
  ultimately show ?thesis by (simp add: commit.new_jobs commits1)
next
  case (Some saved)
  with assms consider "d' = set_job i (\<lambda>j. j\<lparr>job_updated_at := now\<rparr>) d"
    | "config_revision saved \<le> crev"
      "d' = set_job i (\<lambda>j. j\<lparr>config_revision := crev, snapshot_hash := hash, job_definition := def,
              enabled := en, completed := False, job_updated_at := now\<rparr>) d"
    by (auto simp: syncJobAuthorityTx_def split: option.splits if_splits)
  then show ?thesis
  proof cases
    case 1
    then show ?thesis using set_job_commits by simp
  next
    case 2
    then show ?thesis using find_job_unique [OF _ Some] by (auto intro!: set_job_commits)
  qed
qed

lemma SyncJobAuthority_commits [op_commits]: "commits d (snd (SyncJobAuthority i crev hash def en now d))"
  by (auto simp: SyncJobAuthority_def split: option.split sum.split intro: sync_commits)

lemma SyncJob_commits [op_commits]: "commits d (snd (SyncJob i hash def en now d))"
  by (auto simp: SyncJob_def split: option.split intro: SyncJobAuthority_commits)

lemma SetCursor_commits [op_commits]: "commits d (snd (SetCursor i cur clock d))"
  by (simp add: SetCursor_def set_job_commits)

lemma SetCompleted_commits [op_commits]: "commits d (snd (SetCompleted i c clock d))"
  by (simp add: SetCompleted_def set_job_commits)

lemma SetPaused_commits [op_commits]: "commits d (snd (SetPaused i p clock d))"
proof -
  have "snd (SetPaused i p clock d) =
    set_job i (if p then (\<lambda>j. j\<lparr>paused := True, pause_reason := PauseReasonManual, pause_at := Some clock,
                                job_updated_at := clock\<rparr>)
               else (\<lambda>j. j\<lparr>paused := False, pause_reason := [], pause_at := None, job_updated_at := clock\<rparr>)) d"
    by (simp add: SetPaused_def set_job_def Let_def split: prod.split)
  also have "commits d \<dots>" by (rule set_job_commits) auto
  finally show ?thesis .
qed

lemma SetGlobalPaused_commits [op_commits]: "commits d (snd (SetGlobalPaused p d))"
proof -
  have "map_of (filter (\<lambda>(k, _). k \<noteq> g) m) k = map_of m k" if "k \<noteq> g" for g k and m :: "(string \<times> string) list"
    using that by (induction m) auto
  then show ?thesis
    by (auto simp: SetGlobalPaused_def intro!: commits1 commit.new_metadata)
qed

lemma updateJobIfAuthority_commits:
  "(\<And>d d'. upd d = Inr d' \<Longrightarrow> commits d d') \<Longrightarrow> commits d (snd (updateJobIfAuthority i crev hash b upd d))"
  by (auto simp: updateJobIfAuthority_def split: option.split sum.split)

lemma SetCursorIfAuthority_commits [op_commits]:
  "commits d (snd (SetCursorIfAuthority i crev hash cur b clock d))"
  unfolding SetCursorIfAuthority_def
  by (rule updateJobIfAuthority_commits) (auto split: option.splits if_splits intro!: set_job_commits)

lemma SetCompletedIfAuthority_commits [op_commits]:
  "commits d (snd (SetCompletedIfAuthority i crev hash c clock d))"
  unfolding SetCompletedIfAuthority_def
  by (rule updateJobIfAuthority_commits) (auto intro!: set_job_commits)

lemma insert_or_ignore_commits:
  assumes "insert_or_ignore_occ oc d = Some (n, d')" and "occ_run oc = None"
    and "created_unix_nano oc = UnixNano (created_at oc)"
  shows "commits d d'"
proof (cases "find_occ (occ_job oc) (occurrence_key oc) d")
  case None
  with assms have "find_job (occ_job oc) d \<noteq> None" "d' = d\<lparr>occurrences := occurrences d @ [oc]\<rparr>"
    by (auto simp: insert_or_ignore_occ_def split: if_splits)
  with None assms(2,3) show ?thesis by (auto intro!: commits1 commit.new_occ)
next
  case (Some a)
  with assms(1) show ?thesis by (simp add: insert_or_ignore_occ_def)
qed

lemma RecordOccurrence_commits [op_commits]: "commits d (snd (RecordOccurrence j k s now out detail d))"
  by (auto simp: RecordOccurrence_def split: option.split intro: insert_or_ignore_commits)

lemma RecordOccurrenceIfAuthority_commits [op_commits]:
  "commits d (snd (RecordOccurrenceIfAuthority req out detail d))"
  by (auto simp: RecordOccurrenceIfAuthority_def req_occ_def split: option.split intro: insert_or_ignore_commits)

lemma pause_unread_commits: "commits d (pause_unread i now d)"
  unfolding pause_unread_def by (rule set_job_commits) auto

lemma new_run_fresh:
  "state (new_run i j revision def trig sched now) = StateAccepted"
  "no_effect (new_run i j revision def trig sched now)"
  "effect_lease_until (new_run i j revision def trig sched now) = 0"
  "run_id (new_run i j revision def trig sched now) = i"
  "job_id (new_run i j revision def trig sched now) = j"
  "accepted_at (new_run i j revision def trig sched now) = now"
  "accepted_unix_nano (new_run i j revision def trig sched now) = UnixNano now"
  by (simp_all add: new_run_def no_effect_def)

lemma insert_run_event_commits:
  assumes "insert_run r d = Some d1" and "state r = StateAccepted" and "no_effect r" and "effect_lease_until r = 0"
    and "accepted_unix_nano r = UnixNano (accepted_at r)"
  shows "commits d (add_event (run_id r) [] StateAccepted now [] detail d1)"
  using assms by (auto simp: insert_run_def split: if_splits intro!: commits1 commit.new_run)

lemma attended_run_commits:
  "state r = StateAccepted \<Longrightarrow> no_effect r \<Longrightarrow> effect_lease_until r = 0 \<Longrightarrow>
     accepted_unix_nano r = UnixNano (accepted_at r) \<Longrightarrow> commits d (snd (attended_run r detail now d))"
  by (auto simp: attended_run_def split: option.split intro: insert_run_event_commits)

lemma finishOccurrence_commits:
  assumes "commits d0 d" and "runID = [] \<or> find_run runID d \<noteq> None"
  shows "commits d0 (snd (finishOccurrence req out detail runID d0 d))"
proof (cases "insert_occ (req_occ req out detail (if runID = [] then None else Some runID)) d")
  case None
  then show ?thesis by (simp add: finishOccurrence_def)
next
  case (Some d')
  then have "commit True d d'"
    using assms(2) by (auto simp: insert_occ_def req_occ_def split: if_splits intro!: commit.new_occ)
  with assms(1) Some show ?thesis by (simp add: finishOccurrence_def)
qed

lemma newRunID_nonempty [simp]: "newRunID j now rnd \<noteq> []"
  by (simp add: newRunID_def)

lemma accepted_run_facts:
  "state (accepted_run req i) = StateAccepted" "no_effect (accepted_run req i)"
  "effect_lease_until (accepted_run req i) = 0" "run_id (accepted_run req i) = i"
  "job_id (accepted_run req i) = req_JobID req"
  "accepted_unix_nano (accepted_run req i) = UnixNano (accepted_at (accepted_run req i))"
  by (simp_all add: accepted_run_def new_run_def no_effect_def)

lemma acceptOccurrenceTx_commits:
  assumes "commits d0 d"
  shows "commits d0 (snd (acceptOccurrenceTx req rnd d0 d))"
proof -
  define i where "i = newRunID (req_JobID req) (req_Now req) rnd"
  let ?e = "add_event i [] StateAccepted (req_Now req) [] ''occurrence accepted''"
  have accept: "commits d0 (snd (finishOccurrence req ''accepted'' [] i d0 (?e d1)))"
    if "insert_run (accepted_run req i) d = Some d1" for d1
  proof (rule finishOccurrence_commits)
    show "commits d0 (?e d1)"
      using insert_run_event_commits [OF that] accepted_run_facts [of req i]
      by (intro rtranclp_trans [OF assms]) simp
    show "i = [] \<or> find_run i (?e d1) \<noteq> None"
      using that by (auto simp: insert_run_def find_run_None accepted_run_facts split: if_splits)
  qed
  have guard: "commits d0 d'" if "enforceUnreadGuardTx req d = Some (res, d')" for res d'
    using that rtranclp_trans [OF assms pause_unread_commits] by (auto simp: enforceUnreadGuardTx_def Let_def split: if_splits)
  show ?thesis
    using accept guard assms
    by (auto simp: acceptOccurrenceTx_def Let_def i_def [symmetric] split: sum.split option.split prod.split
        intro!: finishOccurrence_commits)
qed

lemma AcceptOccurrence_commits [op_commits]: "commits d (snd (AcceptOccurrence req rnd d))"
  by (auto simp: AcceptOccurrence_def split: option.split intro: acceptOccurrenceTx_commits)

lemma AcceptScheduledOccurrence_commits [op_commits]: "commits d (snd (AcceptScheduledOccurrence req rnd d))"
  by (auto simp: AcceptScheduledOccurrence_def split: option.split intro: acceptOccurrenceTx_commits)

lemma EnqueueEvent_commits [op_commits]: "commits d (snd (EnqueueEvent req rnd d))"
  by (auto simp: EnqueueEvent_def sync_request_def split: option.split sum.split
      intro: acceptOccurrenceTx_commits sync_commits)

lemma CreateManualRunIfAuthority_commits [op_commits]: "commits d (snd (CreateManualRunIfAuthority req rnd d))"
  by (auto simp: CreateManualRunIfAuthority_def Let_def new_run_fresh split: option.split
      intro: pause_unread_commits attended_run_commits)

lemma createAttendedRun_commits [op_commits]: "commits d (snd (createAttendedRun j revision def trig now rnd d))"
  by (auto simp: createAttendedRun_def new_run_fresh intro: attended_run_commits)

section \<open>The step relation\<close>

text \<open>
  One rule per exported operation that writes, with arbitrary arguments and an arbitrary clock:
  any number of processes may call them in any order. Only the random bytes of an effect claim
  are assumed to be sixteen bytes.
\<close>

inductive store_step :: "db \<Rightarrow> db \<Rightarrow> bool" where
  "store_step d (snd (SyncJob i hash def en now d))"
| "store_step d (snd (SyncJobAuthority i crev hash def en now d))"
| "store_step d (snd (SetCursor i cur clock d))"
| "store_step d (snd (SetCursorIfAuthority i crev hash cur b clock d))"
| "store_step d (snd (SetCompleted i c clock d))"
| "store_step d (snd (SetCompletedIfAuthority i crev hash c clock d))"
| "store_step d (snd (SetPaused i p clock d))"
| "store_step d (snd (SetGlobalPaused p d))"
| "store_step d (snd (RecordOccurrence j k s now out detail d))"
| "store_step d (snd (RecordOccurrenceIfAuthority req out detail d))"
| "store_step d (snd (AcceptOccurrence req rnd d))"
| "store_step d (snd (AcceptScheduledOccurrence req rnd d))"
| "store_step d (snd (EnqueueEvent req rnd d))"
| "store_step d (snd (CreateManualRunIfAuthority req rnd d))"
| "store_step d (snd (createAttendedRun j revision def trig now rnd d))"
| "store_step d (snd (Transition i fr to detail now d))"
| "store_step d (snd (Finish i fr f now d))"
| "good_token token \<Longrightarrow> store_step d (snd (ClaimEffect i fr kind owner now l token d))"
| "good_token token \<Longrightarrow> store_step d (snd (ClaimWorkspaceClose i fr owner intent now l token d))"
| "good_token token \<Longrightarrow> store_step d (snd (ClaimLateProvisioningCleanup i owner w p b pa f now l token d))"
| "good_token token \<Longrightarrow> store_step d (snd (ReclaimEffect i fr kind owner now l token d))"
| "good_token token \<Longrightarrow> store_step d (snd (ClaimVerifier sd i owner now l token d))"
| "store_step d (snd (FinishEffect i fr owner c kind f now d))"
| "store_step d (snd (FinishExpiredVerifier i f now d))"
| "store_step d (snd (InterruptExpiredVerifier i detail now d))"
| "store_step d (snd (ReleaseEffect i fr owner c kind now d))"
| "store_step d (snd (SetReceipt i w p b pa m k clock d))"
| "store_step d (snd (SetSourceContext i base revision ctx clock d))"
| "store_step d (snd (SetModelAttestation i x clock d))"
| "store_step d (snd (setImmutableRunReceipt rk i x clock d))"
| "store_step d (snd (SaveProvisioningPlan i owner b now d))"
| "store_step d (snd (RecoverProvisioningWorkspace i b w p now d))"
| "store_step d (snd (SavePartialProvisioningReceipt i owner w p b now d))"
| "store_step d (snd (SaveProvisioningReceipt i owner w p b pa m k now d))"
| "store_step d (snd (DecideAdmission i owner dev_id reserve now l check d))"
| "store_step d (snd (RenewProvisioningClaim i owner now l d))"
| "store_step d (snd (ConfirmStartingClaim i owner detail now d))"
| "store_step d (snd (FinishStartingClaim i owner f now d))"
| "store_step d (snd (FinishProvisioningClaim i owner f now d))"
| "store_step d (snd (InterruptExpiredProvisioning i now d))"
| "store_step d (snd (InterruptExpiredStarting i code detail now d))"
| "store_step d (snd (ConfirmExpiredCommandStart i detail now d))"
| "store_step d (snd (InterruptRecoveredProvisioning ob now d))"
| "store_step d (snd (RecordRunEvent i code detail now d))"
| "store_step d (snd (MarkRead i d))"

text \<open>Only the operation on expired verifications may end a run without its classification.\<close>

lemma store_step_strict:
  "store_step d d' \<Longrightarrow> run_keys d \<Longrightarrow> commits d d' \<or> (\<exists>i f now. d' = snd (FinishExpiredVerifier i f now d))"
  by (induction rule: store_step.induct) (auto intro: op_commits simp: InterruptExpiredVerifier_def)

lemma store_step_commits: "store_step d d' \<Longrightarrow> run_keys d \<Longrightarrow> loose_commits d d'"
  using store_step_strict FinishExpiredVerifier_commits commits_loose by blast

inductive reach :: "db \<Rightarrow> bool" where
  start: "reach init_db"
| step: "reach d \<Longrightarrow> store_step d d' \<Longrightarrow> reach d'"

inductive_cases store_step_cases: "store_step d d'"

section \<open>Invariants\<close>

text \<open>\<open>follow s es\<close> is the state the events \<open>es\<close> lead to from \<open>s\<close>, if they are a chain.\<close>

fun follow :: "string \<Rightarrow> event_row list \<Rightarrow> string option" where
  "follow s [] = Some s"
| "follow s (e # es) = (if from_state e = s then follow (to_state e) es else None)"

lemma follow_append: "follow s (es @ fs) = Option.bind (follow s es) (\<lambda>t. follow t fs)"
  by (induction es arbitrary: s) auto

definition keys_ok :: "db \<Rightarrow> bool" where
  "keys_ok d \<longleftrightarrow>
     run_keys d \<and> distinct (map job_key (jobs d))
     \<and> distinct (map (\<lambda>oc. (occ_job oc, occurrence_key oc)) (occurrences d))"

definition refs_ok :: "db \<Rightarrow> bool" where
  "refs_ok d \<longleftrightarrow>
     list_all (\<lambda>r. find_job (job_id r) d \<noteq> None) (runs d)
     \<and> list_all (\<lambda>oc. find_job (occ_job oc) d \<noteq> None
                     \<and> (case occ_run oc of None \<Rightarrow> True | Some i \<Rightarrow> find_run i d \<noteq> None)) (occurrences d)
     \<and> list_all (\<lambda>e. find_run (event_run e) d \<noteq> None) (events d)"

definition log_ok :: "db \<Rightarrow> bool" where
  "log_ok d \<longleftrightarrow>
     map event_id (events d) = [1..<Suc (length (events d))]
     \<and> list_all (\<lambda>r. follow [] (Events (run_id r) d) = Some (state r)) (runs d)"

definition rows_ok :: "db \<Rightarrow> bool" where
  "rows_ok d \<longleftrightarrow>
     list_all (\<lambda>r. effect_wf r \<and> (IsTerminalState (state r) \<longrightarrow> classified r \<or> legacy_classified r)) (runs d)"

definition locks_ok :: "db \<Rightarrow> bool" where
  "locks_ok d \<longleftrightarrow> lockAuthorityWrites d = None \<and> lockOccurrenceWrites d = None"

text \<open>The typed columns that a migration fills in for older files agree with their texts.\<close>

definition typed_ok :: "db \<Rightarrow> bool" where
  "typed_ok d \<longleftrightarrow>
     list_all (\<lambda>j. 1 \<le> config_revision j) (jobs d)
     \<and> list_all (\<lambda>r. accepted_unix_nano r = UnixNano (accepted_at r)) (runs d)
     \<and> list_all (\<lambda>oc. created_unix_nano oc = UnixNano (created_at oc)) (occurrences d)"

definition db_ok :: "db \<Rightarrow> bool" where
  "db_ok d \<longleftrightarrow> keys_ok d \<and> refs_ok d \<and> log_ok d \<and> rows_ok d \<and> locks_ok d \<and> typed_ok d"

lemma Events_add_event:
  "Events j (add_event i a b now c t d) =
     Events j d @ (if j = i then [\<lparr> event_id = Suc (length (events d)), event_run = i, from_state = a,
        to_state = b, event_at = now, event_code = c, event_detail = t \<rparr>] else [])"
  by (simp add: Events_def add_event_def)

lemma Events_rewrite [simp]: "Events j (rewrite P f d) = Events j d"
  by (simp add: Events_def)

lemma row_step_rewrite:
  assumes "\<And>r. r \<in> set (runs d) \<Longrightarrow> P r \<Longrightarrow> row_step r (f r)" and "r \<in> set (runs d)"
  shows "row_step r (if P r then f r else r)"
  using assms by auto

lemma map_run_id_rewrite:
  assumes "\<And>r. r \<in> set (runs d) \<Longrightarrow> P r \<Longrightarrow> row_step r (f r)"
  shows "map run_id (runs (rewrite P f d)) = map run_id (runs d)"
  using assms by (auto dest: row_step_id)

lemma find_run_rewrite:
  assumes "\<And>r. r \<in> set (runs d) \<Longrightarrow> P r \<Longrightarrow> row_step r (f r)"
  shows "find_run i (rewrite P f d) = None \<longleftrightarrow> find_run i d = None"
proof -
  have "run_id ` set (runs (rewrite P f d)) = run_id ` set (runs d)"
    using map_run_id_rewrite [OF assms] by (metis list.set_map)
  then show ?thesis by (simp only: find_run_None)
qed

end
