(* ===== verification/StoreInvariants.thy ===== *)
theory StoreInvariants
  imports StoreSteps
begin

text \<open>
  The invariants of the database, kept by every commit and so by every operation, and what a
  step may change in a row.
\<close>

section \<open>Commits keep the invariants\<close>

text \<open>What a commit does to the rows there are: no run is lost, and each meets the contract.\<close>

lemma commit_run:
  assumes "commit strict d d'" and "r \<in> set (runs d)"
  shows "\<exists>r'\<in>set (runs d'). row_step r r'"
  using assms
proof (induction rule: commit.induct)
  case (rows d P f)
  then show ?case
    using row_step_rewrite [of d P f r] by (intro bexI [where x = "if P r then f r else r"]) auto
next
  case (event d P i fr f to now code detail)
  then show ?case
    using row_step_rewrite [of d P f r] by (intro bexI [where x = "if P r then f r else r"]) auto
qed (auto intro: row_step_refl)

lemma commits_run:
  assumes "loose_commits d d'" and "r \<in> set (runs d)"
  shows "\<exists>r'\<in>set (runs d'). row_step r r'"
  using assms
proof (induction rule: rtranclp_induct)
  case base
  then show ?case by (auto intro: row_step_refl)
next
  case (step d1 d2)
  then obtain r1 where "r1 \<in> set (runs d1)" "row_step r r1" by blast
  with commit_run [OF step(2)] show ?case by (blast intro: row_step_trans)
qed

lemma commit_keys:
  assumes "commit strict d d'" and "keys_ok d"
  shows "keys_ok d'"
  using assms
proof (induction rule: commit.induct)
  case (rows d P f)
  then have "map run_id (runs (rewrite P f d)) = map run_id (runs d)" by (intro map_run_id_rewrite) blast
  with rows show ?case by (simp add: keys_ok_def run_keys_def del: rewrite_simps(1))
next
  case (event d P i fr f to now code detail)
  then have "map run_id (runs (rewrite P f d)) = map run_id (runs d)" by (intro map_run_id_rewrite) blast
  with event show ?case by (simp add: keys_ok_def run_keys_def del: rewrite_simps(1))
next
  case (new_run r d now detail)
  then show ?case by (auto simp: keys_ok_def run_keys_def find_run_None)
next
  case (new_occ oc d)
  then show ?case by (auto simp: keys_ok_def run_keys_def find_occ_None)
next
  case (new_jobs d js)
  then show ?case by (auto simp: keys_ok_def run_keys_def job_step_def)
next
  case (new_metadata m d)
  then show ?case by (auto simp: keys_ok_def run_keys_def)
qed

lemma find_job_cong: "jobs d' = jobs d \<Longrightarrow> find_job i d' = find_job i d"
  by (simp add: find_job_def)

lemma find_run_cong: "runs d' = runs d \<Longrightarrow> find_run i d' = find_run i d"
  by (simp add: find_run_def)

lemma refs_ok_mono:
  assumes "refs_ok d"
    and "\<And>r'. r' \<in> set (runs d') \<Longrightarrow> \<exists>r\<in>set (runs d). job_id r' = job_id r"
    and "occurrences d' = occurrences d"
    and "\<And>e. e \<in> set (events d') \<Longrightarrow> e \<in> set (events d) \<or> find_run (event_run e) d \<noteq> None"
    and "\<And>i. find_job i d \<noteq> None \<Longrightarrow> find_job i d' \<noteq> None"
    and "\<And>i. find_run i d \<noteq> None \<Longrightarrow> find_run i d' \<noteq> None"
  shows "refs_ok d'"
proof -
  have "find_job (job_id r') d' \<noteq> None" if "r' \<in> set (runs d')" for r'
    using assms(1) assms(2) [OF that] assms(5) by (fastforce simp: refs_ok_def list_all_iff)
  moreover have "find_job (occ_job oc) d' \<noteq> None
      \<and> (case occ_run oc of None \<Rightarrow> True | Some i \<Rightarrow> find_run i d' \<noteq> None)" if "oc \<in> set (occurrences d')" for oc
    using assms(1,3,5,6) that by (fastforce simp: refs_ok_def list_all_iff split: option.split)
  moreover have "find_run (event_run e) d' \<noteq> None" if "e \<in> set (events d')" for e
    using assms(1,6) assms(4) [OF that] by (fastforce simp: refs_ok_def list_all_iff)
  ultimately show ?thesis by (simp add: refs_ok_def list_all_iff)
qed

lemma rewrite_job_id:
  assumes "\<And>r. r \<in> set (runs d) \<Longrightarrow> P r \<Longrightarrow> row_step r (f r)" and "r' \<in> set (runs (rewrite P f d))"
  shows "\<exists>r\<in>set (runs d). job_id r' = job_id r"
  using assms by (fastforce simp: row_step_def same_identity_def split: if_splits)

lemma refs_ok_rewrite:
  assumes "\<And>r. r \<in> set (runs d) \<Longrightarrow> P r \<Longrightarrow> row_step r (f r)" and "refs_ok d"
  shows "refs_ok (rewrite P f d)"
proof (rule refs_ok_mono [OF assms(2)])
  show "\<exists>r\<in>set (runs d). job_id r' = job_id r" if "r' \<in> set (runs (rewrite P f d))" for r'
    using assms(1) that by (rule rewrite_job_id)
  show "find_run i d \<noteq> None \<Longrightarrow> find_run i (rewrite P f d) \<noteq> None" for i
    by (subst find_run_rewrite) (use assms(1) in blast)+
qed (simp_all add: find_job_def)

lemma refs_ok_add_event:
  assumes "refs_ok d" and "find_run i d \<noteq> None"
  shows "refs_ok (add_event i fr to now code detail d)"
proof (rule refs_ok_mono [OF assms(1)])
  show "e \<in> set (events d) \<or> find_run (event_run e) d \<noteq> None"
    if "e \<in> set (events (add_event i fr to now code detail d))" for e
    using that assms(2) by (auto simp: add_event_def)
qed (auto simp: find_job_def find_run_def)

lemma commit_refs:
  assumes "commit strict d d'" and "keys_ok d" and "refs_ok d"
  shows "refs_ok d'"
  using assms
proof (induction rule: commit.induct)
  case (rows d P f)
  then show ?case by (intro refs_ok_rewrite) blast+
next
  case (event d P i fr f to now code detail)
  then have step: "row_step r (f r)" if "r \<in> set (runs d)" "P r" for r using that by blast
  have "find_run i d \<noteq> None" using event(1,2) by (auto simp: find_run_None)
  then have "find_run i (rewrite P f d) \<noteq> None"
    by (subst find_run_rewrite) (use step in blast)+
  moreover have "refs_ok (rewrite P f d)"
    using event(4) step by (rule refs_ok_rewrite [rotated])
  ultimately show ?case by (intro refs_ok_add_event)
next
  case (new_run r d now detail)
  then show ?case
    by (fastforce simp: refs_ok_def list_all_iff find_job_def find_run_None add_event_def split: option.splits)
next
  case (new_occ oc d)
  then show ?case
    by (auto simp: refs_ok_def list_all_iff find_job_def find_run_def split: option.splits)
next
  case (new_jobs d js)
  then have "job_step (jobs d) js" "distinct (map job_key (jobs d))" by (simp_all add: keys_ok_def)
  then have "\<forall>j\<in>set (jobs d). \<exists>j'\<in>set js. job_key j = job_key j'"
    unfolding job_step_def by metis
  then have "job_key ` set (jobs d) \<subseteq> job_key ` set js" by blast
  then have "find_job i d \<noteq> None \<Longrightarrow> find_job i (d\<lparr>jobs := js\<rparr>) \<noteq> None" for i
    unfolding find_job_None by (auto simp del: not_None_eq)
  then show ?case
    by (intro refs_ok_mono [OF new_jobs(3)]) (auto simp: find_run_def)
next
  case (new_metadata m d)
  then show ?case
    by (intro refs_ok_mono [OF new_metadata(3)]) (auto simp: find_job_def find_run_def)
qed

text \<open>The event log is the history of the states: every run's events lead from nothing to its state.\<close>

lemma commit_log:
  assumes "commit strict d d'" and "keys_ok d" and "refs_ok d" and "log_ok d"
  shows "log_ok d'"
  using assms
proof (induction rule: commit.induct)
  case (rows d P f)
  then have "run_id (f r) = run_id r" "state (f r) = state r" if "r \<in> set (runs d)" "P r" for r
    using that row_step_id by blast+
  with rows(4) show ?case by (auto simp: log_ok_def list_all_iff)
next
  case (event d P i fr f to now code detail)
  then have one: "run_id r = i \<and> state r = fr \<and> row_step r (f r) \<and> state (f r) = to"
    if "r \<in> set (runs d)" "P r" for r using that by blast
  obtain q where q: "q \<in> set (runs d)" "P q" using event(2) by blast
  have chain: "follow [] (Events (run_id r) d) = Some (state r)" if "r \<in> set (runs d)" for r
    using event(5) that by (auto simp: log_ok_def list_all_iff)
  have "follow [] (Events (run_id r') (add_event i fr to now code detail (rewrite P f d))) = Some (state r')"
    if r': "r' \<in> set (runs (rewrite P f d))" for r'
  proof -
    from r' obtain r where r: "r \<in> set (runs d)" "r' = (if P r then f r else r)" by auto
    show ?thesis
    proof (cases "P r")
      case True
      with one [OF r(1) True] row_step_id r chain [OF r(1)] show ?thesis
        by (auto simp: Events_add_event follow_append)
    next
      case False
      have "run_id r \<noteq> i"
      proof
        assume "run_id r = i"
        with one [OF q] event(3) r(1) q(1) have "r = q"
          by (auto simp: keys_ok_def run_keys_def intro: distinct_key_eq)
        with q(2) False show False by simp
      qed
      with False r chain [OF r(1)] show ?thesis by (simp add: Events_add_event)
    qed
  qed
  with event(5) show ?case by (auto simp: log_ok_def list_all_iff add_event_def)
next
  case (new_run r d now detail)
  have none: "Events (run_id r) d = []"
    using new_run(1,7) by (auto simp: Events_def filter_empty_conv refs_ok_def list_all_iff)
  have "run_id q \<noteq> run_id r" if "q \<in> set (runs d)" for q
    using new_run(1) that by (metis find_run_None image_eqI)
  moreover have "Events i (d\<lparr>runs := rs\<rparr>) = Events i d" for i rs by (simp add: Events_def)
  ultimately show ?case
    using new_run(3,8) none
    by (auto simp: log_ok_def list_all_iff Events_add_event) (auto simp: add_event_def)
qed (auto simp: log_ok_def list_all_iff Events_def)

lemma rows_ok_rewrite:
  assumes "\<And>r. r \<in> set (runs d) \<Longrightarrow> P r \<Longrightarrow> row_step r (f r)" and "rows_ok d"
  shows "rows_ok (rewrite P f d)"
proof -
  have "effect_wf (f r) \<and> (IsTerminalState (state (f r)) \<longrightarrow> classified (f r) \<or> legacy_classified (f r))"
    if "r \<in> set (runs d)" "P r" for r
  proof -
    have "row_step r (f r)" "effect_wf r" "IsTerminalState (state r) \<longrightarrow> classified r \<or> legacy_classified r"
      using assms that by (auto simp: rows_ok_def list_all_iff)
    then show ?thesis
      using classified_cong [of r "f r"] by (cases "IsTerminalState (state r)") (auto simp: row_step_def same_outcome_def)
  qed
  with assms(2) show ?thesis by (auto simp: rows_ok_def list_all_iff)
qed

lemma commit_rows:
  assumes "commit strict d d'" and "rows_ok d"
  shows "rows_ok d'"
  using assms
proof (induction rule: commit.induct)
  case (rows d P f)
  then show ?case by (intro rows_ok_rewrite) blast+
next
  case (event d P i fr f to now code detail)
  then have "rows_ok (rewrite P f d)" by (intro rows_ok_rewrite) blast+
  then show ?case by (simp add: rows_ok_def)
qed (auto simp: rows_ok_def list_all_iff effect_wf_def)

lemma commit_locks: "commit strict d d' \<Longrightarrow> locks_ok d \<Longrightarrow> locks_ok d'"
  by (induction rule: commit.induct)
     (auto simp: locks_ok_def lockAuthorityWrites_def lockOccurrenceWrites_def meta_def split: if_splits)

lemma typed_ok_rewrite:
  assumes "\<And>r. r \<in> set (runs d) \<Longrightarrow> P r \<Longrightarrow> row_step r (f r)" and "typed_ok d"
  shows "typed_ok (rewrite P f d)"
  using assms by (auto simp: typed_ok_def list_all_iff row_step_def same_identity_def)

lemma commit_typed:
  assumes "commit strict d d'" and "keys_ok d" and "typed_ok d"
  shows "typed_ok d'"
  using assms
proof (induction rule: commit.induct)
  case (rows d P f)
  then show ?case by (intro typed_ok_rewrite) blast+
next
  case (event d P i fr f to now code detail)
  then have "typed_ok (rewrite P f d)" by (intro typed_ok_rewrite) blast+
  then show ?case by (simp add: typed_ok_def)
next
  case (new_jobs d js)
  then show ?case by (fastforce simp: typed_ok_def list_all_iff job_step_def keys_ok_def)
qed (auto simp: typed_ok_def list_all_iff)

lemma commit_ok: "commit strict d d' \<Longrightarrow> db_ok d \<Longrightarrow> db_ok d'"
  by (simp add: db_ok_def commit_keys commit_refs commit_log commit_rows commit_locks commit_typed)

lemma commits_ok: "loose_commits d d' \<Longrightarrow> db_ok d \<Longrightarrow> db_ok d'"
  by (induction rule: rtranclp_induct) (auto intro: commit_ok)

lemma init_ok: "db_ok init_db"
  by (simp add: db_ok_def init_db_def keys_ok_def run_keys_def refs_ok_def log_ok_def rows_ok_def locks_ok_def typed_ok_def
      lockAuthorityWrites_def lockOccurrenceWrites_def meta_def)

lemma db_ok_keys: "db_ok d \<Longrightarrow> run_keys d"
  by (simp add: db_ok_def keys_ok_def)

lemma step_ok: "store_step d d' \<Longrightarrow> db_ok d \<Longrightarrow> db_ok d'"
  by (rule commits_ok [OF store_step_commits]) (simp_all add: db_ok_keys)

lemma reach_ok: "reach d \<Longrightarrow> db_ok d"
  by (induction rule: reach.induct) (auto intro: init_ok step_ok)

section \<open>How a run ends\<close>

text \<open>
  In a strict sequence of commits every terminal row was already terminal, with the same outcome, or
  it has its own classification.
\<close>

definition ended_before :: "db \<Rightarrow> run \<Rightarrow> bool" where
  "ended_before d r' \<longleftrightarrow>
     (\<exists>r\<in>set (runs d). IsTerminalState (state r) \<and> same_identity r r' \<and> same_outcome r r')"

lemma ended_before_refl: "r \<in> set (runs d) \<Longrightarrow> IsTerminalState (state r) \<Longrightarrow> ended_before d r"
  unfolding ended_before_def by (intro bexI [of _ r]) (simp_all add: same_identity_def same_outcome_def)

lemma ended_before_step:
  assumes "ended_before d r" and "row_step r r'"
  shows "ended_before d r'"
proof -
  from assms(1) obtain q where q: "q \<in> set (runs d)" "IsTerminalState (state q)" "same_identity q r" "same_outcome q r"
    by (auto simp: ended_before_def)
  then have "same_identity r r'" "same_outcome r r'"
    using assms(2) by (simp_all add: row_step_def same_outcome_def [of q])
  with q(3,4) have "same_identity q r'" "same_outcome q r'"
    by (simp_all add: same_identity_def same_outcome_def)
  with q show ?thesis by (auto simp: ended_before_def)
qed

lemma rewrite_ends:
  assumes step: "\<And>r. r \<in> set (runs d1) \<Longrightarrow> P r \<Longrightarrow> row_step r (f r) \<and> ends_classified r (f r)"
    and old: "\<And>r. r \<in> set (runs d1) \<Longrightarrow> IsTerminalState (state r) \<Longrightarrow> classified r \<or> ended_before d r"
    and r': "r' \<in> set (runs (rewrite P f d1))" "IsTerminalState (state r')"
  shows "classified r' \<or> ended_before d r'"
proof -
  from r'(1) obtain r where r: "r \<in> set (runs d1)" "r' = (if P r then f r else r)" by auto
  show ?thesis
  proof (cases "P r")
    case True
    then have st: "row_step r r'" "ends_classified r r'" using step r by auto
    show ?thesis
    proof (cases "IsTerminalState (state r)")
      case True
      with st(1) have "classified r' = classified r" using classified_cong(1) [of r r'] by (simp add: row_step_def)
      with old [OF r(1) True] ended_before_step [OF _ st(1)] show ?thesis by auto
    next
      case False
      with st(2) r'(2) show ?thesis by (simp add: ends_classified_def)
    qed
  next
    case False
    with old r r'(2) show ?thesis by auto
  qed
qed

lemma strict_ends:
  assumes "commits d d'" and "r' \<in> set (runs d')" and "IsTerminalState (state r')"
  shows "classified r' \<or> ended_before d r'"
  using assms
proof (induction arbitrary: r' rule: rtranclp_induct)
  case base
  then show ?case by (simp add: ended_before_refl)
next
  case (step d1 d2)
  from step(2) show ?case
  proof cases
    case (rows P f)
    have "row_step r (f r) \<and> ends_classified r (f r)" if "r \<in> set (runs d1)" "P r" for r
      using rows(2) [OF that] by (simp add: ends_classified_def)
    from rewrite_ends [where P = P and f = f, OF this step(3)] step(4,5) rows(1) show ?thesis by simp
  next
    case (event P i fr f to now code detail)
    have "row_step r (f r) \<and> ends_classified r (f r)" if "r \<in> set (runs d1)" "P r" for r
      using event(2) [OF that] by simp
    from rewrite_ends [where P = P and f = f, OF this step(3)] step(4,5) event(1) show ?thesis by simp
  next
    case (new_run r now detail)
    with step(3) [of r'] step(4,5) show ?thesis by auto
  next
    case (new_occ oc)
    with step(3) [of r'] step(4,5) show ?thesis by simp
  next
    case (new_jobs js)
    with step(3) [of r'] step(4,5) show ?thesis by simp
  next
    case (new_metadata m)
    with step(3) [of r'] step(4,5) show ?thesis by simp
  qed
qed

text \<open>What \<open>FinishExpiredVerifier\<close> does to a row: nothing, or it ends a verification.\<close>

lemma unclaimed_verifier:
  assumes "effect_wf r" and "expired_verifier_where i now r" and "effect_kind r \<noteq> EffectVerifier"
  shows "no_effect r"
  using assms by (auto simp: expired_verifier_where_def effect_wf_def)

lemma expired_end:
  assumes "db_ok d" and "r' \<in> set (runs (snd (FinishExpiredVerifier i f now d)))" and "r' \<notin> set (runs d)"
  shows "\<exists>r. find_run i d = Some r \<and> state r = StateVerifying \<and> run_id r' = i
    \<and> (classified r' \<or> legacy_classified r' \<and> no_effect r)"
proof -
  from assms(2,3) obtain q where q: "find_run i d = Some q"
    by (auto simp: FinishExpiredVerifier_def split: if_splits option.splits)
  let ?cls = "if effect_kind q = EffectVerifier
    then classifyTerminalRun i (run_definition q) (f_state f) (f_verdict f) else (AcceptanceMandatory, ''legacy_verifier'', True)"
  let ?P = "expired_verifier_where i now" and ?f = "expired_verifier_set f ?cls now"
  from assms(2,3) q have "r' \<in> set (runs (snd (cas_event_bool ?P ?f i StateVerifying (f_state f) now (f_code f) (f_detail f) d)))"
    by (auto simp: FinishExpiredVerifier_def split: if_splits option.splits)
  with assms(3) have "r' \<in> set (runs (rewrite ?P ?f d))"
    by (auto simp: cas_event_bool_def cas_event_def cas_run_Some rewrite_def split: option.splits)
  with assms(3) obtain r where r: "r \<in> set (runs d)" "?P r" "r' = ?f r" by (auto split: if_splits)
  from r(2) have id: "run_id r = i" "state r = StateVerifying" by (simp_all add: expired_verifier_where_def)
  with run_keys_find [OF db_ok_keys [OF assms(1)] r(1)] q have rq: "r = q" by simp
  have wf: "effect_wf r" using assms(1) r(1) by (simp add: db_ok_def rows_ok_def list_all_iff)
  have "classified r' \<or> legacy_classified r' \<and> no_effect r"
  proof (cases "effect_kind q = EffectVerifier")
    case True
    obtain lane reason u where cls: "classifyTerminalRun i (run_definition q) (f_state f) (f_verdict f) = (lane, reason, u)"
      by (rule prod_cases3)
    show ?thesis
      using True cls id rq r(3)
      by (simp add: classified_def expired_verifier_set_def outcome_set_def clear_effect_def)
  next
    case False
    with unclaimed_verifier [OF wf r(2)] rq r(3) show ?thesis
      by (simp add: legacy_classified_def expired_verifier_set_def outcome_set_def)
  qed
  moreover have "run_id r' = i"
    using id(1) r(3) by (simp add: expired_verifier_set_def outcome_set_def clear_effect_def split: prod.split)
  ultimately show ?thesis using q rq id(2) by blast
qed

text \<open>
  The end of a verification without a claim: some earlier call of \<open>FinishExpiredVerifier\<close> found the
  run in state verifying, with no effect recorded, and gave it the outcome it still has.
\<close>

definition unclaimed_end :: "run \<Rightarrow> bool" where
  "unclaimed_end r \<longleftrightarrow> legacy_classified r
     \<and> (\<exists>d0 f now r0 r1. reach d0 \<and> find_run (run_id r) d0 = Some r0 \<and> state r0 = StateVerifying \<and> no_effect r0
          \<and> find_run (run_id r) (snd (FinishExpiredVerifier (run_id r) f now d0)) = Some r1 \<and> same_outcome r1 r)"

lemma unclaimed_end_cong:
  assumes "unclaimed_end r" and "run_id r' = run_id r" and "same_outcome r r'"
  shows "unclaimed_end r'"
proof -
  have "same_outcome r1 r'" if "same_outcome r1 r" for r1
    using that assms(3) by (simp add: same_outcome_def)
  with assms(1) classified_cong(2) [OF assms(3)] show ?thesis
    unfolding unclaimed_end_def assms(2) by blast
qed

lemma run_ended:
  assumes "reach d" and "r \<in> set (runs d)" and "IsTerminalState (state r)"
  shows "classified r \<or> unclaimed_end r"
  using assms
proof (induction arbitrary: r rule: reach.induct)
  case start
  then show ?case by (simp add: init_db_def)
next
  case (step d d')
  note ok = reach_ok [OF step(1)]
  have kept: "classified r \<or> unclaimed_end r" if "ended_before d r"
  proof -
    from that obtain q where q: "q \<in> set (runs d)" "IsTerminalState (state q)" "same_identity q r" "same_outcome q r"
      by (auto simp: ended_before_def)
    have "run_id r = run_id q" using q(3) by (simp add: same_identity_def)
    with step(3) [OF q(1,2)] classified_cong(1) [OF q(3,4)] unclaimed_end_cong [OF _ _ q(4)] show ?thesis by auto
  qed
  from store_step_strict [OF step(2) db_ok_keys [OF ok]] show ?case
  proof
    assume "commits d d'"
    from strict_ends [OF this step(4,5)] kept show ?thesis by blast
  next
    assume "\<exists>i f now. d' = snd (FinishExpiredVerifier i f now d)"
    then obtain i f now where d': "d' = snd (FinishExpiredVerifier i f now d)" by blast
    show ?thesis
    proof (cases "r \<in> set (runs d)")
      case True
      with step(3,5) show ?thesis by blast
    next
      case False
      from expired_end [OF ok step(4) [unfolded d'] False] obtain r0 where
        r0: "find_run i d = Some r0" "state r0 = StateVerifying" "run_id r = i"
          "classified r \<or> legacy_classified r \<and> no_effect r0" by blast
      have "find_run i d' = Some r"
        using run_keys_find [OF db_ok_keys [OF step_ok [OF step(2) ok]] step(4)] r0(3) by simp
      moreover have "same_outcome r r" by (simp add: same_outcome_def)
      ultimately show ?thesis using step(1) r0 d' unfolding unclaimed_end_def by blast
    qed
  qed
qed

end
