(* ===== verification/StoreProperties.thy ===== *)
theory StoreProperties
  imports StoreInvariants
begin

text \<open>
  What the store promises over its whole life: over any sequence of its operations, with any
  arguments, starting from a new database.
\<close>

section \<open>A small database\<close>

text \<open>One job, one attended run, and that run cancelled: three operations from a new file.\<close>

definition demo_definition :: string where
  "demo_definition = ''{\"revision\":1}''"

definition demo_id :: string where
  "demo_id = newRunID ''nightly'' 0 [1, 2, 3, 4, 5]"

definition demo_cancel :: finish where
  "demo_cancel = \<lparr> f_state = StateCancelled, f_infra = ''cancelled'', f_agent = ''not_started'',
     f_verdict = ''unverified'', f_code = ''cancelled'', f_detail = ''operator'' \<rparr>"

definition db_job :: db where
  "db_job = snd (SyncJobAuthority ''nightly'' 1 ''h1'' demo_definition True 0 init_db)"

definition db_run :: db where
  "db_run = snd (createAttendedRun ''nightly'' ''h1'' demo_definition ''manual'' 5 [1, 2, 3, 4, 5] db_job)"

definition db_cancelled :: db where
  "db_cancelled = snd (Finish (newRunID ''nightly'' 5 [1, 2, 3, 4, 5]) StateAccepted demo_cancel 7 db_run)"

lemma db_job_reach: "reach db_job"
  unfolding db_job_def by (intro reach.step [OF reach.start] store_step.intros)

lemma db_run_reach: "reach db_run"
  unfolding db_run_def by (intro reach.step [OF db_job_reach] store_step.intros)

lemma db_cancelled_reach: "reach db_cancelled"
  unfolding db_cancelled_def by (intro reach.step [OF db_run_reach] store_step.intros)

definition demo_run :: run where
  "demo_run = new_run (newRunID ''nightly'' 5 [1, 2, 3, 4, 5]) ''nightly'' ''h1'' demo_definition ''manual'' None 5"

lemma demo_revision: "configRevisionFromDefinition demo_definition = Some 1"
  unfolding demo_definition_def by code_simp

lemma db_job_eq: "db_job = init_db\<lparr>jobs := [new_job ''nightly'' 1 ''h1'' demo_definition True 0]\<rparr>"
  by (simp add: db_job_def SyncJobAuthority_def lockAuthorityWrites_def meta_def init_db_def
      syncJobAuthorityTx_def demo_revision find_job_def)

lemma db_run_runs: "runs db_run = [demo_run]"
  by (simp add: db_run_def createAttendedRun_def attended_run_def insert_run_def find_run_def find_job_def
      db_job_eq init_db_def demo_run_def new_run_def new_job_def)

lemma db_run_locks: "lockOccurrenceWrites db_run = None"
  using reach_ok [OF db_run_reach] by (simp add: db_ok_def locks_ok_def)

lemma demo_run_simps [simp]:
  "state demo_run = StateAccepted" "effect_owner demo_run = []" "run_definition demo_run = demo_definition"
  "model_attestation demo_run = []" "unread demo_run"
  "run_id demo_run = newRunID ''nightly'' 5 [1, 2, 3, 4, 5]" "job_id demo_run = ''nightly''"
  by (simp_all add: demo_run_def new_run_def)

lemma find_demo_run: "find_run (run_id demo_run) db_run = Some demo_run"
  by (simp add: find_run_def db_run_runs)

lemma demo_classification:
  "terminalAcceptanceTx (run_id demo_run) StateCancelled ''unverified'' db_run
     = Some (AcceptanceMandatory, ''state_cancelled'', True)"
proof -
  have "normalizeVerdict ''unverified'' = ''unverified''" by code_simp
  moreover have "TrimSpace StateCancelled \<noteq> []" by code_simp
  ultimately show ?thesis
    using find_demo_run
    by (simp add: terminalAcceptanceTx_def classifyTerminalRun_def) (simp add: StateCancelled_def)
qed

definition demo_cancelled_run :: run where
  "demo_cancelled_run = finish_set demo_cancel (AcceptanceMandatory, ''state_cancelled'', True) 7 demo_run"

lemma db_cancelled_eq:
  "db_cancelled = add_event (run_id demo_run) StateAccepted StateCancelled 7 [] ''operator''
     (db_run\<lparr>runs := [demo_cancelled_run]\<rparr>)"
proof -
  have "cas_run (transition_where (run_id demo_run) StateAccepted)
      (finish_set demo_cancel (AcceptanceMandatory, ''state_cancelled'', True) 7) db_run
    = Some (db_run\<lparr>runs := [demo_cancelled_run]\<rparr>)"
    by (simp add: cas_run_Some db_run_runs transition_where_def demo_cancelled_run_def)
  then show ?thesis
    using demo_classification
    by (simp add: db_cancelled_def Finish_def demo_cancel_def db_run_locks cas_event_def)
qed

lemma demo_cancelled_simps [simp]:
  "run_id demo_cancelled_run = run_id demo_run" "job_id demo_cancelled_run = job_id demo_run"
  "state demo_cancelled_run = StateCancelled" "unread demo_cancelled_run"
  by (simp_all add: demo_cancelled_run_def demo_cancel_def finish_set_def outcome_set_def clear_effect_def
      clear_provisioning_def)

lemma db_run_tables: "jobs db_run = jobs db_job" "occurrences db_run = []" "metadata db_run = metadata init_db"
  by (simp_all add: db_run_def createAttendedRun_def attended_run_def insert_run_def find_run_def find_job_def
      db_job_eq init_db_def new_run_def new_job_def)

lemma find_cancelled: "find_run (run_id demo_run) db_cancelled = Some demo_cancelled_run"
  by (simp add: db_cancelled_eq find_run_def)

lemma cancelled_terminal: "IsTerminalState (state demo_cancelled_run)"
  by simp

section \<open>Properties of reachable databases\<close>

text \<open>C18: In every reachable database run ids, job ids and (job, occurrence key) pairs are
  unique, no run, occurrence or event refers to a row that does not exist, and both
  serialization rows are present.\<close>

theorem reachable_consistent:
  assumes "reach d"
  shows "keys_ok d \<and> refs_ok d \<and> locks_ok d"
  using reach_ok [OF assms] by (simp add: db_ok_def)

theorem reachable_consistent_witness: "keys_ok db_cancelled \<and> refs_ok db_cancelled \<and> locks_ok db_cancelled"
  by (rule reachable_consistent [OF db_cancelled_reach])

text \<open>C2: The event log is the exact history of every run: its events, in the order of their
  consecutive ids, lead step by step from the empty state to the state in its row.\<close>

theorem event_log_is_history:
  assumes "reach d" and "find_run i d = Some r"
  shows "follow [] (Events i d) = Some (state r) \<and> map event_id (events d) = [1..<Suc (length (events d))]"
proof -
  from find_run_Some [OF assms(2)] have "r \<in> set (runs d)" "run_id r = i" by blast+
  with reach_ok [OF assms(1)] show ?thesis by (auto simp: db_ok_def log_ok_def list_all_iff)
qed

theorem event_log_is_history_witness:
  "follow [] (Events (run_id demo_run) db_cancelled) = Some StateCancelled"
  using event_log_is_history [OF db_cancelled_reach find_cancelled] by simp



text \<open>C20: The effect columns of a run are all empty, or they hold an owner, a claim of
  thirty-two lowercase hexadecimal digits and one of the two effect kinds.\<close>

theorem effect_columns_wf:
  assumes "reach d" and "find_run i d = Some r"
  shows "(no_effect r \<and> effect_lease_until r = 0)
    \<or> (effect_owner r \<noteq> [] \<and> validEffectClaim (effect_claim r) \<and> length (effect_claim r) = 32
       \<and> effect_kind r \<in> {EffectVerifier, EffectWorkspaceClose})"
proof -
  from find_run_Some [OF assms(2)] reach_ok [OF assms(1)] have "effect_wf r"
    by (auto simp: db_ok_def rows_ok_def list_all_iff)
  then show ?thesis by (auto simp: effect_wf_def validEffectClaim_def)
qed

theorem effect_columns_wf_witness:
  "effect_claim demo_cancelled_run = [] \<or> length (effect_claim demo_cancelled_run) = 32"
  using effect_columns_wf [OF db_cancelled_reach find_cancelled] by (auto simp: no_effect_def)

section \<open>Properties of histories\<close>

abbreviation store_steps :: "db \<Rightarrow> db \<Rightarrow> bool" where
  "store_steps \<equiv> store_step\<^sup>*\<^sup>*"

lemma steps_ok: "store_steps d d' \<Longrightarrow> db_ok d \<Longrightarrow> db_ok d'"
  by (induction rule: rtranclp_induct) (auto intro: step_ok)

lemma steps_commits: "store_steps d d' \<Longrightarrow> db_ok d \<Longrightarrow> loose_commits d d'"
proof (induction rule: rtranclp_induct)
  case (step d1 d2)
  then have "loose_commits d1 d2" by (intro store_step_commits) (auto dest: steps_ok intro: db_ok_keys)
  with step show ?case by simp
qed simp

lemma steps_run:
  assumes "reach d" and "store_steps d d'" and "find_run i d = Some r"
  shows "\<exists>r'. find_run i d' = Some r' \<and> row_step r r'"
proof -
  from reach_ok [OF assms(1)] have ok: "db_ok d" .
  from find_run_Some [OF assms(3)] have r: "r \<in> set (runs d)" "run_id r = i" by blast+
  from commits_run [OF steps_commits [OF assms(2) ok] r(1)]
  obtain r' where r': "r' \<in> set (runs d')" "row_step r r'" by blast
  with r(2) row_step_id [OF r'(2)] run_keys_find [OF db_ok_keys [OF steps_ok [OF assms(2) ok]] r'(1)]
  show ?thesis by auto
qed

text \<open>C1: Once a run is in a terminal state, no operation, in whatever order and with whatever
  arguments, changes its state, its results, its verdict, its error, its acceptance lane and
  reason, or its receipts again.\<close>

theorem terminal_outcome_final:
  assumes "reach d" and "store_steps d d'" and "find_run i d = Some r" and "IsTerminalState (state r)"
  shows "\<exists>r'. find_run i d' = Some r' \<and> same_outcome r r'"
  using steps_run [OF assms(1-3)] assms(4) by (auto simp: row_step_def)

theorem terminal_outcome_final_witness:
  "\<exists>r'. find_run (run_id demo_run) (snd (SetReceipt (run_id demo_run) ''w'' ''p'' ''b'' ''/t'' ''agent'' ''m'' 9 db_cancelled)) = Some r'
        \<and> same_outcome demo_cancelled_run r'"
  by (rule terminal_outcome_final [OF db_cancelled_reach _ find_cancelled cancelled_terminal])
     (intro r_into_rtranclp store_step.intros)

text \<open>C21: A run is never removed, and its id, job, definition snapshot, trigger, schedule and
  acceptance instant never change; nor does a receipt or attestation once it is stored.\<close>

theorem run_identity_and_receipts_permanent:
  assumes "reach d" and "store_steps d d'" and "find_run i d = Some r"
  shows "\<exists>r'. find_run i d' = Some r' \<and> same_identity r r' \<and> receipts_once r r'"
  using steps_run [OF assms] by (auto simp: row_step_def)

theorem run_identity_and_receipts_permanent_witness:
  "\<exists>r'. find_run (run_id demo_run) db_cancelled = Some r' \<and> same_identity demo_run r' \<and> receipts_once demo_run r'"
proof -
  have "store_steps db_run db_cancelled"
    unfolding db_cancelled_def by (intro r_into_rtranclp store_step.intros)
  from run_identity_and_receipts_permanent [OF db_run_reach this find_demo_run] show ?thesis .
qed

lemma commit_revision:
  assumes "commit strict d d'" and "keys_ok d" and "j \<in> set (jobs d)"
  shows "\<exists>j'\<in>set (jobs d'). job_key j' = job_key j \<and> config_revision j \<le> config_revision j'"
  using assms by (induction rule: commit.induct) (auto simp: job_step_def keys_ok_def)

lemma commits_revision:
  assumes "loose_commits d d'" and "db_ok d" and "j \<in> set (jobs d)"
  shows "\<exists>j'\<in>set (jobs d'). job_key j' = job_key j \<and> config_revision j \<le> config_revision j'"
  using assms
proof (induction rule: rtranclp_induct)
  case (step d1 d2)
  then obtain j1 where "j1 \<in> set (jobs d1)" "job_key j1 = job_key j" "config_revision j \<le> config_revision j1"
    by blast
  moreover have "keys_ok d1" using commits_ok [OF step(1,4)] by (simp add: db_ok_def)
  ultimately show ?case using commit_revision [OF step(2)] by (metis order_trans)
qed auto

text \<open>The saved revision of a job never decreases, and a job is never removed.\<close>

theorem job_revision_monotone:
  assumes "reach d" and "store_steps d d'" and "find_job i d = Some j"
  shows "\<exists>j'. find_job i d' = Some j' \<and> config_revision j \<le> config_revision j'"
proof -
  from reach_ok [OF assms(1)] have ok: "db_ok d" .
  from find_job_Some [OF assms(3)] have j: "j \<in> set (jobs d)" "job_key j = i" by blast+
  from commits_revision [OF steps_commits [OF assms(2) ok] ok j(1)]
  obtain j' where j': "j' \<in> set (jobs d')" "job_key j' = i" "config_revision j \<le> config_revision j'"
    using j(2) by auto
  from steps_ok [OF assms(2) ok] have dist: "distinct (map job_key (jobs d'))"
    by (simp add: db_ok_def keys_ok_def)
  have "find_job (job_key j') d' = Some j'"
    unfolding find_job_def using dist j'(1) by (rule find_key_unique)
  with j' show ?thesis by auto
qed

theorem job_revision_monotone_witness:
  "\<exists>j'. find_job ''nightly'' db_cancelled = Some j' \<and> 1 \<le> config_revision j'"
proof -
  have steps: "store_steps db_job db_cancelled"
    unfolding db_cancelled_def db_run_def
    by (rule rtranclp.rtrancl_into_rtrancl [OF r_into_rtranclp]) (rule store_step.intros)+
  have "find_job ''nightly'' db_job = Some (new_job ''nightly'' 1 ''h1'' demo_definition True 0)"
    by (simp add: db_job_eq find_job_def new_job_def)
  from job_revision_monotone [OF db_job_reach steps this] show ?thesis by (simp add: new_job_def)
qed

lemma commit_occurrences: "commit strict d d' \<Longrightarrow> set (occurrences d) \<subseteq> set (occurrences d')"
  by (induction rule: commit.induct) auto

lemma commits_occurrences: "loose_commits d d' \<Longrightarrow> set (occurrences d) \<subseteq> set (occurrences d')"
  by (induction rule: rtranclp_induct) (auto dest: commit_occurrences)

lemma find_occ_unique:
  assumes "keys_ok d" and "oc \<in> set (occurrences d)"
  shows "find_occ (occ_job oc) (occurrence_key oc) d = Some oc"
proof -
  have "find (\<lambda>x. (occ_job x, occurrence_key x) = (occ_job oc, occurrence_key oc)) (occurrences d) = Some oc"
    using assms by (intro find_key_unique) (simp_all add: keys_ok_def)
  then show ?thesis by (simp add: find_occ_def)
qed

lemma steps_occ:
  assumes "reach d" and "store_steps d d'" and "find_occ i k d = Some oc"
  shows "find_occ i k d' = Some oc"
proof -
  from reach_ok [OF assms(1)] have ok: "db_ok d" .
  from find_occ_Some [OF assms(3)] commits_occurrences [OF steps_commits [OF assms(2) ok]]
  have "oc \<in> set (occurrences d')" "occ_job oc = i" "occurrence_key oc = k" by auto
  with find_occ_unique [of d' oc] steps_ok [OF assms(2) ok] show ?thesis by (simp add: db_ok_def)
qed

end
