(* ===== verification/AcceptanceProperties.thy ===== *)
theory AcceptanceProperties
  imports StoreProperties
begin

text \<open>
  Authority and acceptance: a stale configuration changes nothing, an occurrence is accepted
  at most once, and an accepted run respects the limits of its job.
\<close>

section \<open>Authority\<close>

lemma new_job_simps [simp]:
  "job_key (new_job i crev hash def en now) = i" "config_revision (new_job i crev hash def en now) = crev"
  "snapshot_hash (new_job i crev hash def en now) = hash" "job_definition (new_job i crev hash def en now) = def"
  "enabled (new_job i crev hash def en now) = en" "paused (new_job i crev hash def en now) = False"
  "completed (new_job i crev hash def en now) = False"
  by (simp_all add: new_job_def)

lemma find_job_set_job:
  assumes "\<And>j. job_key (f j) = job_key j"
  shows "find_job i (set_job i f d) = map_option f (find_job i d)"
proof -
  have "find (\<lambda>j. job_key j = i) (map (\<lambda>j. if job_key j = i then f j else j) js)
      = map_option f (find (\<lambda>j. job_key j = i) js)" for js
    using assms by (induction js) auto
  then show ?thesis by (simp add: set_job_def update_jobs_def update_rows_def find_job_def)
qed

text \<open>The saved authority of a job is what a request names.\<close>

definition current_authority :: "accept_request \<Rightarrow> db \<Rightarrow> bool" where
  "current_authority req d \<longleftrightarrow>
     (case find_job (req_JobID req) d of
        None \<Rightarrow> False
      | Some j \<Rightarrow> config_revision j = req_JobConfigRevision req \<and> snapshot_hash j = req_JobRevision req)"

definition runnable :: "string \<Rightarrow> db \<Rightarrow> bool" where
  "runnable i d \<longleftrightarrow>
     (case find_job i d of None \<Rightarrow> False | Some j \<Rightarrow> enabled j \<and> \<not> paused j) \<and> \<not> GlobalPaused d"

lemma require_None:
  "requireJobAuthorityTx (req_JobID req) (req_JobConfigRevision req) (req_JobRevision req) True d = None
     \<longleftrightarrow> current_authority req d \<and> runnable (req_JobID req) d"
  by (auto simp: requireJobAuthorityTx_def current_authority_def runnable_def split: option.splits)

text \<open>
  An event carries an authority that may be newer than the saved one. It is superseded when the saved
  one is newer, or has the same revision with another snapshot or enablement.
\<close>

definition superseded :: "accept_request \<Rightarrow> db \<Rightarrow> bool" where
  "superseded req d \<longleftrightarrow>
     (case find_job (req_JobID req) d of
        None \<Rightarrow> False
      | Some j \<Rightarrow>
          req_JobConfigRevision req < config_revision j
          \<or> req_JobConfigRevision req = config_revision j
            \<and> (req_JobRevision req \<noteq> snapshot_hash j \<or> req_JobEnabled req \<noteq> enabled j))"

lemma superseded_sync: "superseded req d \<Longrightarrow> sync_request req d = Inl ErrJobRevisionChanged"
  by (auto simp: superseded_def sync_request_def syncJobAuthorityTx_def split: option.splits)

lemma refused_event:
  assumes "sync_request req d = Inr d1" and "\<not> runnable (req_JobID req) d1"
  shows "snd (EnqueueEvent req rnd d) = d \<or> snd (EnqueueEvent req rnd d) = d1"
proof -
  have "event_refusal (req_JobID req) d1 \<noteq> None \<or> find_job (req_JobID req) d1 = None"
    using assms(2) by (auto simp: event_refusal_def runnable_def split: option.split)
  with assms(1) show ?thesis by (auto simp: EnqueueEvent_def split: option.split sum.split)
qed

lemma sync_jobs_only:
  assumes "sync_request req d = Inr d1"
  shows "runs d1 = runs d \<and> occurrences d1 = occurrences d \<and> events d1 = events d \<and> metadata d1 = metadata d
    \<and> (\<forall>i. i \<noteq> req_JobID req \<longrightarrow> find_job i d1 = find_job i d)"
proof -
  have other: "find_job i (set_job k f d) = find_job i d" if "i \<noteq> k" "\<And>j. job_key (f j) = job_key j" for i k f
  proof -
    have "find (\<lambda>j. job_key j = i) (map (\<lambda>j. if job_key j = k then f j else j) js) = find (\<lambda>j. job_key j = i) js" for js
      using that by (induction js) auto
    then show ?thesis by (simp add: set_job_def update_jobs_def update_rows_def find_job_def)
  qed
  have app: "find P (xs @ [x]) = find P xs" if "\<not> P x" for P and xs :: "job_row list" and x
    using that by (induction xs) auto
  have new: "find_job i (d\<lparr>jobs := jobs d @ [new_job k crev hash def en now]\<rparr>) = find_job i d" if "i \<noteq> k" for i k crev hash def en now
    using that by (simp add: find_job_def app)
  have rest: "runs (set_job k f d) = runs d" "occurrences (set_job k f d) = occurrences d"
    "events (set_job k f d) = events d" "metadata (set_job k f d) = metadata d" for k f
    by (simp_all add: set_job_def update_jobs_def update_rows_def)
  from assms consider crev hash def en now where "d1 = d\<lparr>jobs := jobs d @ [new_job (req_JobID req) crev hash def en now]\<rparr>"
    | f where "d1 = set_job (req_JobID req) f d" "\<And>j. job_key (f j) = job_key j"
    by (auto simp: sync_request_def syncJobAuthorityTx_def split: option.splits if_splits)
  then show ?thesis by cases (auto simp: rest other new)
qed


definition demo_req :: accept_request where
  "demo_req = \<lparr> req_JobID = ''nightly'', req_JobConfigRevision = 1, req_JobRevision = ''h1'',
     req_JobEnabled = True, req_OccurrenceKey = ''cron:1'', req_Definition = demo_definition,
     req_Trigger = ''cron'', req_ScheduledFor = 10, req_Overlap = ''forbid'', req_DayStart = 0,
     req_DayEnd = 86400000000000, req_MaxRunsPerDay = 3, req_SourceBaseRevision = [],
     req_SourceRevision = [], req_InputContext = [], req_Now = 11, req_MaxUnread = 0 \<rparr>"


text \<open>Synchronizing a job with an older revision, with the same revision but another
  snapshot or enablement, or with a snapshot whose own revision differs, is refused and leaves
  the database as it was; otherwise the saved authority becomes the one given, and a higher
  revision also clears the completion mark.\<close>

theorem sync_is_monotone:
  assumes "reach d"
  shows "(fst (SyncJobAuthority i crev hash def en now d) = Inl ErrJobRevisionChanged
            \<and> snd (SyncJobAuthority i crev hash def en now d) = d)
         \<or> (1 \<le> crev \<and> hash \<noteq> [] \<and> configRevisionFromDefinition def = Some crev
            \<and> (\<forall>j. find_job i d = Some j \<longrightarrow> config_revision j \<le> crev
                  \<and> (config_revision j = crev \<longrightarrow> snapshot_hash j = hash \<and> enabled j = en))
            \<and> (\<exists>j'. fst (SyncJobAuthority i crev hash def en now d) = Inr j'
                  \<and> find_job i (snd (SyncJobAuthority i crev hash def en now d)) = Some j'
                  \<and> config_revision j' = crev \<and> snapshot_hash j' = hash \<and> enabled j' = en
                  \<and> (\<forall>j. find_job i d = Some j \<and> config_revision j < crev \<longrightarrow> \<not> completed j' \<and> job_definition j' = def)))"
proof (cases "syncJobAuthorityTx i crev hash def en now d")
  case (Inl e)
  then have "e = ErrJobRevisionChanged"
    by (auto simp: syncJobAuthorityTx_def split: option.splits if_splits)
  with Inl reach_ok [OF assms] show ?thesis
    by (simp add: SyncJobAuthority_def db_ok_def locks_ok_def)
next
  case (Inr d')
  have new: "find_job i (d\<lparr>jobs := jobs d @ [nj]\<rparr>) = Some nj" if "find_job i d = None" "job_key nj = i" for nj
  proof -
    have "find P (xs @ [x]) = Some x" if "find P xs = None" "P x" for P and xs :: "job_row list" and x
      using that by (induction xs) (auto split: if_splits)
    with that show ?thesis by (simp add: find_job_def)
  qed
  from Inr reach_ok [OF assms] show ?thesis
    by (auto simp: SyncJobAuthority_def db_ok_def locks_ok_def Job_def syncJobAuthorityTx_def find_job_set_job new
        split: option.splits if_splits)
qed

theorem sync_is_monotone_witness:
  "fst (SyncJobAuthority ''nightly'' 1 ''other'' demo_definition True 9 db_job) = Inl ErrJobRevisionChanged"
  using sync_is_monotone [OF db_job_reach, of "''nightly''" 1 "''other''" demo_definition True 9]
  by (auto simp: db_job_eq find_job_def new_job_def)

section \<open>Acceptance\<close>

lemma existing_None: "existingOccurrence i k d = Inr None \<longleftrightarrow> find_occ i k d = None"
  by (auto simp: existingOccurrence_def Let_def split: option.splits)

lemma finishOccurrence_Inr:
  assumes "finishOccurrence req out detail runID d0 d = (Inr res, d')"
  shows "d' = d\<lparr>occurrences := occurrences d @ [req_occ req out detail (if runID = [] then None else Some runID)]\<rparr>
         \<and> res = \<lparr> ar_Inserted = True, ar_Outcome = out, ar_Run = None, ar_Detail = detail \<rparr>"
  using assms by (auto simp: finishOccurrence_def insert_occ_def split: option.splits if_splits)

text \<open>What a request may lead to: a repeat, a tripped guard, a recorded refusal, or a run.\<close>

definition admissible :: "accept_request \<Rightarrow> db \<Rightarrow> bool" where
  "admissible req d \<longleftrightarrow>
     day_count req d < req_MaxRunsPerDay req
     \<and> (req_Overlap req = ''forbid'' \<longrightarrow> executing_count (req_JobID req) d + queued_count (req_JobID req) d = 0)
     \<and> (req_Overlap req = ''queue_one'' \<longrightarrow> queued_count (req_JobID req) d = 0)"

lemma acceptOccurrenceTx_cases:
  assumes "acceptOccurrenceTx req rnd d0 d = (Inr res, d')"
  obtains (existing) "find_occ (req_JobID req) (req_OccurrenceKey req) d \<noteq> None" "d' = d0" "\<not> ar_Inserted res"
      "existingOccurrence (req_JobID req) (req_OccurrenceKey req) d = Inr (Some res)"
  | (guard) "find_occ (req_JobID req) (req_OccurrenceKey req) d = None" "enforceUnreadGuardTx req d = Some (res, d')"
      "\<not> ar_Inserted res"
  | (skipped) "find_occ (req_JobID req) (req_OccurrenceKey req) d = None" "enforceUnreadGuardTx req d = None"
      "ar_Inserted res" "ar_Run res = None"
      "d' = d\<lparr>occurrences := occurrences d @ [req_occ req (ar_Outcome res) (ar_Detail res) None]\<rparr>"
      "\<not> admissible req d"
  | (accepted) i where "find_occ (req_JobID req) (req_OccurrenceKey req) d = None" "enforceUnreadGuardTx req d = None"
      "ar_Inserted res" "ar_Outcome res = ''accepted''" "ar_Run res = Some (returned_run (accepted_run req i))"
      "i = newRunID (req_JobID req) (req_Now req) rnd" "find_run i d = None" "admissible req d"
      "d' = add_event i [] StateAccepted (req_Now req) [] ''occurrence accepted''
              (d\<lparr>runs := runs d @ [accepted_run req i],
                 occurrences := occurrences d @ [req_occ req ''accepted'' [] (Some i)]\<rparr>)"
proof (cases "existingOccurrence (req_JobID req) (req_OccurrenceKey req) d")
  case (Inl e)
  with assms show ?thesis by (simp add: acceptOccurrenceTx_def)
next
  case (Inr ex)
  show ?thesis
  proof (cases ex)
    case (Some r)
    with Inr assms have "r = res" "d' = d0" by (simp_all add: acceptOccurrenceTx_def)
    moreover from Inr Some have "\<not> ar_Inserted r"
      by (auto simp: existingOccurrence_def Let_def split: option.splits if_splits)
    moreover from Inr Some have "find_occ (req_JobID req) (req_OccurrenceKey req) d \<noteq> None"
      using existing_None [of "req_JobID req" "req_OccurrenceKey req" d] by auto
    ultimately show ?thesis using existing Inr Some by blast
  next
    case None
    with Inr have none: "find_occ (req_JobID req) (req_OccurrenceKey req) d = None" by (simp add: existing_None)
    show ?thesis
    proof (cases "enforceUnreadGuardTx req d")
      case (Some g)
      with Inr None assms have "enforceUnreadGuardTx req d = Some (res, d')"
        by (cases g) (simp add: acceptOccurrenceTx_def)
      moreover from this have "\<not> ar_Inserted res"
        by (auto simp: enforceUnreadGuardTx_def Let_def split: if_splits)
      ultimately show ?thesis using guard none by blast
    next
      case noguard: None
      define i where "i = newRunID (req_JobID req) (req_Now req) rnd"
      show ?thesis
      proof (cases "admissible req d")
        case False
        then obtain out detail where f: "finishOccurrence req out detail [] d0 d = (Inr res, d')"
          using assms Inr None noguard
          by (auto simp: acceptOccurrenceTx_def admissible_def Let_def not_less split: if_splits)
        from finishOccurrence_Inr [OF f] show ?thesis
          using skipped [OF none noguard] False by simp
      next
        case True
        then obtain d1 res1 where ins: "insert_run (accepted_run req i) d = Some d1"
          and fin: "finishOccurrence req ''accepted'' [] i d0
              (add_event i [] StateAccepted (req_Now req) [] ''occurrence accepted'' d1) = (Inr res1, d')"
          and res: "res = res1\<lparr>ar_Run := Some (returned_run (accepted_run req i))\<rparr>"
          using assms Inr None noguard
          by (auto simp: acceptOccurrenceTx_def admissible_def Let_def i_def split: if_splits option.splits
              prod.splits sum.splits)
        have "find_run i d = None" "d1 = d\<lparr>runs := runs d @ [accepted_run req i]\<rparr>"
          using ins by (auto simp: insert_run_def accepted_run_facts split: if_splits)
        moreover have "i \<noteq> []" by (simp add: i_def)
        ultimately show ?thesis
          using finishOccurrence_Inr [OF fin] res True none noguard i_def
          by (intro accepted) (auto simp: add_event_def)
      qed
    qed
  qed
qed

lemma acceptOccurrenceTx_tables:
  assumes "acceptOccurrenceTx req rnd d0 d = (Inr res, d')" and "ar_Inserted res"
  shows "jobs d' = jobs d \<and> metadata d' = metadata d"
  using assms(1) by (cases rule: acceptOccurrenceTx_cases) (use assms(2) in simp_all)

lemma AcceptScheduled_Inr:
  assumes "AcceptScheduledOccurrence req rnd d = (Inr res, d')"
  shows "acceptOccurrenceTx req rnd d d = (Inr res, d') \<and> current_authority req d \<and> runnable (req_JobID req) d"
  using assms require_None [of req d]
  by (auto simp: AcceptScheduledOccurrence_def split: if_splits option.splits)

text \<open>C3: A scheduled occurrence becomes a run only under the current authority of a runnable
  job, below the daily limit, with no run of the job active when overlap is forbidden and none
  queued when one may be queued, and below the unread limit. The run, its first event and the
  occurrence that names it are committed together, and nothing else changes.\<close>

theorem accepted_run_within_limits:
  assumes "AcceptScheduledOccurrence req rnd d = (Inr res, d')" and "ar_Run res = Some r" and "ar_Inserted res"
  shows "current_authority req d \<and> runnable (req_JobID req) d
    \<and> day_count req d < req_MaxRunsPerDay req
    \<and> (req_Overlap req = ''forbid'' \<longrightarrow> executing_count (req_JobID req) d + queued_count (req_JobID req) d = 0)
    \<and> (req_Overlap req = ''queue_one'' \<longrightarrow> queued_count (req_JobID req) d = 0)
    \<and> (0 < req_MaxUnread req \<longrightarrow> countUnreadTerminalRunsTx (req_JobID req) d < req_MaxUnread req)
    \<and> find_occ (req_JobID req) (req_OccurrenceKey req) d = None \<and> find_run (run_id r) d = None
    \<and> d' = add_event (run_id r) [] StateAccepted (req_Now req) [] ''occurrence accepted''
              (d\<lparr>runs := runs d @ [accepted_run req (run_id r)],
                 occurrences := occurrences d @ [req_occ req ''accepted'' [] (Some (run_id r))]\<rparr>)"
proof -
  from AcceptScheduled_Inr [OF assms(1)] have tx: "acceptOccurrenceTx req rnd d d = (Inr res, d')"
    and auth: "current_authority req d" "runnable (req_JobID req) d" by blast+
  from tx show ?thesis
  proof (cases rule: acceptOccurrenceTx_cases)
    case (accepted i)
    then have "run_id r = i" using assms(2) by (simp add: returned_run_def accepted_run_facts)
    with accepted auth show ?thesis
      by (auto simp: admissible_def enforceUnreadGuardTx_def Let_def split: if_splits)
  qed (use assms in simp_all)
qed

definition demo_occ_id :: string where
  "demo_occ_id = newRunID ''nightly'' 11 [1, 2, 3, 4, 5]"

definition db_occ :: db where
  "db_occ = snd (AcceptScheduledOccurrence demo_req [1, 2, 3, 4, 5] db_job)"

definition demo_res :: accept_result where
  "demo_res = \<lparr> ar_Inserted = True, ar_Outcome = ''accepted'',
     ar_Run = Some (returned_run (accepted_run demo_req demo_occ_id)), ar_Detail = [] \<rparr>"

lemma demo_accept: "AcceptScheduledOccurrence demo_req [1, 2, 3, 4, 5] db_job = (Inr demo_res, db_occ)"
proof -
  have locks: "lockAuthorityWrites db_job = None" "lockOccurrenceWrites db_job = None"
    using reach_ok [OF db_job_reach] by (simp_all add: db_ok_def locks_ok_def)
  have "fst (AcceptScheduledOccurrence demo_req [1, 2, 3, 4, 5] db_job) = Inr demo_res"
    by (simp add: AcceptScheduledOccurrence_def locks)
       (simp add: demo_req_def db_job_eq init_db_def requireJobAuthorityTx_def find_job_def GlobalPaused_def
         meta_def acceptOccurrenceTx_def existingOccurrence_def find_occ_def enforceUnreadGuardTx_def
         day_count_def executing_count_def queued_count_def insert_run_def find_run_def accepted_run_facts
         finishOccurrence_def insert_occ_def req_occ_def Let_def demo_res_def demo_occ_id_def)
  then show ?thesis by (simp add: db_occ_def prod_eq_iff)
qed

lemma db_occ_reach: "reach db_occ"
  unfolding db_occ_def by (intro reach.step [OF db_job_reach] store_step.intros)

theorem accepted_run_within_limits_witness:
  "day_count demo_req db_job < req_MaxRunsPerDay demo_req
   \<and> find_occ ''nightly'' ''cron:1'' db_job = None"
  using accepted_run_within_limits [OF demo_accept, of "returned_run (accepted_run demo_req demo_occ_id)"]
  by (simp add: demo_res_def demo_req_def)

lemma existing_of_occ:
  assumes "refs_ok d" and "find_occ i k d = Some oc"
  shows "\<exists>res. existingOccurrence i k d = Inr (Some res) \<and> \<not> ar_Inserted res \<and> ar_Outcome res = outcome oc
    \<and> (case occ_run oc of
         None \<Rightarrow> ar_Run res = None
       | Some j \<Rightarrow> if j = [] then ar_Run res = None else map_option run_id (ar_Run res) = Some j)"
proof -
  from find_occ_Some [OF assms(2)] assms(1) have "find_run j d \<noteq> None" if "occ_run oc = Some j" for j
    using that by (auto simp: refs_ok_def list_all_iff)
  then show ?thesis
    using assms(2)
    by (auto simp: existingOccurrence_def Let_def scanRun_def split: option.splits dest: find_run_Some)
qed

lemma inserted_occ:
  assumes "acceptOccurrenceTx req rnd d0 d = (Inr res, d')" and "ar_Inserted res"
  shows "\<exists>oc. find_occ (req_JobID req) (req_OccurrenceKey req) d' = Some oc \<and> outcome oc = ar_Outcome res
          \<and> occ_run oc = map_option run_id (ar_Run res) \<and> occ_run oc \<noteq> Some []"
proof -
  have fresh: "find_occ (req_JobID req) (req_OccurrenceKey req) d' = Some (req_occ req out detail ro)"
    if "find_occ (req_JobID req) (req_OccurrenceKey req) d = None"
      "occurrences d' = occurrences d @ [req_occ req out detail ro]" for d d' out detail ro
  proof -
    have "find P (xs @ [x]) = Some x" if "find P xs = None" "P x" for P and xs :: "occ_row list" and x
      using that by (induction xs) (auto split: if_splits)
    with that show ?thesis by (simp add: find_occ_def req_occ_def)
  qed
  from assms(1) show ?thesis
  proof (cases rule: acceptOccurrenceTx_cases)
    case skipped
    with fresh [OF skipped(1), of d' "ar_Outcome res" "ar_Detail res" None] show ?thesis
      by (simp add: req_occ_def)
  next
    case (accepted i)
    with fresh [OF accepted(1), of d' "''accepted''" "[]" "Some i"] show ?thesis
      by (simp add: req_occ_def returned_run_def accepted_run_facts)
  qed (use assms in simp_all)
qed

text \<open>C4: An occurrence is decided exactly once. After a scheduled acceptance recorded a
  decision, whatever the store did since, a further acceptance of the same job and key that
  returns without error inserts nothing, changes nothing, and reports the first decision and
  the first run.\<close>

theorem occurrence_decided_once:
  assumes "reach d" and "AcceptScheduledOccurrence req rnd d = (Inr res, d1)" and "ar_Inserted res"
    and "store_steps d1 d2"
    and "req_JobID req' = req_JobID req" and "req_OccurrenceKey req' = req_OccurrenceKey req"
    and "AcceptScheduledOccurrence req' rnd' d2 = (Inr res', d3)"
  shows "d3 = d2 \<and> \<not> ar_Inserted res' \<and> ar_Outcome res' = ar_Outcome res
    \<and> map_option run_id (ar_Run res') = map_option run_id (ar_Run res)"
proof -
  have r1: "reach d1"
    using reach.step [OF assms(1) store_step.intros(12) [of d req rnd]] assms(2) by simp
  from inserted_occ AcceptScheduled_Inr [OF assms(2)] assms(3) obtain oc where
    oc: "find_occ (req_JobID req) (req_OccurrenceKey req) d1 = Some oc" "outcome oc = ar_Outcome res"
      "occ_run oc = map_option run_id (ar_Run res)" "occ_run oc \<noteq> Some []" by blast
  have oc2: "find_occ (req_JobID req') (req_OccurrenceKey req') d2 = Some oc"
    using steps_occ [OF r1 assms(4) oc(1)] assms(5,6) by simp
  have "refs_ok d2" using steps_ok [OF assms(4) reach_ok [OF r1]] by (simp add: db_ok_def)
  from existing_of_occ [OF this oc2] oc(3,4) obtain e where
    e: "existingOccurrence (req_JobID req') (req_OccurrenceKey req') d2 = Inr (Some e)" "\<not> ar_Inserted e"
      "ar_Outcome e = outcome oc" "map_option run_id (ar_Run e) = occ_run oc"
    by (cases "ar_Run res") auto
  from AcceptScheduled_Inr [OF assms(7)] have "acceptOccurrenceTx req' rnd' d2 d2 = (Inr res', d3)" by blast
  with e oc(2,3) show ?thesis by (simp add: acceptOccurrenceTx_def)
qed

lemma demo_reaccept: "\<exists>res' d'. AcceptScheduledOccurrence (demo_req\<lparr>req_Now := 99\<rparr>) [9, 9, 9, 9, 9] db_occ = (Inr res', d')"
proof -
  let ?r = "demo_req\<lparr>req_Now := 99\<rparr>"
  have auth: "current_authority ?r db_occ \<and> runnable (req_JobID ?r) db_occ"
  proof -
    from AcceptScheduled_Inr [OF demo_accept]
    have tx: "acceptOccurrenceTx demo_req [1, 2, 3, 4, 5] db_job db_job = (Inr demo_res, db_occ)"
      and "current_authority demo_req db_job" "runnable (req_JobID demo_req) db_job" by blast+
    moreover have "jobs db_occ = jobs db_job" "metadata db_occ = metadata db_job"
      using acceptOccurrenceTx_tables [OF tx] by (simp_all add: demo_res_def)
    ultimately show ?thesis
      by (simp add: current_authority_def runnable_def find_job_def GlobalPaused_def meta_def
          cong: option.case_cong)
  qed
  have ok: "db_ok db_occ" by (rule reach_ok [OF db_occ_reach])
  have "ar_Inserted demo_res" by (simp add: demo_res_def)
  with inserted_occ AcceptScheduled_Inr [OF demo_accept]
  obtain oc where "find_occ (req_JobID demo_req) (req_OccurrenceKey demo_req) db_occ = Some oc" by blast
  with ok existing_of_occ [of db_occ "req_JobID ?r" "req_OccurrenceKey ?r" oc]
  obtain e where "existingOccurrence (req_JobID ?r) (req_OccurrenceKey ?r) db_occ = Inr (Some e)"
    by (auto simp: db_ok_def demo_req_def)
  with auth require_None [of ?r db_occ] ok show ?thesis
    by (simp add: AcceptScheduledOccurrence_def acceptOccurrenceTx_def db_ok_def locks_ok_def) (simp add: demo_req_def)
qed

theorem occurrence_decided_once_witness:
  "\<exists>res'. AcceptScheduledOccurrence (demo_req\<lparr>req_Now := 99\<rparr>) [9, 9, 9, 9, 9] db_occ = (Inr res', db_occ)
          \<and> ar_Outcome res' = ''accepted''"
proof -
  obtain res' d' where again: "AcceptScheduledOccurrence (demo_req\<lparr>req_Now := 99\<rparr>) [9, 9, 9, 9, 9] db_occ = (Inr res', d')"
    using demo_reaccept by blast
  have "d' = db_occ \<and> ar_Outcome res' = ar_Outcome demo_res"
    using occurrence_decided_once [OF db_job_reach demo_accept _ rtranclp.rtrancl_refl _ _ again]
    by (simp add: demo_res_def)
  with again show ?thesis by (simp add: demo_res_def)
qed

text \<open>C23: When the unread terminal runs of a job have reached its limit, a scheduled acceptance
  of a new occurrence and a manual run both create nothing: they only pause the job, with the
  guard's reason, and from then on every scheduled acceptance under that authority is refused
  and changes nothing, until something else resumes the job.\<close>

theorem unread_guard_pauses:
  assumes "reach d" and "current_authority req d" and "runnable (req_JobID req) d"
    and "req_OccurrenceKey req \<noteq> []" and "req_Trigger req \<noteq> ''event''"
    and "find_occ (req_JobID req) (req_OccurrenceKey req) d = None"
    and "0 < req_MaxUnread req" and "req_MaxUnread req \<le> countUnreadTerminalRunsTx (req_JobID req) d"
  shows "\<exists>res d'. AcceptScheduledOccurrence req rnd d = (Inr res, d') \<and> ar_Outcome res = ''paused_unread_limit''
      \<and> CreateManualRunIfAuthority req rnd d = (Inl ErrJobUnreadPaused, d')
      \<and> runs d' = runs d \<and> occurrences d' = occurrences d \<and> events d' = events d
      \<and> (\<exists>j. find_job (req_JobID req) d' = Some j \<and> paused j \<and> pause_reason j = PauseReasonUnread
             \<and> pause_at j = Some (req_Now req))
      \<and> (\<forall>rnd'. AcceptScheduledOccurrence req rnd' d' = (Inl ErrJobPaused, d'))"
proof -
  let ?d = "pause_unread (req_JobID req) (req_Now req) d"
  from reach_ok [OF assms(1)] have locks: "lockAuthorityWrites d = None" "lockOccurrenceWrites d = None"
    by (simp_all add: db_ok_def locks_ok_def)
  then have locks': "lockAuthorityWrites ?d = None" "lockOccurrenceWrites ?d = None"
    by (simp_all add: lockAuthorityWrites_def lockOccurrenceWrites_def meta_def pause_unread_def set_job_def
        update_jobs_def update_rows_def)
  have "require": "requireJobAuthorityTx (req_JobID req) (req_JobConfigRevision req) (req_JobRevision req) True d = None"
    using require_None [of req d] assms(2,3) by blast
  obtain j where j: "find_job (req_JobID req) d = Some j" "enabled j"
      "config_revision j = req_JobConfigRevision req" "snapshot_hash j = req_JobRevision req"
    using assms(2,3) by (auto simp: current_authority_def runnable_def split: option.splits)
  let ?f = "\<lambda>j. j\<lparr>paused := True, pause_reason := PauseReasonUnread, pause_at := Some (req_Now req),
                   job_updated_at := req_Now req\<rparr>"
  have find': "find_job (req_JobID req) ?d = Some (?f j)"
    unfolding pause_unread_def using j(1) by (subst find_job_set_job) simp_all
  have tables: "runs ?d = runs d" "occurrences ?d = occurrences d" "events ?d = events d"
    by (simp_all add: pause_unread_def set_job_def update_jobs_def update_rows_def)
  from assms(7,8) obtain res where guard: "enforceUnreadGuardTx req d = Some (res, ?d)"
    "ar_Outcome res = ''paused_unread_limit''"
    by (simp add: enforceUnreadGuardTx_def Let_def)
  have "AcceptScheduledOccurrence req rnd d = (Inr res, ?d)"
    using assms(4-6) locks "require" guard(1) by (simp add: AcceptScheduledOccurrence_def acceptOccurrenceTx_def existing_None [THEN iffD2])
  moreover have "CreateManualRunIfAuthority req rnd d = (Inl ErrJobUnreadPaused, ?d)"
    using assms(7,8) locks "require" by (simp add: CreateManualRunIfAuthority_def)
  moreover have "AcceptScheduledOccurrence req rnd' ?d = (Inl ErrJobPaused, ?d)" for rnd'
    using assms(4,5) locks' j(2-4) find' by (simp add: AcceptScheduledOccurrence_def requireJobAuthorityTx_def)
  ultimately show ?thesis using guard(2) tables find' by fastforce
qed

theorem unread_guard_pauses_witness:
  "\<exists>res d'. AcceptScheduledOccurrence (demo_req\<lparr>req_MaxUnread := 1\<rparr>) [1, 2, 3, 4, 5] db_cancelled = (Inr res, d')
     \<and> ar_Outcome res = ''paused_unread_limit''"
proof -
  let ?r = "demo_req\<lparr>req_MaxUnread := 1\<rparr>"
  have "current_authority ?r db_cancelled" "runnable (req_JobID ?r) db_cancelled"
    "find_occ (req_JobID ?r) (req_OccurrenceKey ?r) db_cancelled = None"
    by (simp_all add: db_cancelled_eq db_run_tables db_job_eq init_db_def current_authority_def runnable_def
        find_job_def find_occ_def GlobalPaused_def meta_def demo_req_def)
  moreover have "countUnreadTerminalRunsTx (req_JobID ?r) db_cancelled = 1"
    by (simp add: countUnreadTerminalRunsTx_def db_cancelled_eq demo_req_def terminalStates_def)
  ultimately show ?thesis
    using unread_guard_pauses [OF db_cancelled_reach, of ?r "[1, 2, 3, 4, 5]"]
    by (auto simp: demo_req_def)
qed

end
