(* ===== verification/ClaimProperties.thy ===== *)
theory ClaimProperties
  imports StoreProperties
begin

text \<open>
  Claims and leases: who may change a run while another process holds it, when a held run
  becomes recoverable, and that an effect is completed by its claim or recovered after its
  lease, never both.
\<close>

lemma cas_event_bool_id:
  assumes "run_keys d" and "find_run i d = Some r" and "\<And>q. P q \<Longrightarrow> run_id q = i"
  shows "cas_event_bool P f i fr to now c t d =
    (if P r then (Inr True, add_event i fr to now c t (rewrite P f d)) else (Inr False, d))"
  using cas_run_id [OF assms(1) [unfolded run_keys_def] assms(2,3), where f = f]
  by (auto simp: cas_event_bool_def cas_event_def rewrite_def)

lemma cas_bool_id:
  assumes "run_keys d" and "find_run i d = Some r" and "\<And>q. P q \<Longrightarrow> run_id q = i"
  shows "cas_bool P f d = (if P r then (Inr True, rewrite P f d) else (Inr False, d))"
  using cas_run_id [OF assms(1) [unfolded run_keys_def] assms(2,3), where f = f]
  by (auto simp: cas_bool_def rewrite_def)

lemma claim_result_id:
  assumes "run_keys d" and "find_run i d = Some r" and "\<And>q. P q \<Longrightarrow> run_id q = i"
  shows "claim_result c P f d = (if P r then (Inr c, rewrite P f d) else (Inr [], d))"
  using cas_run_id [OF assms(1) [unfolded run_keys_def] assms(2,3), where f = f]
  by (auto simp: claim_result_def rewrite_def)

lemma find_run_rewrite_id:
  assumes "\<And>q. run_id (f q) = run_id q"
  shows "find_run j (rewrite P f d) = map_option (\<lambda>q. if P q then f q else q) (find_run j d)"
  unfolding rewrite_def using assms by (intro find_run_map) simp

lemma find_run_add_event [simp]: "find_run j (add_event i a b now c t d) = find_run j d"
  by (simp add: find_run_def)

lemmas guard_defs =
  provisioning_where_def recover_workspace_where_def renew_where_def confirm_where_def
  expired_provisioning_where_def expired_starting_where_def recovered_where_def claim_where_def
  held_live_where_def held_where_def reclaim_where_def expired_verifier_where_def

lemma guard_ids:
  "provisioning_where st i owner now q \<Longrightarrow> run_id q = i" "recover_workspace_where i b now q \<Longrightarrow> run_id q = i"
  "renew_where i owner now q \<Longrightarrow> run_id q = i" "confirm_where i owner now q \<Longrightarrow> run_id q = i"
  "expired_provisioning_where i now q \<Longrightarrow> run_id q = i" "expired_starting_where i now q \<Longrightarrow> run_id q = i"
  "recovered_where ob now q \<Longrightarrow> run_id q = run_id ob" "claim_where i fr now q \<Longrightarrow> run_id q = i"
  "held_live_where i fr owner c kind now q \<Longrightarrow> run_id q = i" "held_where i fr owner c kind q \<Longrightarrow> run_id q = i"
  "reclaim_where i fr kind now q \<Longrightarrow> run_id q = i" "expired_verifier_where i now q \<Longrightarrow> run_id q = i"
  by (simp_all add: guard_defs)

section \<open>Live claims\<close>

text \<open>A guard that a row under another owner's live lease does not meet.\<close>

lemma live_refuses:
  assumes "leased_by o1 now r" and "o1 \<noteq> []" and "o2 \<noteq> o1"
  shows "\<not> provisioning_where st i o2 now r" "\<not> recover_workspace_where i b now r" "\<not> renew_where i o2 now r"
    "\<not> confirm_where i o2 now r" "\<not> expired_provisioning_where i now r" "\<not> expired_starting_where i now r"
    "\<not> recovered_where ob now r" "\<not> claim_where i fr now r" "\<not> reclaim_where i fr kind now r"
  using assms by (auto simp: guard_defs leased_by_def unleased_def)

lemma cas_refused:
  assumes "run_keys d" and "find_run i d = Some r" and "\<And>q. P q \<Longrightarrow> run_id q = i" and "\<not> P r"
  shows "snd (cas_bool P f d) = d" "snd (cas_event_bool P f i fr to now c t d) = d"
    "snd (claim_result cl P f d) = d"
  using cas_bool_id [OF assms(1-3)] cas_event_bool_id [OF assms(1-3)] claim_result_id [OF assms(1-3)] assms(4)
  by simp_all

text \<open>C5: While a process holds a live provisioning claim on a run, every fenced operation of
  another process leaves the database as it is: it cannot store a plan or a receipt, renew,
  confirm or finish the start, recover the workspace, interrupt the run as expired or by hand,
  or claim or reclaim an effect on it.\<close>

theorem live_claim_fences_others:
  assumes "reach d" and "find_run i d = Some r" and "leased_by o1 now r" and "o1 \<noteq> []" and "o2 \<noteq> o1"
  shows "snd (SaveProvisioningPlan i o2 b now d) = d
    \<and> snd (SavePartialProvisioningReceipt i o2 w p b now d) = d
    \<and> snd (SaveProvisioningReceipt i o2 w p b pa m k now d) = d
    \<and> snd (RecoverProvisioningWorkspace i b w p now d) = d
    \<and> snd (RenewProvisioningClaim i o2 now l d) = d
    \<and> snd (ConfirmStartingClaim i o2 detail now d) = d
    \<and> snd (FinishStartingClaim i o2 f now d) = d
    \<and> snd (FinishProvisioningClaim i o2 f now d) = d
    \<and> snd (InterruptExpiredProvisioning i now d) = d
    \<and> snd (InterruptExpiredStarting i code detail now d) = d
    \<and> snd (ConfirmExpiredCommandStart i detail now d) = d
    \<and> (run_id ob = i \<longrightarrow> snd (InterruptRecoveredProvisioning ob now d) = d)
    \<and> snd (ClaimEffect i fr kind o2 now l token d) = d
    \<and> snd (ClaimWorkspaceClose i fr o2 intent now l token d) = d
    \<and> snd (ReclaimEffect i fr kind o2 now l token d) = d"
proof -
  have keys: "run_keys d" using reach_ok [OF assms(1)] by (rule db_ok_keys)
  note live = live_refuses [OF assms(3-5)]
  note refused = cas_refused [OF keys assms(2)]
  have recovered: "snd (InterruptRecoveredProvisioning ob now d) = d" if "run_id ob = i"
  proof -
    have "run_id q = i" if "recovered_where ob now q" for q
      using guard_ids(7) [OF that] \<open>run_id ob = i\<close> by simp
    from refused(2) [where P = "recovered_where ob now", OF this live(7)] that show ?thesis
      by (simp add: InterruptRecoveredProvisioning_def interrupt_claim_def split: option.split)
  qed
  show ?thesis
    unfolding SaveProvisioningPlan_def SavePartialProvisioningReceipt_def SaveProvisioningReceipt_def
      RecoverProvisioningWorkspace_def RenewProvisioningClaim_def ConfirmStartingClaim_def
      FinishStartingClaim_def FinishProvisioningClaim_def finish_claim_def InterruptExpiredProvisioning_def
      InterruptExpiredStarting_def interrupt_claim_def
      ConfirmExpiredCommandStart_def ClaimEffect_def ClaimWorkspaceClose_def ReclaimEffect_def Let_def
    by (intro conjI impI) (auto simp: live recovered split: option.split dest: guard_ids intro!: refused)
qed

section \<open>A claimed run\<close>

definition admit_all :: "run list \<Rightarrow> store_err + decision" where
  "admit_all active = Inr \<lparr> Admit = True, FailureCode = [], FailureDetail = [], HoldCode = [], HoldDetail = [] \<rparr>"

definition db_claimed :: db where
  "db_claimed = snd (DecideAdmission (run_id demo_run) ''w1'' ''dev'' (Fin 1) 8 60000000008 admit_all db_run)"

definition demo_claimed_run :: run where
  "demo_claimed_run = admit_set ''w1'' 60000000008 ''dev'' (Fin 1) 8 demo_run"

lemma db_claimed_reach: "reach db_claimed"
  unfolding db_claimed_def by (intro reach.step [OF db_run_reach] store_step.intros)

lemma demo_lease: "validateProvisioningLease ''w1'' 8 60000000008 = None"
  by (simp add: validateProvisioningLease_def Sub_def MaxProvisioningLease_def minute_ns_def)

lemma demo_admit: "DecideAdmission (run_id demo_run) ''w1'' ''dev'' (Fin 1) 8 60000000008 admit_all db_run = (Inr True, db_claimed)"
  and db_claimed_runs: "runs db_claimed = [demo_claimed_run]"
proof -
  have lock: "meta ''admission_lock'' db_run \<noteq> None"
    using db_run_locks by (auto simp: lockOccurrenceWrites_def split: if_splits)
  have job: "find_job ''nightly'' db_run = Some (new_job ''nightly'' 1 ''h1'' demo_definition True 0)"
    by (simp add: find_job_def db_run_tables db_job_eq new_job_def)
  have hold: "authority_hold (new_job ''nightly'' 1 ''h1'' demo_definition True 0) db_run = None"
    by (simp add: authority_hold_def new_job_def meta_def db_run_tables init_db_def)
  have trig: "trigger demo_run = ''manual''" by (simp add: demo_run_def new_run_def)
  have one: "cas_event_bool (accepted_where (run_id demo_run)) (admit_set ''w1'' 60000000008 ''dev'' (Fin 1) 8)
      (run_id demo_run) StateAccepted StateProvisioning 8 [] ''capacity admitted; route validation pending'' db_run
    = (Inr True, add_event (run_id demo_run) StateAccepted StateProvisioning 8 [] ''capacity admitted; route validation pending''
         (db_run\<lparr>runs := [demo_claimed_run]\<rparr>))"
    by (simp add: cas_event_bool_def cas_event_def cas_run_def update_runs_def update_rows_def db_run_runs
        accepted_where_def demo_claimed_run_def)
  have eq: "DecideAdmission (run_id demo_run) ''w1'' ''dev'' (Fin 1) 8 60000000008 admit_all db_run
    = (Inr True, add_event (run_id demo_run) StateAccepted StateProvisioning 8 [] ''capacity admitted; route validation pending''
         (db_run\<lparr>runs := [demo_claimed_run]\<rparr>))"
    unfolding DecideAdmission_def demo_lease find_demo_run
    using lock job hold trig one by (simp add: admit_all_def decide_def del: demo_run_simps(6))
  then show "DecideAdmission (run_id demo_run) ''w1'' ''dev'' (Fin 1) 8 60000000008 admit_all db_run = (Inr True, db_claimed)"
    "runs db_claimed = [demo_claimed_run]"
    by (simp_all add: db_claimed_def)
qed

lemma demo_claimed_simps [simp]:
  "run_id demo_claimed_run = run_id demo_run" "state demo_claimed_run = StateProvisioning"
  "provisioning_owner demo_claimed_run = ''w1''" "provisioning_lease_until demo_claimed_run = 60000000008"
  "workspace_id demo_claimed_run = []" "effect_owner demo_claimed_run = []"
  by (simp_all add: demo_claimed_run_def admit_set_def demo_run_def new_run_def UnixNano_def in_int64_def)

lemma find_claimed: "find_run (run_id demo_run) db_claimed = Some demo_claimed_run"
  by (simp add: find_run_def db_claimed_runs)

theorem live_claim_fences_others_witness:
  "snd (InterruptExpiredProvisioning (run_id demo_run) 9 db_claimed) = db_claimed
   \<and> snd (FinishProvisioningClaim (run_id demo_run) ''w2'' demo_cancel 9 db_claimed) = db_claimed"
proof -
  have "leased_by ''w1'' 9 demo_claimed_run"
    by (simp add: leased_by_def UnixNano_def in_int64_def)
  from live_claim_fences_others [OF db_claimed_reach find_claimed this, of "''w2''"]
  show ?thesis by (simp add: demo_run_simps)
qed

section \<open>Recovery of a crashed claim\<close>

lemma add_event_runs: "runs d' = runs d \<Longrightarrow> find_run i d' = find_run i d"
  by (simp add: find_run_def)

text \<open>C6: A claim granted by admission cannot outlive its bound: if its owner does nothing
  more and no workspace or effect was recorded, then from two minutes after the grant, by the
  clock of whoever looks, the run can be interrupted, and this ends it with the recorded
  reason, a classification and no claim.\<close>

theorem crashed_claim_recoverable:
  assumes "DecideAdmission i owner dev_id reserve now l check d = (Inr True, d1)"
    and "reach d2" and "find_run i d2 = Some r"
    and "state r = StateProvisioning" and "provisioning_lease_until r = UnixNano l"
    and "workspace_id r = []" and "effect_owner r = []"
    and "now + MaxProvisioningLease \<le> later" and "in_int64 l" and "in_int64 later"
  shows "\<exists>d3 r'. InterruptExpiredProvisioning i later d2 = (Inr True, d3) \<and> find_run i d3 = Some r'
    \<and> state r' = StateInterrupted \<and> provisioning_owner r' = [] \<and> error_code r' = ''restart_during_provisioning''
    \<and> classified r'"
proof -
  have "validateProvisioningLease owner now l = None"
    using assms(1) by (auto simp: DecideAdmission_def split: option.splits)
  from provisioning_lease.expires_unleased [OF this assms(8-10,5)] have free: "unleased later r" .
  have ok: "db_ok d2" by (rule reach_ok [OF assms(2)])
  let ?P = "expired_provisioning_where i later"
  have id: "run_id r = i" using find_run_Some [OF assms(3)] by blast
  then have P: "?P r" using assms(4,6,7) free by (simp add: expired_provisioning_where_def)
  let ?cls = "classifyTerminalRun i (run_definition r) StateInterrupted ''unverified''"
  let ?f = "uncertain_finish ''restart_during_provisioning''
      ''service restarted after the provisioning claim expired before a durable Herdr receipt''"
  let ?d3 = "add_event i StateProvisioning StateInterrupted later [] (f_detail ?f) (rewrite ?P (claim_finish_set ?f ?cls later) d2)"
  have int: "InterruptExpiredProvisioning i later d2 = (Inr True, ?d3)"
    using ok cas_event_bool_id [where P = ?P, OF db_ok_keys [OF ok] assms(3) guard_ids(5)] P assms(3)
    by (simp add: InterruptExpiredProvisioning_def interrupt_claim_def db_ok_def locks_ok_def terminalAcceptanceTx_def)
  have ids: "run_id (claim_finish_set ?f ?cls later q) = run_id q" for q
    by (simp add: claim_finish_set_def outcome_set_def clear_provisioning_def split: prod.split)
  have row: "find_run i ?d3 = Some (claim_finish_set ?f ?cls later r)"
    using assms(3) P by (simp add: find_run_rewrite_id [OF ids])
  have "ends StateProvisioning ?f ?cls r" using id by (simp add: ends_def)
  from claim_finish_set_step [OF this assms(4)] assms(4) have "classified (claim_finish_set ?f ?cls later r)"
    by (simp add: row_write_def ends_classified_def)
  moreover have "provisioning_owner (claim_finish_set ?f ?cls later r) = []"
    "error_code (claim_finish_set ?f ?cls later r) = ''restart_during_provisioning''"
    by (simp_all add: claim_finish_set_def outcome_set_def clear_provisioning_def uncertain_finish_def split: prod.split)
  moreover have "state (claim_finish_set ?f ?cls later r) = StateInterrupted"
    by (simp add: claim_finish_set_def outcome_set_def clear_provisioning_def uncertain_finish_def split: prod.split)
  ultimately show ?thesis
    using int row by (intro exI [of _ ?d3] exI [of _ "claim_finish_set ?f ?cls later r"] conjI)
qed

theorem crashed_claim_recoverable_witness:
  "\<exists>d3 r'. InterruptExpiredProvisioning (run_id demo_run) 120000000008 db_claimed = (Inr True, d3)
     \<and> find_run (run_id demo_run) d3 = Some r' \<and> state r' = StateInterrupted"
proof -
  have "(8::int) + MaxProvisioningLease \<le> 120000000008" by (simp add: MaxProvisioningLease_def minute_ns_def)
  moreover have "provisioning_lease_until demo_claimed_run = UnixNano 60000000008"
    by (simp add: UnixNano_def in_int64_def)
  ultimately show ?thesis
    using crashed_claim_recoverable [OF demo_admit db_claimed_reach find_claimed, of 120000000008]
    by (auto simp: in_int64_def simp del: demo_run_simps(6))
qed

end
