(* ===== verification/StoreQueries.thy ===== *)
theory StoreQueries
  imports StoreProperties
begin

text \<open>
  The read side of \<open>internal/store\<close>: the listings of runs and the last results of a job, and
  the migrations \<open>Open\<close> runs over the rows of older database files. Listings are ordered by a
  key type of their own, whose order is the \<open>ORDER BY\<close> clause of the statements.
\<close>

section \<open>Listing order\<close>

text \<open>A rank, then the newest acceptance first, then the greatest id first.\<close>

datatype listing_key = Listing (key_rank: nat) (key_nano: int) (key_id: string)

instantiation listing_key :: linorder
begin

definition less_eq_listing_key :: "listing_key \<Rightarrow> listing_key \<Rightarrow> bool" where
  "less_eq_listing_key a b \<longleftrightarrow>
     (key_rank a, - key_nano a) < (key_rank b, - key_nano b)
     \<or> (key_rank a = key_rank b \<and> key_nano a = key_nano b \<and> key_id b \<le> key_id a)"

definition less_listing_key :: "listing_key \<Rightarrow> listing_key \<Rightarrow> bool" where
  "less_listing_key a b \<longleftrightarrow> a \<le> b \<and> \<not> b \<le> (a :: listing_key)"

instance
proof
  fix x y z :: listing_key
  show "x < y \<longleftrightarrow> x \<le> y \<and> \<not> y \<le> x" by (simp add: less_listing_key_def)
  show "x \<le> x" by (simp add: less_eq_listing_key_def)
  show "x \<le> y \<Longrightarrow> y \<le> z \<Longrightarrow> x \<le> z" by (auto simp: less_eq_listing_key_def less_prod_def)
  show "x \<le> y \<Longrightarrow> y \<le> x \<Longrightarrow> x = y"
    by (cases x; cases y) (auto simp: less_eq_listing_key_def less_prod_def)
  show "x \<le> y \<or> y \<le> x" by (auto simp: less_eq_listing_key_def less_prod_def)
qed

end

definition newest_key :: "run \<Rightarrow> listing_key" where
  "newest_key r = Listing 0 (accepted_unix_nano r) (run_id r)"

definition lane_rank :: "string \<Rightarrow> nat" where
  "lane_rank lane = (if lane = ''sample'' then 1 else if lane = ''auto'' then 2 else 0)"

definition lane_key :: "run \<Rightarrow> listing_key" where
  "lane_key r = Listing (lane_rank (acceptance_lane r)) (accepted_unix_nano r) (run_id r)"

text \<open>\<open>LIMIT\<close>: a negative bound is no bound.\<close>

definition sql_limit :: "int \<Rightarrow> 'a list \<Rightarrow> 'a list" where
  "sql_limit n rows = (if n < 0 then rows else take (nat n) rows)"

section \<open>Queries\<close>

definition of_job :: "string \<Rightarrow> run \<Rightarrow> bool" where
  "of_job jobID r \<longleftrightarrow> jobID = [] \<or> job_id r = jobID"

definition GetRun :: "string \<Rightarrow> db \<Rightarrow> store_err + run" where
  "GetRun i d = (case find_run i d of None \<Rightarrow> Inl ErrNoRows | Some r \<Rightarrow> Inr (scanRun r))"

definition ListRuns :: "string \<Rightarrow> int \<Rightarrow> db \<Rightarrow> run list" where
  "ListRuns jobID limit d =
     map scanRun (sql_limit limit (sort_key newest_key (filter (of_job jobID) (runs d))))"

text \<open>A run is open while it is nonterminal or its workspace is still being closed.\<close>

definition open_run :: "run \<Rightarrow> bool" where
  "open_run r \<longleftrightarrow> state r \<in> set nonterminalStates \<or> effect_kind r = EffectWorkspaceClose"

definition reviewable :: "string \<Rightarrow> db \<Rightarrow> run list" where
  "reviewable jobID d = sort_key lane_key (filter (\<lambda>r. \<not> open_run r \<and> of_job jobID r) (runs d))"

definition ListRunsGroupedByAcceptance :: "string \<Rightarrow> int \<Rightarrow> db \<Rightarrow> run list" where
  "ListRunsGroupedByAcceptance jobID limit d =
     map scanRun
       ((if limit = 0 then []
         else if 0 < limit then sql_limit limit (reviewable jobID d)
         else reviewable jobID d)
        @ sort_key newest_key (filter (\<lambda>r. open_run r \<and> of_job jobID r) (runs d)))"

definition NonTerminalRuns :: "db \<Rightarrow> run list" where
  "NonTerminalRuns d = map scanRun (run_order (filter open_run (runs d)))"

definition occ_key :: "occ_row \<Rightarrow> listing_key" where
  "occ_key oc = Listing 0 (created_unix_nano oc) (occurrence_key oc)"

definition LastJobResult :: "string \<Rightarrow> db \<Rightarrow> string" where
  "LastJobResult jobID d =
     (case sort_key occ_key (filter (\<lambda>oc. occ_job oc = jobID) (occurrences d)) of
        [] \<Rightarrow> []
      | oc # _ \<Rightarrow>
          if outcome oc = ''accepted''
          then (case Option.bind (occ_run oc) (\<lambda>i. find_run i d) of
                  None \<Rightarrow> outcome oc
                | Some r \<Rightarrow> state r)
          else outcome oc)"

record successful_source =
  src_JobRevision :: string
  src_SourceRevision :: string

definition LastSuccessfulSource :: "string \<Rightarrow> db \<Rightarrow> successful_source" where
  "LastSuccessfulSource jobID d =
     (case sort_key newest_key
             (filter (\<lambda>r. job_id r = jobID \<and> state r = StateSucceeded \<and> source_revision r \<noteq> []) (runs d)) of
        [] \<Rightarrow> \<lparr> src_JobRevision = [], src_SourceRevision = [] \<rparr>
      | r # _ \<Rightarrow> \<lparr> src_JobRevision = job_revision r, src_SourceRevision = source_revision r \<rparr>)"

section \<open>Migrations\<close>

text \<open>
  Each migration reads the rows to fill in and then updates them one statement at a time. The
  instants stored as text are instants here, so only a definition can fail to decode.
\<close>

definition apply_rows :: "('a \<Rightarrow> 'a \<Rightarrow> bool) \<Rightarrow> ('a \<Rightarrow> 'a \<Rightarrow> 'a) \<Rightarrow> 'a list \<Rightarrow> 'a list \<Rightarrow> 'a list" where
  "apply_rows P upd sel rows = foldl (\<lambda>rows s. map (\<lambda>q. if P s q then upd s q else q) rows) rows sel"

definition backfill_jobs :: "db \<Rightarrow> store_err + db" where
  "backfill_jobs d =
     (let sel = filter (\<lambda>j. config_revision j = 0) (jobs d)
      in if list_ex (\<lambda>j. configRevisionFromDefinition (job_definition j) = None) sel
         then Inl (ErrMsg ''backfill job config revision'')
         else Inr (d\<lparr>jobs := apply_rows (\<lambda>s q. job_key q = job_key s \<and> config_revision q = 0)
                      (\<lambda>s q. q\<lparr>config_revision := the (configRevisionFromDefinition (job_definition s))\<rparr>)
                      sel (jobs d)\<rparr>))"

definition backfill_accepted :: "db \<Rightarrow> db" where
  "backfill_accepted d =
     d\<lparr>runs := apply_rows (\<lambda>s q. run_id q = run_id s \<and> accepted_unix_nano q = 0)
        (\<lambda>s q. q\<lparr>accepted_unix_nano := UnixNano (accepted_at s)\<rparr>)
        (filter (\<lambda>r. accepted_unix_nano r = 0) (runs d)) (runs d)\<rparr>"

definition backfill_created :: "db \<Rightarrow> db" where
  "backfill_created d =
     d\<lparr>occurrences := apply_rows
        (\<lambda>s q. occ_job q = occ_job s \<and> occurrence_key q = occurrence_key s
                \<and> occ_scheduled_for q = occ_scheduled_for s \<and> created_unix_nano q = 0)
        (\<lambda>s q. q\<lparr>created_unix_nano := UnixNano (created_at s)\<rparr>)
        (filter (\<lambda>oc. created_unix_nano oc = 0) (occurrences d)) (occurrences d)\<rparr>"

definition backfillTypedAuthority :: "db \<Rightarrow> store_err + db" where
  "backfillTypedAuthority d =
     (case backfill_jobs d of Inl e \<Rightarrow> Inl e | Inr d' \<Rightarrow> Inr (backfill_created (backfill_accepted d')))"

definition unclassified :: "run \<Rightarrow> bool" where
  "unclassified r \<longleftrightarrow> acceptance_lane r = [] \<or> acceptance_reason r = []"

definition backfill_class :: "run \<Rightarrow> string \<times> string \<times> bool" where
  "backfill_class r =
     (case classifyTerminalRun (run_id r) (run_definition r) (state r) (task_verdict r) of
        (lane, reason, u) \<Rightarrow>
          (if TrimSpace (acceptance_lane r) = [] then lane else acceptance_lane r,
           if TrimSpace (acceptance_reason r) = [] then reason else acceptance_reason r,
           if TrimSpace (acceptance_lane r) = [] \<and> TrimSpace (acceptance_reason r) = [] then u
           else unread r))"

definition backfill_class_set :: "run \<Rightarrow> run \<Rightarrow> run" where
  "backfill_class_set s q =
     (case backfill_class s of (lane, reason, u) \<Rightarrow>
        q\<lparr> acceptance_lane := (if acceptance_lane q = [] then lane else acceptance_lane q),
           acceptance_reason := (if acceptance_reason q = [] then reason else acceptance_reason q),
           unread := u \<rparr>)"

definition backfillAcceptanceClassification :: "db \<Rightarrow> db" where
  "backfillAcceptanceClassification d =
     d\<lparr>runs := apply_rows (\<lambda>s q. run_id q = run_id s \<and> unclassified q) backfill_class_set
        (filter (\<lambda>r. unclassified r \<and> state r \<notin> set nonterminalStates) (runs d)) (runs d)\<rparr>"

text \<open>\<open>UPDATE occurrences SET occurrence_key=scheduled_for WHERE occurrence_key=''\<close>.\<close>

definition formatTime :: "time \<Rightarrow> string" where
  "formatTime t =
     (let c = wall_clock utc t
      in fmt_wall_minute c @ '':'' @ fmt_2 (c_second c) @ fmt_frac (nat (t mod second_ns)) 9 @ ''Z'')"

definition backfill_keys :: "db \<Rightarrow> store_err + db" where
  "backfill_keys d =
     (let ocs = map (\<lambda>oc. if occurrence_key oc = []
                            then oc\<lparr>occurrence_key := formatTime (occ_scheduled_for oc)\<rparr> else oc)
                  (occurrences d)
      in if distinct (map (\<lambda>oc. (occ_job oc, occurrence_key oc)) ocs) then Inr (d\<lparr>occurrences := ocs\<rparr>)
         else Inl ErrConstraint)"

definition ensure_locks :: "db \<Rightarrow> db" where
  "ensure_locks d =
     d\<lparr>metadata := metadata d
        @ (if meta ''admission_lock'' d = None then [(''admission_lock'', ''0'')] else [])
        @ (if meta ''authority_lock'' d = None then [(''authority_lock'', ''0'')] else [])\<rparr>"

text \<open>
  The data part of \<open>migrate\<close>, one transaction: the statements that create tables, columns and
  indexes are those of \<open>StoreOpen\<close>; here every row has every column.
\<close>

definition migrate :: "db \<Rightarrow> (store_err + unit) \<times> db" where
  "migrate d =
     (case backfillTypedAuthority d of
        Inl e \<Rightarrow> (Inl e, d)
      | Inr d1 \<Rightarrow>
          (case backfill_keys (backfillAcceptanceClassification d1) of
             Inl e \<Rightarrow> (Inl e, d)
           | Inr d2 \<Rightarrow> (Inr (), ensure_locks d2)))"

section \<open>Listings\<close>

lemma scanRun_simps [simp]:
  "run_id (scanRun r) = run_id r" "state (scanRun r) = state r" "job_id (scanRun r) = job_id r"
  "accepted_unix_nano (scanRun r) = accepted_unix_nano r" "acceptance_lane (scanRun r) = acceptance_lane r"
  by (simp_all add: scanRun_def)

lemma sorted_earlier:
  assumes "sorted (map f xs)" and "x \<in> set xs" and "k < length xs" and "f x < f (xs ! k)"
  shows "\<exists>i<k. xs ! i = x"
proof -
  from assms(2) obtain i where i: "i < length xs" "xs ! i = x" by (auto simp: in_set_conv_nth)
  have "\<not> k \<le> i"
  proof
    assume "k \<le> i"
    with assms(1) i(1) have "map f xs ! k \<le> map f xs ! i" by (intro sorted_nth_mono) simp_all
    with i assms(3,4) show False by simp
  qed
  with i show ?thesis by (intro exI [of _ i]) simp
qed

lemma lane_rank_less: "lane_rank (acceptance_lane a) < lane_rank (acceptance_lane b) \<Longrightarrow> lane_key a < lane_key b"
  by (simp add: lane_key_def less_listing_key_def less_eq_listing_key_def less_prod_def)

lemma scanRun_inj:
  assumes "run_keys d" and "a \<in> set (runs d)" and "b \<in> set (runs d)" and "scanRun a = scanRun b"
  shows "a = b"
proof -
  from assms(4) have "run_id (scanRun a) = run_id (scanRun b)" by simp
  with assms(1-3) show ?thesis by (auto simp: run_keys_def intro: distinct_key_eq)
qed

text \<open>The part of the listing the limit applies to, and the open runs behind it.\<close>

definition shown_runs :: "string \<Rightarrow> int \<Rightarrow> db \<Rightarrow> run list" where
  "shown_runs jobID limit d =
     (if limit = 0 then [] else if 0 < limit then take (nat limit) (reviewable jobID d) else reviewable jobID d)"

definition open_runs :: "string \<Rightarrow> db \<Rightarrow> run list" where
  "open_runs jobID d = sort_key newest_key (filter (\<lambda>r. open_run r \<and> of_job jobID r) (runs d))"

lemma listing_parts: "ListRunsGroupedByAcceptance jobID limit d = map scanRun (shown_runs jobID limit d @ open_runs jobID d)"
  by (simp add: ListRunsGroupedByAcceptance_def sql_limit_def shown_runs_def open_runs_def)

lemma shown_runs_mem: "q \<in> set (shown_runs jobID limit d) \<Longrightarrow> q \<in> set (runs d) \<and> of_job jobID q \<and> \<not> open_run q"
  by (auto simp: shown_runs_def reviewable_def split: if_splits dest: in_set_takeD)

lemma open_runs_mem: "q \<in> set (open_runs jobID d) \<longleftrightarrow> q \<in> set (runs d) \<and> of_job jobID q \<and> open_run q"
  by (auto simp: open_runs_def)

lemma reviewable_length: "length (reviewable jobID d) = length (filter (\<lambda>q. \<not> open_run q \<and> of_job jobID q) (runs d))"
  by (simp add: reviewable_def)

lemma scanRun_open [simp]: "open_run (scanRun r) = open_run r"
  by (simp add: open_run_def scanRun_def)

lemma shown_count:
  "length (filter (\<lambda>q. \<not> open_run q) (ListRunsGroupedByAcceptance jobID limit d))
   = (let n = length (filter (\<lambda>q. \<not> open_run q \<and> of_job jobID q) (runs d)) in if limit < 0 then n else min (nat limit) n)"
proof -
  have "filter (\<lambda>q. \<not> open_run q) (shown_runs jobID limit d) = shown_runs jobID limit d"
    "filter (\<lambda>q. \<not> open_run q) (open_runs jobID d) = []"
    by (auto simp: filter_id_conv filter_empty_conv open_runs_mem dest: shown_runs_mem)
  then have "length (filter (\<lambda>q. \<not> open_run q) (ListRunsGroupedByAcceptance jobID limit d)) = length (shown_runs jobID limit d)"
    by (simp add: listing_parts filter_map comp_def)
  then show ?thesis by (simp add: shown_runs_def reviewable_length Let_def min.commute)
qed

lemma shown_distinct:
  assumes "run_keys d"
  shows "distinct (map run_id (ListRunsGroupedByAcceptance jobID limit d))"
proof -
  have keys: "inj_on run_id (set (runs d))" "distinct (runs d)"
    using assms by (simp_all add: run_keys_def distinct_map)
  have "distinct (reviewable jobID d)" using keys(2) by (simp add: reviewable_def)
  then have "distinct (shown_runs jobID limit d)" by (simp add: shown_runs_def)
  moreover have "distinct (open_runs jobID d)" using keys(2) by (simp add: open_runs_def)
  moreover have "set (shown_runs jobID limit d) \<union> set (open_runs jobID d) \<subseteq> set (runs d)"
    using shown_runs_mem open_runs_mem by blast
  moreover have "set (shown_runs jobID limit d) \<inter> set (open_runs jobID d) = {}"
    using shown_runs_mem open_runs_mem by blast
  ultimately have "distinct (shown_runs jobID limit d @ open_runs jobID d)"
    "inj_on run_id (set (shown_runs jobID limit d @ open_runs jobID d))"
    using inj_on_subset [OF keys(1)] by simp_all
  then have "distinct (map run_id (shown_runs jobID limit d @ open_runs jobID d))"
    unfolding distinct_map by blast
  then show ?thesis by (simp add: listing_parts comp_def)
qed

lemma shown_first:
  assumes "run_keys d" and "r \<in> set (runs d)" and "of_job jobID r"
    and "k < length (ListRunsGroupedByAcceptance jobID limit d)"
    and "ListRunsGroupedByAcceptance jobID limit d ! k = scanRun r'" and "r' \<in> set (runs d)" and "\<not> open_run r'"
  shows "(\<not> open_run r \<and> lane_rank (acceptance_lane r) < lane_rank (acceptance_lane r') \<longrightarrow>
        (\<exists>i<k. ListRunsGroupedByAcceptance jobID limit d ! i = scanRun r)) \<and> (0 \<le> limit \<longrightarrow> k < nat limit)"
proof -
  let ?shown = "shown_runs jobID limit d" and ?open = "open_runs jobID d"
  have k': "k < length (?shown @ ?open)" using assms(4) by (simp only: listing_parts length_map)
  have at: "(?shown @ ?open) ! k = r'"
  proof (rule scanRun_inj [OF assms(1) _ assms(6)])
    show "(?shown @ ?open) ! k \<in> set (runs d)"
      using nth_mem [OF k'] shown_runs_mem open_runs_mem by (metis Un_iff set_append)
    show "scanRun ((?shown @ ?open) ! k) = scanRun r'"
      using assms(5) nth_map [OF k', of scanRun] by (simp only: listing_parts)
  qed
  have top: "k < length ?shown"
  proof (rule ccontr)
    assume "\<not> k < length ?shown"
    with at have "r' = ?open ! (k - length ?shown)" by (simp only: nth_append if_False)
    moreover have "k - length ?shown < length ?open"
      using k' \<open>\<not> k < length ?shown\<close> by (simp only: length_append)
    ultimately have "r' \<in> set ?open" using nth_mem by metis
    with assms(7) show False by (simp add: open_runs_mem)
  qed
  have "\<exists>i<k. ListRunsGroupedByAcceptance jobID limit d ! i = scanRun r"
    if nr: "\<not> open_run r" "lane_rank (acceptance_lane r) < lane_rank (acceptance_lane r')"
  proof -
    from top at have "reviewable jobID d ! k = r'" "k < length (reviewable jobID d)"
      by (auto simp: nth_append shown_runs_def split: if_splits)
    moreover have "r \<in> set (reviewable jobID d)" using nr(1) assms(2,3) by (simp add: reviewable_def)
    moreover have "sorted (map lane_key (reviewable jobID d))" by (simp add: reviewable_def)
    ultimately obtain i where i: "i < k" "reviewable jobID d ! i = r"
      using sorted_earlier [of lane_key "reviewable jobID d" r k] lane_rank_less [OF nr(2)] by blast
    then have "(?shown @ ?open) ! i = r" using top by (auto simp: nth_append shown_runs_def split: if_splits)
    moreover have "i < length (?shown @ ?open)" using i(1) k' by linarith
    ultimately show ?thesis using i(1) nth_map [of i "?shown @ ?open" scanRun] by (intro exI [of _ i]) (simp only: listing_parts)
  qed
  moreover have "k < nat limit" if "0 \<le> limit"
    using top that by (auto simp: shown_runs_def split: if_splits)
  ultimately show ?thesis by blast
qed

text \<open>C27: The review listing shows every open run of the job whatever the limit, zero and negative ones
  included; of the runs that are not open it shows as many as the limit allows, all of them when it
  is negative; each run shown is one of the job's and is shown once. Those that are not open come by
  lane: when a sampled or automatic run is shown, every run in need of mandatory review (and every
  sampled one before an automatic one) is shown before it, so a limit can only drop runs that matter
  less.\<close>

theorem review_listing_prioritises:
  assumes "reach d" and "r \<in> set (runs d)" and "of_job jobID r"
  shows "(open_run r \<or> limit < 0 \<longrightarrow> scanRun r \<in> set (ListRunsGroupedByAcceptance jobID limit d))
    \<and> length (filter (\<lambda>q. \<not> open_run q) (ListRunsGroupedByAcceptance jobID limit d))
        = (let n = length (filter (\<lambda>q. \<not> open_run q \<and> of_job jobID q) (runs d))
           in if limit < 0 then n else min (nat limit) n)
    \<and> set (ListRunsGroupedByAcceptance jobID limit d) \<subseteq> scanRun ` {q \<in> set (runs d). of_job jobID q}
    \<and> distinct (map run_id (ListRunsGroupedByAcceptance jobID limit d))
    \<and> (\<forall>k r'. k < length (ListRunsGroupedByAcceptance jobID limit d)
         \<and> ListRunsGroupedByAcceptance jobID limit d ! k = scanRun r' \<and> r' \<in> set (runs d) \<and> \<not> open_run r' \<longrightarrow>
           (\<not> open_run r \<and> lane_rank (acceptance_lane r) < lane_rank (acceptance_lane r') \<longrightarrow>
              (\<exists>i<k. ListRunsGroupedByAcceptance jobID limit d ! i = scanRun r))
           \<and> (0 \<le> limit \<longrightarrow> k < nat limit))"
proof -
  have keys: "run_keys d" using db_ok_keys [OF reach_ok [OF assms(1)]] .
  have "r \<in> set (open_runs jobID d)" if "open_run r"
    using that assms(2,3) by (simp add: open_runs_mem)
  moreover have "r \<in> set (shown_runs jobID limit d)" if "\<not> open_run r" "limit < 0"
    using that assms(2,3) by (simp add: shown_runs_def reviewable_def)
  ultimately have "scanRun r \<in> set (ListRunsGroupedByAcceptance jobID limit d)" if "open_run r \<or> limit < 0"
    using that by (auto simp: listing_parts)
  moreover have "set (ListRunsGroupedByAcceptance jobID limit d) \<subseteq> scanRun ` {q \<in> set (runs d). of_job jobID q}"
    using shown_runs_mem open_runs_mem by (auto simp: listing_parts)
  ultimately show ?thesis
    using shown_count shown_distinct [OF keys] shown_first [OF keys assms(2,3)] by blast
qed

lemma cancelled_reviewable: "\<not> open_run demo_cancelled_run"
  "ListRunsGroupedByAcceptance [] 1 db_cancelled = [scanRun demo_cancelled_run]"
proof -
  have e: "effect_kind demo_cancelled_run = []" "state demo_cancelled_run = StateCancelled"
    by (simp add: demo_cancelled_run_def finish_set_def outcome_set_def clear_effect_def) simp
  then show "\<not> open_run demo_cancelled_run"
    using terminal_not_nonterminal [OF cancelled_terminal] by (simp add: open_run_def EffectWorkspaceClose_def)
  then show "ListRunsGroupedByAcceptance [] 1 db_cancelled = [scanRun demo_cancelled_run]"
    by (simp add: ListRunsGroupedByAcceptance_def sql_limit_def reviewable_def of_job_def db_cancelled_eq)
qed

theorem review_listing_prioritises_witness:
  "length (filter (\<lambda>q. \<not> open_run q) (ListRunsGroupedByAcceptance [] 1 db_cancelled)) = 1"
  using review_listing_prioritises [OF db_cancelled_reach, of demo_cancelled_run "[]" 1] cancelled_reviewable(1)
  by (simp add: of_job_def db_cancelled_eq)

text \<open>Recovery after a restart finds everything: the nonterminal runs are exactly the runs in
  a nonterminal state or with a recorded workspace close, each once, the oldest first.\<close>

theorem nonterminal_runs_complete:
  assumes "reach d"
  shows "set (NonTerminalRuns d) = scanRun ` {r \<in> set (runs d). open_run r}
    \<and> distinct (map run_id (NonTerminalRuns d))
    \<and> sorted (map (\<lambda>r. (accepted_unix_nano r, run_id r)) (NonTerminalRuns d))"
proof -
  have "distinct (map run_id (runs d))"
    using db_ok_keys [OF reach_ok [OF assms]] by (simp add: run_keys_def)
  then have "distinct (map run_id (filter open_run (runs d)))" by (rule distinct_map_filter)
  then have "distinct (map run_id (run_order (filter open_run (runs d))))"
    by (simp add: run_order_def distinct_map)
  moreover have "map f (map scanRun rs) = map f rs" if "\<And>r. f (scanRun r) = f r" for f :: "run \<Rightarrow> 'b" and rs
    using that by simp
  moreover have "sorted (map (\<lambda>r. (accepted_unix_nano r, run_id r)) (run_order (filter open_run (runs d))))"
    by (simp add: run_order_def)
  ultimately show ?thesis by (simp add: NonTerminalRuns_def comp_def) (simp add: run_order_def)
qed

theorem nonterminal_runs_complete_witness:
  "set (NonTerminalRuns db_run) = scanRun ` {r \<in> set (runs db_run). open_run r}"
  using nonterminal_runs_complete [OF db_run_reach] by blast

section \<open>Migrations of the rows\<close>

lemma find_map_key:
  "(\<And>x. key (f x) = key x) \<Longrightarrow> find (\<lambda>x. key x = k) (map f xs) = map_option f (find (\<lambda>x. key x = k) xs)"
  by (induction xs) simp_all

lemma apply_rows_map:
  assumes "distinct (map key rows)" and "distinct sel" and "set sel \<subseteq> set rows"
    and "\<And>s. s \<in> set sel \<Longrightarrow> P s s"
    and "\<And>s q. P s q \<Longrightarrow> key q = key s" and "\<And>s q. key (upd s q) = key q"
  shows "apply_rows P upd sel rows = map (\<lambda>q. if q \<in> set sel then upd q q else q) rows"
  using assms(2-4)
proof (induction sel rule: rev_induct)
  case Nil
  then show ?case by (simp add: apply_rows_def)
next
  case (snoc s sel)
  let ?h = "\<lambda>q. if q \<in> set sel then upd q q else q"
  have "apply_rows P upd (sel @ [s]) rows = map (\<lambda>q. if P s q then upd s q else q) (map ?h rows)"
    using snoc by (simp add: apply_rows_def)
  moreover have "(if P s (?h q) then upd s (?h q) else ?h q) = (if q \<in> set (sel @ [s]) then upd q q else q)"
    if q: "q \<in> set rows" for q
  proof (cases "q = s")
    case True
    with snoc show ?thesis by auto
  next
    case False
    have "\<not> P s (?h q)"
    proof
      assume "P s (?h q)"
      then have "key (?h q) = key s" by (rule assms(5))
      then have "key q = key s" using assms(6) by (simp split: if_splits)
      moreover have "s \<in> set rows" using snoc by simp
      ultimately have "q = s" using assms(1) q by (auto intro: distinct_key_eq)
      with False show False ..
    qed
    with False show ?thesis by simp
  qed
  ultimately show ?case by simp
qed

lemma distinct_of_key: "distinct (map f xs) \<Longrightarrow> distinct xs"
  by (simp add: distinct_map)

lemma backfill_accepted_map:
  assumes "run_keys d"
  shows "runs (backfill_accepted d) =
    map (\<lambda>r. if accepted_unix_nano r = 0 then r\<lparr>accepted_unix_nano := UnixNano (accepted_at r)\<rparr> else r) (runs d)"
  using assms unfolding backfill_accepted_def run_keys_def
  by (simp, subst apply_rows_map [where key = run_id]) (auto dest: distinct_of_key)

lemma backfill_class_set_id [simp]: "run_id (backfill_class_set s q) = run_id q"
  by (simp add: backfill_class_set_def split: prod.split)

lemma backfill_class_map:
  assumes "run_keys d"
  shows "runs (backfillAcceptanceClassification d) =
    map (\<lambda>r. if unclassified r \<and> state r \<notin> set nonterminalStates then backfill_class_set r r else r) (runs d)"
  using assms unfolding backfillAcceptanceClassification_def run_keys_def
  by (simp, subst apply_rows_map [where key = run_id]) (auto dest: distinct_of_key)

lemma apply_rows_Nil [simp]: "apply_rows P upd [] rows = rows"
  by (simp add: apply_rows_def)

lemma map_id_on: "(\<And>x. x \<in> set xs \<Longrightarrow> f x = x) \<Longrightarrow> map f xs = xs"
  by (simp add: map_idI)

lemma backfill_accepted_id:
  assumes "run_keys d" and "typed_ok d"
  shows "backfill_accepted d = d"
proof -
  have "runs (backfill_accepted d) = runs d"
    unfolding backfill_accepted_map [OF assms(1)]
    using assms(2) by (intro map_id_on) (auto simp: typed_ok_def list_all_iff)
  then show ?thesis by (simp add: backfill_accepted_def)
qed

lemma backfill_created_id:
  assumes "keys_ok d" and "typed_ok d"
  shows "backfill_created d = d"
proof -
  let ?sel = "filter (\<lambda>oc. created_unix_nano oc = 0) (occurrences d)"
  have "occurrences (backfill_created d) =
      map (\<lambda>q. if q \<in> set ?sel then q\<lparr>created_unix_nano := UnixNano (created_at q)\<rparr> else q) (occurrences d)"
    using assms(1) unfolding backfill_created_def keys_ok_def
    by (simp, subst apply_rows_map [where key = "\<lambda>oc. (occ_job oc, occurrence_key oc)"])
       (auto dest: distinct_of_key)
  also have "\<dots> = occurrences d"
    using assms(2) by (intro map_id_on) (auto simp: typed_ok_def list_all_iff)
  finally show ?thesis by (simp add: backfill_created_def)
qed

lemma backfill_jobs_id: "typed_ok d \<Longrightarrow> backfill_jobs d = Inr d"
proof -
  assume "typed_ok d"
  then have "filter (\<lambda>j. config_revision j = 0) (jobs d) = []"
    by (auto simp: typed_ok_def list_all_iff filter_empty_conv)
  then show ?thesis by (simp add: backfill_jobs_def)
qed

lemma classified_not_blank:
  assumes "classified r \<or> legacy_classified r"
  shows "\<not> unclassified r"
proof -
  obtain lane reason u where cls:
    "classifyTerminalRun (run_id r) (run_definition r) (state r) (task_verdict r) = (lane, reason, u)"
    by (rule prod_cases3)
  from assms cls classify_nonempty [OF cls] show ?thesis
    by (auto simp: classified_def legacy_classified_def unclassified_def AcceptanceMandatory_def)
qed

lemma backfill_classification_id:
  assumes "run_keys d" and "rows_ok d"
    and "\<And>r. r \<in> set (runs d) \<Longrightarrow> IsTerminalState (state r) \<or> state r \<in> set nonterminalStates"
  shows "backfillAcceptanceClassification d = d"
proof -
  have "\<not> (unclassified r \<and> state r \<notin> set nonterminalStates)" if "r \<in> set (runs d)" for r
    using assms(2) assms(3) [OF that] classified_not_blank that by (auto simp: rows_ok_def list_all_iff)
  then have "runs (backfillAcceptanceClassification d) = runs d"
    unfolding backfill_class_map [OF assms(1)] by (intro map_id_on) auto
  then show ?thesis by (simp add: backfillAcceptanceClassification_def)
qed

lemma backfill_keys_id:
  assumes "keys_ok d" and "\<And>oc. oc \<in> set (occurrences d) \<Longrightarrow> occurrence_key oc \<noteq> []"
  shows "backfill_keys d = Inr d"
proof -
  have "map (\<lambda>oc. if occurrence_key oc = [] then oc\<lparr>occurrence_key := formatTime (occ_scheduled_for oc)\<rparr> else oc)
          (occurrences d) = occurrences d"
    using assms(2) by (intro map_id_on) auto
  with assms(1) show ?thesis by (simp add: backfill_keys_def keys_ok_def)
qed

lemma ensure_locks_id: "locks_ok d \<Longrightarrow> ensure_locks d = d"
  by (auto simp: ensure_locks_def locks_ok_def lockAuthorityWrites_def lockOccurrenceWrites_def split: if_splits)

text \<open>Opening a database that only this version's operations have written changes none of
  its rows, provided every run is in a known state and every occurrence has a key: the typed
  columns the migrations would fill in are already those they compute.\<close>

theorem reopen_changes_nothing:
  assumes "reach d"
    and "\<And>r. r \<in> set (runs d) \<Longrightarrow> IsTerminalState (state r) \<or> state r \<in> set nonterminalStates"
    and "\<And>oc. oc \<in> set (occurrences d) \<Longrightarrow> occurrence_key oc \<noteq> []"
  shows "migrate d = (Inr (), d)"
proof -
  have ok: "keys_ok d" "rows_ok d" "locks_ok d" "typed_ok d" "run_keys d"
    using reach_ok [OF assms(1)] by (simp_all add: db_ok_def keys_ok_def)
  then show ?thesis
    using assms(2,3)
    by (simp add: migrate_def backfillTypedAuthority_def backfill_jobs_id backfill_accepted_id
        backfill_created_id backfill_classification_id backfill_keys_id ensure_locks_id)
qed

theorem reopen_changes_nothing_witness: "migrate db_cancelled = (Inr (), db_cancelled)"
  using reopen_changes_nothing [OF db_cancelled_reach] cancelled_terminal
  by (simp add: db_cancelled_eq db_run_tables db_job_eq init_db_def)

lemma TrimSpace_Nil: "TrimSpace [] = []"
  by code_simp

lemma backfill_class_set_eq:
  assumes "classifyTerminalRun (run_id r) (run_definition r) (state r) (task_verdict r) = (lane, reason, u)"
  shows "backfill_class_set r r =
    r\<lparr>acceptance_lane := if acceptance_lane r = [] then lane else acceptance_lane r,
      acceptance_reason := if acceptance_reason r = [] then reason else acceptance_reason r,
      unread := if TrimSpace (acceptance_lane r) = [] \<and> TrimSpace (acceptance_reason r) = [] then u else unread r\<rparr>"
  unfolding backfill_class_set_def backfill_class_def assms prod.case
  by (cases "acceptance_lane r = []"; cases "acceptance_reason r = []") (simp_all add: TrimSpace_Nil)

lemma backfill_class_set_classifies: "\<not> unclassified (backfill_class_set r r)"
proof -
  obtain lane reason u where cls:
    "classifyTerminalRun (run_id r) (run_definition r) (state r) (task_verdict r) = (lane, reason, u)"
    by (rule prod_cases3)
  show ?thesis using classify_nonempty [OF cls] by (simp add: backfill_class_set_eq [OF cls] unclassified_def)
qed

lemma backfill_class_set_state [simp]: "state (backfill_class_set s q) = state q"
  by (simp add: backfill_class_set_def split: prod.split)

lemma backfill_classification_idem:
  assumes "run_keys d"
  shows "backfillAcceptanceClassification (backfillAcceptanceClassification d) = backfillAcceptanceClassification d"
proof -
  let ?d = "backfillAcceptanceClassification d"
  have "map run_id (runs ?d) = map run_id (runs d)"
    unfolding backfill_class_map [OF assms] by auto
  with assms have keys: "run_keys ?d" by (simp add: run_keys_def)
  have "\<not> (unclassified r \<and> state r \<notin> set nonterminalStates)" if "r \<in> set (runs ?d)" for r
    using that backfill_class_set_classifies by (auto simp: backfill_class_map [OF assms])
  then have "runs (backfillAcceptanceClassification ?d) = runs ?d"
    unfolding backfill_class_map [OF keys] by (intro map_id_on) auto
  then show ?thesis by (simp add: backfillAcceptanceClassification_def)
qed

text \<open>Classifying the finished runs of an older database gives every run outside the
  nonterminal states a lane and a reason, computed for the blank ones and kept for the others.
  It leaves every other column alone, moves the unread mark only of runs that had neither, and
  doing it again changes nothing.\<close>

theorem backfill_classifies:
  assumes "run_keys d" and "find_run i d = Some r"
  shows "\<exists>r' lane reason u.
      find_run i (backfillAcceptanceClassification d) = Some r'
      \<and> classifyTerminalRun i (run_definition r) (state r) (task_verdict r) = (lane, reason, u)
      \<and> r' = r\<lparr>acceptance_lane := acceptance_lane r', acceptance_reason := acceptance_reason r', unread := unread r'\<rparr>
      \<and> (if state r \<in> set nonterminalStates then r' = r
         else acceptance_lane r' = (if acceptance_lane r = [] then lane else acceptance_lane r)
            \<and> acceptance_reason r' = (if acceptance_reason r = [] then reason else acceptance_reason r)
            \<and> (unread r' = unread r \<or> (TrimSpace (acceptance_lane r) = [] \<and> TrimSpace (acceptance_reason r) = [] \<and> unread r' = u)))
      \<and> backfillAcceptanceClassification (backfillAcceptanceClassification d) = backfillAcceptanceClassification d"
proof -
  obtain lane reason u where cls:
    "classifyTerminalRun (run_id r) (run_definition r) (state r) (task_verdict r) = (lane, reason, u)"
    by (rule prod_cases3)
  let ?f = "\<lambda>r. if unclassified r \<and> state r \<notin> set nonterminalStates then backfill_class_set r r else r"
  have id: "run_id r = i" using find_run_Some [OF assms(2)] by blast
  have "find_run i (backfillAcceptanceClassification d) = map_option ?f (find_run i d)"
    using backfill_class_map [OF assms(1)] by (simp add: find_run_def find_map_key [where key = run_id])
  then have "find_run i (backfillAcceptanceClassification d) = Some (?f r)" using assms(2) by simp
  moreover have "?f r = r\<lparr>acceptance_lane := acceptance_lane (?f r), acceptance_reason := acceptance_reason (?f r),
      unread := unread (?f r)\<rparr>"
    by (simp add: backfill_class_set_eq [OF cls])
  moreover have "if state r \<in> set nonterminalStates then ?f r = r
    else acceptance_lane (?f r) = (if acceptance_lane r = [] then lane else acceptance_lane r)
      \<and> acceptance_reason (?f r) = (if acceptance_reason r = [] then reason else acceptance_reason r)
      \<and> (unread (?f r) = unread r \<or> (TrimSpace (acceptance_lane r) = [] \<and> TrimSpace (acceptance_reason r) = []
           \<and> unread (?f r) = u))"
    by (simp add: backfill_class_set_eq [OF cls] unclassified_def)
  ultimately show ?thesis
    using cls [unfolded id] backfill_classification_idem [OF assms(1)]
    by (intro exI [of _ "?f r"] exI [of _ lane] exI [of _ reason] exI [of _ u] conjI)
qed

text \<open>A finished run as a version without the classification columns stored it.\<close>

definition legacy_db :: db where
  "legacy_db = db_cancelled\<lparr>runs := [demo_cancelled_run\<lparr>acceptance_lane := [], acceptance_reason := [], unread := False\<rparr>]\<rparr>"

theorem backfill_classifies_witness:
  "\<exists>r'. find_run (run_id demo_run) (backfillAcceptanceClassification legacy_db) = Some r' \<and> acceptance_lane r' \<noteq> []"
proof -
  let ?r = "demo_cancelled_run\<lparr>acceptance_lane := [], acceptance_reason := [], unread := False\<rparr>"
  have "run_keys legacy_db" "find_run (run_id demo_run) legacy_db = Some ?r"
    by (simp_all add: legacy_db_def run_keys_def find_run_def)
  from backfill_classifies [OF this] show ?thesis
    using terminal_not_nonterminal [OF cancelled_terminal] by (auto dest: classify_nonempty)
qed

end
