(* ===== verification/Loops.thy ===== *)
theory Loops
  imports Main "HOL-Library.State_Monad"
begin

section \<open>Fallible operations in sequence\<close>

text \<open>
  An operation on a state gives an error or a value. \<open>need\<close> stops at the first error, as
  \<open>if err != nil { return err }\<close> does; \<open>attempt\<close> handles it.
\<close>

abbreviation ret :: "'a \<Rightarrow> ('w, 'a) state" where
  "ret \<equiv> State_Monad.return"

definition need :: "('w, 'err + 'a) state \<Rightarrow> ('a \<Rightarrow> ('w, 'err + 'b) state) \<Rightarrow> ('w, 'err + 'b) state" where
  "need m f = do { r \<leftarrow> m; (case r of Inl e \<Rightarrow> ret (Inl e) | Inr x \<Rightarrow> f x) }"

definition attempt :: "('w, 'err + 'a) state \<Rightarrow> ('err \<Rightarrow> ('w, 'b) state) \<Rightarrow> ('a \<Rightarrow> ('w, 'b) state) \<Rightarrow> ('w, 'b) state" where
  "attempt m h f = do { r \<leftarrow> m; (case r of Inl e \<Rightarrow> h e | Inr x \<Rightarrow> f x) }"

fun each :: "('a \<Rightarrow> ('w, 'err + unit) state) \<Rightarrow> 'a list \<Rightarrow> ('w, 'err + unit) state" where
  "each f [] = ret (Inr ())"
| "each f (x # xs) = need (f x) (\<lambda>_. each f xs)"

text \<open>A loop whose body may \<open>break\<close>: the result says whether it did.\<close>

fun each_until :: "('a \<Rightarrow> ('w, 'err + bool) state) \<Rightarrow> 'a list \<Rightarrow> ('w, 'err + bool) state" where
  "each_until f [] = ret (Inr False)"
| "each_until f (x # xs) = need (f x) (\<lambda>stop. if stop then ret (Inr True) else each_until f xs)"

section \<open>Loops\<close>

text \<open>
  Loops over an outside world: a round either ends the loop with a result or hands the loop
  variables of the next round on. \<open>None\<close> is the loop that never ends.
\<close>

partial_function (option) loop :: "('s \<Rightarrow> ('w, 'r + 's) state) \<Rightarrow> 's \<Rightarrow> 'w \<Rightarrow> ('r \<times> 'w) option" where
  "loop f s w =
     (case run_state (f s) w of (out, w') \<Rightarrow>
        (case out of Inl r \<Rightarrow> Some (r, w') | Inr s' \<Rightarrow> loop f s' w'))"

text \<open>What holds before every round holds before the round that ends the loop.\<close>

lemma loop_last_round:
  assumes "loop f s w = Some (r, w')" and "I s w"
    and "\<And>s w s' w'. I s w \<Longrightarrow> run_state (f s) w = (Inr s', w') \<Longrightarrow> I s' w'"
  shows "\<exists>s1 w1. I s1 w1 \<and> run_state (f s1) w1 = (Inl r, w')"
proof -
  have "\<exists>s1 w1. I s1 w1 \<and> run_state (f s1) w1 = (Inl (fst out), snd out)" if "loop g s w = Some out" "g = f" "I s w" for g s w out
    using that
  proof (induction g s w out rule: loop.raw_induct [rotated, consumes 1])
    case (1 lp g s w out)
    obtain o1 w1 where o1: "run_state (f s) w = (o1, w1)" by fastforce
    show ?case
    proof (cases o1)
      case (Inl r)
      with 1(2,3) o1 have "out = (r, w1)" by simp
      with o1 Inl 1(4) show ?thesis by auto
    next
      case (Inr s')
      with 1(2,3) o1 have "lp g s' w1 = Some out" by simp
      moreover have "I s' w1" using assms(3) [OF 1(4)] o1 Inr by simp
      ultimately show ?thesis using 1(1,3) by blast
    qed
  qed
  from this [OF assms(1) refl assms(2)] show ?thesis by simp
qed

text \<open>A loop keeps what each of its rounds keeps of the world.\<close>

lemma loop_keeps:
  assumes "loop f s w = Some (r, w')" and "\<And>s. state_io_rel R (f s)" and "reflp R" and "transp R"
  shows "R w w'"
proof -
  have "\<exists>s1 w1. R w w1 \<and> run_state (f s1) w1 = (Inl r, w')"
    using assms(1)
  proof (rule loop_last_round [where I = "\<lambda>_. R w"])
    show "R w w" using assms(3) by (rule reflpD)
    show "R w w2" if "R w w1" "run_state (f s1) w1 = (Inr s2, w2)" for s1 w1 s2 w2
      using that assms(2,4) by (blast dest: state_io_relD transpD)
  qed
  then show ?thesis using assms(2,4) by (blast dest: state_io_relD transpD)
qed

text \<open>A loop ends when every round that continues lowers a measure.\<close>

lemma loop_ends:
  fixes m :: "'s \<Rightarrow> 'w \<Rightarrow> nat"
  assumes "I s w"
    and "\<And>s w s' w'. I s w \<Longrightarrow> run_state (f s) w = (Inr s', w') \<Longrightarrow> I s' w' \<and> m s' w' < m s w"
  shows "\<exists>r w'. loop f s w = Some (r, w')"
  using assms(1)
proof (induction "m s w" arbitrary: s w rule: less_induct)
  case less
  obtain o1 w1 where o1: "run_state (f s) w = (o1, w1)" by fastforce
  show ?case
  proof (cases o1)
    case (Inl r)
    then show ?thesis by (subst loop.simps) (simp add: o1)
  next
    case (Inr s')
    with assms(2) [OF less.prems] o1 have "I s' w1" "m s' w1 < m s w" by simp_all
    with less.hyps obtain r w' where "loop f s' w1 = Some (r, w')" by blast
    then show ?thesis using Inr by (subst loop.simps) (simp add: o1)
  qed
qed

lemma state_io_rel_return [simp]: "reflp R \<Longrightarrow> state_io_rel R (State_Monad.return x)"
  by (auto simp: state_io_rel_def reflpD)

lemma state_io_rel_bind:
  assumes "transp R" and "state_io_rel R m" and "\<And>x. state_io_rel R (f x)"
  shows "state_io_rel R (State_Monad.bind m f)"
proof
  fix b s s'
  assume run: "run_state (State_Monad.bind m f) s = (b, s')"
  obtain a t where a: "run_state m s = (a, t)" by fastforce
  with run have "run_state (f a) t = (b, s')" by simp
  with assms(2,3) a have "R s t" "R t s'" by (blast dest: state_io_relD)+
  with assms(1) show "R s s'" by (blast dest: transpD)
qed

lemma state_io_rel_need:
  assumes "reflp R" and "transp R" and "state_io_rel R m" and "\<And>x. state_io_rel R (f x)"
  shows "state_io_rel R (need m f)"
  unfolding need_def using assms by (intro state_io_rel_bind) (auto split: sum.split)

lemma state_io_rel_attempt:
  assumes "transp R" and "state_io_rel R m" and "\<And>e. state_io_rel R (h e)" and "\<And>x. state_io_rel R (f x)"
  shows "state_io_rel R (attempt m h f)"
  unfolding attempt_def using assms by (intro state_io_rel_bind) (auto split: sum.split)

lemma state_io_rel_each:
  assumes "reflp R" and "transp R" and "\<And>x. state_io_rel R (f x)"
  shows "state_io_rel R (each f xs)"
  by (induction xs) (auto intro!: state_io_rel_need assms state_io_rel_return)

lemma state_io_rel_each_until:
  assumes "reflp R" and "transp R" and "\<And>x. state_io_rel R (f x)"
  shows "state_io_rel R (each_until f xs)"
  by (induction xs) (auto intro!: state_io_rel_need assms state_io_rel_return)

end
