(* ===== verification/GoText.thy ===== *)
theory GoText
  imports Json
begin

text \<open>
  More of Go's text packages, for the process-facing side of the program: case
  mapping as far as it can produce ASCII, \<open>strings.Fields\<close>,
  \<open>Trim\<close> and \<open>Index\<close>, and the numerals of \<open>strconv\<close>.
\<close>

section \<open>Case\<close>

text \<open>
  \<open>unicode.ToUpper\<close> and \<open>ToLower\<close> on the runes whose image is ASCII: besides the letters
  themselves, two runes have an ASCII capital and two an ASCII small letter. Every other rune
  has an image that is not ASCII, for which the rune itself stands.
\<close>

definition upper_rune :: "nat \<Rightarrow> nat" where
  "upper_rune r = (if 97 \<le> r \<and> r \<le> 122 then r - 32 else if r = 305 then 73 else if r = 383 then 83 else r)"

definition lower_rune :: "nat \<Rightarrow> nat" where
  "lower_rune r = (if 65 \<le> r \<and> r \<le> 90 then r + 32 else if r = 304 then 105 else if r = 8490 then 107 else r)"

section \<open>Package strings\<close>

definition TrimLeftSet :: "string \<Rightarrow> string \<Rightarrow> string" where
  "TrimLeftSet s cutset = dropWhile (\<lambda>c. c \<in> set cutset) s"

definition TrimSet :: "string \<Rightarrow> string \<Rightarrow> string" where
  "TrimSet s cutset = rev (TrimLeftSet (rev (TrimLeftSet s cutset)) cutset)"

text \<open>What follows the last occurrence of a byte, and the string itself when it has none.\<close>

definition after_last :: "char \<Rightarrow> string \<Rightarrow> string" where
  "after_last sep s = rev (takeWhile (\<lambda>c. c \<noteq> sep) (rev s))"

text \<open>What follows the first occurrence of a pattern (\<open>strings.Index\<close> and the slice after it).\<close>

fun after_first :: "string \<Rightarrow> string \<Rightarrow> string option" where
  "after_first pat [] = (if pat = [] then Some [] else None)"
| "after_first pat (c # cs) =
     (if prefix pat (c # cs) then Some (drop (length pat) (c # cs)) else after_first pat cs)"

text \<open>\<open>strings.Fields\<close>: the maximal runs of bytes between spaces, for the ASCII spaces and the
  multi-byte ones of \<open>space_runes\<close>.\<close>

definition space_width :: "string \<Rightarrow> nat" where
  "space_width s = (case find (\<lambda>r. prefix r s) space_runes of None \<Rightarrow> 0 | Some r \<Rightarrow> length r)"

fun fields_from :: "nat \<Rightarrow> string \<Rightarrow> string \<Rightarrow> string list" where
  "fields_from 0 acc s = (if acc = [] then [] else [rev acc])"
| "fields_from (Suc n) acc [] = (if acc = [] then [] else [rev acc])"
| "fields_from (Suc n) acc (c # cs) =
     (let w = space_width (c # cs)
      in if w = 0 then fields_from n (c # acc) cs
         else (if acc = [] then [] else [rev acc]) @ fields_from n [] (drop w (c # cs)))"

definition Fields :: "string \<Rightarrow> string list" where
  "Fields s = fields_from (length s) [] s"

section \<open>Package strconv\<close>

text \<open>\<open>Atoi\<close>: an optional sign and decimal digits within \<open>int\<close>, which has 64 bits.\<close>

definition Atoi :: "string \<Rightarrow> int option" where
  "Atoi s =
     (let neg = prefix ''-'' s; ds = (if neg \<or> prefix ''+'' s then drop 1 s else s);
          v = (if neg then - digits_val ds else digits_val ds)
      in if ds \<noteq> [] \<and> list_all is_digit ds \<and> in_int64 v then Some v else None)"

text \<open>
  \<open>strconv.Quote\<close>, which is also the verb \<open>%q\<close> of a string. Runes above ASCII are taken to be
  printable and are kept; an invalid byte is written as an escape.
\<close>

definition hex_byte :: "nat \<Rightarrow> string" where
  "hex_byte n = [CHR 0x5C, CHR ''x'', hex_char (n div 16), hex_char (n mod 16)]"

definition quote_ascii :: "nat \<Rightarrow> string" where
  "quote_ascii n =
     (if n = 34 \<or> n = 92 then [CHR 0x5C, char_of n]
      else if n = 7 then [CHR 0x5C, CHR ''a''] else if n = 8 then [CHR 0x5C, CHR ''b'']
      else if n = 9 then [CHR 0x5C, CHR ''t''] else if n = 10 then [CHR 0x5C, CHR ''n'']
      else if n = 11 then [CHR 0x5C, CHR ''v''] else if n = 12 then [CHR 0x5C, CHR ''f'']
      else if n = 13 then [CHR 0x5C, CHR ''r'']
      else if n < 32 \<or> n = 127 then hex_byte n
      else [char_of n])"

fun quote_body :: "string \<Rightarrow> string" where
  "quote_body [] = []"
| "quote_body (c # cs) =
     (case decode_rune (c # cs) of (r, w) \<Rightarrow>
        (if r < 128 then quote_ascii r
         else if r = RuneError \<and> w = 1 then hex_byte (of_char c)
         else take w (c # cs)) @ quote_body (drop (w - 1) cs))"

definition Quote :: "string \<Rightarrow> string" where
  "Quote s = CHR 0x22 # quote_body s @ [CHR 0x22]"

end
