(* ===== verification/StoreSchema.thy ===== *)
theory StoreSchema
  imports StoreQueries Loops GoText
begin

text \<open>
  The database file as \<open>Open\<close> finds it, which may be new or written by an older version: its
  tables with their columns and primary keys, its indexes, and the rows of \<open>StoreTypes\<close>. Each
  SQL statement of the initialization is a function on the file, and a connection runs one at
  a time, inside or outside a transaction. Any call may fail (a lock held by another process, an
  I/O error, an expired context): which calls do, with which error and whether SQLite gives up the
  transaction as well, is the argument \<open>sqlite\<close>, indexed by the number of the call. Rows that
  are read (\<open>Next\<close>, \<open>Scan\<close>, \<open>Err\<close>, \<open>Close\<close>) belong to the call of their query.
\<close>

section \<open>Errors\<close>

text \<open>An error of the driver carries a result code and a text, any other error its text.\<close>

datatype sql_err = Coded int string | Plain string

definition sql_text :: "sql_err \<Rightarrow> string" where
  "sql_text e = (case e of Coded _ m \<Rightarrow> m | Plain m \<Rightarrow> m)"

section \<open>The file\<close>

record sql_column =
  col_name :: string
  col_decl :: string

record sql_table =
  tbl_cols :: "sql_column list"
  tbl_key :: "string list"

text \<open>
  \<open>by_key\<close> holds the rows of \<open>occurrences_by_key\<close>, which exists only while the table of
  occurrences is rebuilt.
\<close>

record dbfile =
  tables :: "(string \<times> sql_table) list"
  indexes :: "(string \<times> string \<times> string list) list"
  file_rows :: db
  by_key :: "occ_row list"

definition table_columns :: "string \<Rightarrow> dbfile \<Rightarrow> string list" where
  "table_columns t f = (case map_of (tables f) t of None \<Rightarrow> [] | Some tb \<Rightarrow> map col_name (tbl_cols tb))"

definition has_columns :: "string \<Rightarrow> string list \<Rightarrow> dbfile \<Rightarrow> bool" where
  "has_columns t cs f \<longleftrightarrow> map_of (tables f) t \<noteq> None \<and> set cs \<subseteq> set (table_columns t f)"

section \<open>Statements\<close>

type_synonym stmt = "dbfile \<Rightarrow> sql_err + dbfile"

text \<open>The rows of a table that has just been created.\<close>

definition no_rows :: "string \<Rightarrow> db \<Rightarrow> db" where
  "no_rows t d =
     (if t = ''jobs'' then d\<lparr>jobs := []\<rparr> else if t = ''occurrences'' then d\<lparr>occurrences := []\<rparr>
      else if t = ''runs'' then d\<lparr>runs := []\<rparr> else if t = ''events'' then d\<lparr>events := []\<rparr>
      else if t = ''metadata'' then d\<lparr>metadata := []\<rparr> else d)"

definition new_table :: "(string \<times> string) list \<Rightarrow> string list \<Rightarrow> sql_table" where
  "new_table cs key = \<lparr> tbl_cols = map (\<lambda>(n, decl). \<lparr> col_name = n, col_decl = decl \<rparr>) cs, tbl_key = key \<rparr>"

text \<open>\<open>CREATE TABLE IF NOT EXISTS\<close>, \<open>CREATE INDEX IF NOT EXISTS\<close>.\<close>

definition create_table :: "string \<Rightarrow> (string \<times> string) list \<Rightarrow> string list \<Rightarrow> stmt" where
  "create_table t cs key f =
     Inr (if map_of (tables f) t \<noteq> None then f
          else f\<lparr>tables := tables f @ [(t, new_table cs key)], file_rows := no_rows t (file_rows f)\<rparr>)"

definition create_index :: "string \<Rightarrow> string \<Rightarrow> string list \<Rightarrow> stmt" where
  "create_index i t cs f =
     (if i \<in> fst ` set (indexes f) then Inr f
      else if has_columns t cs f then Inr (f\<lparr>indexes := indexes f @ [(i, t, cs)]\<rparr>)
      else Inl (Coded 1 ''no such column''))"

text \<open>
  \<open>ALTER TABLE ... ADD COLUMN\<close>: every row gets the default of the new column. A row of the
  model has all the columns of this version; what it holds for one its table lacks is never read.
\<close>

definition run_default :: "string \<Rightarrow> run \<Rightarrow> run" where
  "run_default c r =
     (if c = ''accepted_unix_nano'' then r\<lparr>accepted_unix_nano := 0\<rparr>
      else if c = ''execution_mode'' then r\<lparr>execution_mode := ''agent''\<rparr>
      else if c = ''completion_marker'' then r\<lparr>completion_marker := []\<rparr>
      else if c = ''provisioning_owner'' then r\<lparr>provisioning_owner := []\<rparr>
      else if c = ''provisioning_lease_until'' then r\<lparr>provisioning_lease_until := 0\<rparr>
      else if c = ''effect_owner'' then r\<lparr>effect_owner := []\<rparr>
      else if c = ''effect_claim'' then r\<lparr>effect_claim := []\<rparr>
      else if c = ''effect_kind'' then r\<lparr>effect_kind := []\<rparr>
      else if c = ''effect_lease_until'' then r\<lparr>effect_lease_until := 0\<rparr>
      else if c = ''effect_receipt'' then r\<lparr>effect_receipt := []\<rparr>
      else if c = ''disk_device'' then r\<lparr>disk_device := []\<rparr>
      else if c = ''disk_reserve_gib'' then r\<lparr>disk_reserve_gib := Fin 0\<rparr>
      else if c = ''acceptance_lane'' then r\<lparr>acceptance_lane := []\<rparr>
      else if c = ''acceptance_reason'' then r\<lparr>acceptance_reason := []\<rparr>
      else if c = ''source_base_revision'' then r\<lparr>source_base_revision := []\<rparr>
      else if c = ''source_revision'' then r\<lparr>source_revision := []\<rparr>
      else if c = ''input_context'' then r\<lparr>input_context := []\<rparr>
      else if c = ''model_attestation'' then r\<lparr>model_attestation := []\<rparr>
      else if c = ''input_receipt'' then r\<lparr>input_receipt := []\<rparr>
      else if c = ''change_receipt'' then r\<lparr>change_receipt := []\<rparr>
      else r)"

definition job_default :: "string \<Rightarrow> job_row \<Rightarrow> job_row" where
  "job_default c j =
     (if c = ''config_revision'' then j\<lparr>config_revision := 0\<rparr>
      else if c = ''pause_reason'' then j\<lparr>pause_reason := []\<rparr>
      else if c = ''pause_at'' then j\<lparr>pause_at := None\<rparr> else j)"

definition occ_default :: "string \<Rightarrow> occ_row \<Rightarrow> occ_row" where
  "occ_default c oc =
     (if c = ''created_unix_nano'' then oc\<lparr>created_unix_nano := 0\<rparr>
      else if c = ''occurrence_key'' then oc\<lparr>occurrence_key := []\<rparr> else oc)"

definition default_column :: "string \<Rightarrow> string \<Rightarrow> db \<Rightarrow> db" where
  "default_column t c d =
     (if t = ''runs'' then d\<lparr>runs := map (run_default c) (runs d)\<rparr>
      else if t = ''jobs'' then d\<lparr>jobs := map (job_default c) (jobs d)\<rparr>
      else if t = ''occurrences'' then d\<lparr>occurrences := map (occ_default c) (occurrences d)\<rparr>
      else if t = ''events'' \<and> c = ''code'' then d\<lparr>events := map (event_code_update (\<lambda>_. [])) (events d)\<rparr>
      else d)"

definition add_column :: "string \<Rightarrow> string \<Rightarrow> string \<Rightarrow> stmt" where
  "add_column t c decl f =
     (case map_of (tables f) t of
        None \<Rightarrow> Inl (Coded 1 ''no such table'')
      | Some tb \<Rightarrow>
          if c \<in> set (table_columns t f) then Inl (Coded 1 ''duplicate column name'')
          else Inr (f\<lparr>tables := map (\<lambda>(n, q). (n, if n = t then q\<lparr>tbl_cols := tbl_cols q @ [\<lparr> col_name = c, col_decl = decl \<rparr>]\<rparr> else q)) (tables f),
                      file_rows := default_column t c (file_rows f)\<rparr>))"

text \<open>A statement over the rows of one table, which must have the columns it names.\<close>

definition change_rows :: "string \<Rightarrow> string list \<Rightarrow> (db \<Rightarrow> sql_err + db) \<Rightarrow> stmt" where
  "change_rows t cs g f =
     (if has_columns t cs f then map_sum id (\<lambda>d. f\<lparr>file_rows := d\<rparr>) (g (file_rows f))
      else Inl (Coded 1 ''no such column''))"

definition select_rows :: "string \<Rightarrow> string list \<Rightarrow> (db \<Rightarrow> 'a) \<Rightarrow> dbfile \<Rightarrow> sql_err + 'a" where
  "select_rows t cs g f = (if has_columns t cs f then Inr (g (file_rows f)) else Inl (Coded 1 ''no such column''))"

text \<open>
  \<open>PRAGMA table_info\<close>: the columns of a table with their place in its primary key, counted from
  1, or 0. A table that does not exist has none.
\<close>

fun place :: "string \<Rightarrow> string list \<Rightarrow> nat" where
  "place c [] = 0"
| "place c (k # ks) = (if c = k then 1 else if place c ks = 0 then 0 else Suc (place c ks))"

definition info_columns :: "string \<Rightarrow> dbfile \<Rightarrow> (string \<times> nat) list" where
  "info_columns t f =
     (case map_of (tables f) t of
        None \<Rightarrow> []
      | Some tb \<Rightarrow> map (\<lambda>c. (col_name c, place (col_name c) (tbl_key tb))) (tbl_cols tb))"

definition table_info :: "string \<Rightarrow> dbfile \<Rightarrow> sql_err + (string \<times> nat) list" where
  "table_info t f = Inr (info_columns t f)"

section \<open>A connection\<close>

text \<open>\<open>sql_fault n\<close> is the failure of the \<open>n\<close>-th call, \<open>sql_took n\<close> the time it takes.\<close>

record sqlite =
  sql_fault :: "nat \<Rightarrow> (sql_err \<times> bool) option"
  sql_took :: "nat \<Rightarrow> nat"

definition faultless :: "sqlite \<Rightarrow> bool" where
  "faultless env \<longleftrightarrow> (\<forall>n. sql_fault env n = None)"

text \<open>
  The committed file, the contents the open transaction sees, the clock, the calls made, and
  what this process holds: the lock file, the lock on it, the connection and the pool.
\<close>

record conn_world =
  sq_file :: dbfile
  sq_tx :: "dbfile option"
  sq_now :: time
  sq_calls :: nat
  sq_lock_open :: bool
  sq_locked :: bool
  sq_conn :: bool
  sq_db :: bool

definition contents :: "conn_world \<Rightarrow> dbfile" where
  "contents w = (case sq_tx w of None \<Rightarrow> sq_file w | Some f \<Rightarrow> f)"

definition put_contents :: "dbfile \<Rightarrow> conn_world \<Rightarrow> conn_world" where
  "put_contents f w = (case sq_tx w of None \<Rightarrow> w\<lparr>sq_file := f\<rparr> | Some _ \<Rightarrow> w\<lparr>sq_tx := Some f\<rparr>)"

definition call :: "sqlite \<Rightarrow> (conn_world \<Rightarrow> sql_err + 'a \<times> conn_world) \<Rightarrow> (conn_world, sql_err + 'a) state" where
  "call env op = State (\<lambda>w.
     let n = sq_calls w; w' = w\<lparr>sq_calls := Suc n, sq_now := sq_now w + int (sql_took env n)\<rparr> in
     case sql_fault env n of
       Some (e, gives_up) \<Rightarrow> (Inl e, if gives_up then w'\<lparr>sq_tx := None\<rparr> else w')
     | None \<Rightarrow> (case op w' of Inl e \<Rightarrow> (Inl e, w') | Inr (x, w'') \<Rightarrow> (Inr x, w'')))"

definition exec :: "sqlite \<Rightarrow> stmt \<Rightarrow> (conn_world, sql_err + unit) state" where
  "exec env st = call env (\<lambda>w. map_sum id (\<lambda>f. ((), put_contents f w)) (st (contents w)))"

definition query :: "sqlite \<Rightarrow> (dbfile \<Rightarrow> sql_err + 'a) \<Rightarrow> (conn_world, sql_err + 'a) state" where
  "query env q = call env (\<lambda>w. map_sum id (\<lambda>x. (x, w)) (q (contents w)))"

definition begin_immediate :: "sqlite \<Rightarrow> (conn_world, sql_err + unit) state" where
  "begin_immediate env = call env (\<lambda>w.
     case sq_tx w of
       None \<Rightarrow> Inr ((), w\<lparr>sq_tx := Some (sq_file w)\<rparr>)
     | Some _ \<Rightarrow> Inl (Coded 1 ''cannot start a transaction within a transaction''))"

definition commit_tx :: "sqlite \<Rightarrow> (conn_world, sql_err + unit) state" where
  "commit_tx env = call env (\<lambda>w.
     case sq_tx w of
       None \<Rightarrow> Inl (Coded 1 ''cannot commit - no transaction is active'')
     | Some f \<Rightarrow> Inr ((), w\<lparr>sq_file := f, sq_tx := None\<rparr>))"

definition rollback_tx :: "sqlite \<Rightarrow> (conn_world, sql_err + unit) state" where
  "rollback_tx env = call env (\<lambda>w.
     case sq_tx w of
       None \<Rightarrow> Inl (Coded 1 ''cannot rollback - no transaction is active'')
     | Some f \<Rightarrow> Inr ((), w\<lparr>sq_tx := None\<rparr>))"

end
