(* ===== verification/JsonEncode.thy ===== *)
theory JsonEncode
  imports Json
begin

text \<open>
  What \<open>json.Marshal\<close> writes, \<open>json.Unmarshal\<close> reads back: the relation \<open>reads\<close> between a
  value and a text, and its closure under the forms the program encodes (strings, integers,
  booleans, objects and arrays of them).
\<close>

text \<open>A value is followed by the end of the text, a separator or a space.\<close>

definition stops :: "string \<Rightarrow> bool" where
  "stops r \<longleftrightarrow> r = [] \<or> hd r \<in> {CHR '','', CHR ''}'', CHR '']'', CHR 0x0A}"

definition reads :: "json \<Rightarrow> string \<Rightarrow> bool" where
  "reads v s \<longleftrightarrow> (\<forall>n r. length s < n \<longrightarrow> stops r \<longrightarrow> parse_value n (s @ r) = Some (v, r))"

lemma readsI:
  assumes "\<And>n r. length s \<le> n \<Longrightarrow> stops r \<Longrightarrow> parse_value (Suc n) (s @ r) = Some (v, r)"
  shows "reads v s"
  unfolding reads_def
proof (intro allI impI)
  fix n r
  assume "length s < n" "stops r"
  then obtain m where "n = Suc m" "length s \<le> m" by (cases n) auto
  with assms \<open>stops r\<close> show "parse_value n (s @ r) = Some (v, r)" by simp
qed

lemma readsD: "reads v s \<Longrightarrow> length s < n \<Longrightarrow> stops r \<Longrightarrow> parse_value n (s @ r) = Some (v, r)"
  by (simp add: reads_def)

lemma skip_ws_Cons: "\<not> is_json_ws c \<Longrightarrow> skip_ws (c # cs) = c # cs"
  by (simp add: skip_ws_def)

lemma json_ws_simps [simp]:
  "\<not> is_json_ws CHR 0x22" "\<not> is_json_ws CHR ''{''" "\<not> is_json_ws CHR ''}''" "\<not> is_json_ws CHR ''[''"
  "\<not> is_json_ws CHR '']''" "\<not> is_json_ws CHR '',''" "\<not> is_json_ws CHR '':''" "\<not> is_json_ws CHR ''-''"
  by (simp_all add: is_json_ws_def)

lemma parse_json_reads:
  assumes "reads v s"
  shows "parse_json s = Some v" and "parse_json (s @ [CHR 0x0A]) = Some v"
proof -
  have "parse_value (Suc (length s)) (s @ []) = Some (v, [])"
    using assms by (rule readsD) (simp_all add: stops_def)
  then show "parse_json s = Some v" by (simp add: parse_json_def skip_ws_def)
  have "parse_value (Suc (length (s @ [CHR 0x0A]))) (s @ [CHR 0x0A]) = Some (v, [CHR 0x0A])"
    using assms by (rule readsD) (simp_all add: stops_def)
  then show "parse_json (s @ [CHR 0x0A]) = Some v" by (simp add: parse_json_def skip_ws_def is_json_ws_def)
qed

section \<open>Scalars\<close>

lemma parse_quote:
  assumes "length (escape_text s) < n"
  shows "parse_string n (escape_text s @ CHR 0x22 # r) = Some (coerce_utf8 s, r)"
  using escape_text_length [of s] assms by (intro parse_escape_text) linarith

lemma reads_text: "reads (JStr (coerce_utf8 s)) (json_quote s)"
  by (rule readsI) (simp add: json_quote_def skip_ws_Cons parse_quote del: parse_string.simps)

lemma reads_quote: "ascii s \<Longrightarrow> reads (JStr s) (json_quote s)"
  using reads_text [of s] by (simp add: coerce_ascii)

lemma reads_bool: "reads (JBool b) (if b then ''true'' else ''false'')"
  by (rule readsI) (simp add: skip_ws_def is_json_ws_def parse_literal_def)

lemma is_digit_char: "(k :: nat) < 10 \<Longrightarrow> is_digit (char_of (48 + k))"
  by (simp add: is_digit_def less_eq_char_def)

lemma show_nat_digits: "list_all is_digit (show_nat n) \<and> show_nat n \<noteq> [] \<and> (hd (show_nat n) = CHR ''0'' \<longrightarrow> show_nat n = ''0'')"
proof (induction n rule: show_nat.induct)
  case (1 n)
  show ?case
  proof (cases "n < 10")
    case True
    then show ?thesis by (auto simp: show_nat.simps [of n] is_digit_char char_of_eq_iff)
  next
    case False
    with 1 have IH: "list_all is_digit (show_nat (n div 10))" "show_nat (n div 10) \<noteq> []"
      "hd (show_nat (n div 10)) = CHR ''0'' \<longrightarrow> show_nat (n div 10) = ''0''" by blast+
    have "is_digit (char_of (48 + n mod 10))" by (simp add: is_digit_char)
    moreover have "hd (show_nat (n div 10)) \<noteq> CHR ''0''"
    proof
      assume "hd (show_nat (n div 10)) = CHR ''0''"
      with IH(3) have z: "show_nat (n div 10) = ''0''" by blast
      show False
      proof (cases "n div 10 < 10")
        case True
        with z have "char_of (48 + n div 10) = CHR ''0''" by (simp add: show_nat.simps [of "n div 10"])
        then have "of_char (char_of (48 + n div 10)) = (48 :: nat)" by simp
        with True False show False by simp
      next
        case large: False
        then have "show_nat (n div 10) = show_nat (n div 10 div 10) @ [char_of (48 + n div 10 mod 10)]"
          by (simp add: show_nat.simps [of "n div 10"])
        with z have "show_nat (n div 10 div 10) = []" by (cases "show_nat (n div 10 div 10)") auto
        then show False by (simp add: show_nat.simps [of "n div 10 div 10"] split: if_splits)
      qed
    qed
    ultimately show ?thesis using IH False by (simp add: show_nat.simps [of n])
  qed
qed

lemma digits_val_snoc: "digits_val (s @ [c]) = 10 * digits_val s + digit_val c"
  by (simp add: digits_val_def)

lemma digits_val_show [simp]: "digits_val (show_nat n) = int n"
proof (induction n rule: show_nat.induct)
  case (1 n)
  show ?case
  proof (cases "n < 10")
    case True
    then show ?thesis by (simp add: show_nat.simps [of n] digits_val_def digit_val_def)
  next
    case False
    with 1 have "digits_val (show_nat (n div 10)) = int (n div 10)" by blast
    moreover have "digit_val (char_of (48 + n mod 10)) = int (n mod 10)" by (simp add: digit_val_def)
    ultimately show ?thesis
      using False by (simp add: show_nat.simps [of n] digits_val_snoc zdiv_int zmod_int)
  qed
qed

lemma stops_cases:
  assumes "stops r"
  shows "takeWhile is_digit r = []" "\<not> prefix ''.'' r" "\<not> prefix ''e'' r" "\<not> prefix ''E'' r"
  using assms by (cases r; auto simp: stops_def is_digit_def less_eq_char_def)+

lemma scan_number_nat: "stops r \<Longrightarrow> scan_number (show_nat n @ r) = Some (show_nat n, r)"
proof -
  assume r: "stops r"
  obtain c cs where s: "show_nat n = c # cs" using show_nat_digits [of n] by (cases "show_nat n") auto
  from show_nat_digits [of n] s have d: "list_all is_digit (c # cs)" and z: "c = CHR ''0'' \<Longrightarrow> cs = []"
    by auto
  from d have sign: "c \<noteq> CHR ''-''" by (auto simp: is_digit_def less_eq_char_def)
  from d have "takeWhile is_digit (c # cs @ r) = c # cs" "dropWhile is_digit (c # cs @ r) = r"
    using stops_cases(1) [OF r]
    by (auto simp: list_all_iff takeWhile_append2 dropWhile_append2 takeWhile_eq_Nil_iff dropWhile_eq_self_iff)
  then have whole: "(if prefix ''0'' (c # cs @ r) then Some (''0'', drop 1 (c # cs @ r)) else scan_digits1 (c # cs @ r))
      = Some (c # cs, r)"
    using z by (auto simp: scan_digits1_def Let_def)
  have no_sign: "\<not> prefix ''-'' (c # cs @ r)" using sign by simp
  have "scan_frac r = Some ([], r)" "scan_exp r = Some ([], r)"
    using stops_cases [OF r] by (simp_all add: scan_frac_def scan_exp_def)
  then show ?thesis
    unfolding s append_Cons scan_number_def Let_def if_not_P [OF no_sign] list.size drop_0 whole by simp
qed

lemma reads_nat: "reads (JNum (show_nat n)) (show_nat n)"
proof (rule readsI)
  fix m r
  assume r: "stops r"
  obtain c cs where s: "show_nat n = c # cs" using show_nat_digits [of n] by (cases "show_nat n") auto
  with show_nat_digits [of n] have "is_digit c" by simp
  then have c: "\<not> is_json_ws c" "c \<noteq> CHR ''{''" "c \<noteq> CHR ''[''" "c \<noteq> CHR 0x22"
    "CHR ''n'' \<noteq> c" "CHR ''t'' \<noteq> c" "CHR ''f'' \<noteq> c"
    by (auto simp: is_digit_def is_json_ws_def less_eq_char_def)
  then have "parse_value (Suc m) (show_nat n @ r) = map_option (\<lambda>(l, r). (JNum l, r)) (scan_number (c # cs @ r))"
    by (simp add: s skip_ws_Cons parse_literal_def)
  also have "scan_number (c # cs @ r) = Some (show_nat n, r)"
    using scan_number_nat [OF r, of n] s by simp
  finally show "parse_value (Suc m) (show_nat n @ r) = Some (JNum (show_nat n), r)" by simp
qed

lemma parse_int_show_nat: "int n < 2 ^ 63 \<Longrightarrow> parse_int (show_nat n) = Some (int n)"
proof -
  assume n: "int n < 2 ^ 63"
  obtain c cs where s: "show_nat n = c # cs" using show_nat_digits [of n] by (cases "show_nat n") auto
  with show_nat_digits [of n] have "list_all is_digit (c # cs)" "c \<noteq> CHR ''-''"
    by (auto simp: is_digit_def less_eq_char_def)
  with s n digits_val_show [of n] show ?thesis by (auto simp: parse_int_def Let_def in_int64_def)
qed

section \<open>Objects\<close>

definition members_text :: "(string \<times> string) list \<Rightarrow> string" where
  "members_text ms = Join (map (\<lambda>(k, v). json_quote k @ '':'' @ v) ms) '',''"

lemma parse_members_reads:
  assumes "ms \<noteq> []" and "\<forall>(k, v, s)\<in>set ms. ascii k \<and> reads v s"
    and "length (members_text (map (\<lambda>(k, v, s). (k, s)) ms)) < n"
  shows "parse_members n (members_text (map (\<lambda>(k, v, s). (k, s)) ms) @ ''}'' @ r)
    = Some (map (\<lambda>(k, v, s). (k, v)) ms, r)"
  using assms
proof (induction ms arbitrary: n)
  case Nil
  then show ?case by simp
next
  case (Cons m ms)
  obtain k v s where m: "m = (k, v, s)" by (cases m)
  from Cons.prems(2) have k: "ascii k" and v: "reads v s" by (auto simp: m)
  let ?rest = "if ms = [] then ''}'' @ r else '','' @ members_text (map (\<lambda>(k, v, s). (k, s)) ms) @ ''}'' @ r"
  have body: "members_text (map (\<lambda>(k, v, s). (k, s)) (m # ms)) @ ''}'' @ r
      = CHR 0x22 # escape_text k @ CHR 0x22 # CHR '':'' # s @ ?rest"
    by (cases ms) (auto simp: members_text_def m json_quote_def split: prod.splits)
  have len: "length (members_text (map (\<lambda>(k, v, s). (k, s)) (m # ms)))
      = 3 + length (escape_text k) + length s
        + (if ms = [] then 0 else 1 + length (members_text (map (\<lambda>(k, v, s). (k, s)) ms)))"
    by (cases ms) (auto simp: members_text_def m json_quote_def split: prod.splits)
  from Cons.prems(3) len obtain n' where n: "n = Suc n'" by (cases n) auto
  have key: "parse_string (Suc (length (escape_text k @ CHR 0x22 # CHR '':'' # s @ ?rest)))
      (escape_text k @ CHR 0x22 # CHR '':'' # s @ ?rest) = Some (k, CHR '':'' # s @ ?rest)"
    using parse_quote [of k] coerce_ascii [OF k] by simp
  have val: "parse_value n' (s @ ?rest) = Some (v, ?rest)"
    using v by (rule readsD) (use Cons.prems(3) len n in \<open>auto simp: stops_def split: if_splits\<close>)
  show ?case
  proof (cases "ms = []")
    case True
    then show ?thesis
      unfolding body n using key val
      by (simp add: skip_ws_Cons expect_def m del: parse_string.simps)
  next
    case False
    have "parse_members n' (members_text (map (\<lambda>(k, v, s). (k, s)) ms) @ ''}'' @ r)
        = Some (map (\<lambda>(k, v, s). (k, v)) ms, r)"
      using Cons.prems False len n by (intro Cons.IH) auto
    with False show ?thesis
      unfolding body n using key val
      by (simp add: skip_ws_Cons expect_def m del: parse_string.simps)
  qed
qed

lemma reads_object:
  assumes "ms \<noteq> []" and "\<forall>(k, v, s)\<in>set ms. ascii k \<and> reads v s"
  shows "reads (JObj (map (\<lambda>(k, v, s). (k, v)) ms)) (json_object (map (\<lambda>(k, v, s). (k, s)) ms))"
proof (rule readsI)
  fix n r
  let ?t = "members_text (map (\<lambda>(k, v, s). (k, s)) ms)"
  assume n: "length (json_object (map (\<lambda>(k, v, s). (k, s)) ms)) \<le> n"
  have obj: "json_object (map (\<lambda>(k, v, s). (k, s)) ms) = CHR ''{'' # ?t @ ''}''"
    by (simp add: json_object_def members_text_def)
  have "parse_members n (?t @ ''}'' @ r) = Some (map (\<lambda>(k, v, s). (k, v)) ms, r)"
    using assms n by (intro parse_members_reads) (simp_all add: obj)
  moreover obtain t where "?t = CHR 0x22 # t"
    using assms(1) by (cases ms rule: remdups_adj.cases) (auto simp: members_text_def json_quote_def split: prod.splits)
  ultimately show "parse_value (Suc n) (json_object (map (\<lambda>(k, v, s). (k, s)) ms) @ r)
      = Some (JObj (map (\<lambda>(k, v, s). (k, v)) ms), r)"
    by (simp add: obj skip_ws_Cons)
qed

end
