(* ===== verification/BoundedFiles.thy ===== *)
theory BoundedFiles
  imports BoundedPaths Loops Sha256 "HOL-Library.Word"
begin

unbundle bit_operations_syntax

text \<open>
  The descriptor-oriented part of \<open>bounded_review.go\<close>: staging one input, proving a staged
  input, and fingerprinting one changed path. The file system is a \<open>files\<close> record of the system
  calls the code makes, over a state \<open>'w\<close> that other processes may change between any two calls.
\<close>

section \<open>System calls\<close>

record stat_t =
  st_mode :: "16 word"
  st_dev :: int
  st_ino :: int
  st_size :: int
  st_mtim :: "int \<times> int"
  st_ctim :: "int \<times> int"

definition S_IFMT :: "16 word" where "S_IFMT = 61440"

definition boundedIsDir :: "stat_t \<Rightarrow> bool" where "boundedIsDir s \<longleftrightarrow> st_mode s AND S_IFMT = 16384"
definition boundedIsRegular :: "stat_t \<Rightarrow> bool" where "boundedIsRegular s \<longleftrightarrow> st_mode s AND S_IFMT = 32768"
definition boundedIsSymlink :: "stat_t \<Rightarrow> bool" where "boundedIsSymlink s \<longleftrightarrow> st_mode s AND S_IFMT = 40960"

definition boundedSameStatIdentity :: "stat_t \<Rightarrow> stat_t \<Rightarrow> bool" where
  "boundedSameStatIdentity a b \<longleftrightarrow>
     st_mode a AND S_IFMT = st_mode b AND S_IFMT \<and> st_dev a = st_dev b \<and> st_ino a = st_ino b
     \<and> st_size a = st_size b \<and> st_mtim a = st_mtim b \<and> st_ctim a = st_ctim b"

datatype errno = ENOENT | EEXIST | Errno string

text \<open>
  The flags of an open: a directory, a file for reading, the same with \<open>O_NONBLOCK\<close>, and a new
  file for writing, or for reading and writing (\<open>O_CREAT|O_EXCL\<close>). All have \<open>O_NOFOLLOW\<close>.
  \<open>read_upto fd n\<close> reads to the end of the file or \<open>n\<close> bytes.
\<close>

datatype open_mode = ODirectory | ORead | OReadNonblock | OCreateExcl | OCreateExclRdwr

record 'w files =
  Lstat :: "string \<Rightarrow> ('w, errno + stat_t) state"
  Fstat :: "nat \<Rightarrow> ('w, errno + stat_t) state"
  Fstatat :: "nat \<Rightarrow> string \<Rightarrow> ('w, errno + stat_t) state"
  Open :: "open_mode \<Rightarrow> string \<Rightarrow> ('w, errno + nat) state"
  Openat :: "open_mode \<Rightarrow> nat \<Rightarrow> string \<Rightarrow> ('w, errno + nat) state"
  Mkdirat :: "nat \<Rightarrow> string \<Rightarrow> ('w, errno + unit) state"
  Readlinkat :: "nat \<Rightarrow> string \<Rightarrow> nat \<Rightarrow> ('w, errno + string) state"
  read_upto :: "nat \<Rightarrow> nat \<Rightarrow> ('w, errno + string) state"
  write_all :: "nat \<Rightarrow> string \<Rightarrow> ('w, errno + unit) state"
  Fchmod :: "nat \<Rightarrow> ('w, errno + unit) state"
  Fsync :: "nat \<Rightarrow> ('w, errno + unit) state"
  Close :: "nat \<Rightarrow> ('w, errno + unit) state"

datatype file_err =
    Sys string string errno
  | Bad string string string
  | BadPath string path_err
  | BadDestination string "destination_err + path_err"

text \<open>\<open>defer Close\<close>.\<close>

definition closing :: "'w files \<Rightarrow> nat \<Rightarrow> ('w, 'a) state \<Rightarrow> ('w, 'a) state" where
  "closing F fd m = do { r \<leftarrow> m; _ \<leftarrow> Close F fd; ret r }"

definition sys :: "string \<Rightarrow> string \<Rightarrow> ('w, errno + 'a) state \<Rightarrow> ('w, file_err + 'a) state" where
  "sys stage path m = do { r \<leftarrow> m; ret (map_sum (Sys stage path) id r) }"

definition refuse :: "string \<Rightarrow> string \<Rightarrow> string \<Rightarrow> ('w, file_err + 'a) state" where
  "refuse stage path message = ret (Inl (Bad stage path message))"

section \<open>Walking to a parent\<close>

datatype walk_err = WalkErrno string errno | WalkBad string string

definition filepathDir :: "string \<Rightarrow> string" where
  "filepathDir p = Clean (take (length p - length (after_last CHR ''/'' p)) p)"

definition filepathBase :: "string \<Rightarrow> string" where
  "filepathBase p = after_last CHR ''/'' p"

text \<open>\<open>open_next F make cur_fd name walked\<close> is one component of the walk.\<close>

definition open_next :: "'w files \<Rightarrow> nat \<Rightarrow> string \<Rightarrow> string \<Rightarrow> ('w, walk_err + nat) state" where
  "open_next F cur_fd name walked = do {
     next_fd \<leftarrow> Openat F ODirectory cur_fd name;
     _ \<leftarrow> Close F cur_fd;
     ret (map_sum (WalkErrno walked) id next_fd) }"

definition bounded_step :: "'w files \<Rightarrow> nat \<Rightarrow> string \<Rightarrow> string \<Rightarrow> ('w, walk_err + nat) state" where
  "bounded_step F cur_fd name walked = do {
     existing \<leftarrow> Fstatat F cur_fd name;
     (case existing of
        Inl e \<Rightarrow> do { _ \<leftarrow> Close F cur_fd; ret (Inl (WalkErrno walked e)) }
      | Inr s \<Rightarrow>
          if boundedIsSymlink s then do { _ \<leftarrow> Close F cur_fd; ret (Inl (WalkBad walked ''is a symlink'')) }
          else if \<not> boundedIsDir s then do { _ \<leftarrow> Close F cur_fd; ret (Inl (WalkBad walked ''is not a directory'')) }
          else open_next F cur_fd name walked) }"

definition reserved_step :: "bool \<Rightarrow> 'w files \<Rightarrow> nat \<Rightarrow> string \<Rightarrow> string \<Rightarrow> ('w, walk_err + nat) state" where
  "reserved_step create F cur_fd name walked = do {
     existing \<leftarrow> Fstatat F cur_fd name;
     (case existing of
        Inr s \<Rightarrow>
          if boundedIsSymlink s then do { _ \<leftarrow> Close F cur_fd; ret (Inl (WalkBad walked ''is a symlink'')) }
          else if \<not> boundedIsDir s then do { _ \<leftarrow> Close F cur_fd; ret (Inl (WalkBad walked ''is not a directory'')) }
          else open_next F cur_fd name walked
      | Inl e \<Rightarrow>
          if e = ENOENT \<and> create then do {
            made \<leftarrow> Mkdirat F cur_fd name;
            (case made of
               Inl m \<Rightarrow> if m \<noteq> EEXIST then do { _ \<leftarrow> Close F cur_fd; ret (Inl (WalkErrno walked m)) }
                        else open_next F cur_fd name walked
             | Inr _ \<Rightarrow> open_next F cur_fd name walked) }
          else do { _ \<leftarrow> Close F cur_fd; ret (Inl (WalkErrno walked e)) }) }"

fun walk :: "(nat \<Rightarrow> string \<Rightarrow> string \<Rightarrow> ('w, walk_err + nat) state) \<Rightarrow> nat \<Rightarrow> string \<Rightarrow> string list \<Rightarrow> ('w, walk_err + nat) state" where
  "walk step cur_fd walked [] = ret (Inr cur_fd)"
| "walk step cur_fd walked (name # names) =
     (let here = PathJoin walked name
      in need (step cur_fd name here) (\<lambda>next_fd. walk step next_fd here names))"

definition open_parents ::
  "(nat \<Rightarrow> string \<Rightarrow> string \<Rightarrow> ('w, walk_err + nat) state) \<Rightarrow> 'w files \<Rightarrow> string \<Rightarrow> string \<Rightarrow> ('w, walk_err + nat) state" where
  "open_parents step F worktree dir = do {
     opened_root \<leftarrow> Open F ODirectory worktree;
     (case opened_root of
        Inl e \<Rightarrow> ret (Inl (WalkErrno worktree e))
      | Inr fd \<Rightarrow> if dir = ''.'' \<or> dir = [] then ret (Inr fd) else walk step fd [] (Split CHR ''/'' dir)) }"

definition openBoundedParents :: "'w files \<Rightarrow> string \<Rightarrow> string \<Rightarrow> ('w, walk_err + nat) state" where
  "openBoundedParents F = open_parents (bounded_step F) F"

definition openReservedParents :: "'w files \<Rightarrow> string \<Rightarrow> string \<Rightarrow> bool \<Rightarrow> ('w, walk_err + nat) state" where
  "openReservedParents F worktree dir create =
     (if dir \<noteq> ''.'' \<and> dir \<noteq> [] \<and> \<not> boundedIsReservedDir dir
      then ret (Inl (WalkBad dir ''is outside the reserved subtree''))
      else open_parents (reserved_step create F) F worktree dir)"

definition walked_err :: "string \<Rightarrow> string \<Rightarrow> walk_err \<Rightarrow> file_err" where
  "walked_err stage path e =
     (case e of WalkErrno w n \<Rightarrow> Sys stage (path @ '' parent '' @ w) n | WalkBad w m \<Rightarrow> Bad stage path (w @ '' '' @ m))"

section \<open>Staging one input\<close>

definition maxBoundedInputFileBytes :: int where "maxBoundedInputFileBytes = 16777216"
definition maxBoundedInputTotalBytes :: int where "maxBoundedInputTotalBytes = 67108864"
definition maxBoundedChangeFileBytes :: int where "maxBoundedChangeFileBytes = 16777216"
definition maxBoundedChangeTotalBytes :: int where "maxBoundedChangeTotalBytes = 67108864"

definition openBoundedSource :: "'w files \<Rightarrow> string \<Rightarrow> ('w, file_err + stat_t \<times> nat) state" where
  "openBoundedSource F source =
     need (sys ''stat-source'' source (Lstat F source)) (\<lambda>named.
       if boundedIsSymlink named then refuse ''stat-source'' source ''source is a symlink''
       else if \<not> boundedIsRegular named then refuse ''stat-source'' source ''source is not a regular file''
       else need (sys ''open-source'' source (Open F OReadNonblock source)) (\<lambda>fd. do {
         seen \<leftarrow> Fstat F fd;
         (case seen of
            Inl e \<Rightarrow> do { _ \<leftarrow> Close F fd; ret (Inl (Sys ''verify-source'' source e)) }
          | Inr got \<Rightarrow>
              if \<not> boundedIsRegular got \<or> \<not> boundedSameStatIdentity named got then do {
                _ \<leftarrow> Close F fd;
                refuse ''verify-source'' source ''source is not the same regular file, in the same state, it was when it was named'' }
              else ret (Inr (got, fd))) }))"

text \<open>The copy into the new file \<open>fd\<close>; every refusal closes it and leaves it in place.\<close>

definition copy_snapshot ::
  "'w files \<Rightarrow> string \<Rightarrow> string \<Rightarrow> stat_t \<Rightarrow> nat \<Rightarrow> int \<Rightarrow> nat \<Rightarrow> ('w, file_err + string) state" where
  "copy_snapshot F source destination got src remaining fd = (
     need (sys ''create'' destination (Fchmod F fd)) (\<lambda>_.
     need (sys ''copy'' destination (read_upto F src (nat (remaining + 1)))) (\<lambda>contents.
     need (sys ''copy'' destination (write_all F fd contents)) (\<lambda>_.
       if remaining < int (length contents)
       then refuse ''copy'' destination ''source grew past its bound during the copy''
       else
     need (sys ''verify-source'' source (Fstat F src)) (\<lambda>settled.
       if \<not> boundedSameStatIdentity got settled
       then refuse ''verify-source'' source ''source changed during snapshot: it was rewritten while it was being copied''
       else if int (length contents) \<noteq> st_size got
       then refuse ''verify-source'' source ''source changed during snapshot''
       else
     need (sys ''sync'' destination (Fsync F fd)) (\<lambda>_. ret (Inr contents)))))))"

definition closing_copy :: "'w files \<Rightarrow> string \<Rightarrow> nat \<Rightarrow> ('w, file_err + string) state \<Rightarrow> ('w, file_err + string) state" where
  "closing_copy F destination fd m = do {
     r \<leftarrow> m;
     shut \<leftarrow> Close F fd;
     ret (case r of
            Inl e \<Rightarrow> Inl e
          | Inr contents \<Rightarrow> (case shut of Inl e \<Rightarrow> Inl (Sys ''close'' destination e) | Inr _ \<Rightarrow> Inr contents)) }"

definition create_snapshot ::
  "'w files \<Rightarrow> string \<Rightarrow> string \<Rightarrow> stat_t \<Rightarrow> nat \<Rightarrow> int \<Rightarrow> nat \<Rightarrow> ('w, file_err + string) state" where
  "create_snapshot F source destination got src remaining parent = do {
     existing \<leftarrow> Fstatat F parent (filepathBase destination);
     (case existing of
        Inr _ \<Rightarrow> refuse ''create'' destination ''destination already exists and is never overwritten''
      | Inl e \<Rightarrow>
          if e \<noteq> ENOENT then ret (Inl (Sys ''create'' destination e))
          else need (sys ''create'' destination (Openat F OCreateExcl parent (filepathBase destination))) (\<lambda>fd.
                 closing_copy F destination fd (copy_snapshot F source destination got src remaining fd))) }"

definition stageOneBoundedInput ::
  "'w files \<Rightarrow> string \<Rightarrow> string \<Rightarrow> string \<Rightarrow> int \<Rightarrow> ('w, file_err + input_file) state" where
  "stageOneBoundedInput F worktree source destination staged =
     need (openBoundedSource F source) (\<lambda>(got, src). closing F src (
       if maxBoundedInputFileBytes < st_size got
       then refuse ''bound'' source ''source exceeds the per-input limit''
       else if maxBoundedInputTotalBytes < staged + st_size got
       then refuse ''bound'' source ''staging more bytes would exceed the total input limit''
       else do {
         parent \<leftarrow> openReservedParents F worktree (filepathDir destination) True;
         (case parent of
            Inl e \<Rightarrow> ret (Inl (walked_err ''create'' destination e))
          | Inr parentFD \<Rightarrow> closing F parentFD (
              need (create_snapshot F source destination got src
                      (min maxBoundedInputFileBytes (maxBoundedInputTotalBytes - staged)) parentFD) (\<lambda>contents.
                ret (Inr \<lparr> in_Source = source, in_Destination = destination, in_Size = int (length contents),
                           in_SHA256 = sha256_hex contents \<rparr>)))) }))"

section \<open>Proving a staged input\<close>

definition verifyOneStagedInput :: "'w files \<Rightarrow> string \<Rightarrow> input_file \<Rightarrow> ('w, file_err + unit) state" where
  "verifyOneStagedInput F worktree file =
     (let d = in_Destination file; stage = ''verify-input''
      in do {
        parent \<leftarrow> openReservedParents F worktree (filepathDir d) False;
        (case parent of
           Inl e \<Rightarrow> ret (Inl (walked_err stage d e))
         | Inr parentFD \<Rightarrow> closing F parentFD (
             need (sys stage d (Fstatat F parentFD (filepathBase d))) (\<lambda>named.
               if boundedIsSymlink named then refuse stage d ''staged input was replaced by a symlink''
               else if \<not> boundedIsRegular named then refuse stage d ''staged input is no longer a regular file''
               else if st_size named \<noteq> in_Size file then refuse stage d ''staged input has another size''
               else need (sys stage d (Openat F ORead parentFD (filepathBase d))) (\<lambda>fd. closing F fd (
                 need (sys stage d (Fstat F fd)) (\<lambda>got.
                   if \<not> boundedSameStatIdentity named got
                   then refuse stage d ''staged input changed while it was being opened''
                   else need (sys stage d (read_upto F fd (nat (in_Size file + 1)))) (\<lambda>contents.
                     need (sys stage d (Fstat F fd)) (\<lambda>settled.
                       if \<not> boundedSameStatIdentity got settled
                       then refuse stage d ''staged input was rewritten while it was being verified''
                       else if \<not> (int (length contents) = in_Size file \<and> sha256_hex contents = in_SHA256 file)
                       then refuse stage d ''staged input no longer matches its receipt''
                       else ret (Inr ())))))))) )})"

section \<open>Fingerprinting one changed path\<close>

definition boundedObserveRegularFile ::
  "'w files \<Rightarrow> nat \<Rightarrow> string \<Rightarrow> string \<Rightarrow> stat_t \<Rightarrow> ('w, file_err + path_state) state" where
  "boundedObserveRegularFile F parentFD path name named =
     (let stage = ''observe-change''
      in if st_size named < 0 \<or> maxBoundedChangeFileBytes < st_size named
         then refuse stage path ''changed file exceeds the per-path limit''
         else need (sys stage path (Openat F OReadNonblock parentFD name)) (\<lambda>fd. closing F fd (
           need (sys stage path (Fstat F fd)) (\<lambda>got.
             if \<not> boundedSameStatIdentity named got
             then refuse stage path ''changed file changed while it was being opened''
             else need (sys stage path (read_upto F fd (nat (st_size named + 1)))) (\<lambda>contents.
               if int (length contents) \<noteq> st_size named
               then refuse stage path ''changed file has another length than it was named with''
               else need (sys stage path (Fstat F fd)) (\<lambda>settled.
                 if \<not> boundedSameStatIdentity got settled
                 then refuse stage path ''changed file was rewritten while it was being fingerprinted''
                 else ret (Inr \<lparr> ps_Path = path, ps_Kind = boundedPathKindFile, ps_Size = int (length contents),
                                 ps_SHA256 = sha256_hex contents \<rparr>)))))))"

definition boundedObserveSymlink ::
  "'w files \<Rightarrow> nat \<Rightarrow> string \<Rightarrow> string \<Rightarrow> stat_t \<Rightarrow> ('w, file_err + path_state) state" where
  "boundedObserveSymlink F parentFD path name named =
     (let stage = ''observe-change''
      in if st_size named < 1 \<or> maxBoundedChangeFileBytes < st_size named
         then refuse stage path ''symlink target length is out of range''
         else need (sys stage path (Readlinkat F parentFD name (nat (st_size named + 1)))) (\<lambda>target.
           if int (length target) \<noteq> st_size named
           then refuse stage path ''symlink target changed while it was being read''
           else need (sys stage path (Fstatat F parentFD name)) (\<lambda>settled.
             if \<not> boundedSameStatIdentity named settled
             then refuse stage path ''symlink was rewritten while it was being fingerprinted''
             else ret (Inr \<lparr> ps_Path = path, ps_Kind = boundedPathKindSymlink, ps_Size = int (length target),
                             ps_SHA256 = sha256_hex target \<rparr>))))"

definition deleted_path :: "string \<Rightarrow> path_state" where
  "deleted_path path = \<lparr> ps_Path = path, ps_Kind = [], ps_Size = 0, ps_SHA256 = [] \<rparr>"

definition boundedObserveOnePath :: "'w files \<Rightarrow> string \<Rightarrow> string \<Rightarrow> ('w, file_err + path_state) state" where
  "boundedObserveOnePath F worktree path =
     (let stage = ''observe-change''
      in case boundedWorktreePath worktree path of
           Inl e \<Rightarrow> ret (Inl (BadPath stage e))
         | Inr _ \<Rightarrow> do {
             parent \<leftarrow> openBoundedParents F worktree (filepathDir path);
             (case parent of
                Inl (WalkErrno w e) \<Rightarrow>
                  ret (if e = ENOENT then Inr (deleted_path path) else Inl (walked_err stage path (WalkErrno w e)))
              | Inl (WalkBad w m) \<Rightarrow> ret (Inl (walked_err stage path (WalkBad w m)))
              | Inr parentFD \<Rightarrow> closing F parentFD (do {
                  named \<leftarrow> Fstatat F parentFD (filepathBase path);
                  (case named of
                     Inl e \<Rightarrow> ret (if e = ENOENT then Inr (deleted_path path) else Inl (Sys stage path e))
                   | Inr s \<Rightarrow>
                       if boundedIsSymlink s then boundedObserveSymlink F parentFD path (filepathBase path) s
                       else if boundedIsRegular s then boundedObserveRegularFile F parentFD path (filepathBase path) s
                       else if boundedIsDir s then refuse stage path ''changed path is a directory''
                       else refuse stage path ''changed path is neither a regular file nor a symlink'') })) })"

fun observe_from :: "'w files \<Rightarrow> string \<Rightarrow> int \<Rightarrow> string list \<Rightarrow> ('w, file_err + path_state list) state" where
  "observe_from F worktree sofar [] = ret (Inr [])"
| "observe_from F worktree sofar (path # paths) =
     need (boundedObserveOnePath F worktree path) (\<lambda>s.
       if maxBoundedChangeTotalBytes < sofar + ps_Size s
       then refuse ''observe-change'' path ''observing this path would exceed the total change limit''
       else need (observe_from F worktree (sofar + ps_Size s) paths) (\<lambda>rest. ret (Inr (s # rest))))"

definition boundedObserveChangedPaths :: "'w files \<Rightarrow> string \<Rightarrow> string list \<Rightarrow> ('w, file_err + path_state list) state" where
  "boundedObserveChangedPaths F worktree paths = observe_from F worktree 0 paths"

end
