(* ===== verification/StoreOpen.thy ===== *)
theory StoreOpen
  imports StoreSchema BoundedFiles
begin

text \<open>
  \<open>Open\<close> of \<open>internal/store\<close>: the state directory and its migration lock, the connection and
  its pragmas, and \<open>migrate\<close>, one transaction that brings the schema and the rows of an older
  file up to this version. The results below are about every schedule of failing calls.
\<close>

section \<open>Contention\<close>

definition ToLower :: "string \<Rightarrow> string" where
  "ToLower s = of_runes (map lower_rune (runes s))"

definition isSQLiteBusy :: "sql_err \<Rightarrow> bool" where
  "isSQLiteBusy e =
     (case e of
        Coded c m \<Rightarrow> (let code = and c 255 in code = 5 \<or> code = 6)
      | Plain m \<Rightarrow>
          (let message = ToLower m in
           Contains message ''sqlite_busy'' \<or> Contains message ''database is locked''
           \<or> Contains message ''database table is locked''))"

definition millisecond_ns :: duration where
  "millisecond_ns = 1000000"

text \<open>
  The \<open>select\<close> between the timer and the end of the context: the context ends first when its
  deadline is not after the timer, and the clock never goes back.
\<close>

definition wait_delay :: "time \<Rightarrow> duration \<Rightarrow> (conn_world, bool) state" where
  "wait_delay deadline delay = State (\<lambda>w.
     if deadline \<le> sq_now w + delay then (False, w\<lparr>sq_now := max (sq_now w) deadline\<rparr>)
     else (True, w\<lparr>sq_now := sq_now w + delay\<rparr>))"

definition contention :: "sql_err \<Rightarrow> sql_err" where
  "contention e =
     Plain (''sqlite contention exceeded initialization deadline: '' @ sql_text e @ [CHR 0x0A] @ ''context deadline exceeded'')"

definition retry_round :: "time \<Rightarrow> (conn_world, sql_err + unit) state \<Rightarrow> duration
    \<Rightarrow> (conn_world, (sql_err + unit) + duration) state" where
  "retry_round deadline op delay = do {
     r \<leftarrow> op;
     (case r of
        Inr _ \<Rightarrow> ret (Inl (Inr ()))
      | Inl e \<Rightarrow>
          if \<not> isSQLiteBusy e then ret (Inl (Inl e))
          else do {
            fired \<leftarrow> wait_delay deadline delay;
            ret (if \<not> fired then Inl (Inl (contention e))
                 else Inr (if delay < 250 * millisecond_ns then delay * 2 else delay)) }) }"

definition retrySQLiteBusy :: "time \<Rightarrow> (conn_world, sql_err + unit) state \<Rightarrow> conn_world
    \<Rightarrow> ((sql_err + unit) \<times> conn_world) option" where
  "retrySQLiteBusy deadline op w = loop (retry_round deadline op) (10 * millisecond_ns) w"

section \<open>The schema\<close>

text \<open>A column declaration whose default is a text.\<close>

definition text_default_of :: "string \<Rightarrow> string" where
  "text_default_of s = ''TEXT NOT NULL DEFAULT '' @ [CHR 0x27] @ s @ [CHR 0x27]"

definition text_default :: string where
  "text_default = text_default_of []"

definition jobs_columns :: "(string \<times> string) list" where
  "jobs_columns =
     [(''id'', ''TEXT PRIMARY KEY''),
      (''config_revision'', ''INTEGER NOT NULL DEFAULT 0''),
      (''revision'', ''TEXT NOT NULL''),
      (''definition'', ''BLOB NOT NULL''),
      (''enabled'', ''INTEGER NOT NULL''),
      (''paused'', ''INTEGER NOT NULL DEFAULT 0''),
      (''pause_reason'', text_default),
      (''pause_at'', text_default),
      (''completed'', ''INTEGER NOT NULL DEFAULT 0''),
      (''cursor'', ''TEXT NOT NULL''),
      (''updated_at'', ''TEXT NOT NULL'')]"

definition occurrences_columns :: "(string \<times> string) list" where
  "occurrences_columns =
     [(''job_id'', ''TEXT NOT NULL''),
      (''occurrence_key'', ''TEXT NOT NULL''),
      (''scheduled_for'', ''TEXT NOT NULL''),
      (''outcome'', ''TEXT NOT NULL''),
      (''run_id'', ''TEXT''),
      (''detail'', text_default),
      (''created_at'', ''TEXT NOT NULL''),
      (''created_unix_nano'', ''INTEGER NOT NULL DEFAULT 0'')]"

definition runs_columns :: "(string \<times> string) list" where
  "runs_columns =
     [(''id'', ''TEXT PRIMARY KEY''),
      (''job_id'', ''TEXT NOT NULL''),
      (''job_revision'', ''TEXT NOT NULL''),
      (''definition'', ''BLOB NOT NULL''),
      (''trigger'', ''TEXT NOT NULL''),
      (''scheduled_for'', ''TEXT''),
      (''state'', ''TEXT NOT NULL''),
      (''infrastructure_result'', text_default),
      (''agent_result'', text_default),
      (''task_verdict'', text_default_of ''unverified''),
      (''accepted_at'', ''TEXT NOT NULL''),
      (''accepted_unix_nano'', ''INTEGER NOT NULL DEFAULT 0''),
      (''updated_at'', ''TEXT NOT NULL''),
      (''workspace_id'', text_default),
      (''pane_id'', text_default),
      (''branch'', text_default),
      (''worktree_path'', text_default),
      (''execution_mode'', text_default_of ''agent''),
      (''completion_marker'', text_default),
      (''source_base_revision'', text_default),
      (''source_revision'', text_default),
      (''input_context'', text_default),
      (''error_code'', text_default),
      (''error_detail'', text_default),
      (''provisioning_owner'', text_default),
      (''provisioning_lease_until'', ''INTEGER NOT NULL DEFAULT 0''),
      (''effect_owner'', text_default),
      (''effect_claim'', text_default),
      (''effect_kind'', text_default),
      (''effect_lease_until'', ''INTEGER NOT NULL DEFAULT 0''),
      (''effect_receipt'', text_default),
      (''disk_device'', text_default),
      (''disk_reserve_gib'', ''REAL NOT NULL DEFAULT 0''),
      (''acceptance_lane'', text_default),
      (''acceptance_reason'', text_default),
      (''unread'', ''INTEGER NOT NULL DEFAULT 1''),
      (''model_attestation'', text_default),
      (''input_receipt'', text_default),
      (''change_receipt'', text_default)]"

definition events_columns :: "(string \<times> string) list" where
  "events_columns =
     [(''id'', ''INTEGER PRIMARY KEY AUTOINCREMENT''),
      (''run_id'', ''TEXT NOT NULL''),
      (''from_state'', ''TEXT NOT NULL''),
      (''to_state'', ''TEXT NOT NULL''),
      (''at'', ''TEXT NOT NULL''),
      (''code'', text_default),
      (''detail'', text_default)]"

definition metadata_columns :: "(string \<times> string) list" where
  "metadata_columns =
     [(''key'', ''TEXT PRIMARY KEY''),
      (''value'', ''TEXT NOT NULL'')]"

definition schema_script :: "stmt list" where
  "schema_script =
     [create_table ''jobs'' jobs_columns [''id''],
      create_table ''occurrences'' occurrences_columns [''job_id'', ''occurrence_key''],
      create_table ''runs'' runs_columns [''id''],
      create_index ''runs_job_state'' ''runs'' [''job_id'', ''state''],
      create_index ''runs_accepted'' ''runs'' [''accepted_at''],
      create_table ''events'' events_columns [''id''],
      create_table ''metadata'' metadata_columns [''key'']]"

definition migrated_columns :: "(string \<times> string \<times> string) list" where
  "migrated_columns =
     [(''jobs'', ''config_revision'', ''INTEGER NOT NULL DEFAULT 0''),
      (''runs'', ''accepted_unix_nano'', ''INTEGER NOT NULL DEFAULT 0''),
      (''occurrences'', ''created_unix_nano'', ''INTEGER NOT NULL DEFAULT 0''),
      (''runs'', ''execution_mode'', text_default_of ''agent''),
      (''runs'', ''completion_marker'', text_default),
      (''runs'', ''provisioning_owner'', text_default),
      (''runs'', ''provisioning_lease_until'', ''INTEGER NOT NULL DEFAULT 0''),
      (''runs'', ''effect_owner'', text_default),
      (''runs'', ''effect_claim'', text_default),
      (''runs'', ''effect_kind'', text_default),
      (''runs'', ''effect_lease_until'', ''INTEGER NOT NULL DEFAULT 0''),
      (''runs'', ''effect_receipt'', text_default),
      (''runs'', ''disk_device'', text_default),
      (''runs'', ''disk_reserve_gib'', ''REAL NOT NULL DEFAULT 0''),
      (''runs'', ''acceptance_lane'', text_default),
      (''runs'', ''acceptance_reason'', text_default),
      (''events'', ''code'', text_default),
      (''occurrences'', ''occurrence_key'', text_default),
      (''runs'', ''source_base_revision'', text_default),
      (''runs'', ''source_revision'', text_default),
      (''runs'', ''input_context'', text_default),
      (''jobs'', ''pause_reason'', text_default),
      (''jobs'', ''pause_at'', text_default),
      (''runs'', ''model_attestation'', text_default),
      (''runs'', ''input_receipt'', text_default),
      (''runs'', ''change_receipt'', text_default)]"

definition ensureColumn :: "sqlite \<Rightarrow> string \<times> string \<times> string \<Rightarrow> (conn_world, sql_err + unit) state" where
  "ensureColumn env col =
     (case col of (t, c, decl) \<Rightarrow>
        need (query env (table_info t)) (\<lambda>cols.
          if c \<in> fst ` set cols then ret (Inr ()) else exec env (add_column t c decl)))"

text \<open>
  The table of occurrences with its current key is built beside the old one and takes its place.
  Its rows must refer to jobs, because foreign keys are enforced, and have distinct keys. A
  dropped table takes its indexes along.
\<close>

definition occurrences_by_key :: stmt where
  "occurrences_by_key f =
     (if map_of (tables f) ''occurrences_by_key'' \<noteq> None then Inl (Coded 1 ''table occurrences_by_key already exists'')
      else Inr (f\<lparr>tables := tables f @ [(''occurrences_by_key'', new_table occurrences_columns [''job_id'', ''occurrence_key''])],
                  by_key := []\<rparr>))"

definition copy_occurrences :: stmt where
  "copy_occurrences f =
     (let ocs = occurrences (file_rows f) in
      if \<not> has_columns ''occurrences'' (map fst occurrences_columns) f then Inl (Coded 1 ''no such column'')
      else if \<not> distinct (map (\<lambda>oc. (occ_job oc, occurrence_key oc)) ocs)
              \<or> \<not> list_all (\<lambda>oc. occ_job oc \<in> job_key ` set (jobs (file_rows f))) ocs
      then Inl (Coded 19 ''constraint failed'')
      else Inr (f\<lparr>by_key := ocs\<rparr>))"

definition drop_occurrences :: stmt where
  "drop_occurrences f =
     Inr (f\<lparr>tables := filter (\<lambda>(n, _). n \<noteq> ''occurrences'') (tables f),
            indexes := filter (\<lambda>(_, t, _). t \<noteq> ''occurrences'') (indexes f),
            file_rows := (file_rows f)\<lparr>occurrences := []\<rparr>\<rparr>)"

definition rename_by_key :: stmt where
  "rename_by_key f =
     Inr (f\<lparr>tables := map (\<lambda>(n, tb). (if n = ''occurrences_by_key'' then ''occurrences'' else n, tb)) (tables f),
            file_rows := (file_rows f)\<lparr>occurrences := by_key f\<rparr>, by_key := []\<rparr>)"

definition key_column :: "nat \<Rightarrow> (string \<times> nat) list \<Rightarrow> string" where
  "key_column n cols = (case find (\<lambda>(_, k). k = n) (rev cols) of None \<Rightarrow> [] | Some (c, _) \<Rightarrow> c)"

definition ensureOccurrenceKeyAuthority :: "sqlite \<Rightarrow> (conn_world, sql_err + unit) state" where
  "ensureOccurrenceKeyAuthority env =
     need (query env (table_info ''occurrences'')) (\<lambda>cols.
       if key_column 1 cols = ''job_id'' \<and> key_column 2 cols = ''occurrence_key'' then ret (Inr ())
       else each (exec env) [occurrences_by_key, copy_occurrences, drop_occurrences, rename_by_key])"

section \<open>The rows\<close>

text \<open>One \<open>UPDATE ... WHERE\<close> per row that was read; it names no column the query did not.\<close>

definition update_row :: "(db \<Rightarrow> db) \<Rightarrow> stmt" where
  "update_row u f = Inr (f\<lparr>file_rows := u (file_rows f)\<rparr>)"

definition update_each :: "sqlite \<Rightarrow> ('a \<Rightarrow> db \<Rightarrow> db) \<Rightarrow> 'a list \<Rightarrow> (conn_world, sql_err + unit) state" where
  "update_each env u sel = each (\<lambda>s. exec env (update_row (u s))) sel"

definition set_config_revision :: "job_row \<Rightarrow> db \<Rightarrow> db" where
  "set_config_revision s d =
     d\<lparr>jobs := apply_rows (\<lambda>s q. job_key q = job_key s \<and> config_revision q = 0)
        (\<lambda>s q. q\<lparr>config_revision := the (configRevisionFromDefinition (job_definition s))\<rparr>) [s] (jobs d)\<rparr>"

definition set_accepted_instant :: "run \<Rightarrow> db \<Rightarrow> db" where
  "set_accepted_instant s d =
     d\<lparr>runs := apply_rows (\<lambda>s q. run_id q = run_id s \<and> accepted_unix_nano q = 0)
        (\<lambda>s q. q\<lparr>accepted_unix_nano := UnixNano (accepted_at s)\<rparr>) [s] (runs d)\<rparr>"

definition set_created_instant :: "occ_row \<Rightarrow> db \<Rightarrow> db" where
  "set_created_instant s d =
     d\<lparr>occurrences := apply_rows
        (\<lambda>s q. occ_job q = occ_job s \<and> occurrence_key q = occurrence_key s
                \<and> occ_scheduled_for q = occ_scheduled_for s \<and> created_unix_nano q = 0)
        (\<lambda>s q. q\<lparr>created_unix_nano := UnixNano (created_at s)\<rparr>) [s] (occurrences d)\<rparr>"

definition set_classification :: "run \<Rightarrow> db \<Rightarrow> db" where
  "set_classification s d =
     d\<lparr>runs := apply_rows (\<lambda>s q. run_id q = run_id s \<and> unclassified q) backfill_class_set [s] (runs d)\<rparr>"

definition typed_authority :: "sqlite \<Rightarrow> (conn_world, sql_err + unit) state" where
  "typed_authority env =
     need (query env (select_rows ''jobs'' [''id'', ''definition'', ''config_revision'']
             (\<lambda>d. filter (\<lambda>j. config_revision j = 0) (jobs d)))) (\<lambda>js.
     case find (\<lambda>j. configRevisionFromDefinition (job_definition j) = None) js of
       Some j \<Rightarrow> ret (Inl (Plain (''backfill job '' @ job_key j @ '' config revision'')))
     | None \<Rightarrow>
         need (update_each env set_config_revision js) (\<lambda>_.
         need (query env (select_rows ''runs'' [''id'', ''accepted_at'', ''accepted_unix_nano'']
                 (\<lambda>d. filter (\<lambda>r. accepted_unix_nano r = 0) (runs d)))) (\<lambda>rs.
         need (update_each env set_accepted_instant rs) (\<lambda>_.
         need (query env (select_rows ''occurrences''
                 [''job_id'', ''occurrence_key'', ''scheduled_for'', ''created_at'', ''created_unix_nano'']
                 (\<lambda>d. filter (\<lambda>oc. created_unix_nano oc = 0) (occurrences d)))) (\<lambda>ocs.
         update_each env set_created_instant ocs)))))"

definition acceptance_classification :: "sqlite \<Rightarrow> (conn_world, sql_err + unit) state" where
  "acceptance_classification env =
     need (query env (select_rows ''runs''
             [''id'', ''definition'', ''state'', ''task_verdict'', ''acceptance_lane'', ''acceptance_reason'', ''unread'']
             (\<lambda>d. filter (\<lambda>r. unclassified r \<and> state r \<notin> set nonterminalStates) (runs d)))) (\<lambda>rs.
     update_each env set_classification rs)"

text \<open>The update of the keys violates the primary key only where the key is part of it.\<close>

definition current_key :: "dbfile \<Rightarrow> bool" where
  "current_key f \<longleftrightarrow>
     (case map_of (tables f) ''occurrences'' of
        None \<Rightarrow> False
      | Some tb \<Rightarrow> tbl_key tb = [''job_id'', ''occurrence_key''])"

definition key_of_schedule :: "occ_row \<Rightarrow> occ_row" where
  "key_of_schedule oc =
     (if occurrence_key oc = [] then oc\<lparr>occurrence_key := formatTime (occ_scheduled_for oc)\<rparr> else oc)"

definition occurrence_keys :: stmt where
  "occurrence_keys f =
     (let ocs = map key_of_schedule (occurrences (file_rows f)) in
      if \<not> has_columns ''occurrences'' [''occurrence_key'', ''scheduled_for''] f then Inl (Coded 1 ''no such column'')
      else if current_key f \<and> \<not> distinct (map (\<lambda>oc. (occ_job oc, occurrence_key oc)) ocs)
      then Inl (Coded 19 ''constraint failed'')
      else Inr (f\<lparr>file_rows := (file_rows f)\<lparr>occurrences := ocs\<rparr>\<rparr>))"

definition insert_locks :: stmt where
  "insert_locks = change_rows ''metadata'' [''key'', ''value''] (\<lambda>d. Inr (ensure_locks d))"

definition index_script :: "stmt list" where
  "index_script =
     [create_index ''occurrences_job_scheduled'' ''occurrences'' [''job_id'', ''scheduled_for''],
      create_index ''occurrences_job_created_instant'' ''occurrences'' [''job_id'', ''created_unix_nano''],
      create_index ''runs_job_accepted_instant'' ''runs'' [''job_id'', ''accepted_unix_nano'']]"

section \<open>The migration\<close>

definition migrate_steps :: "sqlite \<Rightarrow> (conn_world, sql_err + unit) state" where
  "migrate_steps env =
     need (each (exec env) schema_script) (\<lambda>_.
     need (each (ensureColumn env) migrated_columns) (\<lambda>_.
     need (typed_authority env) (\<lambda>_.
     need (acceptance_classification env) (\<lambda>_.
     need (exec env occurrence_keys) (\<lambda>_.
     need (ensureOccurrenceKeyAuthority env) (\<lambda>_.
     need (each (exec env) index_script) (\<lambda>_.
     exec env insert_locks)))))))"

text \<open>A transaction that does not commit is rolled back, whatever becomes of the \<open>ROLLBACK\<close>.\<close>

definition migrate_conn :: "sqlite \<Rightarrow> time \<Rightarrow> conn_world \<Rightarrow> ((sql_err + unit) \<times> conn_world) option" where
  "migrate_conn env deadline w =
     (case retrySQLiteBusy deadline (begin_immediate env) w of
        None \<Rightarrow> None
      | Some (Inl e, w1) \<Rightarrow> Some (Inl e, w1)
      | Some (Inr _, w1) \<Rightarrow>
          Some (case run_state (need (migrate_steps env) (\<lambda>_. commit_tx env)) w1 of
                  (Inl e, w2) \<Rightarrow> (Inl e, snd (run_state (rollback_tx env) w2))
                | (Inr _, w2) \<Rightarrow> (Inr (), w2)))"

section \<open>Opening\<close>

text \<open>
  The outcomes of the calls to the operating system and to the pool of connections. The lock is
  taken with \<open>flock(LOCK_EX)\<close>, which blocks while another process holds it and has no deadline: the
  wait may also never end. Nothing of the database is read before the lock is granted.
\<close>

datatype flock_outcome = FlockGranted | FlockFails sql_err | FlockWaits

record open_host =
  host_temp_dir :: string
  host_mkdir_all :: "string \<Rightarrow> sql_err option"
  host_open_lock :: "string \<Rightarrow> sql_err option"
  host_flock :: "string \<Rightarrow> flock_outcome"
  host_abs :: "string \<Rightarrow> sql_err + string"
  host_eval_symlinks :: "string \<Rightarrow> sql_err + string"
  host_lstat :: "string \<Rightarrow> sql_err + bool \<times> bool"
  host_sql_open :: "string \<Rightarrow> sql_err option"
  host_conn :: "sql_err option"
  host_conn_close :: "sql_err option"
  host_chmod :: "string \<Rightarrow> sql_err option"

text \<open>Closing the pool closes its connection, which gives up an open transaction.\<close>

definition close_conn :: "conn_world \<Rightarrow> conn_world" where
  "close_conn w = w\<lparr>sq_conn := False\<rparr>"

definition close_db :: "conn_world \<Rightarrow> conn_world" where
  "close_db w = w\<lparr>sq_db := False, sq_tx := None\<rparr>"

text \<open>What follows the migration: the longer timeout, the connection back to the pool, the mode.\<close>

definition finish_open :: "open_host \<Rightarrow> sqlite \<Rightarrow> string \<Rightarrow> string \<Rightarrow> conn_world \<Rightarrow> (sql_err + string) \<times> conn_world" where
  "finish_open H env path dir w =
     (case run_state (exec env Inr) w of
        (Inl e, w') \<Rightarrow> (Inl e, close_db (close_conn w'))
      | (Inr _, w') \<Rightarrow>
          (case host_conn_close H of
             Some e \<Rightarrow> (Inl e, close_db (close_conn w'))
           | None \<Rightarrow>
               (if path = '':memory:'' then (Inr dir, close_conn w')
                else case host_chmod H path of
                       Some e \<Rightarrow> (Inl e, close_db (close_conn w'))
                     | None \<Rightarrow> (Inr dir, close_conn w'))))"

definition open_conn :: "open_host \<Rightarrow> sqlite \<Rightarrow> string \<Rightarrow> string \<Rightarrow> time \<Rightarrow> conn_world
    \<Rightarrow> ((sql_err + string) \<times> conn_world) option" where
  "open_conn H env path dir deadline w =
     (case run_state (each (exec env) [Inr, Inr]) w of
        (Inl e, w1) \<Rightarrow> Some (Inl e, close_db (close_conn w1))
      | (Inr _, w1) \<Rightarrow>
          (case retrySQLiteBusy deadline (exec env Inr) w1 of
             None \<Rightarrow> None
           | Some (Inl e, w2) \<Rightarrow> Some (Inl e, close_db (close_conn w2))
           | Some (Inr _, w2) \<Rightarrow>
               (case migrate_conn env deadline w2 of
                  None \<Rightarrow> None
                | Some (Inl e, w3) \<Rightarrow> Some (Inl e, close_db (close_conn w3))
                | Some (Inr _, w3) \<Rightarrow> Some (finish_open H env path dir w3))))"

definition open_pool :: "open_host \<Rightarrow> sqlite \<Rightarrow> string \<Rightarrow> string \<Rightarrow> conn_world
    \<Rightarrow> ((sql_err + string) \<times> conn_world) option" where
  "open_pool H env path stateDir w =
     (case host_abs H stateDir of
        Inl e \<Rightarrow> Some (Inl e, w)
      | Inr a \<Rightarrow>
          (case host_eval_symlinks H a of
             Inl e \<Rightarrow> Some (Inl (Plain (''resolve state directory: '' @ sql_text e)), w)
           | Inr dir \<Rightarrow>
               (case host_lstat H dir of
                  Inl e \<Rightarrow> Some (Inl e, w)
                | Inr (is_dir, is_link) \<Rightarrow>
                    if \<not> is_dir \<or> is_link then Some (Inl (Plain ''state directory is not a real directory''), w)
                    else case host_sql_open H path of
                           Some e \<Rightarrow> Some (Inl e, w)
                         | None \<Rightarrow>
                             (let w1 = w\<lparr>sq_db := True\<rparr> in
                              case host_conn H of
                                Some e \<Rightarrow> Some (Inl e, close_db w1)
                              | None \<Rightarrow> open_conn H env path dir (sq_now w1 + 30 * second_ns) (w1\<lparr>sq_conn := True\<rparr>)))))"

definition unlock :: "conn_world \<Rightarrow> conn_world" where
  "unlock w = w\<lparr>sq_locked := False, sq_lock_open := False\<rparr>"

text \<open>\<open>None\<close>: \<open>Open\<close> does not return.\<close>

definition OpenStore :: "open_host \<Rightarrow> sqlite \<Rightarrow> string \<Rightarrow> conn_world
    \<Rightarrow> ((sql_err + string) \<times> conn_world) option" where
  "OpenStore H env path w =
     (if path = '':memory:'' then open_pool H env path (host_temp_dir H) w
      else
        let stateDir = filepathDir path; lock = path @ ''.migrate.lock'' in
        case host_mkdir_all H stateDir of
          Some e \<Rightarrow> Some (Inl e, w)
        | None \<Rightarrow>
            (case host_open_lock H lock of
               Some e \<Rightarrow> Some (Inl e, w)
             | None \<Rightarrow>
                 (case host_flock H lock of
                    FlockWaits \<Rightarrow> None
                  | FlockFails e \<Rightarrow> Some (Inl e, unlock w)
                  | FlockGranted \<Rightarrow>
                      map_option (\<lambda>(r, w'). (r, unlock w'))
                        (open_pool H env path stateDir (w\<lparr>sq_lock_open := True, sq_locked := True\<rparr>)))))"

end
