(* ===== verification/StoreOpenProperties.thy ===== *)
theory StoreOpenProperties
  imports StoreOpen
begin

text \<open>
  What opening a database file does to it, over every schedule of failing calls: a step of the
  migration either fails or has exactly the effect of a function on the contents of its
  transaction (\<open>implements\<close>), the functions compose as the steps do, and only \<open>COMMIT\<close> reaches
  the file.
\<close>

section \<open>Steps inside a transaction\<close>

definition right :: "'e + 'a \<Rightarrow> 'a option" where
  "right r = (case r of Inl _ \<Rightarrow> None | Inr x \<Rightarrow> Some x)"

lemma right_simps [simp]: "right (Inl e) = None" "right (Inr x) = Some x"
  by (simp_all add: right_def)

text \<open>The last conjunct of the definition is the converse: without faults, a step fails only
  where its function is undefined.\<close>

definition implements :: "sqlite \<Rightarrow> (conn_world, sql_err + 'a) state \<Rightarrow> (dbfile \<Rightarrow> ('a \<times> dbfile) option) \<Rightarrow> bool" where
  "implements env m g \<longleftrightarrow>
     (\<forall>w f r w'. sq_tx w = Some f \<longrightarrow> run_state m w = (r, w') \<longrightarrow>
        sq_file w' = sq_file w
        \<and> (case r of
             Inl e \<Rightarrow> faultless env \<longrightarrow> g f = None
           | Inr x \<Rightarrow> \<exists>f'. g f = Some (x, f') \<and> sq_tx w' = Some f'))"

named_theorems step_rules

lemma implementsD:
  assumes "implements env m g" and "sq_tx w = Some f" and "run_state m w = (r, w')"
  shows "sq_file w' = sq_file w"
    and "r = Inl e \<Longrightarrow> faultless env \<Longrightarrow> g f = None"
    and "r = Inr x \<Longrightarrow> \<exists>f'. g f = Some (x, f') \<and> sq_tx w' = Some f'"
proof -
  have all: "sq_file w' = sq_file w
      \<and> (case r of Inl e \<Rightarrow> faultless env \<longrightarrow> g f = None
           | Inr x \<Rightarrow> \<exists>f'. g f = Some (x, f') \<and> sq_tx w' = Some f')"
    using assms unfolding implements_def by blast
  then show "sq_file w' = sq_file w" ..
  show "r = Inl e \<Longrightarrow> faultless env \<Longrightarrow> g f = None" using all by simp
  show "r = Inr x \<Longrightarrow> \<exists>f'. g f = Some (x, f') \<and> sq_tx w' = Some f'" using all by simp
qed

lemma implements_cong:
  assumes "implements env m g" and "\<And>f. g f = g' f"
  shows "implements env m g'"
proof -
  have "g = g'" using assms(2) by (rule ext)
  with assms(1) show ?thesis by simp
qed

lemma map_sum_cases: "map_sum id g r = (case r of Inl e \<Rightarrow> Inl e | Inr x \<Rightarrow> Inr (g x))"
  by (cases r) simp_all

lemma implements_ret [step_rules]: "implements env (ret (Inr x)) (\<lambda>f. Some (x, f))"
  by (simp add: implements_def)

lemma implements_fail: "implements env (ret (Inl e)) (\<lambda>f. None)"
  by (simp add: implements_def)

lemma run_exec:
  assumes "sq_tx w = Some f"
  shows "run_state (exec env st) w =
    (let w' = w\<lparr>sq_calls := Suc (sq_calls w), sq_now := sq_now w + int (sql_took env (sq_calls w))\<rparr> in
     case sql_fault env (sq_calls w) of
       Some (e, gives_up) \<Rightarrow> (Inl e, if gives_up then w'\<lparr>sq_tx := None\<rparr> else w')
     | None \<Rightarrow> (case st f of Inl e \<Rightarrow> (Inl e, w') | Inr f' \<Rightarrow> (Inr (), w'\<lparr>sq_tx := Some f'\<rparr>)))"
  using assms
  by (simp add: exec_def call_def contents_def put_contents_def map_sum_cases Let_def split: option.split sum.split)

lemma run_query:
  assumes "sq_tx w = Some f"
  shows "run_state (query env q) w =
    (let w' = w\<lparr>sq_calls := Suc (sq_calls w), sq_now := sq_now w + int (sql_took env (sq_calls w))\<rparr> in
     case sql_fault env (sq_calls w) of
       Some (e, gives_up) \<Rightarrow> (Inl e, if gives_up then w'\<lparr>sq_tx := None\<rparr> else w')
     | None \<Rightarrow> (case q f of Inl e \<Rightarrow> (Inl e, w') | Inr x \<Rightarrow> (Inr x, w')))"
  using assms by (simp add: query_def call_def contents_def map_sum_cases Let_def split: option.split sum.split)

lemma implements_exec [step_rules]: "implements env (exec env st) (\<lambda>f. map_option (Pair ()) (right (st f)))"
  by (auto simp: implements_def run_exec Let_def faultless_def split: option.splits sum.splits if_splits)

lemma implements_query [step_rules]: "implements env (query env q) (\<lambda>f. map_option (\<lambda>x. (x, f)) (right (q f)))"
  by (auto simp: implements_def run_query Let_def faultless_def split: option.splits sum.splits if_splits)

lemma implements_need [step_rules]:
  assumes "implements env m g" and "\<And>x. implements env (h x) (k x)"
  shows "implements env (need m h) (\<lambda>f. Option.bind (g f) (\<lambda>(x, f'). k x f'))"
proof -
  have "sq_file w' = sq_file w
      \<and> (case r of Inl e \<Rightarrow> faultless env \<longrightarrow> Option.bind (g f) (\<lambda>(x, f'). k x f') = None
           | Inr y \<Rightarrow> \<exists>f'. Option.bind (g f) (\<lambda>(x, f'). k x f') = Some (y, f') \<and> sq_tx w' = Some f')"
    if tx: "sq_tx w = Some f" and run: "run_state (need m h) w = (r, w')" for w f r w'
  proof -
    obtain r1 w1 where m: "run_state m w = (r1, w1)" by fastforce
    note first = implementsD [OF assms(1) tx m]
    show ?thesis
    proof (cases r1)
      case (Inl e)
      with run m have "r = Inl e" "w' = w1" by (simp_all add: need_def)
      with first(1) first(2) [OF Inl] show ?thesis by simp
    next
      case (Inr x)
      with first(3) obtain f1 where f1: "g f = Some (x, f1)" "sq_tx w1 = Some f1" by blast
      have "run_state (h x) w1 = (r, w')" using run m Inr by (simp add: need_def)
      note second = implementsD [OF assms(2) f1(2) this]
      show ?thesis using first(1) second f1(1) by (cases r) auto
    qed
  qed
  then show ?thesis unfolding implements_def by blast
qed

text \<open>Statements in sequence.\<close>

fun run_all :: "(dbfile \<Rightarrow> dbfile option) list \<Rightarrow> dbfile \<Rightarrow> dbfile option" where
  "run_all [] f = Some f"
| "run_all (s # ss) f = Option.bind (s f) (run_all ss)"

lemma run_all_append: "run_all (xs @ ys) f = Option.bind (run_all xs f) (run_all ys)"
  by (induction xs arbitrary: f) (auto split: Option.bind_split)

lemma run_all_fun:
  "run_all [] = Some" "run_all (s # ss) = (\<lambda>f. Option.bind (s f) (run_all ss))"
  "run_all (xs @ ys) = (\<lambda>f. Option.bind (run_all xs f) (run_all ys))"
  by (simp_all add: fun_eq_iff run_all_append)

lemma implements_each:
  assumes "\<And>x. implements env (h x) (\<lambda>f. map_option (Pair ()) (s x f))"
  shows "implements env (each h xs) (\<lambda>f. map_option (Pair ()) (run_all (map s xs) f))"
proof (induction xs)
  case Nil
  show ?case by (simp add: implements_def)
next
  case (Cons x xs)
  show ?case
    unfolding each.simps
    by (rule implements_cong [OF implements_need [OF assms Cons]])
       (auto split: Option.bind_splits)
qed

lemma implements_each_exec:
  "implements env (each (exec env) sts) (\<lambda>f. map_option (Pair ()) (run_all (map (\<lambda>st f. right (st f)) sts) f))"
  by (rule implements_each) (rule implements_exec)

section \<open>The migration as a function on the file\<close>

definition add_missing :: "string \<times> string \<times> string \<Rightarrow> dbfile \<Rightarrow> dbfile option" where
  "add_missing col f =
     (case col of (t, c, decl) \<Rightarrow>
        if c \<in> set (table_columns t f) then Some f else right (add_column t c decl f))"

definition typed_rows :: "dbfile \<Rightarrow> dbfile option" where
  "typed_rows f =
     (if has_columns ''jobs'' [''id'', ''definition'', ''config_revision''] f
         \<and> has_columns ''runs'' [''id'', ''accepted_at'', ''accepted_unix_nano''] f
         \<and> has_columns ''occurrences''
              [''job_id'', ''occurrence_key'', ''scheduled_for'', ''created_at'', ''created_unix_nano''] f
      then map_option (\<lambda>d. f\<lparr>file_rows := d\<rparr>) (right (backfillTypedAuthority (file_rows f))) else None)"

definition classified_rows :: "dbfile \<Rightarrow> dbfile option" where
  "classified_rows f =
     (if has_columns ''runs''
           [''id'', ''definition'', ''state'', ''task_verdict'', ''acceptance_lane'', ''acceptance_reason'', ''unread''] f
      then Some (f\<lparr>file_rows := backfillAcceptanceClassification (file_rows f)\<rparr>) else None)"

definition keyed :: "dbfile \<Rightarrow> bool" where
  "keyed f \<longleftrightarrow>
     key_column 1 (info_columns ''occurrences'' f) = ''job_id''
     \<and> key_column 2 (info_columns ''occurrences'' f) = ''occurrence_key''"

definition rebuilt :: "dbfile \<Rightarrow> dbfile option" where
  "rebuilt f =
     (if keyed f then Some f
      else run_all (map (\<lambda>st f. right (st f)) [occurrences_by_key, copy_occurrences, drop_occurrences, rename_by_key]) f)"

definition migrated :: "dbfile \<Rightarrow> dbfile option" where
  "migrated =
     run_all (map (\<lambda>st f. right (st f)) schema_script @ map add_missing migrated_columns
              @ [typed_rows, classified_rows, \<lambda>f. right (occurrence_keys f), rebuilt]
              @ map (\<lambda>st f. right (st f)) (index_script @ [insert_locks]))"

section \<open>The steps implement it\<close>

lemma implements_ensureColumn:
  "implements env (ensureColumn env col) (\<lambda>f. map_option (Pair ()) (add_missing col f))"
proof -
  obtain t c decl where col: "col = (t, c, decl)" by (cases col)
  have names: "fst ` set (info_columns t f) = set (table_columns t f)" for f
    by (cases "map_of (tables f) t") (simp_all add: info_columns_def table_columns_def image_image)
  have "implements env (if c \<in> fst ` set cols then ret (Inr ()) else exec env (add_column t c decl))
      (\<lambda>f. if c \<in> fst ` set cols then Some ((), f) else map_option (Pair ()) (right (add_column t c decl f)))" for cols
    by (simp add: implements_ret implements_exec)
  from implements_need [OF implements_query this] show ?thesis
    unfolding ensureColumn_def col prod.case
    by (rule implements_cong) (simp add: table_info_def names add_missing_def)
qed

lemma implements_rebuilt:
  "implements env (ensureOccurrenceKeyAuthority env) (\<lambda>f. map_option (Pair ()) (rebuilt f))"
proof -
  let ?new = "[occurrences_by_key, copy_occurrences, drop_occurrences, rename_by_key]"
  let ?k = "\<lambda>cols. key_column 1 cols = ''job_id'' \<and> key_column 2 cols = ''occurrence_key''"
  have "implements env (if ?k cols then ret (Inr ()) else each (exec env) ?new)
      (\<lambda>f. if ?k cols then Some ((), f) else map_option (Pair ()) (run_all (map (\<lambda>st f. right (st f)) ?new) f))" for cols
  proof (cases "?k cols")
    case True
    show ?thesis unfolding if_P [OF True] by (rule implements_ret)
  next
    case False
    show ?thesis unfolding if_not_P [OF False] by (rule implements_each_exec)
  qed
  from implements_need [OF implements_query this] show ?thesis
    unfolding ensureOccurrenceKeyAuthority_def
    by (rule implements_cong) (simp add: rebuilt_def keyed_def table_info_def)
qed

lemma run_all_updates: "run_all (map (\<lambda>s f. right (update_row (u s) f)) sel) f = Some (f\<lparr>file_rows := fold u sel (file_rows f)\<rparr>)"
  by (induction sel arbitrary: f) (simp_all add: update_row_def)

lemma implements_updates:
  "implements env (update_each env u sel) (\<lambda>f. Some ((), f\<lparr>file_rows := fold u sel (file_rows f)\<rparr>))"
  unfolding update_each_def
  by (rule implements_cong [OF implements_each [OF implements_exec]]) (simp add: run_all_updates)

lemma apply_rows_Cons: "apply_rows P upd (s # sel) rows = apply_rows P upd sel (apply_rows P upd [s] rows)"
  by (simp add: apply_rows_def)

lemma fold_config_revision:
  "fold set_config_revision sel d =
     d\<lparr>jobs := apply_rows (\<lambda>s q. job_key q = job_key s \<and> config_revision q = 0)
        (\<lambda>s q. q\<lparr>config_revision := the (configRevisionFromDefinition (job_definition s))\<rparr>) sel (jobs d)\<rparr>"
  by (induction sel arbitrary: d) (simp_all add: set_config_revision_def apply_rows_Cons [symmetric])

lemma fold_accepted:
  "fold set_accepted_instant sel d =
     d\<lparr>runs := apply_rows (\<lambda>s q. run_id q = run_id s \<and> accepted_unix_nano q = 0)
        (\<lambda>s q. q\<lparr>accepted_unix_nano := UnixNano (accepted_at s)\<rparr>) sel (runs d)\<rparr>"
  by (induction sel arbitrary: d) (simp_all add: set_accepted_instant_def apply_rows_Cons [symmetric])

lemma fold_created:
  "fold set_created_instant sel d =
     d\<lparr>occurrences := apply_rows
        (\<lambda>s q. occ_job q = occ_job s \<and> occurrence_key q = occurrence_key s
                \<and> occ_scheduled_for q = occ_scheduled_for s \<and> created_unix_nano q = 0)
        (\<lambda>s q. q\<lparr>created_unix_nano := UnixNano (created_at s)\<rparr>) sel (occurrences d)\<rparr>"
  by (induction sel arbitrary: d) (simp_all add: set_created_instant_def apply_rows_Cons [symmetric])

lemma fold_classification:
  "fold set_classification sel d =
     d\<lparr>runs := apply_rows (\<lambda>s q. run_id q = run_id s \<and> unclassified q) backfill_class_set sel (runs d)\<rparr>"
  by (induction sel arbitrary: d) (simp_all add: set_classification_def apply_rows_Cons [symmetric])

lemma implements_classification:
  "implements env (acceptance_classification env) (\<lambda>f. map_option (Pair ()) (classified_rows f))"
  unfolding acceptance_classification_def
  by (rule implements_cong [OF implements_need [OF implements_query implements_updates]])
     (simp add: select_rows_def classified_rows_def fold_classification backfillAcceptanceClassification_def)

lemma has_columns_rows: "has_columns t cs (f\<lparr>file_rows := d\<rparr>) = has_columns t cs f"
  by (simp add: has_columns_def table_columns_def)

lemma implements_typed:
  "implements env (typed_authority env) (\<lambda>f. map_option (Pair ()) (typed_rows f))"
proof -
  let ?bad = "\<lambda>j. configRevisionFromDefinition (job_definition j) = None"
  have tail: "implements env
      (case find ?bad js of Some j \<Rightarrow> ret (Inl (Plain (''backfill job '' @ job_key j @ '' config revision''))) | None \<Rightarrow> m)
      (\<lambda>f. if list_ex ?bad js then None else g f)" if "implements env m g" for js m g
  proof (cases "find ?bad js")
    case None
    then have "\<not> list_ex ?bad js" by (auto simp: find_None_iff list_ex_iff)
    with None that show ?thesis by simp
  next
    case (Some j)
    then have "list_ex ?bad js" by (auto simp: find_Some_iff list_ex_iff)
    with Some show ?thesis by (simp add: implements_fail)
  qed
  show ?thesis
    unfolding typed_authority_def
    by (rule implements_cong [OF implements_need [OF implements_query tail [OF implements_need [OF implements_updates
          implements_need [OF implements_query implements_need [OF implements_updates
          implements_need [OF implements_query implements_updates]]]]]]])
       (simp add: select_rows_def typed_rows_def backfillTypedAuthority_def backfill_jobs_def has_columns_rows Let_def
          fold_config_revision fold_accepted fold_created backfill_accepted_def backfill_created_def)
qed

lemma implements_migrate: "implements env (migrate_steps env) (\<lambda>f. map_option (Pair ()) (migrated f))"
proof -
  have bind: "Option.bind (map_option (Pair ()) x) (\<lambda>(_, f). map_option (Pair ()) (k f)) = map_option (Pair ()) (Option.bind x k)"
    for x :: "dbfile option" and k :: "dbfile \<Rightarrow> dbfile option"
    by (cases x) simp_all
  show ?thesis
    unfolding migrate_steps_def
    by (rule implements_cong [OF implements_need [OF implements_each_exec implements_need [OF implements_each [OF implements_ensureColumn]
          implements_need [OF implements_typed implements_need [OF implements_classification implements_need [OF implements_exec
          implements_need [OF implements_rebuilt implements_need [OF implements_each_exec implements_exec]]]]]]]])
       (simp add: bind migrated_def run_all_fun)
qed

section \<open>Transactions\<close>

lemma run_begin:
  assumes "sq_tx w = None" and "run_state (begin_immediate env) w = (r, w')"
  shows "sq_file w' = sq_file w" and "r = Inl e \<Longrightarrow> sq_tx w' = None" and "r = Inr () \<Longrightarrow> sq_tx w' = Some (sq_file w)"
    and "r = Inl e \<Longrightarrow> \<not> faultless env"
  using assms by (auto simp: begin_immediate_def call_def Let_def faultless_def split: option.splits if_splits prod.splits)

lemma run_commit:
  assumes "sq_tx w = Some f" and "run_state (commit_tx env) w = (r, w')"
  shows "r = Inl e \<Longrightarrow> sq_file w' = sq_file w" and "r = Inl e \<Longrightarrow> \<not> faultless env"
    and "r = Inr () \<Longrightarrow> sq_file w' = f \<and> sq_tx w' = None"
  using assms by (auto simp: commit_tx_def call_def Let_def faultless_def split: option.splits if_splits prod.splits)

lemma run_rollback: "sq_file (snd (run_state (rollback_tx env) w)) = sq_file w"
  by (simp add: rollback_tx_def call_def Let_def split: option.split prod.split)

text \<open>A retried \<open>BEGIN\<close> ends with a transaction on the file, or with an error and none.\<close>

lemma retry_begin:
  assumes "retrySQLiteBusy deadline (begin_immediate env) w = Some (r, w')" and "sq_tx w = None"
  shows "sq_file w' = sq_file w"
    and "case r of Inl e \<Rightarrow> sq_tx w' = None \<and> \<not> faultless env | Inr _ \<Rightarrow> sq_tx w' = Some (sq_file w)"
proof -
  have "\<exists>s1 w1. (sq_tx w1 = None \<and> sq_file w1 = sq_file w)
      \<and> run_state (retry_round deadline (begin_immediate env) s1) w1 = (Inl r, w')"
  proof (rule loop_last_round [where I = "\<lambda>_ w1. sq_tx w1 = None \<and> sq_file w1 = sq_file w"])
    show "loop (retry_round deadline (begin_immediate env)) (10 * millisecond_ns) w = Some (r, w')"
      using assms(1) by (simp add: retrySQLiteBusy_def)
    show "sq_tx w = None \<and> sq_file w = sq_file w" using assms(2) by simp
    show "sq_tx w2 = None \<and> sq_file w2 = sq_file w"
      if "sq_tx w1 = None \<and> sq_file w1 = sq_file w"
        and "run_state (retry_round deadline (begin_immediate env) s1) w1 = (Inr s2, w2)" for s1 w1 s2 w2
    proof -
      obtain r1 w3 where b: "run_state (begin_immediate env) w1 = (r1, w3)" by fastforce
      with that run_begin [of w1 env r1 w3] show ?thesis
        by (auto simp: retry_round_def wait_delay_def split: sum.splits if_splits)
    qed
  qed
  then obtain s1 w1 where w1: "sq_tx w1 = None" "sq_file w1 = sq_file w"
    and last: "run_state (retry_round deadline (begin_immediate env) s1) w1 = (Inl r, w')" by blast
  obtain r1 w3 where b: "run_state (begin_immediate env) w1 = (r1, w3)" by fastforce
  note step = run_begin [OF w1(1) b]
  have "sq_file w' = sq_file w \<and>
    (case r of Inl e \<Rightarrow> sq_tx w' = None \<and> \<not> faultless env | Inr _ \<Rightarrow> sq_tx w' = Some (sq_file w))"
    using last b step w1(2)
    by (cases r1) (auto simp: retry_round_def wait_delay_def split: if_splits)
  then show "sq_file w' = sq_file w"
    and "case r of Inl e \<Rightarrow> sq_tx w' = None \<and> \<not> faultless env | Inr _ \<Rightarrow> sq_tx w' = Some (sq_file w)"
    by blast+
qed

lemma migrate_conn_file:
  assumes "migrate_conn env deadline w = Some (r, w')" and "sq_tx w = None"
  shows "case r of
      Inl e \<Rightarrow> sq_file w' = sq_file w \<and> (faultless env \<longrightarrow> migrated (sq_file w) = None)
    | Inr _ \<Rightarrow> migrated (sq_file w) = Some (sq_file w') \<and> sq_tx w' = None"
proof -
  obtain r1 w1 where r1: "retrySQLiteBusy deadline (begin_immediate env) w = Some (r1, w1)"
    using assms(1) by (auto simp: migrate_conn_def split: option.splits)
  note start = retry_begin [OF r1 assms(2)]
  show ?thesis
  proof (cases r1)
    case (Inl e)
    with assms(1) r1 have "r = Inl e" "w' = w1" by (simp_all add: migrate_conn_def)
    with start Inl show ?thesis by auto
  next
    case (Inr u)
    with start(2) have tx: "sq_tx w1 = Some (sq_file w)" by simp
    obtain r2 w2 where r2: "run_state (migrate_steps env) w1 = (r2, w2)" by fastforce
    note steps = implementsD [OF implements_migrate tx r2]
    show ?thesis
    proof (cases r2)
      case (Inl e)
      with assms(1) r1 Inr r2 have "r = Inl e" "sq_file w' = sq_file w2"
        by (auto simp: migrate_conn_def need_def run_rollback)
      with steps(1) steps(2) [OF Inl] start(1) show ?thesis by simp
    next
      case r2_Inr: (Inr u2)
      with steps(3) obtain f where f: "migrated (sq_file w) = Some f" "sq_tx w2 = Some f" by auto
      obtain r3 w3 where r3: "run_state (commit_tx env) w2 = (r3, w3)" by fastforce
      note commit = run_commit [OF f(2) r3]
      show ?thesis
      proof (cases r3)
        case (Inl e)
        with assms(1) r1 Inr r2 r2_Inr r3 have "r = Inl e" "sq_file w' = sq_file w3"
          by (auto simp: migrate_conn_def need_def run_rollback)
        with commit(1,2) [OF Inl] steps(1) start(1) show ?thesis by auto
      next
        case r3_Inr: (Inr u3)
        with assms(1) r1 Inr r2 r2_Inr r3 have "r = Inr ()" "w' = w3" by (auto simp: migrate_conn_def need_def)
        with commit(3) r3_Inr f(1) show ?thesis by simp
      qed
    qed
  qed
qed

section \<open>What every call keeps\<close>

text \<open>Time passes, and what the process holds changes only in \<open>Open\<close> itself.\<close>

definition same_holds :: "conn_world \<Rightarrow> conn_world \<Rightarrow> bool" where
  "same_holds w w' \<longleftrightarrow>
     sq_now w \<le> sq_now w' \<and> sq_lock_open w' = sq_lock_open w \<and> sq_locked w' = sq_locked w
     \<and> sq_conn w' = sq_conn w \<and> sq_db w' = sq_db w"

lemma same_holds_order: "reflp same_holds" "transp same_holds"
  by (auto simp: reflp_def transp_def same_holds_def)

named_theorems holds_rules

lemma holds_ret [holds_rules]: "state_io_rel same_holds (ret x)"
  by (simp add: state_io_rel_return same_holds_order)

lemma holds_need [holds_rules]:
  "state_io_rel same_holds m \<Longrightarrow> (\<And>x. state_io_rel same_holds (h x)) \<Longrightarrow> state_io_rel same_holds (need m h)"
  by (rule state_io_rel_need [OF same_holds_order])

lemma holds_each [holds_rules]: "(\<And>x. state_io_rel same_holds (h x)) \<Longrightarrow> state_io_rel same_holds (each h xs)"
  by (rule state_io_rel_each [OF same_holds_order])

lemma holds_if [holds_rules]:
  "state_io_rel same_holds m \<Longrightarrow> state_io_rel same_holds m' \<Longrightarrow> state_io_rel same_holds (if b then m else m')"
  by simp

lemma holds_call:
  assumes "\<And>w x w'. op w = Inr (x, w') \<Longrightarrow> same_holds w w'"
  shows "state_io_rel same_holds (call env op)"
proof
  fix r and s s' :: conn_world
  let ?s = "s\<lparr>sq_calls := Suc (sq_calls s), sq_now := sq_now s + int (sql_took env (sq_calls s))\<rparr>"
  assume run: "run_state (call env op) s = (r, s')"
  have "same_holds s ?s" by (simp add: same_holds_def)
  moreover have "same_holds ?s s'"
    using run assms [of ?s] by (auto simp: call_def Let_def same_holds_def split: option.splits sum.splits if_splits)
  ultimately show "same_holds s s'" using same_holds_order(2) by (blast dest: transpD)
qed

lemma holds_exec [holds_rules]: "state_io_rel same_holds (exec env st)"
  unfolding exec_def
  by (rule holds_call) (auto simp: same_holds_def put_contents_def map_sum_cases split: sum.splits option.splits)

lemma holds_query [holds_rules]: "state_io_rel same_holds (query env q)"
  unfolding query_def by (rule holds_call) (auto simp: same_holds_def map_sum_cases split: sum.splits)

lemma holds_begin: "state_io_rel same_holds (begin_immediate env)"
  unfolding begin_immediate_def by (rule holds_call) (auto simp: same_holds_def split: option.splits)

lemma holds_commit [holds_rules]: "state_io_rel same_holds (commit_tx env)"
  unfolding commit_tx_def by (rule holds_call) (auto simp: same_holds_def split: option.splits)

lemma holds_rollback: "state_io_rel same_holds (rollback_tx env)"
  unfolding rollback_tx_def by (rule holds_call) (auto simp: same_holds_def split: option.splits)

lemma holds_migrate_steps [holds_rules]: "state_io_rel same_holds (migrate_steps env)"
  unfolding migrate_steps_def typed_authority_def acceptance_classification_def update_each_def
    ensureOccurrenceKeyAuthority_def ensureColumn_def
  by (intro holds_rules; (simp split: option.split prod.split)?; (intro impI conjI allI holds_rules)?)

section \<open>The loop over a busy file\<close>

lemma retry_round_step:
  assumes "state_io_rel same_holds op" and "0 < delay" and "run_state (retry_round deadline op delay) w = (Inr delay', w')"
  shows "0 < delay'" and "nat (deadline - sq_now w') < nat (deadline - sq_now w)" and "same_holds w w'"
proof -
  obtain r w1 where op: "run_state op w = (r, w1)" by fastforce
  have w1: "same_holds w w1" using assms(1) op by (rule state_io_relD)
  from assms(3) op obtain e where "r = Inl e" "isSQLiteBusy e" "\<not> deadline \<le> sq_now w1 + delay"
    and out: "w' = w1\<lparr>sq_now := sq_now w1 + delay\<rparr>" "delay' = (if delay < 250 * millisecond_ns then delay * 2 else delay)"
    by (auto simp: retry_round_def wait_delay_def split: sum.splits if_splits)
  with w1 assms(2) show "0 < delay'" "nat (deadline - sq_now w') < nat (deadline - sq_now w)" "same_holds w w'"
    by (auto simp: same_holds_def)
qed

lemma retry_returns:
  assumes "state_io_rel same_holds op"
  shows "\<exists>r w'. retrySQLiteBusy deadline op w = Some (r, w')"
  unfolding retrySQLiteBusy_def
proof (rule loop_ends [where I = "\<lambda>delay w. 0 < delay" and m = "\<lambda>delay w. nat (deadline - sq_now w)"])
  show "(0::int) < 10 * millisecond_ns" by (simp add: millisecond_ns_def)
qed (use retry_round_step [OF assms] in blast)

lemma holds_wait: "0 < delay \<Longrightarrow> state_io_rel same_holds (wait_delay deadline delay)"
  by (rule state_io_relI) (auto simp: wait_delay_def same_holds_def split: if_splits)

lemma holds_retry:
  assumes "retrySQLiteBusy deadline op w = Some (r, w')" and "state_io_rel same_holds op"
  shows "same_holds w w'"
proof -
  have "state_io_rel same_holds (retry_round deadline op delay)" if "0 < delay" for delay
    unfolding retry_round_def
  proof (rule state_io_rel_bind [OF same_holds_order(2) assms(2)])
    fix r :: "sql_err + unit"
    show "state_io_rel same_holds (case r of Inr _ \<Rightarrow> ret (Inl (Inr ()))
      | Inl e \<Rightarrow>
          if \<not> isSQLiteBusy e then ret (Inl (Inl e))
          else do {
            fired \<leftarrow> wait_delay deadline delay;
            ret (if \<not> fired then Inl (Inl (contention e))
                 else Inr (if delay < 250 * millisecond_ns then delay * 2 else delay)) })"
    proof (cases r)
      case (Inl e)
      show ?thesis
        unfolding Inl sum.case
        by (intro holds_if holds_ret state_io_rel_bind [OF same_holds_order(2) holds_wait [OF that]])
    qed (simp add: holds_ret)
  qed
  moreover have "\<exists>s1 w1. (0 < s1 \<and> same_holds w w1) \<and> run_state (retry_round deadline op s1) w1 = (Inl r, w')"
  proof (rule loop_last_round [where I = "\<lambda>delay w1. 0 < delay \<and> same_holds w w1"])
    show "loop (retry_round deadline op) (10 * millisecond_ns) w = Some (r, w')"
      using assms(1) by (simp add: retrySQLiteBusy_def)
    show "0 < 10 * millisecond_ns \<and> same_holds w w"
      using same_holds_order(1) by (simp add: millisecond_ns_def reflpD)
    show "0 < delay' \<and> same_holds w w2"
      if "0 < delay \<and> same_holds w w1" and "run_state (retry_round deadline op delay) w1 = (Inr delay', w2)" for delay w1 delay' w2
      using that retry_round_step [OF assms(2), of delay deadline w1 delay' w2] same_holds_order(2) by (blast dest: transpD)
  qed
  ultimately show ?thesis using same_holds_order(2) by (blast dest: state_io_relD transpD)
qed

text \<open>A statement that does nothing leaves the file, inside a retry too.\<close>

lemma run_noop:
  assumes "run_state (exec env Inr) w = (r, w')" and "sq_tx w = None"
  shows "sq_file w' = sq_file w \<and> sq_tx w' = None"
  using assms by (auto simp: exec_def call_def contents_def put_contents_def Let_def split: option.splits if_splits prod.splits)

lemma retry_noop:
  assumes "retrySQLiteBusy deadline (exec env Inr) w = Some (r, w')" and "sq_tx w = None"
  shows "sq_file w' = sq_file w \<and> sq_tx w' = None"
proof -
  let ?I = "\<lambda>(_::duration) (w1::conn_world). sq_file w1 = sq_file w \<and> sq_tx w1 = None"
  have round: "sq_file w2 = sq_file w \<and> sq_tx w2 = None"
    if "sq_file w1 = sq_file w \<and> sq_tx w1 = None" and "run_state (retry_round deadline (exec env Inr) s1) w1 = (out, w2)"
    for s1 w1 out w2
  proof -
    obtain r1 w3 where op: "run_state (exec env Inr) w1 = (r1, w3)" by fastforce
    from run_noop [OF this] that op show ?thesis
      by (auto simp: retry_round_def wait_delay_def split: sum.splits if_splits)
  qed
  have "\<exists>s1 w1. ?I s1 w1 \<and> run_state (retry_round deadline (exec env Inr) s1) w1 = (Inl r, w')"
  proof (rule loop_last_round [where I = ?I])
    show "loop (retry_round deadline (exec env Inr)) (10 * millisecond_ns) w = Some (r, w')"
      using assms(1) by (simp add: retrySQLiteBusy_def)
    show "?I (10 * millisecond_ns) w" using assms(2) by simp
    show "?I s2 w2" if "?I s1 w1" and "run_state (retry_round deadline (exec env Inr) s1) w1 = (Inr s2, w2)" for s1 w1 s2 w2
      by (rule round [OF that])
  qed
  then obtain s1 w1 where "?I s1 w1" "run_state (retry_round deadline (exec env Inr) s1) w1 = (Inl r, w')" by blast
  then show ?thesis by (rule round)
qed

section \<open>Opening\<close>

lemma migrate_conn_returns: "\<exists>r w'. migrate_conn env deadline w = Some (r, w') \<and> same_holds w w'"
proof -
  obtain r1 w1 where r1: "retrySQLiteBusy deadline (begin_immediate env) w = Some (r1, w1)"
    using retry_returns [OF holds_begin] by blast
  note keep1 = holds_retry [OF r1 holds_begin]
  show ?thesis
  proof (cases r1)
    case (Inl e)
    with r1 keep1 show ?thesis by (simp add: migrate_conn_def)
  next
    case (Inr u)
    obtain r2 w2 where r2: "run_state (need (migrate_steps env) (\<lambda>_. commit_tx env)) w1 = (r2, w2)" by fastforce
    have "state_io_rel same_holds (need (migrate_steps env) (\<lambda>_. commit_tx env))" by (intro holds_rules)
    then have keep2: "same_holds w1 w2" using r2 by (rule state_io_relD)
    obtain u3 w3 where r3: "run_state (rollback_tx env) w2 = (u3, w3)" by fastforce
    have keep3: "same_holds w2 w3" using holds_rollback r3 by (rule state_io_relD)
    have "same_holds w w2" "same_holds w w3"
      using keep1 keep2 keep3 same_holds_order(2) by (blast dest: transpD)+
    with r1 Inr r2 r3 show ?thesis by (cases r2) (auto simp: migrate_conn_def)
  qed
qed

text \<open>
  How \<open>Open\<close> leaves things: no connection and no transaction; after an error no pool and a file
  that is as before or migrated, after success a pool on the migrated file.
\<close>

definition open_left :: "conn_world \<Rightarrow> sql_err + string \<Rightarrow> conn_world \<Rightarrow> bool" where
  "open_left w r w' \<longleftrightarrow>
     \<not> sq_conn w' \<and> sq_tx w' = None \<and> sq_locked w' = sq_locked w \<and> sq_lock_open w' = sq_lock_open w
     \<and> (case r of
          Inl _ \<Rightarrow> \<not> sq_db w' \<and> (sq_file w' = sq_file w \<or> migrated (sq_file w) = Some (sq_file w'))
        | Inr _ \<Rightarrow> sq_db w' \<and> migrated (sq_file w) = Some (sq_file w'))"

lemma open_left_cong:
  "open_left (w\<lparr>sq_db := a, sq_conn := b\<rparr>) r w' = open_left w r w'"
  by (cases r) (simp_all add: open_left_def)

lemma open_left_unlock:
  "\<not> sq_locked w \<Longrightarrow> \<not> sq_lock_open w \<Longrightarrow> open_left (w\<lparr>sq_lock_open := a, sq_locked := b\<rparr>) r w' \<Longrightarrow> open_left w r (unlock w')"
  by (cases r) (simp_all add: open_left_def unlock_def)

lemma open_left_failed:
  "sq_file w' = sq_file w \<or> migrated (sq_file w) = Some (sq_file w') \<Longrightarrow> same_holds w w'
    \<Longrightarrow> open_left w (Inl e) (close_db (close_conn w'))"
  by (simp add: open_left_def close_db_def close_conn_def same_holds_def)

lemma finish_open_left:
  assumes "sq_tx w = None" and "sq_db w" and "migrated (sq_file w0) = Some (sq_file w)" and "same_holds w0 w"
  shows "open_left w0 (fst (finish_open H env path dir w)) (snd (finish_open H env path dir w))"
proof -
  obtain r w' where run: "run_state (exec env Inr) w = (r, w')" by fastforce
  have "sq_file w' = sq_file w" "sq_tx w' = None" using run_noop [OF run assms(1)] by simp_all
  moreover have "same_holds w w'" using holds_exec run by (rule state_io_relD)
  ultimately show ?thesis
    using assms(2-4) run
    by (auto simp: finish_open_def open_left_def close_db_def close_conn_def same_holds_def split: sum.split option.split)
qed

lemma open_conn_left:
  assumes "sq_tx w = None" and "sq_db w"
  shows "\<exists>r w'. open_conn H env path dir deadline w = Some (r, w') \<and> open_left w r w'"
proof -
  obtain r1 w1 where r1: "run_state (each (exec env) [Inr, Inr]) w = (r1, w1)" by fastforce
  obtain ra wa where ra: "run_state (exec env Inr) w = (ra, wa)" by fastforce
  obtain rb wb where rb: "run_state (exec env Inr) wa = (rb, wb)" by fastforce
  have a: "sq_file wa = sq_file w \<and> sq_tx wa = None" by (rule run_noop [OF ra assms(1)])
  have b: "sq_file wb = sq_file wa \<and> sq_tx wb = None" using run_noop [OF rb] a by simp
  have "w1 = wa \<or> w1 = wb" using r1 ra rb by (auto simp: need_def split: sum.splits)
  with a b have w1: "sq_file w1 = sq_file w" "sq_tx w1 = None" by auto
  have "state_io_rel same_holds (each (exec env) [Inr, Inr])" by (rule holds_each [OF holds_exec])
  then have keep1: "same_holds w w1" using r1 by (rule state_io_relD)
  show ?thesis
  proof (cases r1)
    case (Inl e)
    with r1 w1 keep1 show ?thesis by (auto simp: open_conn_def intro!: open_left_failed)
  next
    case (Inr u)
    obtain r2 w2 where r2: "retrySQLiteBusy deadline (exec env Inr) w1 = Some (r2, w2)"
      using retry_returns [OF holds_exec] by blast
    have w2: "sq_file w2 = sq_file w" "sq_tx w2 = None" using retry_noop [OF r2 w1(2)] w1(1) by simp_all
    have "same_holds w1 w2" by (rule holds_retry [OF r2 holds_exec])
    with keep1 have keep2: "same_holds w w2" using same_holds_order(2) by (blast dest: transpD)
    show ?thesis
    proof (cases r2)
      case (Inl e)
      with r1 r2 Inr w2 keep2 show ?thesis by (auto simp: open_conn_def intro!: open_left_failed)
    next
      case r2_Inr: (Inr u2)
      obtain r3 w3 where r3: "migrate_conn env deadline w2 = Some (r3, w3)" "same_holds w2 w3"
        using migrate_conn_returns by blast
      from r3(2) keep2 have keep3: "same_holds w w3" using same_holds_order(2) by (blast dest: transpD)
      note outcome3 = migrate_conn_file [OF r3(1) w2(2)]
      show ?thesis
      proof (cases r3)
        case (Inl e)
        with r1 r2 Inr r2_Inr r3 outcome3 w2 keep3 show ?thesis by (auto simp: open_conn_def intro!: open_left_failed)
      next
        case r3_Inr: (Inr u3)
        with outcome3 w2 have "sq_tx w3 = None" "migrated (sq_file w) = Some (sq_file w3)" by simp_all
        moreover have "sq_db w3" using assms(2) keep3 by (simp add: same_holds_def)
        ultimately have "open_left w (fst (finish_open H env path dir w3)) (snd (finish_open H env path dir w3))"
          using keep3 by (intro finish_open_left)
        with r1 r2 Inr r2_Inr r3 r3_Inr show ?thesis by (cases "finish_open H env path dir w3") (simp add: open_conn_def)
      qed
    qed
  qed
qed

lemma open_pool_left:
  assumes "sq_tx w = None" and "\<not> sq_conn w" and "\<not> sq_db w"
  shows "\<exists>r w'. open_pool H env path dir w = Some (r, w') \<and> open_left w r w'"
proof -
  have early: "open_left w (Inl e) w" for e using assms by (simp add: open_left_def)
  have closed: "open_left w (Inl e) (close_db (w\<lparr>sq_db := True\<rparr>))" for e
    using assms by (simp add: open_left_def close_db_def)
  have "\<exists>r w'. open_conn H env path d deadline (w\<lparr>sq_db := True, sq_conn := True\<rparr>) = Some (r, w') \<and> open_left w r w'"
    for d deadline
    using open_conn_left [of "w\<lparr>sq_db := True, sq_conn := True\<rparr>"] assms(1) by (simp add: open_left_cong)
  then show ?thesis
    by (auto simp: open_pool_def early closed Let_def split: sum.split option.split)
qed

end
