(* ===== verification/StoreMigrated.thy ===== *)
theory StoreMigrated
  imports StoreOpenProperties
begin

text \<open>
  What \<open>migrated\<close> makes of a file of an older version: the schema of this version, the rows that
  the data migration of \<open>StoreQueries\<close> computes, and a file that opening again leaves as it is.
\<close>

section \<open>Tables\<close>

text \<open>The tables of this version.\<close>

definition current_schema :: "(string \<times> sql_table) list" where
  "current_schema =
     [(''jobs'', new_table jobs_columns [''id'']),
      (''occurrences'', new_table occurrences_columns [''job_id'', ''occurrence_key'']),
      (''runs'', new_table runs_columns [''id'']),
      (''events'', new_table events_columns [''id'']),
      (''metadata'', new_table metadata_columns [''key''])]"

definition table_names :: "sql_table \<Rightarrow> string set" where
  "table_names tb = col_name ` set (tbl_cols tb)"

lemma table_columns_names: "map_of (tables f) t = Some tb \<Longrightarrow> set (table_columns t f) = table_names tb"
  by (simp add: table_columns_def table_names_def)

lemma has_columns_names:
  "has_columns t cs f \<longleftrightarrow> (\<exists>tb. map_of (tables f) t = Some tb \<and> set cs \<subseteq> table_names tb)"
  by (auto simp: has_columns_def table_columns_names)

lemma create_table_tables:
  assumes "create_table t cs key f = Inr f'"
  shows "map_of (tables f') = [t \<mapsto> new_table cs key] ++ map_of (tables f)"
proof (cases "map_of (tables f) t")
  case None
  with assms show ?thesis by (auto simp: create_table_def)
next
  case (Some tb)
  then have "dom [t \<mapsto> new_table cs key] \<subseteq> dom (map_of (tables f))" by auto
  then have "[t \<mapsto> new_table cs key] ++ map_of (tables f) = map_of (tables f)"
    by (auto simp: fun_eq_iff map_add_def split: option.split)
  with assms Some show ?thesis by (simp add: create_table_def)
qed

lemma create_index_tables: "create_index i t cs f = Inr f' \<Longrightarrow> tables f' = tables f \<and> file_rows f' = file_rows f"
  by (auto simp: create_index_def split: if_splits)

text \<open>A statement that gives a result is a step of \<open>run_all\<close>.\<close>

lemma run_all_Cons: "run_all (s # ss) f = Some f' \<longleftrightarrow> (\<exists>g. s f = Some g \<and> run_all ss g = Some f')"
  by (auto simp: Option.bind_eq_Some_conv)

lemma right_Some: "right r = Some x \<longleftrightarrow> r = Inr x"
  by (cases r) simp_all

lemma schema_tables:
  assumes "run_all (map (\<lambda>st f. right (st f)) schema_script) f = Some f'"
  shows "map_of (tables f') = map_of current_schema ++ map_of (tables f)"
proof -
  from assms obtain f1 f2 f3 f4 f5 f6 where
    "create_table ''jobs'' jobs_columns [''id''] f = Inr f1"
    "create_table ''occurrences'' occurrences_columns [''job_id'', ''occurrence_key''] f1 = Inr f2"
    "create_table ''runs'' runs_columns [''id''] f2 = Inr f3"
    "create_index ''runs_job_state'' ''runs'' [''job_id'', ''state''] f3 = Inr f4"
    "create_index ''runs_accepted'' ''runs'' [''accepted_at''] f4 = Inr f5"
    "create_table ''events'' events_columns [''id''] f5 = Inr f6"
    "create_table ''metadata'' metadata_columns [''key''] f6 = Inr f'"
    unfolding schema_script_def list.map run_all_Cons right_Some run_all.simps(1) by blast
  note steps = this(1,2,3,6,7) [THEN create_table_tables] this(4,5) [THEN create_index_tables, THEN conjunct1]
  have "map_of (tables f') =
    ([''metadata'' \<mapsto> new_table metadata_columns [''key'']] ++ ([''events'' \<mapsto> new_table events_columns [''id'']]
      ++ ([''runs'' \<mapsto> new_table runs_columns [''id'']] ++ ([''occurrences'' \<mapsto> new_table occurrences_columns [''job_id'', ''occurrence_key'']]
      ++ [''jobs'' \<mapsto> new_table jobs_columns [''id'']])))) ++ map_of (tables f)"
    by (simp only: steps map_add_assoc)
  also have "[''metadata'' \<mapsto> new_table metadata_columns [''key'']] ++ ([''events'' \<mapsto> new_table events_columns [''id'']]
      ++ ([''runs'' \<mapsto> new_table runs_columns [''id'']] ++ ([''occurrences'' \<mapsto> new_table occurrences_columns [''job_id'', ''occurrence_key'']]
      ++ [''jobs'' \<mapsto> new_table jobs_columns [''id'']]))) = map_of current_schema"
    unfolding current_schema_def by (rule ext) (simp add: map_add_def)
  finally show ?thesis .
qed

text \<open>A table with columns added to it.\<close>

definition extends :: "sql_table \<Rightarrow> sql_table \<Rightarrow> bool" where
  "extends tb tb' \<longleftrightarrow> tbl_key tb' = tbl_key tb \<and> (\<exists>more. tbl_cols tb' = tbl_cols tb @ more)"

lemma extends_refl: "extends tb tb"
  by (simp add: extends_def)

lemma extends_trans: "extends a b \<Longrightarrow> extends b c \<Longrightarrow> extends a c"
  by (auto simp: extends_def)

lemma extends_names: "extends a b \<Longrightarrow> table_names a \<subseteq> table_names b"
  by (auto simp: extends_def table_names_def)

definition tables_extend :: "dbfile \<Rightarrow> dbfile \<Rightarrow> bool" where
  "tables_extend f f' \<longleftrightarrow>
     (\<forall>k tb. map_of (tables f) k = Some tb \<longrightarrow> (\<exists>tb'. map_of (tables f') k = Some tb' \<and> extends tb tb'))"

lemma tables_extend_same: "tables f' = tables f \<Longrightarrow> tables_extend f f'"
  by (auto simp: tables_extend_def extends_refl)

lemma tables_extend_trans: "tables_extend a b \<Longrightarrow> tables_extend b c \<Longrightarrow> tables_extend a c"
  unfolding tables_extend_def using extends_trans by meson

lemma tables_extendD:
  assumes "tables_extend f f'" and "map_of (tables f) t = Some tb"
  obtains tb' where "map_of (tables f') t = Some tb'" "extends tb tb'"
  using assms unfolding tables_extend_def by blast

lemma map_of_map_value: "map_of (map (\<lambda>(n, q). (n, g n q)) xs) k = map_option (g k) (map_of xs k)"
  by (induction xs) auto

lemma add_missing_extends:
  assumes "add_missing (t, c, decl) f = Some f'"
  shows "tables_extend f f'" and "\<exists>tb. map_of (tables f') t = Some tb \<and> c \<in> table_names tb"
proof -
  have "tables_extend f f' \<and> (\<exists>tb. map_of (tables f') t = Some tb \<and> c \<in> table_names tb)"
  proof (cases "c \<in> set (table_columns t f)")
    case True
    then obtain tb where "map_of (tables f) t = Some tb"
      by (cases "map_of (tables f) t") (simp_all add: table_columns_def)
    with True assms show ?thesis by (auto simp: add_missing_def tables_extend_same table_columns_names)
  next
    case False
    let ?add = "\<lambda>q. q\<lparr>tbl_cols := tbl_cols q @ [\<lparr>col_name = c, col_decl = decl\<rparr>]\<rparr>"
    from False assms obtain tb where tb: "map_of (tables f) t = Some tb"
      and f': "tables f' = map (\<lambda>(n, q). (n, if n = t then ?add q else q)) (tables f)"
      by (auto simp: add_missing_def add_column_def split: option.splits)
    have new: "map_of (tables f') k = map_option (\<lambda>q. if k = t then ?add q else q) (map_of (tables f) k)" for k
      unfolding f' by (rule map_of_map_value)
    have "extends q (if k = t then ?add q else q)" for k q by (simp add: extends_def)
    then have "tables_extend f f'" by (auto simp: tables_extend_def new)
    moreover have "c \<in> table_names (?add tb)" by (simp add: table_names_def)
    ultimately show ?thesis using tb by (simp add: new)
  qed
  then show "tables_extend f f'" and "\<exists>tb. map_of (tables f') t = Some tb \<and> c \<in> table_names tb" by blast+
qed

lemma columns_extend:
  assumes "run_all (map add_missing cols) f = Some f'"
  shows "tables_extend f f'"
    and "(t, c, decl) \<in> set cols \<Longrightarrow> \<exists>tb. map_of (tables f') t = Some tb \<and> c \<in> table_names tb"
proof -
  have "tables_extend f f' \<and> (\<forall>(t, c, decl) \<in> set cols. \<exists>tb. map_of (tables f') t = Some tb \<and> c \<in> table_names tb)"
    using assms
  proof (induction cols arbitrary: f)
    case Nil
    then show ?case by (simp add: tables_extend_same)
  next
    case (Cons col cols)
    obtain t c decl where col: "col = (t, c, decl)" by (cases col)
    from Cons.prems obtain g where g: "add_missing (t, c, decl) f = Some g" "run_all (map add_missing cols) g = Some f'"
      unfolding list.map run_all_Cons col by blast
    note first = add_missing_extends [OF g(1)] and rest = Cons.IH [OF g(2)]
    from first(2) obtain tb where "map_of (tables g) t = Some tb" "c \<in> table_names tb" by blast
    moreover from this(1) rest obtain tb' where "map_of (tables f') t = Some tb'" "extends tb tb'"
      using tables_extendD by blast
    ultimately have "\<exists>tb. map_of (tables f') t = Some tb \<and> c \<in> table_names tb" using extends_names by blast
    with first(1) rest col show ?case using tables_extend_trans by auto
  qed
  then show "tables_extend f f'"
    and "(t, c, decl) \<in> set cols \<Longrightarrow> \<exists>tb. map_of (tables f') t = Some tb \<and> c \<in> table_names tb" by blast+
qed

section \<open>The stages of a migration\<close>

definition with_columns :: "dbfile \<Rightarrow> dbfile option" where
  "with_columns f = run_all (map (\<lambda>st f. right (st f)) schema_script @ map add_missing migrated_columns) f"

lemma migrated_stages:
  assumes "migrated f = Some f'"
  obtains f2 f3 f4 f5 f6 f7 where "with_columns f = Some f2" "typed_rows f2 = Some f3" "classified_rows f3 = Some f4"
    "occurrence_keys f4 = Inr f5" "rebuilt f5 = Some f6"
    "run_all (map (\<lambda>st f. right (st f)) index_script) f6 = Some f7" "insert_locks f7 = Inr f'"
proof -
  from assms obtain f1 f2 f3 f4 f5 f6 f7 where
    "run_all (map (\<lambda>st f. right (st f)) schema_script) f = Some f1" "run_all (map add_missing migrated_columns) f1 = Some f2"
    "typed_rows f2 = Some f3" "classified_rows f3 = Some f4" "occurrence_keys f4 = Inr f5" "rebuilt f5 = Some f6"
    "run_all (map (\<lambda>st f. right (st f)) index_script) f6 = Some f7" "insert_locks f7 = Inr f'"
    unfolding migrated_def map_append list.map append_assoc append_Cons append_Nil run_all_append run_all_Cons
      Option.bind_eq_Some_conv right_Some run_all.simps(1) by (auto simp: right_Some)
  then show thesis by (intro that) (simp_all add: with_columns_def run_all_append)
qed

lemma typed_tables: "typed_rows f = Some f' \<Longrightarrow> tables f' = tables f \<and> indexes f' = indexes f"
  by (auto simp: typed_rows_def split: if_splits)

lemma classified_tables: "classified_rows f = Some f' \<Longrightarrow> tables f' = tables f \<and> indexes f' = indexes f"
  by (auto simp: classified_rows_def split: if_splits)

lemma keys_tables: "occurrence_keys f = Inr f' \<Longrightarrow> tables f' = tables f \<and> indexes f' = indexes f"
  by (auto simp: occurrence_keys_def Let_def split: if_splits)

lemma locks_tables: "insert_locks f = Inr f' \<Longrightarrow> tables f' = tables f \<and> indexes f' = indexes f"
  by (auto simp: insert_locks_def change_rows_def split: if_splits)

lemma index_steps:
  assumes "run_all (map (\<lambda>st f. right (st f)) index_script) f = Some f'"
  shows "tables f' = tables f" and "file_rows f' = file_rows f"
    and "{''occurrences_job_scheduled'', ''occurrences_job_created_instant'', ''runs_job_accepted_instant''} \<subseteq> fst ` set (indexes f')"
proof -
  from assms obtain f1 f2 where steps:
    "create_index ''occurrences_job_scheduled'' ''occurrences'' [''job_id'', ''scheduled_for''] f = Inr f1"
    "create_index ''occurrences_job_created_instant'' ''occurrences'' [''job_id'', ''created_unix_nano''] f1 = Inr f2"
    "create_index ''runs_job_accepted_instant'' ''runs'' [''job_id'', ''accepted_unix_nano''] f2 = Inr f'"
    unfolding index_script_def list.map run_all_Cons right_Some run_all.simps(1) by blast
  have has: "create_index i t cs g = Inr g' \<Longrightarrow> i \<in> fst ` set (indexes g') \<and> set (indexes g) \<subseteq> set (indexes g')" for i t cs g g'
    by (auto simp: create_index_def split: if_splits)
  from steps [THEN create_index_tables] show "tables f' = tables f" and "file_rows f' = file_rows f" by simp_all
  from steps [THEN has]
  show "{''occurrences_job_scheduled'', ''occurrences_job_created_instant'', ''runs_job_accepted_instant''} \<subseteq> fst ` set (indexes f')"
    by blast
qed

text \<open>A rename inside a list of tables without the new name.\<close>

lemma map_of_rename:
  "b \<notin> fst ` set xs \<Longrightarrow> map_of (map (\<lambda>(n, tb). (if n = a then b else n, tb)) xs) k =
     (if k = b then map_of xs a else if k = a then None else map_of xs k)"
proof (induction xs)
  case Nil
  show ?case by simp
next
  case (Cons x xs)
  obtain n tb where x: "x = (n, tb)" by (cases x)
  from Cons.prems have "n \<noteq> b" "b \<notin> fst ` set xs" by (auto simp: x)
  with Cons.IH show ?case by (cases "n = a"; cases "k = b"; cases "k = n") (simp_all add: x)
qed

lemma map_of_filter_name: "map_of (filter (\<lambda>(n, _). n \<noteq> a) xs) k = (if k = a then None else map_of xs k)"
  by (induction xs) auto

lemma rebuild_steps:
  assumes "rebuilt f = Some f'" and "\<not> keyed f"
  shows "map_of (tables f') ''occurrences'' = Some (new_table occurrences_columns [''job_id'', ''occurrence_key''])"
    and "k \<noteq> ''occurrences'' \<Longrightarrow> map_of (tables f') k = map_of (tables f) k"
    and "file_rows f' = file_rows f"
    and "distinct (map (\<lambda>oc. (occ_job oc, occurrence_key oc)) (occurrences (file_rows f)))"
proof -
  let ?new = "new_table occurrences_columns [''job_id'', ''occurrence_key'']"
  have "run_all (map (\<lambda>st f. right (st f)) [occurrences_by_key, copy_occurrences, drop_occurrences, rename_by_key]) f = Some f'"
    using assms by (simp only: rebuilt_def if_False)
  then obtain f1 f2 f3 where steps: "occurrences_by_key f = Inr f1" "copy_occurrences f1 = Inr f2"
    "drop_occurrences f2 = Inr f3" "rename_by_key f3 = Inr f'"
    unfolding list.map run_all_Cons right_Some run_all.simps(1) by blast
  from steps(1) have none: "map_of (tables f) ''occurrences_by_key'' = None"
    and f1: "f1 = f\<lparr>tables := tables f @ [(''occurrences_by_key'', ?new)], by_key := []\<rparr>"
    by (auto simp: occurrences_by_key_def split: if_splits)
  from steps(2) have f2: "f2 = f1\<lparr>by_key := occurrences (file_rows f1)\<rparr>"
    and dist: "distinct (map (\<lambda>oc. (occ_job oc, occurrence_key oc)) (occurrences (file_rows f1)))"
    by (auto simp: copy_occurrences_def Let_def split: if_splits)
  let ?kept = "filter (\<lambda>(n, _). n \<noteq> ''occurrences'') (tables f1)"
  have f': "tables f' = map (\<lambda>(n, tb). (if n = ''occurrences_by_key'' then ''occurrences'' else n, tb)) ?kept"
    "file_rows f' = file_rows f"
    using steps(3,4) f1 f2 by (auto simp: drop_occurrences_def rename_by_key_def)
  have kept: "map_of ?kept n = (if n = ''occurrences'' then None else map_of (tables f1) n)" for n
    by (rule map_of_filter_name)
  have one: "map_of (tables f1) n = (if n = ''occurrences_by_key'' then Some ?new else map_of (tables f) n)" for n
    using none by (simp add: f1 map_add_def split: option.split)
  have fresh: "''occurrences'' \<notin> fst ` set ?kept" by auto
  show "map_of (tables f') ''occurrences'' = Some ?new"
    unfolding f'(1) map_of_rename [OF fresh] kept one by simp
  show "k \<noteq> ''occurrences'' \<Longrightarrow> map_of (tables f') k = map_of (tables f) k"
    unfolding f'(1) map_of_rename [OF fresh] kept one using none by simp
  show "file_rows f' = file_rows f" by (rule f'(2))
  show "distinct (map (\<lambda>oc. (occ_job oc, occurrence_key oc)) (occurrences (file_rows f)))" using dist f1 by simp
qed

section \<open>The schema of this version\<close>

text \<open>
  A file some version has written: a table it has, has the columns that no migration adds, the
  occurrences have their present key or the older one, and the indexes of runs are on runs.
\<close>

definition original_columns :: "string \<Rightarrow> string list" where
  "original_columns t =
     (case map_of current_schema t of
        None \<Rightarrow> []
      | Some tb \<Rightarrow> filter (\<lambda>c. (t, c) \<notin> set (map (\<lambda>(t, c, _). (t, c)) migrated_columns)) (map col_name (tbl_cols tb)))"

definition known_key :: "dbfile \<Rightarrow> bool" where
  "known_key f \<longleftrightarrow>
     (case map_of (tables f) ''occurrences'' of
        None \<Rightarrow> True
      | Some tb \<Rightarrow> tbl_key tb \<in> {[''job_id'', ''occurrence_key''], [''job_id'', ''scheduled_for'']})"

definition known_file :: "dbfile \<Rightarrow> bool" where
  "known_file f \<longleftrightarrow>
     known_key f
     \<and> list_all (\<lambda>(t, _). map_of (tables f) t = None \<or> has_columns t (original_columns t) f) current_schema
     \<and> list_all (\<lambda>(i, t, _). i \<in> {''runs_job_state'', ''runs_accepted''} \<longrightarrow> t = ''runs'') (indexes f)"

definition current_file :: "dbfile \<Rightarrow> bool" where
  "current_file f \<longleftrightarrow>
     current_key f \<and> list_all (\<lambda>(t, tb). has_columns t (map col_name (tbl_cols tb)) f) current_schema"

lemma current_fileI:
  assumes "current_key f" and "\<And>t tb. (t, tb) \<in> set current_schema \<Longrightarrow> has_columns t (map col_name (tbl_cols tb)) f"
  shows "current_file f"
  using assms by (auto simp: current_file_def list_all_iff)

lemma has_columns_table:
  "map_of (tables f) t = Some tb' \<Longrightarrow> table_names tb \<subseteq> table_names tb' \<Longrightarrow> has_columns t (map col_name (tbl_cols tb)) f"
  by (simp add: has_columns_names table_names_def)

lemma current_schema_distinct: "distinct (map fst current_schema)"
  by (simp add: current_schema_def)

lemma split_columns:
  assumes "(t, tb) \<in> set current_schema"
  shows "table_names tb \<subseteq> set (original_columns t) \<union> {c. \<exists>decl. (t, c, decl) \<in> set migrated_columns}"
proof -
  have "map_of current_schema t = Some tb" using current_schema_distinct assms by (rule map_of_is_SomeI)
  then show ?thesis by (auto simp: original_columns_def table_names_def image_iff)
qed

lemma with_columns_table:
  assumes "known_file f" and "with_columns f = Some f2" and tb: "(t, tb) \<in> set current_schema"
  obtains tb2 where "map_of (tables f2) t = Some tb2" and "table_names tb \<subseteq> table_names tb2"
    and "map_of (tables f) t = None \<Longrightarrow> tbl_key tb2 = tbl_key tb"
    and "\<And>tb0. map_of (tables f) t = Some tb0 \<Longrightarrow> tbl_key tb2 = tbl_key tb0"
proof -
  from assms(2) obtain f1 where f1: "run_all (map (\<lambda>st f. right (st f)) schema_script) f = Some f1"
    and f2: "run_all (map add_missing migrated_columns) f1 = Some f2"
    by (auto simp: with_columns_def run_all_append Option.bind_eq_Some_conv)
  have some: "map_of current_schema t = Some tb" using current_schema_distinct tb by (rule map_of_is_SomeI)
  note map1 = schema_tables [OF f1]
  note ext = columns_extend [OF f2]
  show ?thesis
  proof (cases "map_of (tables f) t")
    case None
    with map1 some have "map_of (tables f1) t = Some tb" by (simp add: map_add_def)
    with ext(1) obtain tb2 where tb2: "map_of (tables f2) t = Some tb2" "extends tb tb2" by (rule tables_extendD)
    from tb2 extends_names [OF tb2(2)] None show ?thesis by (intro that [of tb2]) (auto simp: extends_def)
  next
    case (Some tb0)
    with map1 have "map_of (tables f1) t = Some tb0" by (simp add: map_add_def)
    with ext(1) obtain tb2 where tb2: "map_of (tables f2) t = Some tb2" "extends tb0 tb2" by (rule tables_extendD)
    have "set (original_columns t) \<subseteq> table_names tb0"
      using assms(1) Some bspec [OF _ tb, of "\<lambda>(t, _). map_of (tables f) t = None \<or> has_columns t (original_columns t) f"]
      by (auto simp: known_file_def list_all_iff has_columns_names)
    moreover have "c \<in> table_names tb2" if "(t, c, decl) \<in> set migrated_columns" for c decl
      using ext(2) [OF that] tb2(1) by simp
    ultimately have "table_names tb \<subseteq> table_names tb2"
      using split_columns [OF tb] extends_names [OF tb2(2)] by blast
    with tb2 Some show ?thesis by (intro that [of tb2]) (auto simp: extends_def)
  qed
qed

lemma find_SomeD: "find P xs = Some x \<Longrightarrow> P x \<and> x \<in> set xs"
  by (induction xs) (auto split: if_splits)

lemma find_key_column:
  assumes "c \<in> fst ` set cols" and "\<And>c' k. (c', k) \<in> set cols \<Longrightarrow> k = n \<longleftrightarrow> c' = c"
  shows "key_column n cols = c"
proof -
  from assms(1) obtain k where "(c, k) \<in> set cols" by auto
  with assms(2) have mem: "(c, n) \<in> set (rev cols)" by auto
  show ?thesis
  proof (cases "find (\<lambda>(_, k). k = n) (rev cols)")
    case None
    with mem show ?thesis by (auto simp: find_None_iff)
  next
    case (Some p)
    then have "p \<in> set (rev cols)" "snd p = n" using find_SomeD [OF Some] by auto
    with assms(2) [of "fst p" "snd p"] have "fst p = c" by (cases p) simp
    with Some show ?thesis by (cases p) (simp add: key_column_def)
  qed
qed

lemma place_pos: "c \<in> set ks \<Longrightarrow> 0 < place c ks"
  by (induction ks) auto

lemma place_eq: "c \<in> set ks \<Longrightarrow> place c' ks = place c ks \<longleftrightarrow> c' = c"
proof (induction ks)
  case (Cons k ks)
  then show ?case using place_pos [of c ks] by (cases "c = k"; cases "c' = k") auto
qed simp

lemma keyed_current:
  assumes "map_of (tables f) ''occurrences'' = Some tb" and "{''job_id'', ''occurrence_key'', ''scheduled_for''} \<subseteq> table_names tb"
    and "tbl_key tb \<in> {[''job_id'', ''occurrence_key''], [''job_id'', ''scheduled_for'']}"
  shows "keyed f \<longleftrightarrow> tbl_key tb = [''job_id'', ''occurrence_key'']"
proof -
  have info: "info_columns ''occurrences'' f = map (\<lambda>c. (col_name c, place (col_name c) (tbl_key tb))) (tbl_cols tb)"
    using assms(1) by (simp add: info_columns_def)
  have col: "key_column (place c (tbl_key tb)) (info_columns ''occurrences'' f) = c" if "c \<in> set (tbl_key tb)" for c
  proof (rule find_key_column)
    show "c \<in> fst ` set (info_columns ''occurrences'' f)"
      using that assms(2,3) by (auto simp: info table_names_def image_image)
    show "(c', k) \<in> set (info_columns ''occurrences'' f) \<Longrightarrow> k = place c (tbl_key tb) \<longleftrightarrow> c' = c" for c' k
      using place_eq [OF that] by (auto simp: info)
  qed
  show ?thesis
    using assms(3) unfolding insert_iff empty_iff
  proof (elim disjE)
    assume key: "tbl_key tb = [''job_id'', ''occurrence_key'']"
    have "keyed f" using col [of "''job_id''"] col [of "''occurrence_key''"] unfolding key keyed_def by (simp add: numeral_2_eq_2)
    with key show ?thesis by simp
  next
    assume key: "tbl_key tb = [''job_id'', ''scheduled_for'']"
    have "key_column 2 (info_columns ''occurrences'' f) = ''scheduled_for''"
      using col [of "''scheduled_for''"] unfolding key by (simp add: numeral_2_eq_2)
    with key show ?thesis by (simp add: keyed_def)
  qed blast
qed

lemma occurrences_stages:
  assumes "known_file f" and "with_columns f = Some f2" and "tables f5 = tables f2"
  shows "keyed f5 \<longleftrightarrow> current_key f5"
proof -
  have occ: "(''occurrences'', new_table occurrences_columns [''job_id'', ''occurrence_key'']) \<in> set current_schema"
    by (simp add: current_schema_def)
  obtain tb2 where tb2: "map_of (tables f2) ''occurrences'' = Some tb2"
    and names: "table_names (new_table occurrences_columns [''job_id'', ''occurrence_key'']) \<subseteq> table_names tb2"
    and new: "map_of (tables f) ''occurrences'' = None \<Longrightarrow> tbl_key tb2 = tbl_key (new_table occurrences_columns [''job_id'', ''occurrence_key''])"
    and old: "\<And>tb0. map_of (tables f) ''occurrences'' = Some tb0 \<Longrightarrow> tbl_key tb2 = tbl_key tb0"
    using with_columns_table [OF assms(1,2) occ] by blast
  have "{''job_id'', ''occurrence_key'', ''scheduled_for''}
      \<subseteq> table_names (new_table occurrences_columns [''job_id'', ''occurrence_key''])"
    by (simp add: table_names_def new_table_def occurrences_columns_def)
  with names have three: "{''job_id'', ''occurrence_key'', ''scheduled_for''} \<subseteq> table_names tb2" by (rule subset_trans [rotated])
  have key: "tbl_key tb2 \<in> {[''job_id'', ''occurrence_key''], [''job_id'', ''scheduled_for'']}"
  proof (cases "map_of (tables f) ''occurrences''")
    case None
    then show ?thesis using new by (simp add: new_table_def)
  next
    case (Some tb0)
    then show ?thesis using old assms(1) by (simp add: known_file_def known_key_def)
  qed
  have tb5: "map_of (tables f5) ''occurrences'' = Some tb2" using tb2 assms(3) by simp
  show ?thesis using keyed_current [OF tb5 three key] tb5 by (simp add: current_key_def)
qed

lemma migrated_tables:
  assumes "known_file f" and "migrated f = Some f'"
  shows "current_file f'"
proof -
  obtain f2 f3 f4 f5 f6 f7 where st: "with_columns f = Some f2" "typed_rows f2 = Some f3" "classified_rows f3 = Some f4"
    "occurrence_keys f4 = Inr f5" "rebuilt f5 = Some f6"
    "run_all (map (\<lambda>st f. right (st f)) index_script) f6 = Some f7" "insert_locks f7 = Inr f'"
    using migrated_stages [OF assms(2)] by blast
  have t5: "tables f5 = tables f2"
    using typed_tables [OF st(2)] classified_tables [OF st(3)] keys_tables [OF st(4)] by simp
  have t6: "tables f' = tables f6" using index_steps(1) [OF st(6)] locks_tables [OF st(7)] by simp
  have cur: "keyed f5 \<longleftrightarrow> current_key f5" by (rule occurrences_stages [OF assms(1) st(1) t5])
  show ?thesis
  proof (cases "keyed f5")
    case True
    with st(5) have "f6 = f5" by (simp add: rebuilt_def)
    with t5 t6 have same: "tables f' = tables f2" by simp
    show ?thesis
    proof (rule current_fileI)
      show "current_key f'" using True cur same t5 by (simp add: current_key_def)
    next
      fix t tb
      assume tb: "(t, tb) \<in> set current_schema"
      obtain tb2 where "map_of (tables f2) t = Some tb2" "table_names tb \<subseteq> table_names tb2"
        by (rule with_columns_table [OF assms(1) st(1) tb])
      then show "has_columns t (map col_name (tbl_cols tb)) f'" by (intro has_columns_table) (simp_all only: same)
    qed
  next
    case False
    note new = rebuild_steps [OF st(5) False]
    show ?thesis
    proof (rule current_fileI)
      show "current_key f'" unfolding current_key_def t6 new(1) by (simp add: new_table_def)
    next
      fix t tb
      assume tb: "(t, tb) \<in> set current_schema"
      show "has_columns t (map col_name (tbl_cols tb)) f'"
      proof (cases "t = ''occurrences''")
        case True
        have "map_of current_schema t = Some tb" using current_schema_distinct tb by (rule map_of_is_SomeI)
        then have "tb = new_table occurrences_columns [''job_id'', ''occurrence_key'']" by (simp add: True current_schema_def)
        with new(1) True have "map_of (tables f') t = Some tb" by (simp only: t6)
        then show ?thesis by (rule has_columns_table) (rule order_refl)
      next
        case other: False
        obtain tb2 where "map_of (tables f2) t = Some tb2" "table_names tb \<subseteq> table_names tb2"
          by (rule with_columns_table [OF assms(1) st(1) tb])
        with new(2) [OF other] t5 show ?thesis by (intro has_columns_table) (simp_all only: t6)
      qed
    qed
  qed
qed

lemma migrated_rows:
  assumes "known_file f" and "migrated f = Some f'"
  obtains f2 where "with_columns f = Some f2" and "migrate (file_rows f2) = (Inr (), file_rows f')"
proof -
  obtain f2 f3 f4 f5 f6 f7 where st: "with_columns f = Some f2" "typed_rows f2 = Some f3" "classified_rows f3 = Some f4"
    "occurrence_keys f4 = Inr f5" "rebuilt f5 = Some f6"
    "run_all (map (\<lambda>st f. right (st f)) index_script) f6 = Some f7" "insert_locks f7 = Inr f'"
    using migrated_stages [OF assms(2)] by blast
  have t5: "tables f5 = tables f2" "tables f5 = tables f4"
    using typed_tables [OF st(2)] classified_tables [OF st(3)] keys_tables [OF st(4)] by simp_all
  have typed: "backfillTypedAuthority (file_rows f2) = Inr (file_rows f3)"
    using st(2) by (auto simp: typed_rows_def right_Some split: if_splits)
  have cls: "file_rows f4 = backfillAcceptanceClassification (file_rows f3)"
    using st(3) by (auto simp: classified_rows_def split: if_splits)
  let ?ocs = "map key_of_schedule (occurrences (file_rows f4))"
  have keys: "file_rows f5 = (file_rows f4)\<lparr>occurrences := ?ocs\<rparr>"
    and dist: "current_key f4 \<Longrightarrow> distinct (map (\<lambda>oc. (occ_job oc, occurrence_key oc)) ?ocs)"
    using st(4) by (auto simp: occurrence_keys_def Let_def split: if_splits)
  have "file_rows f6 = file_rows f5 \<and> distinct (map (\<lambda>oc. (occ_job oc, occurrence_key oc)) ?ocs)"
  proof (cases "keyed f5")
    case True
    then have "current_key f4"
      using occurrences_stages [OF assms(1) st(1) t5(1)] t5(2) by (simp add: current_key_def)
    with dist True st(5) show ?thesis by (simp add: rebuilt_def)
  next
    case False
    from rebuild_steps(3,4) [OF st(5) False] keys show ?thesis by simp
  qed
  then have "backfill_keys (file_rows f4) = Inr (file_rows f6)"
    using keys by (simp add: backfill_keys_def Let_def key_of_schedule_def [abs_def])
  moreover have "file_rows f' = ensure_locks (file_rows f6)"
    using st(7) index_steps(2) [OF st(6)] by (auto simp: insert_locks_def change_rows_def split: if_splits)
  ultimately have "migrate (file_rows f2) = (Inr (), file_rows f')"
    using typed cls by (simp add: migrate_def)
  with st(1) show thesis by (rule that)
qed

section \<open>A file of an older version\<close>

text \<open>Three tables with the columns no migration adds, the occurrences still keyed by schedule.\<close>

definition old_table :: "string \<Rightarrow> string list \<Rightarrow> string list \<Rightarrow> string \<times> sql_table" where
  "old_table t added key = (t, new_table (map (\<lambda>c. (c, [])) (original_columns t @ added)) key)"

definition old_file :: dbfile where
  "old_file =
     \<lparr> tables = [old_table ''jobs'' [] [''id''],
                 old_table ''occurrences'' [''occurrence_key''] [''job_id'', ''scheduled_for''],
                 old_table ''runs'' [] [''id'']],
       indexes = [],
       file_rows = init_db
         \<lparr>jobs := [new_job ''nightly'' 0 [] (''{'' @ [CHR 0x22] @ ''revision'' @ [CHR 0x22] @ '':3}'') True 5],
          occurrences := [\<lparr> occ_job = ''nightly'', occurrence_key = ''k'', occ_scheduled_for = 7, outcome = ''missed'',
            occ_run = None, occ_detail = [], created_at = 9, created_unix_nano = 0 \<rparr>]\<rparr>,
       by_key = [] \<rparr>"

lemma old_file_known: "known_file old_file"
  by code_simp

lemma old_file_migrates: "migrated old_file \<noteq> None"
  by code_simp

definition calm :: sqlite where
  "calm = \<lparr> sql_fault = \<lambda>_. None, sql_took = \<lambda>_. 1 \<rparr>"

definition old_world :: conn_world where
  "old_world = \<lparr> sq_file = old_file, sq_tx = None, sq_now = 0, sq_calls = 0, sq_lock_open = False, sq_locked = False,
     sq_conn = False, sq_db = False \<rparr>"

definition plain_host :: open_host where
  "plain_host = \<lparr> host_temp_dir = ''/tmp'', host_mkdir_all = \<lambda>_. None, host_open_lock = \<lambda>_. None, host_flock = \<lambda>_. FlockGranted,
     host_abs = Inr, host_eval_symlinks = Inr, host_lstat = \<lambda>_. Inr (True, False), host_sql_open = \<lambda>_. None,
     host_conn = None, host_conn_close = None, host_chmod = \<lambda>_. None \<rparr>"

lemma old_world_simps [simp]:
  "sq_tx old_world = None" "sq_file old_world = old_file" "\<not> sq_conn old_world" "\<not> sq_db old_world"
  "\<not> sq_locked old_world" "\<not> sq_lock_open old_world"
  by (simp_all add: old_world_def)

lemma calm_faultless: "faultless calm"
  by (simp add: faultless_def calm_def)

section \<open>Opening\<close>

text \<open>C14: The migration always returns, whatever calls fail and however long the file stays busy, and it
  is all or nothing: after an error the file is as it was, and without faults an error means that
  the migration of this file is impossible; after success the file holds exactly the migrated
  contents and no transaction is left open.\<close>

theorem migration_all_or_nothing:
  assumes "sq_tx w = None"
  shows "\<exists>r w'. migrate_conn env deadline w = Some (r, w')
    \<and> (case r of
         Inl _ \<Rightarrow> sq_file w' = sq_file w \<and> (faultless env \<longrightarrow> migrated (sq_file w) = None)
       | Inr _ \<Rightarrow> migrated (sq_file w) = Some (sq_file w') \<and> sq_tx w' = None)"
  using migrate_conn_returns migrate_conn_file [OF _ assms] by metis

theorem migration_all_or_nothing_witness:
  "\<exists>w'. migrate_conn calm 0 old_world = Some (Inr (), w') \<and> migrated old_file = Some (sq_file w')"
proof -
  obtain r w' where run: "migrate_conn calm 0 old_world = Some (r, w')"
    and left: "case r of
        Inl _ \<Rightarrow> sq_file w' = sq_file old_world \<and> (faultless calm \<longrightarrow> migrated (sq_file old_world) = None)
      | Inr _ \<Rightarrow> migrated (sq_file old_world) = Some (sq_file w') \<and> sq_tx w' = None"
    using migration_all_or_nothing [of old_world calm 0] by auto
  with old_file_migrates calm_faultless show ?thesis by (cases r) auto
qed

text \<open>The one wait of \<open>Open\<close> without a deadline: it is reached, and another process keeps the lock.\<close>

definition lock_never_granted :: "open_host \<Rightarrow> string \<Rightarrow> bool" where
  "lock_never_granted H path \<longleftrightarrow>
     path \<noteq> '':memory:'' \<and> host_mkdir_all H (filepathDir path) = None
     \<and> host_open_lock H (path @ ''.migrate.lock'') = None \<and> host_flock H (path @ ''.migrate.lock'') = FlockWaits"



text \<open>C16: Migrating a file of any known version gives every table all the columns of this version and
  the occurrences their present key, and its rows are what the migration of the rows computes from
  the old rows with the new columns at their defaults.\<close>

theorem migrated_file_current:
  assumes "known_file f" and "migrated f = Some f'"
  shows "current_file f' \<and> (\<exists>f2. with_columns f = Some f2 \<and> migrate (file_rows f2) = (Inr (), file_rows f'))"
  using migrated_tables [OF assms] migrated_rows [OF assms] by blast

theorem migrated_file_current_witness:
  "\<exists>f' f2. migrated old_file = Some f' \<and> current_file f'
    \<and> with_columns old_file = Some f2 \<and> migrate (file_rows f2) = (Inr (), file_rows f')"
proof -
  obtain f' where f': "migrated old_file = Some f'" using old_file_migrates by blast
  from migrated_file_current [OF old_file_known this] f' show ?thesis by blast
qed

end
