(* ===== verification/StoreReopen.thy ===== *)
theory StoreReopen
  imports StoreMigrated
begin

text \<open>
  Opening a file a second time: the rows a migration leaves are settled, so each of its backfills
  finds nothing to do, and the schema it leaves is the one it looks for.
\<close>

section \<open>Migrating the rows again\<close>

definition apart :: "db \<Rightarrow> bool" where
  "apart d \<longleftrightarrow> run_keys d \<and> distinct (map job_key (jobs d))"

lemma configRevision_pos: "configRevisionFromDefinition def = Some r \<Longrightarrow> r \<noteq> 0"
  by (auto simp: configRevisionFromDefinition_def split: option.splits if_splits)

lemma backfill_jobs_twice:
  assumes "distinct (map job_key (jobs d))" and "backfill_jobs d = Inr d'"
  shows "\<And>j. j \<in> set (jobs d') \<Longrightarrow> config_revision j \<noteq> 0" and "runs d' = runs d" and "occurrences d' = occurrences d"
    and "map job_key (jobs d') = map job_key (jobs d)"
proof -
  let ?upd = "\<lambda>s q. q\<lparr>config_revision := the (configRevisionFromDefinition (job_definition s))\<rparr>"
  let ?sel = "filter (\<lambda>j. config_revision j = 0) (jobs d)"
  from assms(2) have dec: "\<And>j. j \<in> set ?sel \<Longrightarrow> configRevisionFromDefinition (job_definition j) \<noteq> None"
    and d': "d' = d\<lparr>jobs := apply_rows (\<lambda>s q. job_key q = job_key s \<and> config_revision q = 0) ?upd ?sel (jobs d)\<rparr>"
    by (auto simp: backfill_jobs_def Let_def list_ex_iff split: if_splits)
  have js: "jobs d' = map (\<lambda>q. if q \<in> set ?sel then ?upd q q else q) (jobs d)"
    unfolding d' using assms(1)
    by (simp, subst apply_rows_map [where key = job_key]) (auto dest: distinct_of_key)
  show "config_revision j \<noteq> 0" if "j \<in> set (jobs d')" for j
    using that dec configRevision_pos unfolding js by fastforce
  show "runs d' = runs d" "occurrences d' = occurrences d" by (simp_all add: d')
  show "map job_key (jobs d') = map job_key (jobs d)" by (simp add: js)
qed

lemma backfill_jobs_settled: "(\<And>j. j \<in> set (jobs d) \<Longrightarrow> config_revision j \<noteq> 0) \<Longrightarrow> backfill_jobs d = Inr d"
  by (auto simp: backfill_jobs_def Let_def filter_empty_conv)

text \<open>Filling in an instant a second time gives the same instant.\<close>

definition instants_settled :: "db \<Rightarrow> bool" where
  "instants_settled d \<longleftrightarrow>
     (\<forall>r \<in> set (runs d). accepted_unix_nano r = 0 \<longrightarrow> UnixNano (accepted_at r) = 0)
     \<and> (\<forall>oc \<in> set (occurrences d). created_unix_nano oc = 0 \<longrightarrow> UnixNano (created_at oc) = 0)"

lemma accepted_settled:
  assumes "run_keys d" and "\<And>r. r \<in> set (runs d) \<Longrightarrow> accepted_unix_nano r = 0 \<Longrightarrow> UnixNano (accepted_at r) = 0"
  shows "backfill_accepted d = d"
proof -
  have "runs (backfill_accepted d) = runs d"
    unfolding backfill_accepted_map [OF assms(1)] using assms(2) by (intro map_id_on) auto
  then show ?thesis by (simp add: backfill_accepted_def)
qed

abbreviation occ_place :: "occ_row \<Rightarrow> string \<times> string \<times> time" where
  "occ_place oc \<equiv> (occ_job oc, occurrence_key oc, occ_scheduled_for oc)"

lemma backfill_created_map:
  assumes "distinct (map occ_place (occurrences d))"
  shows "occurrences (backfill_created d) =
    map (\<lambda>oc. if created_unix_nano oc = 0 then oc\<lparr>created_unix_nano := UnixNano (created_at oc)\<rparr> else oc) (occurrences d)"
  using assms unfolding backfill_created_def
  by (simp, subst apply_rows_map [where key = occ_place]) (auto dest: distinct_of_key)

lemma created_settled:
  assumes "distinct (map occ_place (occurrences d))"
    and "\<And>oc. oc \<in> set (occurrences d) \<Longrightarrow> created_unix_nano oc = 0 \<Longrightarrow> UnixNano (created_at oc) = 0"
  shows "backfill_created d = d"
proof -
  have "occurrences (backfill_created d) = occurrences d"
    unfolding backfill_created_map [OF assms(1)] using assms(2) by (intro map_id_on) auto
  then show ?thesis by (simp add: backfill_created_def)
qed

lemma classification_settled:
  assumes "run_keys d" and "\<And>r. r \<in> set (runs d) \<Longrightarrow> state r \<notin> set nonterminalStates \<Longrightarrow> \<not> unclassified r"
  shows "backfillAcceptanceClassification d = d"
proof -
  have "runs (backfillAcceptanceClassification d) = runs d"
    unfolding backfill_class_map [OF assms(1)] using assms(2) by (intro map_id_on) auto
  then show ?thesis by (simp add: backfillAcceptanceClassification_def)
qed

lemma classification_classifies:
  assumes "run_keys d" and "r \<in> set (runs (backfillAcceptanceClassification d))" and "state r \<notin> set nonterminalStates"
  shows "\<not> unclassified r"
proof -
  from assms(1,2) obtain q where q: "q \<in> set (runs d)"
    and r: "r = (if unclassified q \<and> state q \<notin> set nonterminalStates then backfill_class_set q q else q)"
    by (auto simp: backfill_class_map)
  obtain lane reason u where cls:
    "classifyTerminalRun (run_id q) (run_definition q) (state q) (task_verdict q) = (lane, reason, u)"
    by (rule prod_cases3)
  show ?thesis
  proof (cases "unclassified q \<and> state q \<notin> set nonterminalStates")
    case True
    with r classify_nonempty [OF cls] show ?thesis
      by (auto simp: backfill_class_set_eq [OF cls] unclassified_def)
  next
    case False
    with r assms(3) show ?thesis by auto
  qed
qed

lemma apply_rows_keeps:
  assumes "\<And>s q. key (upd s q) = key q"
  shows "map key (apply_rows P upd sel rows) = map key rows"
proof (induction sel arbitrary: rows)
  case (Cons s sel)
  have "map key (apply_rows P upd [s] rows) = map key rows" using assms by (simp add: apply_rows_def)
  with Cons show ?case by (metis apply_rows_Cons)
qed simp

lemma distinct_places:
  assumes "distinct (map (\<lambda>oc. (occ_job oc, occurrence_key oc)) (map key_of_schedule ocs))"
  shows "distinct (map occ_place ocs)"
proof -
  define F where "F = (\<lambda>(j :: string, k, s). (j, if k = [] then formatTime s else k))"
  have "(occ_job (key_of_schedule oc), occurrence_key (key_of_schedule oc)) = F (occ_place oc)" for oc
    unfolding F_def by (cases "occurrence_key oc = []") (simp_all add: key_of_schedule_def)
  then have "map (\<lambda>oc. (occ_job oc, occurrence_key oc)) (map key_of_schedule ocs) = map F (map occ_place ocs)"
    unfolding map_map comp_def by (intro map_cong refl)
  with assms have "distinct (map F (map occ_place ocs))" by (simp only:)
  then show ?thesis by (rule distinct_of_key)
qed

lemma formatTime_nonempty: "formatTime t \<noteq> []"
  by (simp add: formatTime_def Let_def)

text \<open>Rows that a migration leaves as they are.\<close>

definition settled :: "db \<Rightarrow> bool" where
  "settled d \<longleftrightarrow>
     run_keys d
     \<and> (\<forall>j \<in> set (jobs d). config_revision j \<noteq> 0)
     \<and> (\<forall>r \<in> set (runs d). (accepted_unix_nano r = 0 \<longrightarrow> UnixNano (accepted_at r) = 0)
                          \<and> (state r \<notin> set nonterminalStates \<longrightarrow> \<not> unclassified r))
     \<and> (\<forall>oc \<in> set (occurrences d). (created_unix_nano oc = 0 \<longrightarrow> UnixNano (created_at oc) = 0) \<and> occurrence_key oc \<noteq> [])
     \<and> distinct (map (\<lambda>oc. (occ_job oc, occurrence_key oc)) (occurrences d))
     \<and> ensure_locks d = d"

lemma ensure_locks_twice: "ensure_locks (ensure_locks d) = ensure_locks d"
proof -
  have "meta ''admission_lock'' (ensure_locks d) \<noteq> None" "meta ''authority_lock'' (ensure_locks d) \<noteq> None"
    by (cases "meta ''admission_lock'' d"; cases "meta ''authority_lock'' d"; simp add: ensure_locks_def meta_def map_add_def)+
  then show ?thesis by (simp add: ensure_locks_def [of "ensure_locks d"])
qed

lemma settled_typed:
  assumes "settled d"
  shows "backfillTypedAuthority d = Inr d" and "backfillAcceptanceClassification d = d"
    and "map key_of_schedule (occurrences d) = occurrences d" and "ensure_locks d = d"
proof -
  have places: "distinct (map occ_place (occurrences d))"
    using assms by (auto simp: settled_def distinct_map inj_on_def)
  have "backfill_jobs d = Inr d" using assms by (intro backfill_jobs_settled) (auto simp: settled_def)
  moreover have "backfill_accepted d = d" using assms by (intro accepted_settled) (auto simp: settled_def)
  moreover have "backfill_created d = d" using assms by (intro created_settled places) (auto simp: settled_def)
  ultimately show "backfillTypedAuthority d = Inr d" by (simp add: backfillTypedAuthority_def)
  show "backfillAcceptanceClassification d = d" using assms by (intro classification_settled) (auto simp: settled_def)
  show "map key_of_schedule (occurrences d) = occurrences d"
    using assms by (intro map_id_on) (auto simp: settled_def key_of_schedule_def)
  show "ensure_locks d = d" using assms by (simp add: settled_def)
qed

lemma backfill_class_set_instants [simp]:
  "accepted_unix_nano (backfill_class_set s q) = accepted_unix_nano q" "accepted_at (backfill_class_set s q) = accepted_at q"
  by (simp_all add: backfill_class_set_def split: prod.split)

lemma migrate_settles:
  assumes "apart d" and "migrate d = (Inr (), d')"
  shows "settled d'"
proof -
  from assms(2) obtain d1 d5 where typed: "backfillTypedAuthority d = Inr d1"
    and keys: "backfill_keys (backfillAcceptanceClassification d1) = Inr d5" and d': "d' = ensure_locks d5"
    by (auto simp: migrate_def split: sum.splits)
  from typed obtain d0 where jobs: "backfill_jobs d = Inr d0" and d1: "d1 = backfill_created (backfill_accepted d0)"
    by (auto simp: backfillTypedAuthority_def split: sum.splits)
  define d4 where "d4 = backfillAcceptanceClassification d1"
  note twice = backfill_jobs_twice [OF conjunct2 [OF assms(1) [unfolded apart_def]] jobs]
  have keys0: "run_keys d0" using assms(1) twice(2) by (simp add: apart_def run_keys_def)
  have runs1: "runs d1 = map (\<lambda>r. if accepted_unix_nano r = 0 then r\<lparr>accepted_unix_nano := UnixNano (accepted_at r)\<rparr> else r) (runs d0)"
    using backfill_accepted_map [OF keys0] by (simp add: d1 backfill_created_def)
  have keys1: "run_keys d1" using keys0 by (simp add: run_keys_def runs1 comp_def if_distrib cong: if_cong)
  have runs4: "runs d4 = map (\<lambda>r. if unclassified r \<and> state r \<notin> set nonterminalStates then backfill_class_set r r else r) (runs d1)"
    unfolding d4_def by (rule backfill_class_map [OF keys1])
  have keys4: "run_keys d4" using keys1 by (simp add: run_keys_def runs4 comp_def if_distrib cong: if_cong)
  have same: "occurrences d4 = occurrences d1" "jobs d4 = jobs d1" "jobs d1 = jobs d0"
    by (simp_all add: d4_def backfillAcceptanceClassification_def d1 backfill_created_def backfill_accepted_def)
  have d5: "d5 = d4\<lparr>occurrences := map key_of_schedule (occurrences d4)\<rparr>"
    and dist: "distinct (map (\<lambda>oc. (occ_job oc, occurrence_key oc)) (map key_of_schedule (occurrences d4)))"
    using keys by (auto simp: backfill_keys_def Let_def key_of_schedule_def [abs_def] d4_def [symmetric] split: if_splits)
  have "distinct (map occ_place (occurrences d1))" using distinct_places [OF dist] by (simp add: same)
  moreover have "map occ_place (occurrences d1) = map occ_place (occurrences (backfill_accepted d0))"
    unfolding d1 backfill_created_def by simp (rule apply_rows_keeps, simp)
  ultimately have "distinct (map occ_place (occurrences (backfill_accepted d0)))" by simp
  note occ1 = backfill_created_map [OF this, folded d1]
  have "ensure_locks d' = d'" by (simp add: d' ensure_locks_twice)
  moreover have rows: "runs d' = runs d4" "jobs d' = jobs d0" "occurrences d' = map key_of_schedule (occurrences d1)"
    by (simp_all add: d' d5 ensure_locks_def same)
  moreover have "accepted_unix_nano r = 0 \<longrightarrow> UnixNano (accepted_at r) = 0" if "r \<in> set (runs d4)" for r
    using that by (auto simp: runs4 runs1 split: if_splits)
  moreover have "state r \<notin> set nonterminalStates \<longrightarrow> \<not> unclassified r" if "r \<in> set (runs d4)" for r
    using classification_classifies [OF keys1] that by (simp add: d4_def)
  moreover have "created_unix_nano oc = 0 \<longrightarrow> UnixNano (created_at oc) = 0" "occurrence_key oc \<noteq> []"
    if "oc \<in> set (occurrences d')" for oc
    using that by (auto simp: rows occ1 key_of_schedule_def formatTime_nonempty split: if_splits)
  ultimately show ?thesis
    using keys4 twice(1) dist unfolding settled_def run_keys_def by (simp add: same)
qed

section \<open>Migrating the file again\<close>

lemma run_all_keeps:
  assumes "\<And>s f f'. s \<in> set ss \<Longrightarrow> s f = Some f' \<Longrightarrow> P f \<Longrightarrow> P f'" and "run_all ss f = Some f'" and "P f"
  shows "P f'"
  using assms
proof (induction ss arbitrary: f)
  case (Cons s ss)
  then obtain g where "s f = Some g" "run_all ss g = Some f'" unfolding run_all_Cons by blast
  with Cons show ?case by (metis list.set_intros)
qed simp

lemma run_all_same: "list_all (\<lambda>s. s f = Some f) ss \<Longrightarrow> run_all ss f = Some f"
  by (induction ss) simp_all

lemma apart_no_rows: "apart d \<Longrightarrow> apart (no_rows t d)"
  by (simp add: apart_def run_keys_def no_rows_def)

lemma run_default_id: "run_id (run_default c r) = run_id r"
  by (simp add: run_default_def)

lemma job_default_key: "job_key (job_default c j) = job_key j"
  by (simp add: job_default_def)

lemma apart_default: "apart d \<Longrightarrow> apart (default_column t c d)"
  by (simp add: apart_def run_keys_def default_column_def comp_def run_default_id job_default_key)

definition run_indexed :: "string \<Rightarrow> dbfile \<Rightarrow> bool" where
  "run_indexed i f \<longleftrightarrow> (\<exists>cs. (i, ''runs'', cs) \<in> set (indexes f))"

lemma run_indexed_mono:
  "run_indexed i f \<Longrightarrow> (\<And>i cs. (i, ''runs'', cs) \<in> set (indexes f) \<Longrightarrow> (i, ''runs'', cs) \<in> set (indexes f')) \<Longrightarrow> run_indexed i f'"
  unfolding run_indexed_def by blast

lemma create_table_keeps:
  assumes "create_table t cs key f = Inr f'"
  shows "apart (file_rows f) \<Longrightarrow> apart (file_rows f')" and "indexes f' = indexes f"
  using assms apart_no_rows by (auto simp: create_table_def split: if_splits)

lemma create_index_keeps:
  assumes "create_index i t cs f = Inr f'"
  shows "file_rows f' = file_rows f" and "run_indexed k f \<Longrightarrow> run_indexed k f'"
  using assms by (auto simp: create_index_def run_indexed_def split: if_splits)

lemma add_missing_keeps:
  assumes "add_missing (t, c, decl) f = Some f'"
  shows "apart (file_rows f) \<Longrightarrow> apart (file_rows f')" and "indexes f' = indexes f"
  using assms apart_default by (auto simp: add_missing_def add_column_def split: if_splits option.splits)

lemma with_columns_apart:
  assumes "with_columns f = Some f2" and "apart (file_rows f)"
  shows "apart (file_rows f2)"
proof (rule run_all_keeps [OF _ assms(1) [unfolded with_columns_def], where P = "\<lambda>f. apart (file_rows f)"])
  fix s g g'
  assume "s \<in> set (map (\<lambda>st f. right (st f)) schema_script @ map add_missing migrated_columns)" and s: "s g = Some g'" and "apart (file_rows g)"
  then consider st where "st \<in> set schema_script" "s = (\<lambda>f. right (st f))" | col where "s = add_missing col" by auto
  then show "apart (file_rows g')"
  proof cases
    case 1
    then have "(\<exists>t cs key. st = create_table t cs key) \<or> (\<exists>i t cs. st = create_index i t cs)"
      unfolding schema_script_def by (simp, blast)
    with 1 s \<open>apart (file_rows g)\<close> show ?thesis
      by (auto simp: right_Some dest: create_table_keeps(1) create_index_keeps(1))
  next
    case (2 col)
    with s \<open>apart (file_rows g)\<close> show ?thesis by (cases col) (auto dest: add_missing_keeps(1))
  qed
qed (fact assms(2))

lemma create_index_indexed:
  assumes "create_index i ''runs'' cs f = Inr f'" and "list_all (\<lambda>(i, t, _). i \<in> {''runs_job_state'', ''runs_accepted''} \<longrightarrow> t = ''runs'') (indexes f)"
    and "i \<in> {''runs_job_state'', ''runs_accepted''}"
  shows "run_indexed i f'" and "list_all (\<lambda>(i, t, _). i \<in> {''runs_job_state'', ''runs_accepted''} \<longrightarrow> t = ''runs'') (indexes f')"
proof -
  have runs: "t = ''runs''" if "(i, t, cs) \<in> set (indexes f)" for t cs
    using assms(2,3) that by (auto simp: list_all_iff)
  show "run_indexed i f'"
  proof (cases "i \<in> fst ` set (indexes f)")
    case True
    then obtain t cs where "(i, t, cs) \<in> set (indexes f)" by auto
    with runs [OF this] have "run_indexed i f" unfolding run_indexed_def by blast
    with True assms(1) show ?thesis by (simp add: create_index_def)
  next
    case False
    with assms(1) show ?thesis by (auto simp: create_index_def run_indexed_def split: if_splits)
  qed
  show "list_all (\<lambda>(i, t, _). i \<in> {''runs_job_state'', ''runs_accepted''} \<longrightarrow> t = ''runs'') (indexes f')"
    using assms(1,2) by (auto simp: create_index_def split: if_splits)
qed

lemma with_columns_indexed:
  assumes "with_columns f = Some f2" and "known_file f" and "i \<in> {''runs_job_state'', ''runs_accepted''}"
  shows "run_indexed i f2"
proof -
  let ?P = "\<lambda>f. list_all (\<lambda>(i, t, _). i \<in> {''runs_job_state'', ''runs_accepted''} \<longrightarrow> t = ''runs'') (indexes f)"
  from assms(1) obtain fs where fs: "run_all (map (\<lambda>st f. right (st f)) schema_script) f = Some fs"
    "run_all (map add_missing migrated_columns) fs = Some f2"
    by (auto simp: with_columns_def run_all_append Option.bind_eq_Some_conv)
  from fs(1) obtain f1 f3 f4 f5 f6 f7 where steps:
    "create_table ''jobs'' jobs_columns [''id''] f = Inr f1"
    "create_table ''occurrences'' occurrences_columns [''job_id'', ''occurrence_key''] f1 = Inr f3"
    "create_table ''runs'' runs_columns [''id''] f3 = Inr f4"
    "create_index ''runs_job_state'' ''runs'' [''job_id'', ''state''] f4 = Inr f5"
    "create_index ''runs_accepted'' ''runs'' [''accepted_at''] f5 = Inr f6"
    "create_table ''events'' events_columns [''id''] f6 = Inr f7"
    "create_table ''metadata'' metadata_columns [''key''] f7 = Inr fs"
    unfolding schema_script_def list.map run_all_Cons right_Some run_all.simps(1) by blast
  have "?P f4" using assms(2) steps(1-3) [THEN create_table_keeps(2)] by (simp add: known_file_def)
  note one = create_index_indexed [OF steps(4) this]
  note two = create_index_indexed(1) [OF steps(5) one(2)]
  have "run_indexed i f6" using one(1) two create_index_keeps(2) [OF steps(5)] assms(3) by auto
  then have "run_indexed i fs" using steps(6,7) [THEN create_table_keeps(2)] by (simp add: run_indexed_def)
  then show ?thesis
    by (rule run_all_keeps [OF _ fs(2), where P = "run_indexed i", rotated])
       (auto simp: run_indexed_def dest!: add_missing_keeps(2))
qed

lemma rebuild_step_indexed:
  assumes "st \<in> set [occurrences_by_key, copy_occurrences, drop_occurrences, rename_by_key]"
    and "st g = Inr g'" and "run_indexed i g"
  shows "run_indexed i g'"
  using assms(3)
proof (rule run_indexed_mono)
  show "(k, ''runs'', cs) \<in> set (indexes g')" if "(k, ''runs'', cs) \<in> set (indexes g)" for k cs
    using that assms(1,2)
    by (auto simp: occurrences_by_key_def copy_occurrences_def drop_occurrences_def rename_by_key_def
        Let_def split: if_splits)
qed

lemma rebuilt_indexed:
  assumes "rebuilt f = Some f'" and "run_indexed i f"
  shows "run_indexed i f'"
proof (cases "keyed f")
  case True
  with assms show ?thesis by (simp add: rebuilt_def)
next
  case False
  let ?steps = "[occurrences_by_key, copy_occurrences, drop_occurrences, rename_by_key]"
  have run: "run_all (map (\<lambda>st f. right (st f)) ?steps) f = Some f'"
    using assms(1) False by (simp only: rebuilt_def if_False)
  show ?thesis
  proof (rule run_all_keeps [OF _ run, where P = "run_indexed i"])
    fix s g g'
    assume "s \<in> set (map (\<lambda>st f. right (st f)) ?steps)" "s g = Some g'" and g: "run_indexed i g"
    then obtain st where "st \<in> set ?steps" "st g = Inr g'" unfolding set_map by (auto simp only: right_Some)
    then show "run_indexed i g'" using g by (rule rebuild_step_indexed)
  qed (fact assms(2))
qed

lemma index_script_indexed:
  assumes "run_all (map (\<lambda>st f. right (st f)) index_script) f = Some f'" and "run_indexed i f"
  shows "run_indexed i f'"
proof (rule run_all_keeps [OF _ assms(1), where P = "run_indexed i"])
  fix s g g'
  assume s: "s \<in> set (map (\<lambda>st f. right (st f)) index_script)" "s g = Some g'" and g: "run_indexed i g"
  from s obtain k t cs where "create_index k t cs g = Inr g'" by (auto simp: index_script_def right_Some)
  then show "run_indexed i g'" using g by (rule create_index_keeps(2))
qed (fact assms(2))

lemma has_columns_mono: "has_columns t cs f \<Longrightarrow> set cs' \<subseteq> set cs \<Longrightarrow> has_columns t cs' f"
  by (auto simp: has_columns_def)

lemma current_columns:
  assumes "current_file f"
  shows "has_columns ''jobs'' (map fst jobs_columns) f" and "has_columns ''occurrences'' (map fst occurrences_columns) f"
    and "has_columns ''runs'' (map fst runs_columns) f" and "has_columns ''events'' (map fst events_columns) f"
    and "has_columns ''metadata'' (map fst metadata_columns) f"
proof -
  have "map col_name (tbl_cols (new_table cs key)) = map fst cs" for cs key
    by (simp add: new_table_def comp_def case_prod_beta)
  then show "has_columns ''jobs'' (map fst jobs_columns) f" "has_columns ''occurrences'' (map fst occurrences_columns) f"
    "has_columns ''runs'' (map fst runs_columns) f" "has_columns ''events'' (map fst events_columns) f"
    "has_columns ''metadata'' (map fst metadata_columns) f"
    using assms by (simp_all add: current_file_def current_schema_def)
qed

definition column_of :: "string \<Rightarrow> string list" where
  "column_of t =
     (if t = ''jobs'' then map fst jobs_columns else if t = ''occurrences'' then map fst occurrences_columns
      else if t = ''runs'' then map fst runs_columns else map fst events_columns)"

lemma migrated_columns_current:
  "list_all (\<lambda>(t, c, _). t \<in> {''jobs'', ''occurrences'', ''runs'', ''events''} \<and> c \<in> set (column_of t)) migrated_columns"
  by code_simp

lemma add_missing_same:
  assumes "current_file f" and "col \<in> set migrated_columns"
  shows "add_missing col f = Some f"
proof -
  obtain t c decl where col: "col = (t, c, decl)" by (cases col)
  have "t \<in> {''jobs'', ''occurrences'', ''runs'', ''events''}" and c: "c \<in> set (column_of t)"
    using migrated_columns_current assms(2) by (auto simp: list_all_iff col)
  then have "has_columns t (column_of t) f" using current_columns [OF assms(1)] by (auto simp: column_of_def)
  with c show ?thesis by (auto simp: add_missing_def col has_columns_def)
qed

lemma create_table_same: "has_columns t cs' f \<Longrightarrow> create_table t cs key f = Inr f"
  by (auto simp: create_table_def has_columns_def)

lemma create_index_same: "i \<in> fst ` set (indexes f) \<Longrightarrow> create_index i t cs f = Inr f"
  by (simp add: create_index_def)

lemma run_indexed_name: "run_indexed i f \<Longrightarrow> i \<in> fst ` set (indexes f)"
  by (force simp: run_indexed_def)

lemma current_keyed:
  assumes "current_file f"
  shows "keyed f"
proof -
  obtain tb where tb: "map_of (tables f) ''occurrences'' = Some tb" "tbl_key tb = [''job_id'', ''occurrence_key'']"
    using assms by (auto simp: current_file_def current_key_def split: option.splits)
  have "{''job_id'', ''occurrence_key'', ''scheduled_for''} \<subseteq> table_names tb"
    using current_columns(2) [OF assms] tb(1) by (auto simp: has_columns_names occurrences_columns_def)
  from keyed_current [OF tb(1) this] tb(2) show ?thesis by simp
qed

lemma migrated_again:
  assumes cur: "current_file f" and rows: "settled (file_rows f)"
    and "run_indexed ''runs_job_state'' f" and "run_indexed ''runs_accepted'' f"
    and names: "{''occurrences_job_scheduled'', ''occurrences_job_created_instant'', ''runs_job_accepted_instant''} \<subseteq> fst ` set (indexes f)"
  shows "migrated f = Some f"
proof -
  note cols = current_columns [OF cur] and idle = settled_typed [OF rows]
  note typed = cols(1) [THEN has_columns_mono, of "[''id'', ''definition'', ''config_revision'']"]
    and ran = cols(3) [THEN has_columns_mono, of "[''id'', ''accepted_at'', ''accepted_unix_nano'']"]
    and occ = cols(2) [THEN has_columns_mono, of "[''job_id'', ''occurrence_key'', ''scheduled_for'', ''created_at'', ''created_unix_nano'']"]
    and lanes = cols(3) [THEN has_columns_mono,
      of "[''id'', ''definition'', ''state'', ''task_verdict'', ''acceptance_lane'', ''acceptance_reason'', ''unread'']"]
    and keys = cols(2) [THEN has_columns_mono, of "[''occurrence_key'', ''scheduled_for'']"]
    and locks = cols(5) [THEN has_columns_mono, of "[''key'', ''value'']"]
  have schema: "run_all (map (\<lambda>st f. right (st f)) schema_script) f = Some f"
    using create_table_same [OF cols(1)] create_table_same [OF cols(2)] create_table_same [OF cols(3)]
      create_table_same [OF cols(4)] create_table_same [OF cols(5)]
      create_index_same [OF run_indexed_name [OF assms(3)]] create_index_same [OF run_indexed_name [OF assms(4)]]
    by (intro run_all_same) (simp add: schema_script_def)
  have columns: "run_all (map add_missing migrated_columns) f = Some f"
    using add_missing_same [OF cur] by (intro run_all_same) (simp add: list_all_iff)
  have 1: "typed_rows f = Some f"
    using typed ran occ by (simp add: typed_rows_def idle(1) jobs_columns_def runs_columns_def occurrences_columns_def)
  have 2: "classified_rows f = Some f"
    using lanes by (simp add: classified_rows_def idle(2) runs_columns_def)
  have 3: "occurrence_keys f = Inr f"
    using keys rows by (simp add: occurrence_keys_def idle(3) occurrences_columns_def settled_def)
  have 4: "rebuilt f = Some f" using current_keyed [OF cur] by (simp add: rebuilt_def)
  have 5: "run_all (map (\<lambda>st f. right (st f)) index_script) f = Some f"
    using names by (intro run_all_same) (simp add: index_script_def create_index_same)
  have 6: "insert_locks f = Inr f"
    using locks by (simp add: insert_locks_def change_rows_def idle(4) metadata_columns_def)
  show ?thesis
    unfolding migrated_def map_append run_all_append
    using schema columns 1 2 3 4 5 6 by simp
qed

text \<open>C17: Opening a migrated file again changes nothing: the migration of a file of any known version,
  whose runs and jobs have distinct ids, gives a file that migrating leaves exactly as it is.\<close>

theorem migration_idempotent:
  assumes "known_file f" and "apart (file_rows f)" and "migrated f = Some f'"
  shows "migrated f' = Some f'"
proof (rule migrated_again)
  show "current_file f'" by (rule migrated_tables [OF assms(1,3)])
  obtain f2 where f2: "with_columns f = Some f2" "migrate (file_rows f2) = (Inr (), file_rows f')"
    by (rule migrated_rows [OF assms(1,3)])
  show "settled (file_rows f')" by (rule migrate_settles [OF with_columns_apart [OF f2(1) assms(2)] f2(2)])
  obtain g2 f3 f4 f5 f6 f7 where st: "with_columns f = Some g2" "typed_rows g2 = Some f3" "classified_rows f3 = Some f4"
    "occurrence_keys f4 = Inr f5" "rebuilt f5 = Some f6"
    "run_all (map (\<lambda>st f. right (st f)) index_script) f6 = Some f7" "insert_locks f7 = Inr f'"
    by (rule migrated_stages [OF assms(3)])
  have i5: "indexes f5 = indexes g2" and i': "indexes f' = indexes f7"
    using typed_tables [OF st(2)] classified_tables [OF st(3)] keys_tables [OF st(4)] locks_tables [OF st(7)] by simp_all
  have indexed: "run_indexed i f'" if "i \<in> {''runs_job_state'', ''runs_accepted''}" for i
  proof -
    have "run_indexed i f5" using with_columns_indexed [OF st(1) assms(1) that] i5 by (simp add: run_indexed_def)
    then have "run_indexed i f6" by (rule rebuilt_indexed [OF st(5)])
    then have "run_indexed i f7" by (rule index_script_indexed [OF st(6)])
    with i' show ?thesis by (simp add: run_indexed_def)
  qed
  show "run_indexed ''runs_job_state'' f'" "run_indexed ''runs_accepted'' f'" by (rule indexed, simp)+
  show "{''occurrences_job_scheduled'', ''occurrences_job_created_instant'', ''runs_job_accepted_instant''} \<subseteq> fst ` set (indexes f')"
    using index_steps(3) [OF st(6)] i' by simp
qed

theorem migration_idempotent_witness: "\<exists>f'. migrated old_file = Some f' \<and> migrated f' = Some f'"
proof -
  obtain f' where f': "migrated old_file = Some f'" using old_file_migrates by blast
  have "apart (file_rows old_file)" by (simp add: apart_def run_keys_def old_file_def init_db_def)
  from migration_idempotent [OF old_file_known this f'] f' show ?thesis by blast
qed

end
