(* ===== verification/EngineTextProperties.thy ===== *)
theory EngineTextProperties
  imports EngineText
begin

text \<open>
  Properties of the names and receipts of \<open>EngineText\<close>: the shape of agent names and markers,
  the bound on stored details, and the agreement of the receipt a recovering scheduler reads
  with the outcome the monitoring one saw.
\<close>

section \<open>Names\<close>

definition name_char :: "char \<Rightarrow> bool" where
  "name_char c \<longleftrightarrow> agent_rune (of_char c)"

definition letter_char :: "char \<Rightarrow> bool" where
  "letter_char c \<longleftrightarrow> CHR ''a'' \<le> c \<and> c \<le> CHR ''z''"

lemma agent_rune_char: "agent_rune r \<Longrightarrow> name_char (char_of r)"
  by (auto simp: name_char_def agent_rune_def)

lemma set_TrimLeftSet: "set (TrimLeftSet s cs) \<subseteq> set s"
  by (auto simp: TrimLeftSet_def dest: set_dropWhileD)

lemma set_TrimSet: "set (TrimSet s cs) \<subseteq> set s"
  by (auto simp: TrimSet_def dest!: subsetD [OF set_TrimLeftSet])

lemma length_TrimLeftSet: "length (TrimLeftSet s cs) \<le> length s"
  by (simp add: TrimLeftSet_def length_dropWhile_le)

lemma agent_body: "list_all name_char (map char_of (filter agent_rune rs))"
  by (auto simp: list_all_iff agent_rune_char)

text \<open>The name an agent is started under is never empty, has at most 32 characters, begins with
  a small letter and consists of small letters, digits, hyphens and underscores only, whatever
  the run id is.\<close>

theorem agent_name_shape:
  "agentName runID \<noteq> [] \<and> length (agentName runID) \<le> 32 \<and> letter_char (hd (agentName runID))
   \<and> list_all name_char (agentName runID)"
proof -
  define out where "out = TrimSet (map char_of (filter agent_rune (map lower_rune (runes runID)))) ''-_''"
  define last30 where "last30 = (if 30 < length out then drop (length out - 30) out else out)"
  define trimmed where "trimmed = TrimLeftSet last30 ''-_''"
  have name: "agentName runID = (if out = [] then ''automation''
      else if \<not> letter_char (hd out) \<or> 32 < length out then (if trimmed = [] then ''automation'' else ''a-'' @ trimmed)
      else out)"
    by (simp add: agentName_def Let_def out_def last30_def trimmed_def letter_char_def)
  have out: "list_all name_char out"
    using agent_body [of "map lower_rune (runes runID)"] set_TrimSet unfolding out_def list_all_iff by blast
  have "set trimmed \<subseteq> set out"
    by (auto simp: trimmed_def last30_def dest!: subsetD [OF set_TrimLeftSet] dest: in_set_dropD split: if_splits)
  with out have trimmed: "list_all name_char trimmed" by (auto simp: list_all_iff)
  have "length trimmed \<le> length last30" by (simp add: trimmed_def length_TrimLeftSet)
  moreover have "length last30 \<le> 30" by (simp add: last30_def)
  ultimately have len: "length trimmed \<le> 30" by simp
  have automation: "list_all name_char ''automation''" "letter_char CHR ''a''" "list_all name_char ''a-''"
    by (simp_all add: name_char_def agent_rune_def letter_char_def)
  show ?thesis using out trimmed len automation by (auto simp: name)
qed

text \<open>The completion marker of a run consists of capital letters, digits and underscores only, so
  the shell command that prints it is the fixed text around it: nothing in it ends the quotation
  or is a directive of \<open>printf\<close>, and it holds no colon, which is what separates it from the
  exit status.\<close>

theorem completion_marker_shape:
  "list_all (\<lambda>c. (CHR ''A'' \<le> c \<and> c \<le> CHR ''Z'') \<or> is_digit c \<or> c = CHR ''_'') (completionMarker runID)
   \<and> prefix ''HERDR_BOTS_RUN_'' (completionMarker runID)"
proof -
  have "(CHR ''A'' \<le> marker_char r \<and> marker_char r \<le> CHR ''Z'') \<or> is_digit (marker_char r) \<or> marker_char r = CHR ''_''" for r
    by (auto simp: marker_char_def is_digit_def less_eq_char_def)
  then have "list_all (\<lambda>c. (CHR ''A'' \<le> c \<and> c \<le> CHR ''Z'') \<or> is_digit c \<or> c = CHR ''_'')
      (map (\<lambda>r. marker_char (upper_rune r)) rs)" for rs
    by (simp add: list_all_iff)
  then show ?thesis
    by (simp add: completionMarker_def is_digit_def less_eq_char_def)
qed

section \<open>Stored details\<close>

lemma dots_ascii: "ascii ''...''"
  by (simp add: ascii_def)

lemma runes_truncate: "length (runes (truncate_text s n)) \<le> n + 3"
proof (cases "length (runes s) \<le> n")
  case True
  then show ?thesis by (simp add: truncate_text_def)
next
  case False
  then show ?thesis
    using runes_ascii [OF dots_ascii, of "[]"] by (simp add: truncate_text_def Let_def runes_of_runes)
qed

lemma ascii_iff: "ascii s \<longleftrightarrow> (\<forall>c\<in>set s. of_char c < (128 :: nat))"
  by (simp add: ascii_def list_all_iff)

lemma ascii_subset: "set t \<subseteq> set s \<Longrightarrow> ascii s \<Longrightarrow> ascii t"
  by (auto simp: ascii_iff)

lemma of_runes_ascii: "\<forall>r\<in>set rs. r < 128 \<Longrightarrow> of_runes rs = map char_of rs"
proof (induction rs)
  case Nil
  then show ?case by (simp add: of_runes_def)
next
  case (Cons r rs)
  then have "valid_rune r" "utf8 r = [char_of r]" by (simp_all add: valid_rune_def utf8_def)
  with Cons show ?case by (simp add: of_runes_def)
qed

lemma runes_of_ascii: "ascii s \<Longrightarrow> runes s = map of_char s"
  using runes_ascii [of s "[]"] by simp

lemma truncate_ascii: "ascii s \<Longrightarrow> truncate_text s n = (if length s \<le> n then s else take n s @ ''...'')"
proof -
  assume s: "ascii s"
  then have "\<forall>r\<in>set (take n (map of_char s :: nat list)). r < 128"
    by (auto simp: ascii_iff take_map dest: in_set_takeD)
  then have "of_runes (take n (map of_char s)) = map char_of (take n (map of_char s :: nat list))"
    by (rule of_runes_ascii)
  also have "\<dots> = take n s" by (simp add: take_map comp_def)
  finally show ?thesis by (simp add: truncate_text_def Let_def runes_of_ascii [OF s])
qed

lemma ascii_truncate: "ascii s \<Longrightarrow> ascii (truncate_text s n)"
  by (auto simp: truncate_ascii ascii_iff dest: in_set_takeD)

lemma strip_runes_drop: "\<exists>k. strip_runes rs n s = drop k s"
proof (induction n arbitrary: s)
  case 0
  then show ?case by (metis drop0 strip_runes.simps(1))
next
  case (Suc n)
  show ?case
  proof (cases "find (\<lambda>r. prefix r s) rs")
    case None
    then show ?thesis by (auto intro: exI [of _ 0])
  next
    case (Some r)
    obtain k where "strip_runes rs n (drop (length r) s) = drop k (drop (length r) s)" using Suc.IH by blast
    with Some show ?thesis by (auto simp: drop_drop)
  qed
qed

lemma strip_runes_set: "set (strip_runes rs n s) \<subseteq> set s"
  using strip_runes_drop [of rs n s] by (auto dest: in_set_dropD)

lemma strip_runes_length: "length (strip_runes rs n s) \<le> length s"
  using strip_runes_drop [of rs n s] by auto

text \<open>Every space is one whole rune, so trimming removes runes and makes none.\<close>

definition space_codes :: "nat list" where
  "space_codes = [32, 9, 10, 11, 12, 13, 133, 160, 5760, 8192, 8193, 8194, 8195, 8196, 8197, 8198, 8199, 8200,
     8201, 8202, 8232, 8233, 8239, 8287, 12288]"

lemma space_runes_codes: "space_runes = map utf8 space_codes"
  by (simp add: space_runes_def space_codes_def utf8_def char_of_def bit_0)

lemma space_codes_valid: "list_all valid_rune space_codes" "list_all (\<lambda>r. boundary (utf8 r)) space_codes"
  by (simp_all add: space_codes_def valid_rune_def boundary_def utf8_def cont_def)

lemma space_rune:
  assumes "p \<in> set space_runes"
  obtains r where "valid_rune r" "p = utf8 r" "boundary p"
  using assms space_codes_valid that by (auto simp: space_runes_codes list_all_iff)

lemma strip_left_runes: "length (runes (strip_runes space_runes n s)) \<le> length (runes s)"
proof (induction n arbitrary: s)
  case (Suc n)
  show ?case
  proof (cases "find (\<lambda>r. prefix r s) space_runes")
    case (Some p)
    then have p: "p \<in> set space_runes" "prefix p s" by (auto simp: find_Some_iff)
    from p(2) obtain t where t: "s = p @ t" by (auto simp: prefix_def)
    obtain r where "valid_rune r" "p = utf8 r" using space_rune [OF p(1)] by blast
    then have "length (runes t) \<le> length (runes s)" by (simp add: t runes_utf8)
    with Some Suc.IH [of t] show ?thesis by (simp add: t)
  qed simp
qed simp

lemma strip_right_runes:
  "length (runes (rev (strip_runes (map rev space_runes) n u))) \<le> length (runes (rev u))"
proof (induction n arbitrary: u)
  case (Suc n)
  show ?case
  proof (cases "find (\<lambda>r. prefix r u) (map rev space_runes)")
    case (Some q)
    then have q: "q \<in> set (map rev space_runes)" "prefix q u" by (auto simp: find_Some_iff)
    then obtain p where p: "p \<in> set space_runes" "q = rev p" by auto
    from q(2) obtain t where t: "u = rev p @ t" by (auto simp: prefix_def p(2))
    have "boundary p" using space_rune [OF p(1)] by blast
    then have "length (runes (rev t)) \<le> length (runes (rev u))" by (simp add: t runes_append)
    with Some Suc.IH [of t] show ?thesis by (simp add: t p(2))
  qed simp
qed simp

lemma TrimSpace_runes: "length (runes (TrimSpace s)) \<le> length (runes s)"
  unfolding TrimSpace_def TrimRightSpace_def TrimLeftSpace_def
  by (rule order_trans [OF strip_right_runes]) (simp only: rev_rev_ident strip_left_runes)

section \<open>The verifier receipt\<close>

lemma show_nat_length: "n < 1000 \<Longrightarrow> length (show_nat n) \<le> 3"
  by (simp add: show_nat.simps [of n] show_nat.simps [of "n div 10"] show_nat.simps [of "n div 10 div 10"])

lemma verifier_detail_runes: "length (runes (verifier_detail contents)) \<le> 3990"
proof -
  let ?d = "truncate_text (TrimSpace (take (maxVerifierOutputBytes + 1) contents)) 3950"
  have d: "length (runes ?d) \<le> 3953" using runes_truncate [of _ 3950] by simp
  have "boundary (CHR 0x0A # t)" for t by (simp add: boundary_def cont_def)
  then have "length (runes (?d @ CHR 0x0A # ''[verifier output truncated at 1 MiB]'')) \<le> 3990"
    using d runes_length [of "CHR 0x0A # ''[verifier output truncated at 1 MiB]''"]
    by (simp only: runes_append length_append) simp
  moreover from d have "length (runes ?d) \<le> 3990" by linarith
  ultimately show ?thesis
    unfolding verifier_detail_def Let_def by (simp only: append_Cons append_Nil simp_thms split: if_split)
qed

lemma decode_receipt:
  assumes "ascii (vr_Claim r)" and "0 \<le> vr_Version r" "vr_Version r < 1000"
    and "0 \<le> vr_ExitCode r" and "vr_ExitCode r < 1000"
  shows "Unmarshal dec_verifier_receipt (receipt_payload r) zero_receipt
    = Some (r\<lparr>vr_Output := coerce_utf8 (vr_Output r)\<rparr>)"
proof -
  let ?ms = "[(''version'', JNum (show_nat (nat (vr_Version r))), show_nat (nat (vr_Version r))),
      (''claim'', JStr (vr_Claim r), json_quote (vr_Claim r)),
      (''exit_code'', JNum (show_nat (nat (vr_ExitCode r))), show_nat (nat (vr_ExitCode r))),
      (''output'', JStr (coerce_utf8 (vr_Output r)), json_quote (vr_Output r))]"
  have "reads (JObj (map (\<lambda>(k, v, s). (k, v)) ?ms)) (json_object (map (\<lambda>(k, v, s). (k, s)) ?ms))"
    using assms(1) by (intro reads_object) (auto simp: reads_nat reads_quote reads_text ascii_def)
  from parse_json_reads(2) [OF this]
  have "parse_json (receipt_payload r) = Some (JObj (map (\<lambda>(k, v, s). (k, v)) ?ms))"
    by (simp add: receipt_payload_def)
  then show ?thesis
    using assms(2-)
    by (simp add: Unmarshal_def dec_verifier_receipt_def dec_struct_def find_field_def fld_def dec_int_def
        dec_string_def zero_receipt_def parse_int_show_nat)
qed


text \<open>An output with a byte that is not UTF-8.\<close>

definition broken_output :: string where
  "broken_output = ''2 tests failed '' @ [CHR 0xFF]"


end
