(* ===== verification/EngineProcess.thy ===== *)
theory EngineProcess
  imports GoText GoTime "HOL-Library.State_Monad"
begin

text \<open>
  How \<open>internal/engine\<close> ends the process group of a verifier: the process table printed by
  \<open>ps\<close>, its parsing and counting, the one signal, and the wait for the group to vanish. The
  kernel is a state \<open>'w\<close> that every observation, signal, clock reading and sleep may change.
\<close>

section \<open>The process table\<close>

definition maxProcessTableBytes :: nat where "maxProcessTableBytes = 4194304"
definition verifierGroupKillLimit :: duration where "verifierGroupKillLimit = 2 * second_ns"

record process_row =
  pid :: int
  pgid :: int
  uid :: int

datatype table_err =
    PsTooLong | PsFailed string | PsEmpty
  | RowColumns string | RowColumn string string

text \<open>One row: exactly three integers, of which only the user id may be negative.\<close>

definition parse_column :: "string \<Rightarrow> bool \<Rightarrow> string \<Rightarrow> table_err + int" where
  "parse_column line signed field =
     (case Atoi field of
        None \<Rightarrow> Inl (RowColumn line field)
      | Some v \<Rightarrow> if v < 0 \<and> \<not> signed then Inl (RowColumn line field) else Inr v)"

definition parse_row :: "string \<Rightarrow> table_err + process_row" where
  "parse_row line =
     (case Fields line of
        [a, b, c] \<Rightarrow>
          (case parse_column line False a of Inl e \<Rightarrow> Inl e | Inr x \<Rightarrow>
          (case parse_column line False b of Inl e \<Rightarrow> Inl e | Inr y \<Rightarrow>
          (case parse_column line True c of Inl e \<Rightarrow> Inl e | Inr z \<Rightarrow> Inr \<lparr> pid = x, pgid = y, uid = z \<rparr>)))
      | _ \<Rightarrow> Inl (RowColumns line))"

fun parse_rows :: "string list \<Rightarrow> table_err + process_row list" where
  "parse_rows [] = Inr []"
| "parse_rows (line # rest) =
     (if TrimSpace line = [] then parse_rows rest
      else case parse_row line of
             Inl e \<Rightarrow> Inl e
           | Inr row \<Rightarrow> map_sum id (Cons row) (parse_rows rest))"

definition parseProcessTable :: "string \<Rightarrow> table_err + process_row list" where
  "parseProcessTable output = parse_rows (Split CHR 0x0A output)"

text \<open>What one run of \<open>ps\<close> gave: its output and the message of a read or exit error.\<close>

record ps_run =
  ps_output :: string
  ps_error :: "string option"

definition readProcessTable :: "ps_run \<Rightarrow> table_err + process_row list" where
  "readProcessTable ps =
     (if maxProcessTableBytes < length (ps_output ps) then Inl PsTooLong
      else case ps_error ps of
             Some m \<Rightarrow> Inl (PsFailed m)
           | None \<Rightarrow>
               (case parseProcessTable (ps_output ps) of
                  Inl e \<Rightarrow> Inl e
                | Inr rows \<Rightarrow> if rows = [] then Inl PsEmpty else Inr rows))"

definition countProcessGroupMembers :: "int \<Rightarrow> int \<Rightarrow> ps_run \<Rightarrow> table_err + nat" where
  "countProcessGroupMembers pg euid ps =
     map_sum id (\<lambda>rows. length (filter (\<lambda>row. pgid row = pg \<and> uid row = euid) rows)) (readProcessTable ps)"

section \<open>Signalling\<close>

datatype kill_result = Killed | EPERM | ESRCH | KillError string

record 'w kernel =
  observe :: "int \<Rightarrow> ('w, table_err + nat) state"
  signal_group :: "int \<Rightarrow> ('w, kill_result) state"
  wall_time :: "('w, time) state"
  sleep_poll :: "('w, unit) state"

datatype kill_err =
    RefusedGroup int | ObserveFailed table_err | SignalFailed string
  | SignalMissed kill_result nat | ObserveAfterFailed kill_result table_err | StillThere nat

definition killVerifierProcessGroupOnce :: "'w kernel \<Rightarrow> int \<Rightarrow> ('w, kill_err + bool) state" where
  "killVerifierProcessGroupOnce K pg =
     (if pg \<le> 1 then State_Monad.return (Inl (RefusedGroup pg))
      else do {
        first \<leftarrow> observe K pg;
        (case first of
           Inl e \<Rightarrow> State_Monad.return (Inl (ObserveFailed e))
         | Inr members \<Rightarrow>
             if members = 0 then State_Monad.return (Inr True)
             else do {
               killed \<leftarrow> signal_group K pg;
               (case killed of
                  Killed \<Rightarrow> State_Monad.return (Inr False)
                | KillError m \<Rightarrow> State_Monad.return (Inl (SignalFailed m))
                | missed \<Rightarrow> do {
                    second \<leftarrow> observe K pg;
                    State_Monad.return
                      (case second of
                         Inl e \<Rightarrow> Inl (ObserveAfterFailed missed e)
                       | Inr remaining \<Rightarrow>
                           if remaining \<noteq> 0 then Inl (SignalMissed missed remaining) else Inr True) })
             }) })"

text \<open>\<open>waitVerifierProcessGroupGone\<close>: \<open>None\<close> is the loop that never ends.\<close>

partial_function (option) poll_gone ::
  "'w kernel \<Rightarrow> int \<Rightarrow> time \<Rightarrow> 'w \<Rightarrow> (kill_err option \<times> 'w) option"
where
  "poll_gone K pg deadline w =
     (case run_state (observe K pg) w of (seen, w1) \<Rightarrow>
        (case seen of
           Inl e \<Rightarrow> Some (Some (ObserveFailed e), w1)
         | Inr members \<Rightarrow>
             if members = 0 then Some (None, w1)
             else (case run_state (wall_time K) w1 of (t, w2) \<Rightarrow>
                     if \<not> t < deadline then Some (Some (StillThere members), w2)
                     else (case run_state (sleep_poll K) w2 of (_, w3) \<Rightarrow> poll_gone K pg deadline w3))))"

definition waitVerifierProcessGroupGone :: "'w kernel \<Rightarrow> int \<Rightarrow> 'w \<Rightarrow> (kill_err option \<times> 'w) option" where
  "waitVerifierProcessGroupGone K pg w =
     (case run_state (wall_time K) w of (t, w1) \<Rightarrow> poll_gone K pg (t + verifierGroupKillLimit) w1)"

definition terminateVerifierProcessGroup :: "'w kernel \<Rightarrow> int \<Rightarrow> 'w \<Rightarrow> (kill_err option \<times> 'w) option" where
  "terminateVerifierProcessGroup K pg w =
     (case run_state (killVerifierProcessGroupOnce K pg) w of (res, w1) \<Rightarrow>
        (case res of
           Inl e \<Rightarrow> Some (Some e, w1)
         | Inr gone \<Rightarrow> if gone then Some (None, w1) else waitVerifierProcessGroupGone K pg w1))"

text \<open>Exit status of the supervised command: the \<open>waitpid\<close> result as the program reads it.\<close>

datatype wait_result = WaitOk | WaitNoExit string | WaitExit int | WaitSignaled int

definition verifierExitCode :: "wait_result \<Rightarrow> string + int" where
  "verifierExitCode res =
     (case res of
        WaitOk \<Rightarrow> Inr 0
      | WaitNoExit m \<Rightarrow> Inl m
      | WaitExit code \<Rightarrow> if 0 \<le> code \<and> code \<le> 255 then Inr code else Inl ''exit status''
      | WaitSignaled sig \<Rightarrow> Inr (128 + sig))"

section \<open>What an accepted table says\<close>

lemma parse_rows_sound:
  "parse_rows lines = Inr rows \<Longrightarrow> map parse_row (filter (\<lambda>l. TrimSpace l \<noteq> []) lines) = map Inr rows"
proof (induction lines arbitrary: rows)
  case Nil
  then show ?case by simp
next
  case (Cons l lines)
  then show ?case by (cases "parse_rows lines") (auto split: if_splits sum.splits)
qed

lemma parse_row_sound:
  assumes "parse_row line = Inr row"
  shows "\<exists>a b c. Fields line = [a, b, c] \<and> Atoi a = Some (pid row) \<and> Atoi b = Some (pgid row)
      \<and> Atoi c = Some (uid row) \<and> 0 \<le> pid row \<and> 0 \<le> pgid row"
  using assms
  by (auto simp: parse_row_def parse_column_def split: list.splits option.splits if_splits sum.splits)

text \<open>C30: The scheduler concludes that a process group has no owned member only from a table it
  understood in full: \<open>ps\<close> succeeded within its bound, the table has at least one row, and every
  line that is not blank consists of exactly three integers, none of them a process of this
  user in the group.\<close>

theorem absence_is_proven:
  assumes "countProcessGroupMembers pg euid ps = Inr 0"
  shows "ps_error ps = None \<and> length (ps_output ps) \<le> maxProcessTableBytes
    \<and> (\<exists>line\<in>set (Split CHR 0x0A (ps_output ps)). TrimSpace line \<noteq> [])
    \<and> (\<forall>line\<in>set (Split CHR 0x0A (ps_output ps)). TrimSpace line = []
         \<or> (\<exists>a b c g u. Fields line = [a, b, c] \<and> Atoi a \<noteq> None \<and> Atoi b = Some g \<and> Atoi c = Some u
              \<and> \<not> (g = pg \<and> u = euid)))"
proof -
  let ?lines = "Split CHR 0x0A (ps_output ps)"
  let ?mine = "\<lambda>row. pgid row = pg \<and> uid row = euid"
  obtain rows where read: "readProcessTable ps = Inr rows" and none: "filter ?mine rows = []"
    using assms by (cases "readProcessTable ps") (auto simp: countProcessGroupMembers_def)
  then have ps: "ps_error ps = None" "length (ps_output ps) \<le> maxProcessTableBytes"
    and parsed: "parse_rows ?lines = Inr rows" and rows: "rows \<noteq> []"
    by (auto simp: readProcessTable_def parseProcessTable_def split: if_splits option.splits sum.splits)
  note sound = parse_rows_sound [OF parsed]
  have "filter (\<lambda>l. TrimSpace l \<noteq> []) ?lines \<noteq> []"
    using sound rows by (metis map_is_Nil_conv)
  then have "\<exists>line\<in>set ?lines. TrimSpace line \<noteq> []" by (auto simp: filter_empty_conv)
  moreover have "\<exists>a b c g u. Fields line = [a, b, c] \<and> Atoi a \<noteq> None \<and> Atoi b = Some g \<and> Atoi c = Some u
      \<and> \<not> (g = pg \<and> u = euid)" if "line \<in> set ?lines" "TrimSpace line \<noteq> []" for line
  proof -
    from that have "parse_row line \<in> set (map parse_row (filter (\<lambda>l. TrimSpace l \<noteq> []) ?lines))" by simp
    with sound obtain row where row: "row \<in> set rows" "parse_row line = Inr row" by auto
    moreover from row(1) none have "\<not> ?mine row" by (auto simp: filter_empty_conv)
    ultimately show ?thesis using parse_row_sound [OF row(2)] by fastforce
  qed
  ultimately show ?thesis using ps by blast
qed

definition demo_table :: string where
  "demo_table = ''    1     1     0'' @ [CHR 0x0A] @ ''  412   400   501'' @ [CHR 0x0A] @ ''  413   413    -2'' @ [CHR 0x0A]"

theorem absence_is_proven_witness:
  "countProcessGroupMembers 413 501 \<lparr> ps_output = demo_table, ps_error = None \<rparr> = Inr 0
   \<and> countProcessGroupMembers 400 501 \<lparr> ps_output = demo_table, ps_error = None \<rparr> = Inr 1
   \<and> (\<exists>line\<in>set (Split CHR 0x0A demo_table). TrimSpace line \<noteq> [])"
proof -
  have parsed: "parseProcessTable demo_table = Inr
      [\<lparr> pid = 1, pgid = 1, uid = 0 \<rparr>, \<lparr> pid = 412, pgid = 400, uid = 501 \<rparr>, \<lparr> pid = 413, pgid = 413, uid = - 2 \<rparr>]"
    by code_simp
  have len: "length demo_table \<le> maxProcessTableBytes" by (simp add: demo_table_def maxProcessTableBytes_def)
  have c: "countProcessGroupMembers 413 501 \<lparr> ps_output = demo_table, ps_error = None \<rparr> = Inr 0"
    "countProcessGroupMembers 400 501 \<lparr> ps_output = demo_table, ps_error = None \<rparr> = Inr 1"
    using parsed len by (simp_all add: countProcessGroupMembers_def readProcessTable_def)
  with absence_is_proven [OF c(1)] show ?thesis by simp
qed

section \<open>What the scheduler does to a group\<close>

text \<open>A call with the process group it is about, and the start of the process that leads one.\<close>

datatype kernel_call =
    Started int | Observed int "table_err + nat" | Signalled int kill_result | ClockRead | Slept

definition traced_call :: "('a \<Rightarrow> kernel_call) \<Rightarrow> ('w, 'a) state \<Rightarrow> ('w \<times> kernel_call list, 'a) state" where
  "traced_call f m = State (\<lambda>(w, tr). case run_state m w of (r, w') \<Rightarrow> (r, (w', tr @ [f r])))"

text \<open>The same kernel with a record of the calls made to it.\<close>

definition traced :: "'w kernel \<Rightarrow> ('w \<times> kernel_call list) kernel" where
  "traced K =
     \<lparr> observe = (\<lambda>pg. traced_call (Observed pg) (observe K pg)),
       signal_group = (\<lambda>pg. traced_call (Signalled pg) (signal_group K pg)),
       wall_time = traced_call (\<lambda>_. ClockRead) (wall_time K),
       sleep_poll = traced_call (\<lambda>_. Slept) (sleep_poll K) \<rparr>"

lemma traced_simps [simp]:
  "run_state (observe (traced K) pg) (w, tr)
     = (case run_state (observe K pg) w of (r, w') \<Rightarrow> (r, (w', tr @ [Observed pg r])))"
  "run_state (signal_group (traced K) pg) (w, tr)
     = (case run_state (signal_group K pg) w of (k, w') \<Rightarrow> (k, (w', tr @ [Signalled pg k])))"
  "run_state (wall_time (traced K)) (w, tr)
     = (case run_state (wall_time K) w of (t, w') \<Rightarrow> (t, (w', tr @ [ClockRead])))"
  "run_state (sleep_poll (traced K)) (w, tr)
     = (case run_state (sleep_poll K) w of (u, w') \<Rightarrow> (u, (w', tr @ [Slept])))"
  by (simp_all add: traced_def traced_call_def)

definition is_signal :: "kernel_call \<Rightarrow> bool" where
  "is_signal c \<longleftrightarrow> (case c of Signalled _ _ \<Rightarrow> True | _ \<Rightarrow> False)"

lemma is_signal_simps [simp]:
  "\<not> is_signal (Started pg)" "\<not> is_signal (Observed pg r)" "is_signal (Signalled pg k)"
  "\<not> is_signal ClockRead" "\<not> is_signal Slept"
  by (simp_all add: is_signal_def)

text \<open>A call about this group, or about none.\<close>

fun concerns :: "int \<Rightarrow> kernel_call \<Rightarrow> bool" where
  "concerns pg (Started q) = False"
| "concerns pg (Observed q r) = (q = pg)"
| "concerns pg (Signalled q k) = (q = pg)"
| "concerns pg ClockRead = True"
| "concerns pg Slept = True"

text \<open>
  Calls about one group: it is not signalled, or once, right after owned members were observed; and
  it is gone when the last thing seen of it is that it has no owned member.
\<close>

definition signalled_once :: "int \<Rightarrow> kernel_call list \<Rightarrow> bool" where
  "signalled_once pg calls \<longleftrightarrow> list_all (concerns pg) calls
     \<and> (filter is_signal calls = []
        \<or> (\<exists>m k rest. 0 < m \<and> calls = [Observed pg (Inr m), Signalled pg k] @ rest \<and> filter is_signal rest = []))"

definition seen_gone :: "int \<Rightarrow> kernel_call list \<Rightarrow> bool" where
  "seen_gone pg calls \<longleftrightarrow> calls \<noteq> [] \<and> last calls = Observed pg (Inr 0)"

lemma signalled_once_more:
  "signalled_once pg calls \<Longrightarrow> filter is_signal rest = [] \<Longrightarrow> list_all (concerns pg) rest \<Longrightarrow> signalled_once pg (calls @ rest)"
  by (auto simp: signalled_once_def)

lemma seen_gone_append: "seen_gone pg rest \<Longrightarrow> seen_gone pg (calls @ rest)"
  by (auto simp: seen_gone_def)

lemma seen_gone_Cons: "seen_gone pg rest \<Longrightarrow> seen_gone pg (c # rest)"
  by (auto simp: seen_gone_def)

lemma poll_gone_log:
  assumes "poll_gone TK pg deadline wl = Some out" and "TK = traced K"
  shows "\<exists>calls. snd (snd out) = snd wl @ calls \<and> filter is_signal calls = [] \<and> list_all (concerns pg) calls
    \<and> (fst out = None \<longrightarrow> seen_gone pg calls)"
  using assms
proof (induction TK pg deadline wl out rule: poll_gone.raw_induct [rotated, consumes 1])
  case (1 pg_gone TK pg deadline wl out)
  obtain w tr where wl: "wl = (w, tr)" by (cases wl)
  obtain seen w1 where o: "run_state (observe K pg) w = (seen, w1)" by fastforce
  show ?case
  proof (cases seen)
    case (Inl e)
    with 1(2,3) wl o show ?thesis by (auto intro!: exI [of _ "[Observed pg (Inl e)]"])
  next
    case (Inr n)
    show ?thesis
    proof (cases "n = 0")
      case True
      with 1(2,3) wl o Inr show ?thesis by (auto simp: seen_gone_def intro!: exI [of _ "[Observed pg (Inr 0)]"])
    next
      case False
      obtain t w2 where t: "run_state (wall_time K) w1 = (t, w2)" by fastforce
      show ?thesis
      proof (cases "t < deadline")
        case stop: False
        with 1(2,3) wl o Inr False t show ?thesis by (auto intro!: exI [of _ "[Observed pg (Inr n), ClockRead]"])
      next
        case True
        obtain w3 where u: "run_state (sleep_poll K) w2 = ((), w3)" by (cases "run_state (sleep_poll K) w2") simp
        have "pg_gone TK pg deadline (w3, tr @ [Observed pg (Inr n), ClockRead, Slept]) = Some out"
          using 1(2,3) wl o Inr False t True u by simp
        from 1(1) [OF this 1(3)] obtain calls where calls:
          "snd (snd out) = tr @ [Observed pg (Inr n), ClockRead, Slept] @ calls" "filter is_signal calls = []"
          "list_all (concerns pg) calls" "fst out = None \<longrightarrow> seen_gone pg calls" by auto
        show ?thesis
          by (rule exI [of _ "[Observed pg (Inr n), ClockRead, Slept] @ calls"])
             (use calls wl in \<open>auto intro: seen_gone_Cons\<close>)
      qed
    qed
  qed
qed

lemma kill_log:
  assumes "run_state (killVerifierProcessGroupOnce (traced K) pg) (w, tr) = (res, (w', tr'))"
  shows "\<exists>calls. tr' = tr @ calls \<and> signalled_once pg calls \<and> (res = Inr True \<longrightarrow> seen_gone pg calls)"
proof -
  obtain seen w1 where o: "run_state (observe K pg) w = (seen, w1)" by fastforce
  obtain k w2 where k: "run_state (signal_group K pg) w1 = (k, w2)" by fastforce
  obtain seen' w3 where o2: "run_state (observe K pg) w2 = (seen', w3)" by fastforce
  from assms o k o2 show ?thesis
    by (cases k) (auto simp: killVerifierProcessGroupOnce_def signalled_once_def seen_gone_def split: sum.splits if_splits)
qed

lemma wait_log:
  assumes "waitVerifierProcessGroupGone (traced K) pg (w, tr) = Some (res, (w', tr'))"
  shows "\<exists>calls. tr' = tr @ calls \<and> filter is_signal calls = [] \<and> list_all (concerns pg) calls
    \<and> (res = None \<longrightarrow> seen_gone pg calls)"
proof -
  obtain t w1 where t: "run_state (wall_time K) w = (t, w1)" by fastforce
  with assms have "poll_gone (traced K) pg (t + verifierGroupKillLimit) (w1, tr @ [ClockRead]) = Some (res, (w', tr'))"
    by (simp add: waitVerifierProcessGroupGone_def)
  from poll_gone_log [OF this HOL.refl] obtain calls where "tr' = (tr @ [ClockRead]) @ calls" "filter is_signal calls = []"
    "list_all (concerns pg) calls" "res = None \<longrightarrow> seen_gone pg calls" by auto
  then show ?thesis by (intro exI [of _ "ClockRead # calls"]) (auto intro: seen_gone_Cons)
qed

text \<open>
  Ending a group signals at most once, and only a group that was just observed to have a member of
  this user; it succeeds only after reading a table without one; and no other group is looked at or
  signalled.
\<close>

lemma terminate_log:
  assumes "terminateVerifierProcessGroup (traced K) pg (w, tr) = Some (res, (w', tr'))"
  shows "\<exists>calls. tr' = tr @ calls \<and> signalled_once pg calls \<and> (res = None \<longrightarrow> seen_gone pg calls)"
proof -
  obtain k w1 tr1 where k: "run_state (killVerifierProcessGroupOnce (traced K) pg) (w, tr) = (k, (w1, tr1))"
    by (metis prod.exhaust)
  from kill_log [OF k] obtain calls where log: "tr1 = tr @ calls" "signalled_once pg calls" "k = Inr True \<Longrightarrow> seen_gone pg calls"
    by auto
  from assms k consider "tr' = tr1" "res = None \<longrightarrow> k = Inr True"
    | "waitVerifierProcessGroupGone (traced K) pg (w1, tr1) = Some (res, (w', tr'))"
    by (auto simp: terminateVerifierProcessGroup_def split: sum.splits if_splits)
  then show ?thesis
  proof cases
    case 1
    with log show ?thesis by blast
  next
    case 2
    from wait_log [OF this] obtain rest where "tr' = tr1 @ rest" "filter is_signal rest = []" "list_all (concerns pg) rest"
      "res = None \<longrightarrow> seen_gone pg rest" by blast
    with log show ?thesis
      by (intro exI [of _ "calls @ rest"]) (auto intro: signalled_once_more seen_gone_append)
  qed
qed

text \<open>A kernel with one group of one process, which a signal empties after one more look.\<close>

definition demo_kernel :: "(nat \<times> time) kernel" where
  "demo_kernel =
     \<lparr> observe = (\<lambda>_. State (\<lambda>(n, t). (Inr (if n = 0 then 1 else if n = 1 then 1 else 0), (if n = 0 then 0 else n + 1, t)))),
       signal_group = (\<lambda>_. State (\<lambda>(n, t). (Killed, (1, t)))),
       wall_time = State (\<lambda>(n, t). (t, (n, t))),
       sleep_poll = State (\<lambda>(n, t). ((), (n, t + 2000000))) \<rparr>"

lemma demo_terminate:
  "terminateVerifierProcessGroup (traced demo_kernel) 7 ((0, 0), [])
   = Some (None, ((3, 2000000), [Observed 7 (Inr 1), Signalled 7 Killed, ClockRead, Observed 7 (Inr 1), ClockRead, Slept,
       Observed 7 (Inr 0)]))"
  by (simp add: terminateVerifierProcessGroup_def killVerifierProcessGroupOnce_def demo_kernel_def
      waitVerifierProcessGroupGone_def poll_gone.simps [of "traced _"] verifierGroupKillLimit_def second_ns_def)

section \<open>The wait ends\<close>

text \<open>The clock reading at the top of the next round of the loop.\<close>

definition next_reading :: "'w kernel \<Rightarrow> int \<Rightarrow> 'w \<Rightarrow> time" where
  "next_reading K pg w =
     fst (run_state (wall_time K) (snd (run_state (observe K pg) (snd (run_state (sleep_poll K)
       (snd (run_state (wall_time K) w)))))))"

lemma poll_gone_ends:
  assumes "\<And>w. fst (run_state (wall_time K) w) < next_reading K pg w"
  shows "\<exists>out. poll_gone K pg deadline w = Some out"
proof (induction "nat (deadline - fst (run_state (wall_time K) (snd (run_state (observe K pg) w))))"
    arbitrary: w rule: less_induct)
  case less
  obtain seen w1 where o: "run_state (observe K pg) w = (seen, w1)" by fastforce
  obtain t w2 where t: "run_state (wall_time K) w1 = (t, w2)" by fastforce
  obtain w3 where u: "run_state (sleep_poll K) w2 = ((), w3)" by (cases "run_state (sleep_poll K) w2") simp
  have "\<exists>out. poll_gone K pg deadline w3 = Some out" if "t < deadline"
  proof (rule less)
    have "fst (run_state (wall_time K) (snd (run_state (observe K pg) w3))) = next_reading K pg w1"
      by (simp add: next_reading_def t u)
    moreover have "t < next_reading K pg w1" using assms [of w1] t by simp
    ultimately show "nat (deadline - fst (run_state (wall_time K) (snd (run_state (observe K pg) w3))))
        < nat (deadline - fst (run_state (wall_time K) (snd (run_state (observe K pg) w))))"
      using that by (simp add: o t)
  qed
  then show ?case
    by (subst poll_gone.simps) (auto simp: o t u split: sum.splits)
qed

text \<open>C31: Ending a verifier's process group always returns, with a verdict or an error, as long as
  the clock moves between two rounds of the polling loop.\<close>

theorem terminate_returns:
  assumes "\<And>w. fst (run_state (wall_time K) w) < next_reading K pg w"
  shows "\<exists>res w'. terminateVerifierProcessGroup K pg w = Some (res, w')"
proof -
  obtain res w1 where k: "run_state (killVerifierProcessGroupOnce K pg) w = (res, w1)" by fastforce
  obtain t w2 where t: "run_state (wall_time K) w1 = (t, w2)" by fastforce
  from poll_gone_ends [OF assms] obtain out where "poll_gone K pg (t + verifierGroupKillLimit) w2 = Some out" by blast
  then show ?thesis
    by (cases out; cases res)
       (auto simp: terminateVerifierProcessGroup_def waitVerifierProcessGroupGone_def k t)
qed

theorem terminate_returns_witness:
  "\<exists>res w'. terminateVerifierProcessGroup demo_kernel 7 (0, 0) = Some (res, w')"
  by (rule terminate_returns) (simp add: next_reading_def demo_kernel_def split: prod.split)

end
