(* ===== verification/Adapter.thy ===== *)
theory Adapter
  imports Config GoText JsonEncode "HOL-Library.State_Monad"
begin

text \<open>
  \<open>internal/adapter/adapter.go\<close>: the launch a job gets from its harness and permission
  profile, the readiness probe, and the attestation that a finished Claude invocation used the
  configured model. The programs the probe runs are a \<open>runner\<close> over a state \<open>'w\<close>.
\<close>

section \<open>Launches\<close>

definition ModeAgent :: string where "ModeAgent = ''agent''"
definition ModeCommand :: string where "ModeCommand = ''command''"

record launch =
  launch_mode :: string
  launch_kind :: string
  launch_args :: "string list"

datatype launch_err = UnsupportedProfile string | UnsupportedHarness string

definition pi_tools :: "string \<Rightarrow> string option" where
  "pi_tools profile =
     (if profile = PermissionReadOnly then Some ''read,grep,find,ls''
      else if profile = PermissionRepoWrite then Some ''read,grep,find,ls,edit,write''
      else None)"

definition claude_tools :: "string \<Rightarrow> string list option" where
  "claude_tools profile =
     (if profile = PermissionReadOnly then Some [''--permission-mode'', ''plan'', ''--tools'', ''Read,Glob,Grep'']
      else if profile = PermissionRepoWrite
      then Some [''--permission-mode'', ''acceptEdits'', ''--tools'', ''Read,Glob,Grep,Edit,Write'']
      else None)"

definition LaunchFor :: "job \<Rightarrow> launch_err + launch" where
  "LaunchFor j =
     (let e = Execution j; profile = PermissionProfile e
      in if Harness e = HarnessPi then
           (let args = [''--provider'', Provider e, ''--no-approve'', ''--no-extensions'', ''--no-skills'',
                        ''--no-prompt-templates'', ''--no-context-files'']
                  @ (if Model e \<noteq> ''harness-default'' then [''--model'', Model e] else [])
                  @ [''--thinking'', Thinking e]
            in case pi_tools profile of
                 None \<Rightarrow> Inl (UnsupportedProfile profile)
               | Some tools \<Rightarrow>
                   Inr \<lparr> launch_mode = ModeCommand, launch_kind = ''pi'', launch_args = args @ [''--tools'', tools] \<rparr>)
         else if Harness e = HarnessClaudeCode then
           (let args = (if Model e \<noteq> ''harness-default'' then [''--model'', Model e] else [])
                  @ [''--effort'', Thinking e, ''--safe-mode'', ''--restricted'', ''--no-chrome'',
                     ''--no-session-persistence'', ''--strict-mcp-config'']
                  @ (if RequiresModelAttestation e then [''--output-format'', ''json''] else [])
            in case claude_tools profile of
                 None \<Rightarrow> Inl (UnsupportedProfile profile)
               | Some tools \<Rightarrow>
                   Inr \<lparr> launch_mode = ModeCommand, launch_kind = ''claude'', launch_args = args @ tools \<rparr>)
         else Inl (UnsupportedHarness (Harness e)))"

section \<open>The readiness probe\<close>

text \<open>\<open>Run\<close> gives the standard output or the text of its error.\<close>

record 'w runner =
  LookPath :: "string \<Rightarrow> ('w, bool) state"
  Run :: "string \<Rightarrow> string list \<Rightarrow> ('w, string + string) state"

datatype probe_err =
    NotOnPath string | RunFailed string | ProviderNotReady string | ModelsFailed string
  | ModelNotObserved string string | ClaudeNotReady | ProbeHarness string

definition piProbeModelListArgs :: "string \<Rightarrow> string list" where
  "piProbeModelListArgs provider =
     [''--no-extensions'', ''--no-skills'', ''--no-prompt-templates'', ''--no-context-files'', ''--list-models'', provider]"

definition piModelPresent :: "string \<Rightarrow> string \<Rightarrow> string \<Rightarrow> bool" where
  "piModelPresent table provider model \<longleftrightarrow>
     list_ex (\<lambda>line. let fields = Fields line
                     in 2 \<le> length fields \<and> fields ! 0 = provider \<and> fields ! 1 = model)
       (Split CHR 0x0A table)"

definition pi_auth :: "string \<Rightarrow> (string \<times> string) option" where
  "pi_auth raw =
     Unmarshal (dec_struct [(''status'', fld fst (\<lambda>x (_, p). (x, p)) dec_string),
                            (''provider'', fld snd (\<lambda>x (s, _). (s, x)) dec_string)]) raw ([], [])"

definition claude_auth :: "string \<Rightarrow> (bool \<times> string) option" where
  "claude_auth raw =
     Unmarshal (dec_struct [(''loggedIn'', fld fst (\<lambda>x (_, m). (x, m)) dec_bool),
                            (''authMethod'', fld snd (\<lambda>x (l, _). (l, x)) dec_string)]) raw (False, [])"

definition Probe :: "'w runner \<Rightarrow> job \<Rightarrow> ('w, probe_err option) state" where
  "Probe R j =
     (let e = Execution j
      in if Harness e = HarnessPi then do {
           present \<leftarrow> LookPath R ''pi'';
           if \<not> present then State_Monad.return (Some (NotOnPath ''pi''))
           else do {
             res \<leftarrow> Run R ''pi'' [''auth'', ''check'', ''--provider'', Provider e, ''--json'', ''--no-refresh''];
             (case res of
                Inl m \<Rightarrow> State_Monad.return (Some (RunFailed m))
              | Inr raw \<Rightarrow>
                  if pi_auth raw \<noteq> Some (''ready'', Provider e)
                  then State_Monad.return (Some (ProviderNotReady (Provider e)))
                  else if Model e \<noteq> ''harness-default'' then do {
                    listed \<leftarrow> Run R ''pi'' (piProbeModelListArgs (Provider e));
                    State_Monad.return
                      (case listed of
                         Inl m \<Rightarrow> Some (ModelsFailed m)
                       | Inr table \<Rightarrow>
                           if piModelPresent table (Provider e) (Model e) then None
                           else Some (ModelNotObserved (Provider e) (Model e))) }
                  else State_Monad.return None) } }
         else if Harness e = HarnessClaudeCode then do {
           present \<leftarrow> LookPath R ''claude'';
           if \<not> present then State_Monad.return (Some (NotOnPath ''claude''))
           else do {
             res \<leftarrow> Run R ''claude'' [''auth'', ''status''];
             State_Monad.return
               (case res of
                  Inl m \<Rightarrow> Some (RunFailed m)
                | Inr raw \<Rightarrow> if claude_auth raw \<noteq> Some (True, ''claude.ai'') then Some ClaudeNotReady else None) } }
         else State_Monad.return (Some (ProbeHarness (Harness e))))"

section \<open>Model attestation\<close>

definition ClaudeAttestationVersion :: int where "ClaudeAttestationVersion = 1"
definition claudeFirstPartyProvider :: string where "claudeFirstPartyProvider = ''firstParty''"

record model_usage =
  CanonicalModel :: string
  UsageProvider :: string
  InputTokens :: int
  OutputTokens :: int

definition dec_usage :: "model_usage decoder" where
  "dec_usage = dec_struct
     [(''canonicalModel'', fld CanonicalModel (\<lambda>x u. u\<lparr>CanonicalModel := x\<rparr>) dec_string),
      (''provider'', fld UsageProvider (\<lambda>x u. u\<lparr>UsageProvider := x\<rparr>) dec_string),
      (''inputTokens'', fld InputTokens (\<lambda>x u. u\<lparr>InputTokens := x\<rparr>) dec_int),
      (''outputTokens'', fld OutputTokens (\<lambda>x u. u\<lparr>OutputTokens := x\<rparr>) dec_int)]"

definition zero_usage :: model_usage where
  "zero_usage = \<lparr> CanonicalModel = [], UsageProvider = [], InputTokens = 0, OutputTokens = 0 \<rparr>"

record attestation =
  at_Version :: int
  at_ExpectedModel :: string
  at_ObservedModel :: string
  at_Provider :: string
  at_ResultSHA256 :: string
  at_Verdict :: string

definition attestation_json :: "attestation \<Rightarrow> string" where
  "attestation_json a =
     json_object
       [(''version'', show_nat (nat (at_Version a))), (''expected_model'', json_quote (at_ExpectedModel a)),
        (''observed_model'', json_quote (at_ObservedModel a)), (''provider'', json_quote (at_Provider a)),
        (''result_sha256'', json_quote (at_ResultSHA256 a)), (''verdict'', json_quote (at_Verdict a))]"

datatype attest_err =
    MarkerRequired | ModelRequired' | NoCompletionStatus | NoResult | NoUsage string | UsageMalformed
  | WrongProvider string | WrongModel string | NoTokens

text \<open>Every round of the loop of \<open>hasCompletionStatus\<close> shortens the text.\<close>

fun completion_from :: "nat \<Rightarrow> string \<Rightarrow> string \<Rightarrow> bool" where
  "completion_from 0 marker rest = False"
| "completion_from (Suc n) marker rest =
     (case after_first (marker @ '':'') rest of
        None \<Rightarrow> False
      | Some [] \<Rightarrow> completion_from n marker []
      | Some (c # cs) \<Rightarrow> if is_digit c then True else completion_from n marker (c # cs))"

definition hasCompletionStatus :: "string \<Rightarrow> string \<Rightarrow> bool" where
  "hasCompletionStatus line marker = completion_from (Suc (length line)) marker line"

text \<open>
  A Go map keeps the last of several members with one name, and its keys are compared exactly.
  A member holds the value of its raw text, so decoding it again is decoding that value.
\<close>

definition member :: "string \<Rightarrow> (string \<times> json) list \<Rightarrow> json option" where
  "member k ms = map_of (rev ms) k"

definition result_usage :: "string \<Rightarrow> (string \<times> json) list option" where
  "result_usage line =
     (case parse_json line of
        Some (JObj ms) \<Rightarrow>
          (case member ''type'' ms of
             Some (JStr kind) \<Rightarrow>
               if kind \<noteq> ''result'' then None
               else (case member ''modelUsage'' ms of Some (JObj us) \<Rightarrow> Some us | _ \<Rightarrow> None)
           | _ \<Rightarrow> None)
      | _ \<Rightarrow> None)"

fun first_result :: "string list \<Rightarrow> (string \<times> (string \<times> json) list) option" where
  "first_result [] = None"
| "first_result (line # lines) =
     (case result_usage line of Some us \<Rightarrow> Some (line, us) | None \<Rightarrow> first_result lines)"

definition lastClaudeResultLine :: "string list \<Rightarrow> (string \<times> (string \<times> json) list) option" where
  "lastClaudeResultLine lines = first_result (rev lines)"

definition observedModels :: "(string \<times> json) list \<Rightarrow> string" where
  "observedModels usage =
     (if usage = [] then ''no model'' else Join (sort (remdups (map (Quote \<circ> fst) usage))) '', '')"

definition ParseClaudeModelAttestation :: "string \<Rightarrow> string \<Rightarrow> string \<Rightarrow> attest_err + string" where
  "ParseClaudeModelAttestation transcript completionMarker expectedModel =
     (if completionMarker = [] then Inl MarkerRequired
      else if expectedModel = [] then Inl ModelRequired'
      else (let lines = Split CHR 0x0A transcript
            in if \<not> list_ex (\<lambda>l. hasCompletionStatus l completionMarker) lines then Inl NoCompletionStatus
               else (case lastClaudeResultLine (takeWhile (\<lambda>l. \<not> hasCompletionStatus l completionMarker) lines) of
                       None \<Rightarrow> Inl NoResult
                     | Some (line, usage) \<Rightarrow>
                         (case member expectedModel usage of
                            None \<Rightarrow> Inl (NoUsage (observedModels usage))
                          | Some rawUsage \<Rightarrow>
                              (case dec_usage rawUsage zero_usage of
                                 None \<Rightarrow> Inl UsageMalformed
                               | Some entry \<Rightarrow>
                                   if UsageProvider entry \<noteq> claudeFirstPartyProvider then Inl (WrongProvider (UsageProvider entry))
                                   else if CanonicalModel entry \<noteq> expectedModel then Inl (WrongModel (CanonicalModel entry))
                                   else if InputTokens entry \<le> 0 \<and> OutputTokens entry \<le> 0 then Inl NoTokens
                                   else Inr (attestation_json
                                          \<lparr> at_Version = ClaudeAttestationVersion, at_ExpectedModel = expectedModel,
                                            at_ObservedModel = CanonicalModel entry, at_Provider = UsageProvider entry,
                                            at_ResultSHA256 = sha256_hex line, at_Verdict = ''attested'' \<rparr>))))))"

section \<open>Properties\<close>

lemma profile_neq [simp]: "PermissionReadOnly \<noteq> PermissionRepoWrite" "PermissionRepoWrite \<noteq> PermissionReadOnly"
  "HarnessPi \<noteq> HarnessClaudeCode" "HarnessClaudeCode \<noteq> HarnessPi"
  by (simp_all add: config_strings)

definition editing_tools :: "string set" where
  "editing_tools = {''edit'', ''write'', ''Edit'', ''Write''}"

lemma tool_lists:
  "pi_tools PermissionReadOnly = Some ''read,grep,find,ls''"
  "pi_tools PermissionRepoWrite = Some ''read,grep,find,ls,edit,write''"
  "claude_tools PermissionReadOnly = Some [''--permission-mode'', ''plan'', ''--tools'', ''Read,Glob,Grep'']"
  "claude_tools PermissionRepoWrite = Some [''--permission-mode'', ''acceptEdits'', ''--tools'', ''Read,Glob,Grep,Edit,Write'']"
  by (simp_all add: pi_tools_def claude_tools_def)

lemma split_tools:
  "set (Split CHR '','' ''read,grep,find,ls'') \<inter> editing_tools = {}"
  "set (Split CHR '','' ''read,grep,find,ls,edit,write'') \<inter> editing_tools \<noteq> {}"
  "set (Split CHR '','' ''Read,Glob,Grep'') \<inter> editing_tools = {}"
  "set (Split CHR '','' ''Read,Glob,Grep,Edit,Write'') \<inter> editing_tools \<noteq> {}"
  by (simp_all add: editing_tools_def)

lemma validated_harness:
  "execution_validate e = None \<Longrightarrow> Harness e = HarnessPi \<or> Harness e = HarnessClaudeCode"
  by (auto simp: execution_validate_def split: if_splits)

lemma validated_attestation:
  "execution_validate e = None \<Longrightarrow> RequiresModelAttestation e \<Longrightarrow>
     Harness e = HarnessClaudeCode \<and> Model e \<noteq> ''harness-default''"
  by (auto simp: execution_validate_def RequiresModelAttestation_def attestation_check_def split: if_splits option.splits)

text \<open>
  How a command line is read: an option of the first list takes the next word as its value, whatever
  that word is; every other word stands alone.
\<close>

definition valued_options :: "string list" where
  "valued_options =
     [''--provider'', ''--model'', ''--thinking'', ''--effort'', ''--output-format'', ''--permission-mode'', ''--tools'']"

fun read_options :: "string list \<Rightarrow> (string \<times> string option) list" where
  "read_options [] = []"
| "read_options [w] = [(w, None)]"
| "read_options (w # v # ws) =
     (if ListMem w valued_options then (w, Some v) # read_options ws else (w, None) # read_options (v # ws))"

definition option_values :: "string \<Rightarrow> string list \<Rightarrow> string option list" where
  "option_values w args = map snd (filter (\<lambda>opt. fst opt = w) (read_options args))"

definition effort_option :: "string \<Rightarrow> string" where
  "effort_option harness = (if harness = HarnessPi then ''--thinking'' else ''--effort'')"

definition restrictions :: "string \<Rightarrow> string list" where
  "restrictions harness =
     (if harness = HarnessPi
      then [''--no-approve'', ''--no-extensions'', ''--no-skills'', ''--no-prompt-templates'', ''--no-context-files'']
      else [''--safe-mode'', ''--restricted'', ''--no-chrome'', ''--no-session-persistence'', ''--strict-mcp-config''])"

lemma ListMem_valued:
  "ListMem ''--provider'' valued_options" "ListMem ''--model'' valued_options" "ListMem ''--thinking'' valued_options"
  "ListMem ''--effort'' valued_options" "ListMem ''--output-format'' valued_options"
  "ListMem ''--permission-mode'' valued_options" "ListMem ''--tools'' valued_options"
  "\<not> ListMem ''--no-approve'' valued_options" "\<not> ListMem ''--no-extensions'' valued_options"
  "\<not> ListMem ''--no-skills'' valued_options" "\<not> ListMem ''--no-prompt-templates'' valued_options"
  "\<not> ListMem ''--no-context-files'' valued_options" "\<not> ListMem ''--safe-mode'' valued_options"
  "\<not> ListMem ''--restricted'' valued_options" "\<not> ListMem ''--no-chrome'' valued_options"
  "\<not> ListMem ''--no-session-persistence'' valued_options" "\<not> ListMem ''--strict-mcp-config'' valued_options"
  by (simp_all add: valued_options_def ListMem_iff)

lemma launch_cases:
  assumes "execution_validate e = None"
  obtains (pi_read) "Harness e = HarnessPi" "PermissionProfile e = PermissionReadOnly" "\<not> RequiresModelAttestation e"
  | (pi_write) "Harness e = HarnessPi" "PermissionProfile e = PermissionRepoWrite" "\<not> RequiresModelAttestation e"
  | (claude_read) "Harness e = HarnessClaudeCode" "PermissionProfile e = PermissionReadOnly"
  | (claude_write) "Harness e = HarnessClaudeCode" "PermissionProfile e = PermissionRepoWrite"
  using execution_validate_parts(5) [OF assms] validated_harness [OF assms] validated_attestation [OF assms] by fastforce

text \<open>C32: Every job of a validated configuration has a launch, and it is a headless command of its
  harness. Read as a command line, option by option, it has exactly one tool list, which holds an
  editing tool exactly under the repository-write profile (and Claude's permission mode agrees with
  it); it names the configured model exactly when one is configured, in place of the harness default;
  it names the configured effort, under the option of the harness, once; for Pi it names the
  configured provider; and it carries each restriction of the harness. A job that requires model
  attestation names its model and asks for a machine-readable result, and no other job asks for one.\<close>

theorem launch_within_profile:
  assumes "execution_validate (Execution j) = None"
  shows "\<exists>l tools. LaunchFor j = Inr l \<and> launch_mode l = ModeCommand
    \<and> launch_kind l = (if Harness (Execution j) = HarnessPi then ''pi'' else ''claude'')
    \<and> option_values ''--tools'' (launch_args l) = [Some tools]
    \<and> (set (Split CHR '','' tools) \<inter> editing_tools \<noteq> {} \<longleftrightarrow> PermissionProfile (Execution j) = PermissionRepoWrite)
    \<and> option_values ''--permission-mode'' (launch_args l) =
        (if Harness (Execution j) = HarnessPi then []
         else [Some (if PermissionProfile (Execution j) = PermissionRepoWrite then ''acceptEdits'' else ''plan'')])
    \<and> option_values ''--model'' (launch_args l) =
        (if Model (Execution j) = ''harness-default'' then [] else [Some (Model (Execution j))])
    \<and> option_values (effort_option (Harness (Execution j))) (launch_args l) = [Some (Thinking (Execution j))]
    \<and> option_values ''--provider'' (launch_args l) =
        (if Harness (Execution j) = HarnessPi then [Some (Provider (Execution j))] else [])
    \<and> option_values ''--output-format'' (launch_args l) =
        (if RequiresModelAttestation (Execution j) then [Some ''json''] else [])
    \<and> (RequiresModelAttestation (Execution j) \<longrightarrow>
         option_values ''--model'' (launch_args l) = [Some (Model (Execution j))])
    \<and> list_all (\<lambda>w. option_values w (launch_args l) = [None]) (restrictions (Harness (Execution j)))"
  using assms validated_attestation [OF assms]
  by - (erule launch_cases; cases "Model (Execution j) = ''harness-default''";
      cases "RequiresModelAttestation (Execution j)";
      simp add: LaunchFor_def Let_def tool_lists split_tools option_values_def effort_option_def restrictions_def ListMem_valued editing_tools_def)

definition demo_attested :: job where
  "demo_attested = zero_job\<lparr>Execution := zero_execution\<lparr> Repository := ''/r'', Workspace := WorkspaceWorktree,
     Harness := HarnessClaudeCode, Model := ''claude-opus-4-1'', Thinking := ''high'',
     PermissionProfile := PermissionReadOnly, RequireModelAttestation := Some True \<rparr>\<rparr>"

theorem launch_within_profile_witness:
  "\<exists>l. LaunchFor demo_attested = Inr l \<and> option_values ''--model'' (launch_args l) = [Some ''claude-opus-4-1'']
    \<and> option_values ''--effort'' (launch_args l) = [Some ''high'']
    \<and> option_values ''--permission-mode'' (launch_args l) = [Some ''plan'']"
proof -
  have v: "execution_validate (Execution demo_attested) = None" by code_simp
  have "Harness (Execution demo_attested) \<noteq> HarnessPi" "PermissionProfile (Execution demo_attested) \<noteq> PermissionRepoWrite"
    "Model (Execution demo_attested) = ''claude-opus-4-1''" "Thinking (Execution demo_attested) = ''high''"
    by (simp_all add: demo_attested_def)
  with launch_within_profile [OF v] show ?thesis by (auto simp: effort_option_def)
qed
section \<open>Attested results\<close>

lemma first_result_Some:
  "first_result lines = Some (line, us) \<Longrightarrow> line \<in> set lines \<and> result_usage line = Some us"
  by (induction lines) (auto split: option.splits)

lemma last_result_Some:
  "lastClaudeResultLine lines = Some (line, us) \<Longrightarrow> line \<in> set lines \<and> result_usage line = Some us"
  unfolding lastClaudeResultLine_def using first_result_Some by fastforce

text \<open>The JSON value of a receipt.\<close>

definition attestation_value :: "attestation \<Rightarrow> json" where
  "attestation_value a = JObj
     [(''version'', JNum (show_nat (nat (at_Version a)))), (''expected_model'', JStr (at_ExpectedModel a)),
      (''observed_model'', JStr (at_ObservedModel a)), (''provider'', JStr (at_Provider a)),
      (''result_sha256'', JStr (at_ResultSHA256 a)), (''verdict'', JStr (at_Verdict a))]"

lemma attestation_parses:
  assumes "ascii (at_ExpectedModel a)" "ascii (at_ObservedModel a)" "ascii (at_Provider a)"
    "ascii (at_ResultSHA256 a)" "ascii (at_Verdict a)"
  shows "parse_json (attestation_json a) = Some (attestation_value a)"
proof -
  let ?ms = "[(''version'', JNum (show_nat (nat (at_Version a))), show_nat (nat (at_Version a))),
      (''expected_model'', JStr (at_ExpectedModel a), json_quote (at_ExpectedModel a)),
      (''observed_model'', JStr (at_ObservedModel a), json_quote (at_ObservedModel a)),
      (''provider'', JStr (at_Provider a), json_quote (at_Provider a)),
      (''result_sha256'', JStr (at_ResultSHA256 a), json_quote (at_ResultSHA256 a)),
      (''verdict'', JStr (at_Verdict a), json_quote (at_Verdict a))]"
  have "reads (JObj (map (\<lambda>(k, v, s). (k, v)) ?ms)) (json_object (map (\<lambda>(k, v, s). (k, s)) ?ms))"
    using assms by (intro reads_object) (auto simp: reads_nat reads_quote ascii_def)
  from parse_json_reads(1) [OF this] show ?thesis
    by (simp add: attestation_json_def attestation_value_def)
qed

lemma hex_ascii: "\<forall>b\<in>set bs. b < 256 \<Longrightarrow> ascii (EncodeToString bs)"
proof (induction bs)
  case Nil
  then show ?case by (simp add: EncodeToString_def ascii_def)
next
  case (Cons b bs)
  have hex: "list_all (\<lambda>c. of_char c < (128 :: nat)) hex_chars" "length hex_chars = 16"
    by (simp_all add: hex_chars_def)
  moreover from Cons have "b div 16 < 16" "b mod 16 < 16" by auto
  ultimately have "of_char (hex_chars ! (b div 16)) < (128 :: nat)" "of_char (hex_chars ! (b mod 16)) < (128 :: nat)"
    by (simp_all add: list_all_length)
  with Cons show ?case by (simp add: EncodeToString_def ascii_def)
qed

lemma sha256_hex_ascii: "ascii (sha256_hex s)"
  unfolding sha256_hex_def by (rule hex_ascii) (auto simp: Sum256_def Let_def big_endian_def)

text \<open>C33: A model attestation is only ever issued for a result line that was printed before the run's
  completion status, whose usage of exactly the configured model is first-party, names that model
  as the canonical one and counts tokens; and the receipt, read back as JSON, names the model and
  the digest of that very line.\<close>

theorem attestation_sound:
  assumes "ParseClaudeModelAttestation transcript marker expected = Inr receipt" and "ascii expected"
  shows "\<exists>line us raw entry.
      line \<in> set (takeWhile (\<lambda>l. \<not> hasCompletionStatus l marker) (Split CHR 0x0A transcript))
    \<and> (\<exists>l\<in>set (Split CHR 0x0A transcript). hasCompletionStatus l marker)
    \<and> result_usage line = Some us \<and> member expected us = Some raw \<and> dec_usage raw zero_usage = Some entry
    \<and> UsageProvider entry = claudeFirstPartyProvider \<and> CanonicalModel entry = expected
    \<and> (0 < InputTokens entry \<or> 0 < OutputTokens entry)
    \<and> parse_json receipt = Some (attestation_value
        \<lparr> at_Version = ClaudeAttestationVersion, at_ExpectedModel = expected, at_ObservedModel = expected,
          at_Provider = claudeFirstPartyProvider, at_ResultSHA256 = sha256_hex line, at_Verdict = ''attested'' \<rparr>)"
proof -
  let ?before = "takeWhile (\<lambda>l. \<not> hasCompletionStatus l marker) (Split CHR 0x0A transcript)"
  from assms(1) obtain line us raw entry where
    found: "lastClaudeResultLine ?before = Some (line, us)"
    and status: "list_ex (\<lambda>l. hasCompletionStatus l marker) (Split CHR 0x0A transcript)"
    and raw: "member expected us = Some raw" and entry: "dec_usage raw zero_usage = Some entry"
    and checks: "UsageProvider entry = claudeFirstPartyProvider" "CanonicalModel entry = expected"
      "\<not> (InputTokens entry \<le> 0 \<and> OutputTokens entry \<le> 0)"
    and receipt: "receipt = attestation_json
        \<lparr> at_Version = ClaudeAttestationVersion, at_ExpectedModel = expected, at_ObservedModel = CanonicalModel entry,
          at_Provider = UsageProvider entry, at_ResultSHA256 = sha256_hex line, at_Verdict = ''attested'' \<rparr>"
    by (auto simp: ParseClaudeModelAttestation_def Let_def split: if_splits option.splits prod.splits)
  from last_result_Some [OF found] have line: "line \<in> set ?before" "result_usage line = Some us" by blast+
  have "parse_json receipt = Some (attestation_value
        \<lparr> at_Version = ClaudeAttestationVersion, at_ExpectedModel = expected, at_ObservedModel = expected,
          at_Provider = claudeFirstPartyProvider, at_ResultSHA256 = sha256_hex line, at_Verdict = ''attested'' \<rparr>)"
    unfolding receipt using assms(2) checks sha256_hex_ascii [of line]
    by (subst attestation_parses) (simp_all add: ascii_def claudeFirstPartyProvider_def)
  moreover have "0 < InputTokens entry \<or> 0 < OutputTokens entry" using checks(3) by linarith
  moreover have "\<exists>l\<in>set (Split CHR 0x0A transcript). hasCompletionStatus l marker"
    using status by (simp add: list_ex_iff)
  ultimately show ?thesis using line raw entry checks(1,2) by blast
qed

text \<open>A result line and the completion status after it; \<open>~\<close> stands for the quotation mark.\<close>

definition demo_line :: string where
  "demo_line = map (\<lambda>c. if c = CHR ''~'' then CHR 0x22 else c)
     ''{~type~:~result~,~modelUsage~:{~m-1~:{~canonicalModel~:~m-1~,~provider~:~firstParty~,~outputTokens~:7}}}''"

lemma demo_lines:
  "Split CHR 0x0A (demo_line @ [CHR 0x0A] @ ''M_1:0'') = [demo_line, ''M_1:0'']"
  "\<not> hasCompletionStatus demo_line ''M_1''" "hasCompletionStatus ''M_1:0'' ''M_1''"
  by code_simp+

lemma demo_usage:
  "result_usage demo_line = Some [(''m-1'', JObj [(''canonicalModel'', JStr ''m-1''), (''provider'', JStr ''firstParty''),
     (''outputTokens'', JNum ''7'')])]"
  by code_simp

lemma demo_attestation:
  "ParseClaudeModelAttestation (demo_line @ [CHR 0x0A] @ ''M_1:0'') ''M_1'' ''m-1'' = Inr (attestation_json
     \<lparr> at_Version = 1, at_ExpectedModel = ''m-1'', at_ObservedModel = ''m-1'', at_Provider = ''firstParty'',
       at_ResultSHA256 = sha256_hex demo_line, at_Verdict = ''attested'' \<rparr>)"
proof -
  have "lastClaudeResultLine [demo_line] = Some (demo_line, [(''m-1'', JObj [(''canonicalModel'', JStr ''m-1''),
      (''provider'', JStr ''firstParty''), (''outputTokens'', JNum ''7'')])])"
    by (simp add: lastClaudeResultLine_def demo_usage)
  moreover have "dec_usage (JObj [(''canonicalModel'', JStr ''m-1''), (''provider'', JStr ''firstParty''),
      (''outputTokens'', JNum ''7'')]) zero_usage
      = Some \<lparr> CanonicalModel = ''m-1'', UsageProvider = ''firstParty'', InputTokens = 0, OutputTokens = 7 \<rparr>"
    by code_simp
  ultimately show ?thesis
    unfolding ParseClaudeModelAttestation_def demo_lines(1) Let_def
    by (simp add: demo_lines member_def claudeFirstPartyProvider_def ClaudeAttestationVersion_def)
qed

theorem attestation_sound_witness:
  "\<exists>receipt line. ParseClaudeModelAttestation (demo_line @ [CHR 0x0A] @ ''M_1:0'') ''M_1'' ''m-1'' = Inr receipt
    \<and> line = demo_line \<and> parse_json receipt = Some (attestation_value
        \<lparr> at_Version = 1, at_ExpectedModel = ''m-1'', at_ObservedModel = ''m-1'',
          at_Provider = ''firstParty'', at_ResultSHA256 = sha256_hex line, at_Verdict = ''attested'' \<rparr>)"
proof -
  have "ascii ''m-1''" by (simp add: ascii_def)
  from attestation_sound [OF demo_attestation this] obtain line where
    "line \<in> set (takeWhile (\<lambda>l. \<not> hasCompletionStatus l ''M_1'') [demo_line, ''M_1:0''])"
    "parse_json (attestation_json
     \<lparr> at_Version = 1, at_ExpectedModel = ''m-1'', at_ObservedModel = ''m-1'', at_Provider = ''firstParty'',
       at_ResultSHA256 = sha256_hex demo_line, at_Verdict = ''attested'' \<rparr>) = Some (attestation_value
        \<lparr> at_Version = 1, at_ExpectedModel = ''m-1'', at_ObservedModel = ''m-1'',
          at_Provider = ''firstParty'', at_ResultSHA256 = sha256_hex line, at_Verdict = ''attested'' \<rparr>)"
    unfolding demo_lines(1) claudeFirstPartyProvider_def ClaudeAttestationVersion_def by blast
  moreover from this(1) have "line = demo_line" by (simp add: demo_lines)
  ultimately show ?thesis using demo_attestation by blast
qed

text \<open>Lines that follow the completion status are never evidence.\<close>

lemma Split_nonempty [simp]: "Split sep s \<noteq> []"
  by (cases s) (auto split: list.splits)

lemma Split_append: "Split sep (s @ sep # t) = Split sep s @ Split sep t"
proof (induction s)
  case Nil
  then show ?case by simp
next
  case (Cons c cs)
  then show ?case by (cases "Split sep cs") auto
qed

text \<open>Once the completion status of a run is in the transcript, nothing printed on later lines changes
  the outcome of its attestation.\<close>

theorem attestation_ignores_later_lines:
  assumes "\<exists>l\<in>set (Split CHR 0x0A transcript). hasCompletionStatus l marker"
  shows "ParseClaudeModelAttestation (transcript @ [CHR 0x0A] @ later) marker expected
       = ParseClaudeModelAttestation transcript marker expected"
proof -
  let ?P = "\<lambda>l. \<not> hasCompletionStatus l marker"
  have split: "Split CHR 0x0A (transcript @ [CHR 0x0A] @ later) = Split CHR 0x0A transcript @ Split CHR 0x0A later"
    by (simp add: Split_append)
  obtain l where "l \<in> set (Split CHR 0x0A transcript)" "\<not> ?P l" using assms by blast
  then have "takeWhile ?P (Split CHR 0x0A transcript @ Split CHR 0x0A later) = takeWhile ?P (Split CHR 0x0A transcript)"
    by (rule takeWhile_append1)
  moreover have "list_ex (\<lambda>l. hasCompletionStatus l marker) (Split CHR 0x0A transcript)"
    using assms by (simp add: list_ex_iff)
  ultimately show ?thesis unfolding ParseClaudeModelAttestation_def Let_def split by simp
qed

theorem attestation_ignores_later_lines_witness:
  "ParseClaudeModelAttestation ((demo_line @ [CHR 0x0A] @ ''M_1:0'') @ [CHR 0x0A] @ ''{}'') ''M_1'' ''m-1''
   = ParseClaudeModelAttestation (demo_line @ [CHR 0x0A] @ ''M_1:0'') ''M_1'' ''m-1''"
  by (rule attestation_ignores_later_lines) (simp only: demo_lines list.set bex_simps demo_lines(3) insert_iff; simp add: demo_lines)

end
