(* ===== verification/HerdrClient.thy ===== *)
theory HerdrClient
  imports EngineText Adapter Loops
begin

text \<open>
  \<open>internal/herdr/client.go\<close>: the client of the \<open>herdr\<close> program. Every operation runs it with
  some arguments; the program, the context of the call, the clock and the timers are a \<open>cli\<close>
  over a state \<open>'w\<close>. Operations with polling loops give \<open>None\<close> when they never return.
\<close>

section \<open>Running the program\<close>

datatype ctx_err = Canceled | DeadlineExceeded

record exec_result =
  ex_stdout :: string
  ex_stderr :: string
  ex_error :: "string option"

text \<open>
  \<open>call_Err\<close> is the error of the context of the last call, \<open>ctx_Err\<close> that of the caller's
  context; \<open>pause\<close> waits and gives the context's error when it ends first.
\<close>

record 'w cli =
  exec :: "string list \<Rightarrow> ('w, exec_result) state"
  ctx_Err :: "('w, ctx_err option) state"
  call_Err :: "('w, ctx_err option) state"
  cli_now :: "('w, time) state"
  pause :: "duration \<Rightarrow> ('w, ctx_err option) state"

datatype inv_err =
    InventoryMissing | InventoryNull | InventoryNotArray
  | RowNull nat | RowNotObject nat | FlagNull nat | FlagNotBool nat | RowBothFlags nat
  | RowNoBranch nat | RowNullBranch nat | RowBranchType nat | RowEmptyBranch nat | RowBranchAndFlag nat
  | RowNoPath nat | RowNullPath nat | RowPathType nat | RowEmptyPath nat

datatype cli_err =
    ApiError string string | DecodeFailed | InventoryFailed inv_err | NoIdentity
  | BranchNotListed string | PaneRead string | BadCompletion | CtxErr ctx_err
  | JoinedErr cli_err cli_err

text \<open>\<open>errors.As\<close> finds the first \<open>apiError\<close> of the tree.\<close>

fun api_code :: "cli_err \<Rightarrow> string option" where
  "api_code (ApiError c m) = Some c"
| "api_code (JoinedErr a b) = (case api_code a of None \<Rightarrow> api_code b | Some c \<Rightarrow> Some c)"
| "api_code _ = None"

definition hasCode :: "cli_err \<Rightarrow> string \<Rightarrow> bool" where
  "hasCode e code \<longleftrightarrow> api_code e = Some code"

definition dec_api_error :: "(string \<times> string) decoder" where
  "dec_api_error = dec_struct
     [(''error'', dec_struct [(''Code'', fld fst (\<lambda>x (_, m). (x, m)) dec_string),
                              (''Message'', fld snd (\<lambda>x (c, _). (c, x)) dec_string)])]"

definition parseAPIError :: "string \<Rightarrow> cli_err option" where
  "parseAPIError raw =
     (case Unmarshal dec_api_error raw ([], []) of
        None \<Rightarrow> None
      | Some (code, message) \<Rightarrow> if code = [] \<and> message = [] then None else Some (ApiError code message))"

text \<open>A \<open>json.RawMessage\<close> field holds whatever value is there.\<close>

definition dec_raw :: "json option decoder" where
  "dec_raw v old = Some (Some v)"

definition run_error :: "exec_result \<Rightarrow> string \<Rightarrow> cli_err" where
  "run_error r m =
     (case parseAPIError (ex_stdout r) of
        Some e \<Rightarrow> e
      | None \<Rightarrow>
          (case parseAPIError (ex_stderr r) of
             Some e \<Rightarrow> e
           | None \<Rightarrow>
               (let err = TrimSpace (ex_stderr r); out = TrimSpace (ex_stdout r)
                in ApiError [] (if err \<noteq> [] then err else if out \<noteq> [] then out else m))))"

text \<open>\<open>run\<close> with \<open>out == nil\<close>, and with a struct to decode the result into.\<close>

definition run_cli :: "'w cli \<Rightarrow> string list \<Rightarrow> ('w, cli_err + string) state" where
  "run_cli C args = do {
     r \<leftarrow> exec C args;
     State_Monad.return (case ex_error r of None \<Rightarrow> Inr (ex_stdout r) | Some m \<Rightarrow> Inl (run_error r m)) }"

definition run_ok :: "'w cli \<Rightarrow> string list \<Rightarrow> ('w, cli_err option) state" where
  "run_ok C args = do {
     r \<leftarrow> run_cli C args;
     State_Monad.return (case r of Inl e \<Rightarrow> Some e | Inr _ \<Rightarrow> None) }"

definition decode_response :: "'a decoder \<Rightarrow> 'a \<Rightarrow> string \<Rightarrow> cli_err + 'a" where
  "decode_response dec zero out =
     (case Unmarshal (dec_struct [(''result'', dec_raw)]) out None of
        None \<Rightarrow> Inl DecodeFailed
      | Some res \<Rightarrow>
          (let v = (case res of None \<Rightarrow> parse_json out | Some r \<Rightarrow> Some r)
           in case Option.bind v (\<lambda>v. dec v zero) of None \<Rightarrow> Inl DecodeFailed | Some x \<Rightarrow> Inr x))"

definition run_into :: "'w cli \<Rightarrow> 'a decoder \<Rightarrow> 'a \<Rightarrow> string list \<Rightarrow> ('w, cli_err + 'a) state" where
  "run_into C dec zero args = do {
     r \<leftarrow> run_cli C args;
     State_Monad.return (case r of Inl e \<Rightarrow> Inl e | Inr out \<Rightarrow> decode_response dec zero out) }"

section \<open>Workspaces\<close>

record receipt =
  rc_WorkspaceID :: string
  rc_PaneID :: string
  rc_Branch :: string
  rc_Path :: string

definition no_receipt :: receipt where
  "no_receipt = \<lparr> rc_WorkspaceID = [], rc_PaneID = [], rc_Branch = [], rc_Path = [] \<rparr>"

definition dec_string_at :: "string \<Rightarrow> string \<Rightarrow> string decoder" where
  "dec_string_at outer inner = dec_struct [(outer, dec_struct [(inner, dec_string)])]"

definition WorkspaceExists :: "'w cli \<Rightarrow> string \<Rightarrow> ('w, cli_err + bool) state" where
  "WorkspaceExists C workspaceID = do {
     r \<leftarrow> run_into C (dec_string_at ''workspace'' ''workspace_id'') [] [''workspace'', ''get'', workspaceID];
     State_Monad.return
       (case r of
          Inr _ \<Rightarrow> Inr True
        | Inl e \<Rightarrow> if hasCode e ''workspace_not_found'' then Inr False else Inl e) }"

record inventory_entry =
  inv_branch :: "string option"
  inv_path :: string

record inventory_fields =
  f_branch :: "json option"
  f_path :: "json option"
  f_detached :: "json option"
  f_bare :: "json option"

definition dec_inventory_fields :: "inventory_fields decoder" where
  "dec_inventory_fields = dec_struct
     [(''branch'', fld f_branch (\<lambda>x r. r\<lparr>f_branch := x\<rparr>) dec_raw),
      (''path'', fld f_path (\<lambda>x r. r\<lparr>f_path := x\<rparr>) dec_raw),
      (''is_detached'', fld f_detached (\<lambda>x r. r\<lparr>f_detached := x\<rparr>) dec_raw),
      (''is_bare'', fld f_bare (\<lambda>x r. r\<lparr>f_bare := x\<rparr>) dec_raw)]"

definition decodeInventoryFlag :: "nat \<Rightarrow> json option \<Rightarrow> inv_err + bool option" where
  "decodeInventoryFlag i raw =
     (case raw of
        None \<Rightarrow> Inr None
      | Some JNull \<Rightarrow> Inl (FlagNull i)
      | Some (JBool b) \<Rightarrow> Inr (Some b)
      | Some _ \<Rightarrow> Inl (FlagNotBool i))"

definition inventory_branch :: "nat \<Rightarrow> json option \<Rightarrow> bool option \<Rightarrow> bool option \<Rightarrow> inv_err + string option" where
  "inventory_branch i raw detached bare =
     (let branchless = (detached = Some True \<or> bare = Some True)
      in case raw of
           None \<Rightarrow> if \<not> branchless then Inl (RowNoBranch i) else Inr None
         | Some JNull \<Rightarrow>
             if branchless then Inr None
             else if detached \<noteq> None \<or> bare \<noteq> None then Inl (RowNullBranch i)
             else Inr None
         | Some (JStr name) \<Rightarrow>
             if name = [] then Inl (RowEmptyBranch i)
             else if branchless then Inl (RowBranchAndFlag i)
             else Inr (Some name)
         | Some _ \<Rightarrow> Inl (RowBranchType i))"

definition inventory_path :: "nat \<Rightarrow> json option \<Rightarrow> inv_err + string" where
  "inventory_path i raw =
     (case raw of
        None \<Rightarrow> Inl (RowNoPath i)
      | Some JNull \<Rightarrow> Inl (RowNullPath i)
      | Some (JStr p) \<Rightarrow> if p = [] then Inl (RowEmptyPath i) else Inr p
      | Some _ \<Rightarrow> Inl (RowPathType i))"

definition decode_row :: "nat \<Rightarrow> json \<Rightarrow> inv_err + inventory_entry" where
  "decode_row i row =
     (if row = JNull then Inl (RowNull i)
      else case dec_inventory_fields row \<lparr> f_branch = None, f_path = None, f_detached = None, f_bare = None \<rparr> of
             None \<Rightarrow> Inl (RowNotObject i)
           | Some fs \<Rightarrow>
               (case decodeInventoryFlag i (f_detached fs) of Inl e \<Rightarrow> Inl e | Inr detached \<Rightarrow>
               (case decodeInventoryFlag i (f_bare fs) of Inl e \<Rightarrow> Inl e | Inr bare \<Rightarrow>
                 if detached = Some True \<and> bare = Some True then Inl (RowBothFlags i)
                 else (case inventory_branch i (f_branch fs) detached bare of Inl e \<Rightarrow> Inl e | Inr br \<Rightarrow>
                      (case inventory_path i (f_path fs) of Inl e \<Rightarrow> Inl e | Inr p \<Rightarrow>
                         Inr \<lparr> inv_branch = br, inv_path = p \<rparr>)))))"

fun decode_rows :: "nat \<Rightarrow> json list \<Rightarrow> inv_err + inventory_entry list" where
  "decode_rows i [] = Inr []"
| "decode_rows i (row # rows) =
     (case decode_row i row of
        Inl e \<Rightarrow> Inl e
      | Inr entry \<Rightarrow> map_sum id (Cons entry) (decode_rows (Suc i) rows))"

definition decodeWorktreeInventory :: "json option \<Rightarrow> inv_err + inventory_entry list" where
  "decodeWorktreeInventory raw =
     (case raw of
        None \<Rightarrow> Inl InventoryMissing
      | Some JNull \<Rightarrow> Inl InventoryNull
      | Some (JArr rows) \<Rightarrow> decode_rows 0 rows
      | Some _ \<Rightarrow> Inl InventoryNotArray)"

definition dec_workspaces :: "(string \<times> string) list decoder" where
  "dec_workspaces = dec_struct
     [(''workspaces'', dec_slice ([], [])
        (dec_struct
           [(''workspace_id'', fld fst (\<lambda>x (_, p). (x, p)) dec_string),
            (''worktree'', dec_struct [(''checkout_path'', fld snd (\<lambda>x (w, _). (w, x)) dec_string)])]))]"

definition worktree_of :: "string \<Rightarrow> inventory_entry list \<Rightarrow> string" where
  "worktree_of br entries =
     (case find (\<lambda>w. inv_branch w = Some br) entries of None \<Rightarrow> [] | Some w \<Rightarrow> inv_path w)"

definition FindWorkspaceByBranch :: "'w cli \<Rightarrow> string \<Rightarrow> string \<Rightarrow> ('w, cli_err + receipt \<times> bool) state" where
  "FindWorkspaceByBranch C repo br = do {
     inv \<leftarrow> run_into C (dec_struct [(''worktrees'', dec_raw)]) None [''worktree'', ''list'', ''--cwd'', repo];
     (case inv of
        Inl e \<Rightarrow> State_Monad.return (Inl e)
      | Inr raw \<Rightarrow>
          (case decodeWorktreeInventory raw of
             Inl e \<Rightarrow> State_Monad.return (Inl (InventoryFailed e))
           | Inr worktrees \<Rightarrow>
               (let path = worktree_of br worktrees
                in if path = [] then State_Monad.return (Inr (no_receipt, False))
                   else do {
                     listed \<leftarrow> run_into C dec_workspaces [] [''workspace'', ''list''];
                     State_Monad.return
                       (case listed of
                          Inl e \<Rightarrow> Inl e
                        | Inr ws \<Rightarrow>
                            (case find (\<lambda>(i, p). i \<noteq> [] \<and> p = path) ws of
                               Some (i, _) \<Rightarrow>
                                 Inr (\<lparr> rc_WorkspaceID = i, rc_PaneID = [], rc_Branch = br, rc_Path = path \<rparr>, True)
                             | None \<Rightarrow>
                                 Inr (\<lparr> rc_WorkspaceID = [], rc_PaneID = [], rc_Branch = br, rc_Path = path \<rparr>, True))) }))) }"

definition worktreeCreateArgs :: "string \<Rightarrow> string \<Rightarrow> string \<Rightarrow> string \<Rightarrow> string list" where
  "worktreeCreateArgs repo baseRef br label =
     [''worktree'', ''create'', ''--cwd'', repo, ''--branch'', br]
     @ (if baseRef \<noteq> [] then [''--base'', baseRef] else []) @ [''--label'', label, ''--no-focus'']"

definition dec_worktrees :: "(string \<times> string) list decoder" where
  "dec_worktrees = dec_struct
     [(''worktrees'', dec_slice ([], [])
        (dec_struct [(''Branch'', fld fst (\<lambda>x (_, p). (x, p)) dec_string),
                     (''Path'', fld snd (\<lambda>x (b, _). (b, x)) dec_string)]))]"

definition worktreePath :: "'w cli \<Rightarrow> string \<Rightarrow> string \<Rightarrow> ('w, cli_err + string) state" where
  "worktreePath C repo br = do {
     r \<leftarrow> run_into C dec_worktrees [] [''worktree'', ''list'', ''--cwd'', repo];
     State_Monad.return
       (case r of
          Inl e \<Rightarrow> Inl e
        | Inr wts \<Rightarrow>
            (case find (\<lambda>(b, p). b = br \<and> p \<noteq> []) wts of
               Some (_, p) \<Rightarrow> Inr p
             | None \<Rightarrow> Inl (BranchNotListed br))) }"

definition dec_created :: "(string \<times> string) decoder" where
  "dec_created = dec_struct
     [(''workspace'', dec_struct [(''workspace_id'', fld fst (\<lambda>x (_, p). (x, p)) dec_string)]),
      (''root_pane'', dec_struct [(''pane_id'', fld snd (\<lambda>x (w, _). (w, x)) dec_string)])]"

text \<open>The error carries the receipt that is already known.\<close>

definition Provision ::
  "'w cli \<Rightarrow> string \<Rightarrow> string \<Rightarrow> string \<Rightarrow> string \<Rightarrow> string \<Rightarrow> ('w, receipt \<times> cli_err option) state" where
  "Provision C repo workspace baseRef br label = do {
     r \<leftarrow> run_into C dec_created ([], [])
           (if workspace = ''worktree'' then worktreeCreateArgs repo baseRef br label
            else [''workspace'', ''create'', ''--cwd'', repo, ''--label'', label, ''--no-focus'']);
     (case r of
        Inl e \<Rightarrow> State_Monad.return (no_receipt, Some e)
      | Inr (ws, pane) \<Rightarrow>
          if ws = [] \<or> pane = [] then State_Monad.return (no_receipt, Some NoIdentity)
          else (let rc = \<lparr> rc_WorkspaceID = ws, rc_PaneID = pane, rc_Branch = br, rc_Path = repo \<rparr>
                in if workspace = ''worktree'' then do {
                     p \<leftarrow> worktreePath C repo br;
                     State_Monad.return
                       (case p of Inl e \<Rightarrow> (rc, Some e) | Inr path \<Rightarrow> (rc\<lparr>rc_Path := path\<rparr>, None)) }
                   else State_Monad.return (rc, None))) }"

definition CloseWorkspace :: "'w cli \<Rightarrow> string \<Rightarrow> ('w, cli_err option) state" where
  "CloseWorkspace C workspaceID = run_ok C [''workspace'', ''close'', workspaceID]"

definition Focus :: "'w cli \<Rightarrow> string \<Rightarrow> string \<Rightarrow> ('w, cli_err option) state" where
  "Focus C workspaceID paneID = do {
     r \<leftarrow> (if workspaceID \<noteq> [] then run_ok C [''workspace'', ''focus'', workspaceID] else State_Monad.return None);
     (case r of
        Some e \<Rightarrow> State_Monad.return (Some e)
      | None \<Rightarrow>
          if paneID \<noteq> [] then do {
            _ \<leftarrow> run_ok C [''agent'', ''focus'', paneID];
            State_Monad.return None }
          else State_Monad.return None) }"

section \<open>Agents\<close>

record agent_state =
  ag_Status :: string
  ag_Sequence :: int

definition dec_uint :: "int decoder" where
  "dec_uint v old =
     (case v of
        JNull \<Rightarrow> Some old
      | JNum l \<Rightarrow> if l \<noteq> [] \<and> list_all is_digit l \<and> digits_val l < 2 ^ 64 then Some (digits_val l) else None
      | _ \<Rightarrow> None)"

definition dec_agent :: "agent_state decoder" where
  "dec_agent = dec_struct
     [(''agent'', dec_struct
        [(''agent_status'', fld ag_Status (\<lambda>x a. a\<lparr>ag_Status := x\<rparr>) dec_string),
         (''state_change_seq'', fld ag_Sequence (\<lambda>x a. a\<lparr>ag_Sequence := x\<rparr>) dec_uint)])]"

definition agentState :: "'w cli \<Rightarrow> string \<Rightarrow> ('w, cli_err + agent_state) state" where
  "agentState C paneID = do {
     r \<leftarrow> run_into C dec_agent \<lparr> ag_Status = [], ag_Sequence = 0 \<rparr> [''agent'', ''get'', paneID];
     State_Monad.return
       (case r of
          Inr a \<Rightarrow> Inr a
        | Inl e \<Rightarrow> if hasCode e ''agent_not_running'' then Inr \<lparr> ag_Status = ''gone'', ag_Sequence = 0 \<rparr>
                   else Inl e) }"

definition Status :: "'w cli \<Rightarrow> string \<Rightarrow> ('w, cli_err + string) state" where
  "Status C paneID = do {
     r \<leftarrow> agentState C paneID;
     State_Monad.return (map_sum id ag_Status r) }"

definition StartAgent :: "'w cli \<Rightarrow> string \<Rightarrow> string \<Rightarrow> string \<Rightarrow> string list \<Rightarrow> ('w, cli_err option) state" where
  "StartAgent C name kind paneID args =
     run_ok C ([''agent'', ''start'', name, ''--kind'', kind, ''--pane'', paneID, ''--timeout'', ''120000'']
               @ (if args \<noteq> [] then ''--'' # args else []))"

text \<open>\<open>awaitStateChange\<close> observes through \<open>agentState\<close>, 100 ms apart.\<close>

definition await_round :: "'w cli \<Rightarrow> string \<Rightarrow> int \<Rightarrow> unit \<Rightarrow> ('w, cli_err option + unit) state" where
  "await_round C paneID initial _ = do {
     seen \<leftarrow> agentState C paneID;
     (case seen of
        Inl e \<Rightarrow> State_Monad.return (Inl (Some e))
      | Inr cur \<Rightarrow>
          if initial < ag_Sequence cur \<and> ag_Status cur \<noteq> ''unknown'' then State_Monad.return (Inl None)
          else do {
            ended \<leftarrow> pause C (100 * 1000000);
            State_Monad.return (case ended of Some e \<Rightarrow> Inl (Some (CtxErr e)) | None \<Rightarrow> Inr ()) }) }"

definition awaitStateChange :: "'w cli \<Rightarrow> string \<Rightarrow> int \<Rightarrow> 'w \<Rightarrow> (cli_err option \<times> 'w) option" where
  "awaitStateChange C paneID initial = loop (await_round C paneID initial) ()"

text \<open>The calls of \<open>Submit\<close> before the final wait, which is entered with the sequence seen before.\<close>

definition submit_prompt :: "'w cli \<Rightarrow> string \<Rightarrow> string \<Rightarrow> ('w, cli_err option + cli_err \<times> int) state" where
  "submit_prompt C paneID prompt = do {
     r \<leftarrow> run_ok C [''agent'', ''prompt'', paneID, prompt, ''--wait'', ''--until'', ''working'', ''--timeout'', ''30000''];
     (case r of
        None \<Rightarrow> State_Monad.return (Inl None)
      | Some err \<Rightarrow>
          if \<not> hasCode err ''agent_prompt_stalled'' then State_Monad.return (Inl (Some err))
          else do {
            before \<leftarrow> agentState C paneID;
            (case before of
               Inl e \<Rightarrow> State_Monad.return (Inl (Some (JoinedErr err e)))
             | Inr b \<Rightarrow>
                 if ag_Status b = ''working'' \<or> ag_Status b = ''done'' \<or> ag_Status b = ''blocked''
                 then State_Monad.return (Inl None)
                 else do {
                   sent \<leftarrow> run_ok C [''agent'', ''send-keys'', paneID, ''enter''];
                   State_Monad.return
                     (case sent of Some e \<Rightarrow> Inl (Some (JoinedErr err e)) | None \<Rightarrow> Inr (err, ag_Sequence b)) }) }) }"

definition Submit :: "'w cli \<Rightarrow> string \<Rightarrow> string \<Rightarrow> 'w \<Rightarrow> (cli_err option \<times> 'w) option" where
  "Submit C paneID prompt w =
     (case run_state (submit_prompt C paneID prompt) w of (r, w1) \<Rightarrow>
        (case r of
           Inl res \<Rightarrow> Some (res, w1)
         | Inr (err, initial) \<Rightarrow>
             map_option (apfst (map_option (JoinedErr err))) (awaitStateChange C paneID initial w1)))"

definition is_timeout :: "cli_err \<Rightarrow> bool" where
  "is_timeout e \<longleftrightarrow> hasCode e ''timeout'' \<or> hasCode e ''agent_wait_timeout''"

text \<open>One observation after a completed wait.\<close>

definition status_round :: "'w cli \<Rightarrow> string \<Rightarrow> time \<Rightarrow> unit \<Rightarrow> ('w, (cli_err + string) + unit) state" where
  "status_round C paneID statusDeadline _ = do {
     now \<leftarrow> cli_now C;
     if \<not> now < statusDeadline then State_Monad.return (Inl (Inl (CtxErr DeadlineExceeded)))
     else do {
       r \<leftarrow> Status C paneID;
       callErr \<leftarrow> call_Err C;
       if (case r of Inr status \<Rightarrow> status \<noteq> ''gone'' \<and> status \<noteq> ''unknown'' | Inl _ \<Rightarrow> False)
       then State_Monad.return (Inl r)
       else do {
         ctxErr \<leftarrow> ctx_Err C;
         (case ctxErr of
            Some e \<Rightarrow> State_Monad.return (Inl (Inl (CtxErr e)))
          | None \<Rightarrow>
              if (case r of Inl e \<Rightarrow> callErr = None \<and> \<not> is_timeout e | Inr _ \<Rightarrow> False)
              then State_Monad.return (Inl r)
              else do {
                later \<leftarrow> cli_now C;
                ended \<leftarrow> pause C (min (100 * 1000000) (Sub statusDeadline later));
                State_Monad.return (case ended of Some e \<Rightarrow> Inl (Inl (CtxErr e)) | None \<Rightarrow> Inr ()) }) } } }"

definition statusAfterCompletedWait ::
  "'w cli \<Rightarrow> string \<Rightarrow> time \<Rightarrow> 'w \<Rightarrow> ((cli_err + string) \<times> 'w) option" where
  "statusAfterCompletedWait C paneID jobDeadline w =
     (case run_state (cli_now C) w of (now, w1) \<Rightarrow>
        loop (status_round C paneID (min jobDeadline (now + 10 * second_ns))) () w1)"

datatype wait_end = WaitEnds "cli_err + string" | WaitCompleted

definition wait_round :: "'w cli \<Rightarrow> string \<Rightarrow> time \<Rightarrow> unit \<Rightarrow> ('w, wait_end + unit) state" where
  "wait_round C paneID deadline _ = do {
     now \<leftarrow> cli_now C;
     (let remaining = Sub deadline now
      in if remaining \<le> 0 then State_Monad.return (Inl (WaitEnds (Inl (CtxErr DeadlineExceeded))))
         else do {
           r \<leftarrow> run_ok C [''agent'', ''wait'', paneID, ''--timeout'', show_int (min (30 * second_ns) remaining div 1000000)];
           callErr \<leftarrow> call_Err C;
           (case r of
              None \<Rightarrow> State_Monad.return (Inl WaitCompleted)
            | Some e \<Rightarrow>
                if hasCode e ''agent_not_running'' then State_Monad.return (Inl (WaitEnds (Inr ''gone'')))
                else do {
                  ctxErr \<leftarrow> ctx_Err C;
                  (case ctxErr of
                     Some ce \<Rightarrow> State_Monad.return (Inl (WaitEnds (Inl (CtxErr ce))))
                   | None \<Rightarrow>
                       if callErr = None \<and> \<not> is_timeout e then State_Monad.return (Inl (WaitEnds (Inl e)))
                       else do {
                         ended \<leftarrow> pause C (100 * 1000000);
                         State_Monad.return
                           (case ended of Some ce \<Rightarrow> Inl (WaitEnds (Inl (CtxErr ce))) | None \<Rightarrow> Inr ()) }) }) }) }"

definition Wait :: "'w cli \<Rightarrow> string \<Rightarrow> duration \<Rightarrow> 'w \<Rightarrow> ((cli_err + string) \<times> 'w) option" where
  "Wait C paneID timeout w =
     (case run_state (cli_now C) w of (now, w1) \<Rightarrow>
        (let deadline = now + timeout
         in case loop (wait_round C paneID deadline) () w1 of
              None \<Rightarrow> None
            | Some (WaitEnds r, w2) \<Rightarrow> Some (r, w2)
            | Some (WaitCompleted, w2) \<Rightarrow> statusAfterCompletedWait C paneID deadline w2))"

section \<open>Commands\<close>

definition commandTranscriptLines :: nat where "commandTranscriptLines = 200"

definition StartCommand :: "'w cli \<Rightarrow> string \<Rightarrow> string \<Rightarrow> ('w, cli_err option) state" where
  "StartCommand C paneID command = run_ok C [''pane'', ''run'', paneID, ''sh'', ''-c'', shellQuote command]"

definition paneRead :: "'w cli \<Rightarrow> string \<Rightarrow> nat \<Rightarrow> ('w, cli_err + string) state" where
  "paneRead C paneID lines = do {
     r \<leftarrow> exec C [''pane'', ''read'', paneID, ''--source'', ''recent-unwrapped'', ''--lines'', show_nat lines,
                  ''--format'', ''text''];
     State_Monad.return
       (case ex_error r of
          None \<Rightarrow> Inr (ex_stdout r)
        | Some m \<Rightarrow> (let t = TrimSpace (ex_stderr r) in Inl (PaneRead (if t = [] then m else t)))) }"

definition CommandTranscript :: "'w cli \<Rightarrow> string \<Rightarrow> ('w, cli_err + string) state" where
  "CommandTranscript C paneID = paneRead C paneID commandTranscriptLines"

text \<open>
  The submatches of \<open>marker:(\d+)\<close>, leftmost first and without overlap. \<open>QuoteMeta\<close> makes the
  marker literal, and \<open>\d\<close> is an ASCII digit.
\<close>

fun completion_codes :: "nat \<Rightarrow> string \<Rightarrow> string \<Rightarrow> string list" where
  "completion_codes 0 marker s = []"
| "completion_codes (Suc n) marker [] = []"
| "completion_codes (Suc n) marker (c # cs) =
     (let rest = drop (length marker + 1) (c # cs); ds = takeWhile is_digit rest
      in if prefix (marker @ '':'') (c # cs) \<and> ds \<noteq> []
         then ds # completion_codes n marker (drop (length ds) rest)
         else completion_codes n marker cs)"

definition command_result :: "string \<Rightarrow> string \<Rightarrow> cli_err + int \<times> bool" where
  "command_result marker screen =
     (case completion_codes (length screen) marker screen of
        [] \<Rightarrow> Inr (0, False)
      | ms \<Rightarrow> (case Atoi (last ms) of None \<Rightarrow> Inl BadCompletion | Some code \<Rightarrow> Inr (code, True)))"

definition CommandResult :: "'w cli \<Rightarrow> string \<Rightarrow> string \<Rightarrow> ('w, cli_err + int \<times> bool) state" where
  "CommandResult C paneID marker = do {
     r \<leftarrow> paneRead C paneID commandTranscriptLines;
     State_Monad.return (case r of Inl e \<Rightarrow> Inl e | Inr screen \<Rightarrow> command_result marker screen) }"

definition command_round :: "'w cli \<Rightarrow> string \<Rightarrow> string \<Rightarrow> time \<Rightarrow> nat \<Rightarrow> ('w, (cli_err + int) + nat) state" where
  "command_round C paneID marker deadline failures = do {
     r \<leftarrow> CommandResult C paneID marker;
     (let go_on = (\<lambda>fs. do {
            now \<leftarrow> cli_now C;
            if \<not> now < deadline then State_Monad.return (Inl (Inl (CtxErr DeadlineExceeded)))
            else do {
              ended \<leftarrow> pause C (2 * second_ns);
              State_Monad.return (case ended of Some e \<Rightarrow> Inl (Inl (CtxErr e)) | None \<Rightarrow> Inr fs) } })
      in case r of
           Inl e \<Rightarrow> do {
             ctxErr \<leftarrow> ctx_Err C;
             (case ctxErr of
                Some ce \<Rightarrow> State_Monad.return (Inl (Inl (CtxErr ce)))
              | None \<Rightarrow> if 3 \<le> Suc failures then State_Monad.return (Inl (Inl e)) else go_on (Suc failures)) }
         | Inr (code, done) \<Rightarrow> if done then State_Monad.return (Inl (Inr code)) else go_on 0) }"

definition WaitCommand :: "'w cli \<Rightarrow> string \<Rightarrow> string \<Rightarrow> duration \<Rightarrow> 'w \<Rightarrow> ((cli_err + int) \<times> 'w) option" where
  "WaitCommand C paneID marker timeout w =
     (case run_state (cli_now C) w of (now, w1) \<Rightarrow>
        loop (command_round C paneID marker (now + timeout)) 0 w1)"

end
