(* ===== verification/HerdrProperties.thy ===== *)
theory HerdrProperties
  imports HerdrClient EngineTextProperties
begin

text \<open>
  Properties of the \<open>herdr\<close> client: what an absent workspace proves, how the two readers of a
  completion status agree, and what a confirmed prompt and a finished wait mean.
\<close>

section \<open>Absence of a workspace\<close>

definition no_fields :: inventory_fields where
  "no_fields = \<lparr> f_branch = None, f_path = None, f_detached = None, f_bare = None \<rparr>"

text \<open>A row that was understood: a path, and a branch or a statement that there is none.\<close>

definition understood :: "json \<Rightarrow> string option \<Rightarrow> bool" where
  "understood row b \<longleftrightarrow>
     (\<exists>fs p. dec_inventory_fields row no_fields = Some fs \<and> f_path fs = Some (JStr p) \<and> p \<noteq> []
        \<and> (case b of
             Some name \<Rightarrow> f_branch fs = Some (JStr name) \<and> name \<noteq> []
           | None \<Rightarrow> f_branch fs = Some JNull
               \<or> f_branch fs = None \<and> (f_detached fs = Some (JBool True) \<or> f_bare fs = Some (JBool True))))"

lemma flag_True: "decodeInventoryFlag i raw = Inr (Some b) \<Longrightarrow> raw = Some (JBool b)"
  by (auto simp: decodeInventoryFlag_def split: option.splits json.splits)

lemma inventory_branch_sound:
  assumes "inventory_branch i raw detached bare = Inr b"
  shows "case b of Some name \<Rightarrow> raw = Some (JStr name) \<and> name \<noteq> []
    | None \<Rightarrow> raw = Some JNull \<or> raw = None \<and> (detached = Some True \<or> bare = Some True)"
  using assms by (auto simp: inventory_branch_def Let_def split: option.splits json.splits if_splits)

lemma inventory_path_sound: "inventory_path i raw = Inr p \<Longrightarrow> raw = Some (JStr p) \<and> p \<noteq> []"
  by (auto simp: inventory_path_def split: option.splits json.splits if_splits)

lemma decode_row_sound:
  assumes "decode_row i row = Inr entry"
  shows "understood row (inv_branch entry) \<and> inv_path entry \<noteq> []"
proof -
  from assms obtain fs detached bare b p where
    fs: "dec_inventory_fields row no_fields = Some fs"
    and flags: "decodeInventoryFlag i (f_detached fs) = Inr detached" "decodeInventoryFlag i (f_bare fs) = Inr bare"
    and b: "inventory_branch i (f_branch fs) detached bare = Inr b"
    and p: "inventory_path i (f_path fs) = Inr p" and e: "entry = \<lparr> inv_branch = b, inv_path = p \<rparr>"
    by (auto simp: decode_row_def no_fields_def split: if_splits option.splits sum.splits)
  from inventory_branch_sound [OF b] inventory_path_sound [OF p] fs flag_True flags show ?thesis
    unfolding understood_def e by (cases b) auto
qed

lemma decode_rows_sound:
  "decode_rows i rows = Inr entries \<Longrightarrow> list_all2 (\<lambda>row e. understood row (inv_branch e) \<and> inv_path e \<noteq> []) rows entries"
proof (induction i rows arbitrary: entries rule: decode_rows.induct)
  case (1 i)
  then show ?case by simp
next
  case (2 i row rows)
  then obtain e es where "decode_row i row = Inr e" "decode_rows (Suc i) rows = Inr es" "entries = e # es"
    by (cases "decode_rows (Suc i) rows") (auto split: sum.splits)
  with 2 show ?case using decode_row_sound by fastforce
qed

text \<open>C34: \<open>FindWorkspaceByBranch\<close> reports that a branch names nothing only from a worktree list that
  succeeded and was understood in full: its array was there, and every row has a path and either
  names another branch or says that it has none.\<close>

theorem absence_needs_full_inventory:
  assumes "run_state (FindWorkspaceByBranch C repo br) w = (Inr (rc, False), w')"
  shows "\<exists>r rows. run_state (exec C [''worktree'', ''list'', ''--cwd'', repo]) w = (r, w') \<and> ex_error r = None
    \<and> decode_response (dec_struct [(''worktrees'', dec_raw)]) None (ex_stdout r) = Inr (Some (JArr rows))
    \<and> (\<forall>row\<in>set rows. \<exists>b. understood row b \<and> b \<noteq> Some br)"
proof -
  obtain r w1 where r: "run_state (exec C [''worktree'', ''list'', ''--cwd'', repo]) w = (r, w1)" by fastforce
  from assms r obtain raw entries where
    ok: "ex_error r = None" and raw: "decode_response (dec_struct [(''worktrees'', dec_raw)]) None (ex_stdout r) = Inr raw"
    and entries: "decodeWorktreeInventory raw = Inr entries" and none: "worktree_of br entries = []" and w: "w' = w1"
    by (auto simp: FindWorkspaceByBranch_def run_into_def run_cli_def Let_def
        split: option.splits sum.splits if_splits prod.splits)
  from entries obtain rows where rows: "raw = Some (JArr rows)" "decode_rows 0 rows = Inr entries"
    by (auto simp: decodeWorktreeInventory_def split: option.splits json.splits)
  note sound = decode_rows_sound [OF rows(2)]
  have "\<exists>b. understood row b \<and> b \<noteq> Some br" if row: "row \<in> set rows" for row
  proof -
    from row sound obtain e where e: "e \<in> set entries" "understood row (inv_branch e)"
      by (auto simp: list_all2_conv_all_nth in_set_conv_nth) (metis nth_mem)
    have paths: "\<forall>e\<in>set entries. inv_path e \<noteq> []"
      using sound by (auto simp: list_all2_conv_all_nth in_set_conv_nth)
    have "inv_branch e \<noteq> Some br"
    proof
      assume "inv_branch e = Some br"
      with e(1) obtain e' where e': "find (\<lambda>x. inv_branch x = Some br) entries = Some e'"
        by (cases "find (\<lambda>x. inv_branch x = Some br) entries") (auto simp: find_None_iff)
      then have "e' \<in> set entries" by (auto simp: find_Some_iff in_set_conv_nth)
      with paths e' none show False by (simp add: worktree_of_def)
    qed
    with e(2) show ?thesis by blast
  qed
  with r ok raw rows(1) w show ?thesis by blast
qed

text \<open>A client whose program answers every call with the same output.\<close>

definition answering :: "string \<Rightarrow> nat cli" where
  "answering out =
     \<lparr> exec = (\<lambda>_. State (\<lambda>n. (\<lparr> ex_stdout = out, ex_stderr = [], ex_error = None \<rparr>, Suc n))),
       ctx_Err = State_Monad.return None, call_Err = State_Monad.return None,
       cli_now = State (\<lambda>n. (second_ns * int n, n)), pause = (\<lambda>_. State (\<lambda>n. (None, Suc n))) \<rparr>"

definition unquote :: "string \<Rightarrow> string" where
  "unquote s = map (\<lambda>c. if c = CHR ''~'' then CHR 0x22 else c) s"

definition demo_inventory :: string where
  "demo_inventory = unquote ''{~worktrees~:[{~branch~:~main~,~path~:~/r~},{~is_detached~:true,~path~:~/d~}]}''"

lemma demo_find:
  "run_state (FindWorkspaceByBranch (answering demo_inventory) ''/r'' ''auto/x'') 0 = (Inr (no_receipt, False), 1)"
proof -
  have "decode_response (dec_struct [(''worktrees'', dec_raw)]) None demo_inventory
      = Inr (Some (JArr [JObj [(''branch'', JStr ''main''), (''path'', JStr ''/r'')],
                         JObj [(''is_detached'', JBool True), (''path'', JStr ''/d'')]]))" by code_simp
  moreover have "decodeWorktreeInventory (Some (JArr [JObj [(''branch'', JStr ''main''), (''path'', JStr ''/r'')],
                         JObj [(''is_detached'', JBool True), (''path'', JStr ''/d'')]]))
      = Inr [\<lparr> inv_branch = Some ''main'', inv_path = ''/r'' \<rparr>, \<lparr> inv_branch = None, inv_path = ''/d'' \<rparr>]" by code_simp
  ultimately show ?thesis
    by (simp add: FindWorkspaceByBranch_def run_into_def run_cli_def answering_def worktree_of_def)
qed

theorem absence_needs_full_inventory_witness:
  "\<exists>rows. decode_response (dec_struct [(''worktrees'', dec_raw)]) None demo_inventory = Inr (Some (JArr rows))
    \<and> (\<exists>b. understood (hd rows) b \<and> b \<noteq> Some ''auto/x'')"
proof -
  from absence_needs_full_inventory [OF demo_find] obtain r rows where
    r: "run_state (exec (answering demo_inventory) [''worktree'', ''list'', ''--cwd'', ''/r'']) 0 = (r, 1)"
    and dec: "decode_response (dec_struct [(''worktrees'', dec_raw)]) None (ex_stdout r) = Inr (Some (JArr rows))"
    and all: "\<forall>row\<in>set rows. \<exists>b. understood row b \<and> b \<noteq> Some ''auto/x''" by blast
  from r have out: "ex_stdout r = demo_inventory" by (auto simp: answering_def)
  have "decode_response (dec_struct [(''worktrees'', dec_raw)]) None demo_inventory
      = Inr (Some (JArr [JObj [(''branch'', JStr ''main''), (''path'', JStr ''/r'')],
                         JObj [(''is_detached'', JBool True), (''path'', JStr ''/d'')]]))" by code_simp
  with dec out have "rows \<noteq> []" by auto
  with all dec out show ?thesis by (metis list.set_sel(1))
qed

section \<open>Completion statuses\<close>

definition completes :: "string \<Rightarrow> string \<Rightarrow> bool" where
  "completes marker s \<longleftrightarrow> (\<exists>a c b. s = a @ (marker @ '':'') @ c # b \<and> is_digit c)"

lemma completes_Cons:
  "completes marker (c # cs) \<longleftrightarrow>
     (\<exists>d b. c # cs = (marker @ '':'') @ d # b \<and> is_digit d) \<or> completes marker cs"
proof
  assume "completes marker (c # cs)"
  then obtain a d b where a: "c # cs = a @ (marker @ '':'') @ d # b" "is_digit d" by (auto simp: completes_def)
  show "(\<exists>d b. c # cs = (marker @ '':'') @ d # b \<and> is_digit d) \<or> completes marker cs"
  proof (cases a)
    case Nil
    with a show ?thesis by auto
  next
    case (Cons x xs)
    with a have "cs = xs @ (marker @ '':'') @ d # b" by simp
    with a(2) show ?thesis unfolding completes_def by blast
  qed
next
  assume "(\<exists>d b. c # cs = (marker @ '':'') @ d # b \<and> is_digit d) \<or> completes marker cs"
  then show "completes marker (c # cs)"
    unfolding completes_def by (metis append_Cons append_Nil)
qed

lemma completion_codes_iff:
  "length s \<le> n \<Longrightarrow> completion_codes n marker s \<noteq> [] \<longleftrightarrow> completes marker s"
proof (induction n marker s rule: completion_codes.induct)
  case (1 marker s)
  then show ?case by (simp add: completes_def)
next
  case (2 n marker)
  then show ?case by (simp add: completes_def)
next
  case (3 n marker c cs)
  define rest where "rest = drop (length marker + 1) (c # cs)"
  have head: "(prefix (marker @ '':'') (c # cs) \<and> takeWhile is_digit rest \<noteq> [])
      \<longleftrightarrow> (\<exists>d b. c # cs = (marker @ '':'') @ d # b \<and> is_digit d)"
  proof
    assume l: "prefix (marker @ '':'') (c # cs) \<and> takeWhile is_digit rest \<noteq> []"
    then obtain zs where zs: "c # cs = (marker @ '':'') @ zs" by (auto simp: prefix_def)
    then have "rest = zs" unfolding rest_def by simp
    with zs have "c # cs = (marker @ '':'') @ rest" by simp
    moreover from l obtain d b where "rest = d # b" "is_digit d" by (cases rest) (auto split: if_splits)
    ultimately show "\<exists>d b. c # cs = (marker @ '':'') @ d # b \<and> is_digit d" by blast
  next
    assume "\<exists>d b. c # cs = (marker @ '':'') @ d # b \<and> is_digit d"
    then obtain d b where d: "c # cs = (marker @ '':'') @ d # b" "is_digit d" by blast
    then have "rest = d # b" by (simp add: rest_def)
    with d show "prefix (marker @ '':'') (c # cs) \<and> takeWhile is_digit rest \<noteq> []" by (metis list.simps(3) prefixI takeWhile.simps(2))
  qed
  show ?case
  proof (cases "prefix (marker @ '':'') (c # cs) \<and> takeWhile is_digit rest \<noteq> []")
    case True
    then have "completion_codes (Suc n) marker (c # cs) \<noteq> []" by (simp add: rest_def Let_def)
    moreover have "completes marker (c # cs)" using True head completes_Cons by blast
    ultimately show ?thesis by blast
  next
    case False
    then have "completion_codes (Suc n) marker (c # cs) = completion_codes n marker cs"
      by (auto simp: rest_def Let_def)
    moreover have "completion_codes n marker cs \<noteq> [] \<longleftrightarrow> completes marker cs"
      using 3 False by (auto simp: rest_def)
    ultimately show ?thesis using head False completes_Cons by metis
  qed
qed

lemma after_first_Some:
  assumes "after_first pat s = Some r"
  shows "\<exists>a. s = a @ pat @ r \<and> (\<forall>a' b. s = a' @ pat @ b \<longrightarrow> length a \<le> length a')"
  using assms
proof (induction pat s rule: after_first.induct)
  case (1 pat)
  then show ?case by (auto split: if_splits)
next
  case (2 pat c cs)
  show ?case
  proof (cases "prefix pat (c # cs)")
    case True
    with 2(2) have "c # cs = [] @ pat @ r" by (auto simp: prefix_def)
    then show ?thesis by (intro exI [of _ "[]"]) simp
  next
    case False
    with 2 obtain a where a: "cs = a @ pat @ r" "\<forall>a' b. cs = a' @ pat @ b \<longrightarrow> length a \<le> length a'" by auto
    have "length (c # a) \<le> length a'" if "c # cs = a' @ pat @ b" for a' b
      using that False a(2) by (cases a') auto
    with a(1) show ?thesis by (intro exI [of _ "c # a"]) auto
  qed
qed

lemma after_first_None: "after_first pat s = None \<Longrightarrow> s \<noteq> a @ pat @ b"
proof (induction pat s arbitrary: a rule: after_first.induct)
  case (1 pat)
  then show ?case by (auto split: if_splits)
next
  case (2 pat c cs)
  then have no: "\<not> prefix pat (c # cs)" "after_first pat cs = None" by (auto split: if_splits)
  show ?case
  proof
    assume eq: "c # cs = a @ pat @ b"
    show False
    proof (cases a)
      case Nil
      with eq no(1) show False by (auto simp: prefix_def)
    next
      case (Cons x xs)
      with eq have "cs = xs @ pat @ b" by simp
      with 2(1) [OF no] show False by blast
    qed
  qed
qed

text \<open>A marker without a colon cannot overlap itself, so the search may skip a whole match.\<close>

lemma completes_after:
  assumes "CHR '':'' \<notin> set marker" and "s = a @ (marker @ '':'') @ r"
    and "\<forall>a' b. s = a' @ (marker @ '':'') @ b \<longrightarrow> length a \<le> length a'"
    and "r = [] \<or> \<not> is_digit (hd r)"
  shows "completes marker s \<longleftrightarrow> completes marker r"
proof
  assume "completes marker r"
  then obtain x c y where "r = x @ (marker @ '':'') @ c # y" "is_digit c" by (auto simp: completes_def)
  then have "s = (a @ (marker @ '':'') @ x) @ (marker @ '':'') @ c # y" using assms(2) by simp
  with \<open>is_digit c\<close> show "completes marker s" unfolding completes_def by blast
next
  assume "completes marker s"
  then obtain a' c b where s': "s = a' @ (marker @ '':'') @ c # b" and c: "is_digit c" by (auto simp: completes_def)
  with assms(3) have le: "length a \<le> length a'" by blast
  define k where "k = length a + length marker"
  have colon: "s ! k = CHR '':''" using assms(2) by (simp add: k_def nth_append)
  have "\<not> (length a' \<le> k \<and> k < length a' + length marker)"
  proof
    assume k: "length a' \<le> k \<and> k < length a' + length marker"
    then have "k - length a' < length marker" by arith
    with k have "s ! k = marker ! (k - length a')" using s' by (simp add: nth_append)
    with colon k have "CHR '':'' \<in> set marker" by (metis add_diff_inverse_nat leD nat_add_left_cancel_less nth_mem)
    with assms(1) show False by blast
  qed
  with le have "a' = a \<or> length a + length marker + 1 \<le> length a'"
    using s' assms(2) by (auto simp: k_def append_eq_append_conv)
  then show "completes marker r"
  proof
    assume "a' = a"
    with s' assms(2) have "r = c # b" by simp
    with assms(4) c show ?thesis by simp
  next
    assume far: "length a + length marker + 1 \<le> length a'"
    then have "drop (length a + length marker + 1) a' @ (marker @ '':'') @ c # b = drop (length a + length marker + 1) s"
      using s' by simp
    also have "\<dots> = r" using assms(2) by simp
    finally show ?thesis using c unfolding completes_def by blast
  qed
qed

lemma completion_from_iff:
  assumes "CHR '':'' \<notin> set marker" and "length s < n"
  shows "completion_from n marker s \<longleftrightarrow> completes marker s"
  using assms(2)
proof (induction n arbitrary: s)
  case 0
  then show ?case by simp
next
  case (Suc n)
  show ?case
  proof (cases "after_first (marker @ '':'') s")
    case None
    with after_first_None [OF None] show ?thesis by (auto simp: completes_def)
  next
    case (Some r)
    from after_first_Some [OF this] obtain a where
      a: "s = a @ (marker @ '':'') @ r" "\<forall>a' b. s = a' @ (marker @ '':'') @ b \<longrightarrow> length a \<le> length a'" by blast
    have r: "length r < n" using a(1) Suc.prems by simp
    show ?thesis
    proof (cases "r \<noteq> [] \<and> is_digit (hd r)")
      case True
      then have "completes marker s" using a(1) unfolding completes_def by (metis list.exhaust_sel)
      with True Some show ?thesis by (cases r) auto
    next
      case False
      then have "completes marker s \<longleftrightarrow> completes marker r"
        using completes_after [OF assms(1) a] by blast
      with Suc.IH [OF r] False Some show ?thesis by (cases r) auto
    qed
  qed
qed

lemma hasCompletionStatus_iff:
  "CHR '':'' \<notin> set marker \<Longrightarrow> hasCompletionStatus line marker \<longleftrightarrow> completes marker line"
  unfolding hasCompletionStatus_def by (rule completion_from_iff) simp_all

text \<open>A status lies within one line.\<close>

lemma within_side:
  assumes "x @ e # y = a @ v @ b" and "e \<notin> set v"
  shows "(\<exists>b'. x = a @ v @ b') \<or> (\<exists>a'. y = a' @ v @ b)"
proof -
  have "(x @ e # y) ! length x = e" by simp
  then have e: "(a @ v @ b) ! length x = e" using assms(1) by simp
  have "\<not> (length a \<le> length x \<and> length x < length a + length v)"
  proof
    assume l: "length a \<le> length x \<and> length x < length a + length v"
    then have "length x - length a < length v" by arith
    with l e have "v ! (length x - length a) = e" by (simp add: nth_append)
    with \<open>length x - length a < length v\<close> assms(2) show False by (metis nth_mem)
  qed
  then consider "length a + length v \<le> length x" | "length x < length a" by linarith
  then show ?thesis
  proof cases
    case 1
    have "take (length a + length v) (x @ e # y) = take (length a + length v) (a @ v @ b)" using assms(1) by simp
    with 1 have "take (length a + length v) x = a @ v" by simp
    then show ?thesis by (metis append.assoc append_take_drop_id)
  next
    case 2
    have "drop (Suc (length x)) (x @ e # y) = drop (Suc (length x)) (a @ v @ b)" using assms(1) by simp
    with 2 have "y = drop (Suc (length x)) a @ v @ b" by simp
    then show ?thesis by blast
  qed
qed

lemma completes_LF:
  assumes "CHR 0x0A \<notin> set marker"
  shows "completes marker (x @ CHR 0x0A # y) \<longleftrightarrow> completes marker x \<or> completes marker y"
proof
  assume "completes marker (x @ CHR 0x0A # y)"
  then obtain a c b where s: "x @ CHR 0x0A # y = a @ (marker @ '':'' @ [c]) @ b" and c: "is_digit c"
    by (auto simp: completes_def)
  have "CHR 0x0A \<notin> set (marker @ '':'' @ [c])" using assms c by (auto simp: is_digit_def less_eq_char_def)
  from within_side [OF s this] obtain b' a' where
    "x = a @ (marker @ '':'') @ c # b' \<or> y = a' @ (marker @ '':'') @ c # b" by auto
  with c show "completes marker x \<or> completes marker y" unfolding completes_def by blast
next
  assume "completes marker x \<or> completes marker y"
  then obtain a c b where c: "is_digit c" and "x = a @ (marker @ '':'') @ c # b \<or> y = a @ (marker @ '':'') @ c # b"
    by (auto simp: completes_def)
  then have "x @ CHR 0x0A # y = a @ (marker @ '':'') @ c # (b @ CHR 0x0A # y)
      \<or> x @ CHR 0x0A # y = (x @ CHR 0x0A # a) @ (marker @ '':'') @ c # b" by auto
  with c show "completes marker (x @ CHR 0x0A # y)" unfolding completes_def by blast
qed

lemma Split_no_sep: "sep \<notin> set s \<Longrightarrow> Split sep s = [s]"
  by (induction s) auto

lemma completes_lines:
  assumes "CHR 0x0A \<notin> set marker"
  shows "completes marker s \<longleftrightarrow> (\<exists>l\<in>set (Split CHR 0x0A s). completes marker l)"
proof (induction "length s" arbitrary: s rule: less_induct)
  case less
  show ?case
  proof (cases "CHR 0x0A \<in> set s")
    case True
    then obtain x y where s: "s = x @ CHR 0x0A # y" "CHR 0x0A \<notin> set x" by (metis split_list_first)
    with less [of y] show ?thesis by (simp add: Split_append Split_no_sep completes_LF [OF assms])
  next
    case False
    then show ?thesis by (simp add: Split_no_sep)
  qed
qed

lemma marker_chars: "CHR '':'' \<notin> set (completionMarker i)" "CHR 0x0A \<notin> set (completionMarker i)"
proof -
  have "marker_char r \<noteq> CHR '':'' \<and> marker_char r \<noteq> CHR 0x0A" for r
  proof -
    have "of_char (marker_char r) \<in> {65..90} \<union> {48..57} \<union> {95 :: nat}" by (auto simp: marker_char_def)
    then have "of_char (marker_char r) \<noteq> (58 :: nat)" "of_char (marker_char r) \<noteq> (10 :: nat)" by auto
    then show ?thesis by auto
  qed
  then have "CHR '':'' \<notin> range marker_char" "CHR 0x0A \<notin> range marker_char" by (metis rangeE)+
  then have "CHR '':'' \<notin> (\<lambda>r. marker_char (upper_rune r)) ` R" "CHR 0x0A \<notin> (\<lambda>r. marker_char (upper_rune r)) ` R" for R
    by blast+
  then show "CHR '':'' \<notin> set (completionMarker i)" "CHR 0x0A \<notin> set (completionMarker i)"
    by (simp_all add: completionMarker_def)
qed

lemma no_status_iff:
  assumes "marker \<noteq> []" and "expected \<noteq> []"
  shows "ParseClaudeModelAttestation t marker expected = Inl NoCompletionStatus
    \<longleftrightarrow> \<not> list_ex (\<lambda>l. hasCompletionStatus l marker) (Split CHR 0x0A t)"
proof (cases "list_ex (\<lambda>l. hasCompletionStatus l marker) (Split CHR 0x0A t)")
  case True
  then show ?thesis using assms
    by (simp add: ParseClaudeModelAttestation_def Let_def split: option.split prod.split)
next
  case False
  then show ?thesis using assms by (simp add: ParseClaudeModelAttestation_def Let_def)
qed

text \<open>C35: The two readers of a pane agree on whether a command has finished: \<open>CommandResult\<close> sees no
  completion status of a run in a transcript exactly when the attestation of the same transcript
  stops for want of one, whatever model it expects.\<close>

theorem completion_readers_agree:
  "command_result (completionMarker i) screen = Inr (0, False)
   \<longleftrightarrow> ParseClaudeModelAttestation screen (completionMarker i) (c # model) = Inl NoCompletionStatus"
proof -
  let ?m = "completionMarker i"
  have "command_result ?m screen = Inr (0, False) \<longleftrightarrow> completion_codes (length screen) ?m screen = []"
    by (auto simp: command_result_def split: list.splits option.splits)
  also have "\<dots> \<longleftrightarrow> \<not> completes ?m screen" using completion_codes_iff [of screen "length screen" ?m] by blast
  also have "\<dots> \<longleftrightarrow> \<not> list_ex (\<lambda>l. hasCompletionStatus l ?m) (Split CHR 0x0A screen)"
    unfolding list_ex_iff
    using completes_lines [OF marker_chars(2) [of i], of screen] hasCompletionStatus_iff [OF marker_chars(1) [of i]]
    by blast
  also have "\<dots> \<longleftrightarrow> ParseClaudeModelAttestation screen ?m (c # model) = Inl NoCompletionStatus"
    by (rule no_status_iff [symmetric]) (simp_all add: completionMarker_def)
  finally show ?thesis .
qed

lemma codes_Cons:
  "completion_codes (Suc n) marker (c # cs) =
     (if prefix (marker @ '':'') (c # cs) \<and> takeWhile is_digit (drop (length marker) cs) \<noteq> []
      then takeWhile is_digit (drop (length marker) cs)
           # completion_codes n marker (dropWhile is_digit (drop (length marker) cs))
      else completion_codes n marker cs)"
proof -
  have "drop (length (takeWhile is_digit r)) r = dropWhile is_digit r" for r
    by (metis append_eq_conv_conj takeWhile_dropWhile_id)
  then show ?thesis by (simp add: Let_def del: drop_drop)
qed

lemma digits_before_LF:
  "takeWhile is_digit (d @ CHR 0x0A # y) = takeWhile is_digit d"
  "dropWhile is_digit (d @ CHR 0x0A # y) = dropWhile is_digit d @ CHR 0x0A # y"
  by (induction d) (auto simp: is_digit_def less_eq_char_def)

lemma codes_fuel:
  "length s \<le> n \<Longrightarrow> length s \<le> n' \<Longrightarrow> completion_codes n marker s = completion_codes n' marker s"
proof (induction "length s" arbitrary: s n n' rule: less_induct)
  case less
  show ?case
  proof (cases s)
    case Nil
    then show ?thesis by (cases n; cases n') simp_all
  next
    case (Cons c cs)
    with less.prems obtain m m' where m: "n = Suc m" "n' = Suc m'" "length cs \<le> m" "length cs \<le> m'"
      by (cases n; cases n') auto
    let ?r = "dropWhile is_digit (drop (length marker) cs)"
    have "length ?r \<le> length cs" using length_dropWhile_le le_trans by (metis diff_le_self length_drop)
    with m Cons have "completion_codes m marker ?r = completion_codes m' marker ?r"
      "completion_codes m marker cs = completion_codes m' marker cs"
      by (auto intro!: less.hyps)
    then show ?thesis unfolding Cons m codes_Cons by simp
  qed
qed

abbreviation codes :: "string \<Rightarrow> string \<Rightarrow> string list" where
  "codes marker s \<equiv> completion_codes (length s) marker s"

lemma prefix_before_sep: "prefix v (x @ e # y) \<Longrightarrow> e \<notin> set v \<Longrightarrow> prefix v x"
proof (induction v arbitrary: x)
  case (Cons c v)
  show ?case
  proof (cases x)
    case Nil
    with Cons.prems show ?thesis by simp
  next
    fix d x' assume x: "x = d # x'"
    with Cons.prems have "c = d" "prefix v (x' @ e # y)" "e \<notin> set v" by simp_all
    from Cons.IH [OF this(2,3)] \<open>c = d\<close> show ?thesis unfolding x by simp
  qed
qed simp

lemma command_result_last:
  "completion_codes (length s) marker s = cs @ [c] \<Longrightarrow> Atoi c = Some n \<Longrightarrow> command_result marker s = Inr (n, True)"
  by (cases cs) (simp_all add: command_result_def)

lemma codes_LF:
  assumes "CHR 0x0A \<notin> set marker"
  shows "codes marker (x @ CHR 0x0A # y) = codes marker x @ codes marker y"
proof (induction "length x" arbitrary: x rule: less_induct)
  case less
  have pat: "CHR 0x0A \<notin> set (marker @ '':'')" using assms by simp
  show ?case
  proof (cases x)
    case Nil
    have "\<not> prefix (marker @ '':'') (CHR 0x0A # y)" using pat by (cases marker) (auto simp: prefix_def)
    with Nil show ?thesis by (simp add: codes_Cons del: completion_codes.simps(3))
  next
    case (Cons c cs)
    have sub: "completion_codes (length (cs @ CHR 0x0A # y)) marker (z @ CHR 0x0A # y)
        = completion_codes (length cs) marker z @ codes marker y" if "length z \<le> length cs" for z
    proof -
      have "completion_codes (length (cs @ CHR 0x0A # y)) marker (z @ CHR 0x0A # y) = codes marker (z @ CHR 0x0A # y)"
        using that by (intro codes_fuel) simp_all
      also have "\<dots> = codes marker z @ codes marker y" using that Cons by (intro less) simp
      also have "codes marker z = completion_codes (length cs) marker z" using that by (intro codes_fuel) simp_all
      finally show ?thesis .
    qed
    show ?thesis
    proof (cases "prefix (marker @ '':'') (c # cs)")
      case True
      then have len: "length marker \<le> length cs" by (auto dest: prefix_length_le)
      let ?d = "drop (length marker) cs"
      have le: "length (dropWhile is_digit ?d) \<le> length cs"
        using length_dropWhile_le le_trans by (metis diff_le_self length_drop)
      from True have "prefix (marker @ '':'') (c # cs @ CHR 0x0A # y)" by (metis append_Cons prefix_prefix)
      with True len digits_before_LF sub [OF le] sub [of cs] show ?thesis
        unfolding Cons by (simp add: codes_Cons del: completion_codes.simps(3))
    next
      case False
      have "\<not> prefix (marker @ '':'') (c # cs @ CHR 0x0A # y)"
        using False prefix_before_sep [of "marker @ '':''" "c # cs"] pat by auto
      with False sub [of cs] show ?thesis
        unfolding Cons by (simp add: codes_Cons del: completion_codes.simps(3))
    qed
  qed
qed

lemma codes_none: "command_result marker s = Inr (0, False) \<Longrightarrow> codes marker s = []"
  by (auto simp: command_result_def split: list.splits option.splits)

lemma Atoi_show_nat: "int n < 2 ^ 63 \<Longrightarrow> Atoi (show_nat n) = Some (int n)"
proof -
  assume n: "int n < 2 ^ 63"
  obtain c cs where s: "show_nat n = c # cs" using show_nat_digits [of n] by (cases "show_nat n") auto
  with show_nat_digits [of n] have d: "list_all is_digit (c # cs)" and "CHR ''-'' \<noteq> c" "CHR ''+'' \<noteq> c"
    by (auto simp: is_digit_def less_eq_char_def)
  with s n digits_val_show [of n] show ?thesis by (auto simp: Atoi_def Let_def in_int64_def)
qed

lemma codes_status: "codes marker (marker @ '':'' @ show_nat n) = [show_nat n]"
proof -
  have d: "takeWhile is_digit (show_nat n) = show_nat n" "dropWhile is_digit (show_nat n) = []" "show_nat n \<noteq> []"
    using show_nat_digits [of n] by (auto simp: list_all_iff takeWhile_eq_all_conv)
  obtain c cs where s: "marker @ '':'' @ show_nat n = c # cs" by (cases marker) auto
  then have "drop (length marker + 1) (c # cs) = show_nat n" by (simp flip: s)
  then have r: "drop (length marker) cs = show_nat n" by simp
  have "prefix (marker @ '':'') (c # cs)" by (simp flip: s)
  moreover have "completion_codes k marker [] = []" for k by (cases k) simp_all
  ultimately show ?thesis unfolding s list.size codes_Cons add_0_right add_Suc_right
    by (simp add: r d del: completion_codes.simps(3))
qed

text \<open>What the command line prints when the harness exits is read back as that exit status: a
  transcript that holds the marker line with code \<open>code\<close>, whatever came before and followed by no
  further status, gives \<open>CommandResult\<close> exactly the code.\<close>

theorem exit_status_observed:
  assumes "command_result (completionMarker i) later = Inr (0, False)" and "code \<le> 255"
  shows "command_result (completionMarker i)
      (before @ [CHR 0x0A] @ completionMarker i @ '':'' @ show_nat code @ [CHR 0x0A] @ later) = Inr (int code, True)"
proof -
  let ?m = "completionMarker i"
  let ?s = "before @ CHR 0x0A # (?m @ '':'' @ show_nat code) @ CHR 0x0A # later"
  have "codes ?m ?s = codes ?m before @ [show_nat code]"
    unfolding codes_LF [OF marker_chars(2), of before] codes_LF [OF marker_chars(2), of "?m @ '':'' @ show_nat code"]
    by (simp only: codes_status codes_none [OF assms(1)] append_Nil2)
  moreover have "Atoi (show_nat code) = Some (int code)" using assms(2) by (intro Atoi_show_nat) simp
  ultimately have "command_result ?m ?s = Inr (int code, True)" by (rule command_result_last)
  then show ?thesis by simp
qed

theorem exit_status_observed_witness:
  "command_result (completionMarker ''a-1'') (''working'' @ [CHR 0x0A] @ completionMarker ''a-1'' @ '':'' @ show_nat 7
     @ [CHR 0x0A] @ ''$ '') = Inr (7, True)"
proof -
  have "command_result (completionMarker ''a-1'') ''$ '' = Inr (0, False)" by code_simp
  from exit_status_observed [OF this, of 7 "''working''"] show ?thesis by simp
qed

section \<open>Prompts and waits\<close>

text \<open>C36: \<open>Submit\<close> reports a started task only on evidence: Herdr confirmed the prompt, or the pane was
  seen working, done or blocked, or its state changed after the one Enter. An unchanged idle
  pane is never taken for a start.\<close>

theorem submit_needs_evidence:
  assumes "Submit C paneID prompt w = Some (None, w')"
  shows "run_state (run_ok C [''agent'', ''prompt'', paneID, prompt, ''--wait'', ''--until'', ''working'',
        ''--timeout'', ''30000'']) w = (None, w')
    \<or> (\<exists>w1 b. run_state (agentState C paneID) w1 = (Inr b, w') \<and> ag_Status b \<in> {''working'', ''done'', ''blocked''})
    \<or> (\<exists>w1 b w2 w3 cur. run_state (agentState C paneID) w1 = (Inr b, w2)
         \<and> run_state (agentState C paneID) w3 = (Inr cur, w')
         \<and> ag_Sequence b < ag_Sequence cur \<and> ag_Status cur \<noteq> ''unknown'')"
proof -
  obtain r w1 where r: "run_state (run_ok C [''agent'', ''prompt'', paneID, prompt, ''--wait'', ''--until'', ''working'',
        ''--timeout'', ''30000'']) w = (r, w1)" by fastforce
  show ?thesis
  proof (cases r)
    case None
    with assms r show ?thesis by (simp add: Submit_def submit_prompt_def)
  next
    case (Some err)
    with assms r have stalled: "hasCode err ''agent_prompt_stalled''"
      by (auto simp: Submit_def submit_prompt_def split: if_splits)
    obtain before w2 where before: "run_state (agentState C paneID) w1 = (before, w2)" by fastforce
    with assms r Some stalled obtain b where b: "before = Inr b"
      by (cases before) (auto simp: Submit_def submit_prompt_def)
    show ?thesis
    proof (cases "ag_Status b \<in> {''working'', ''done'', ''blocked''}")
      case True
      with assms r Some stalled before b have "w' = w2"
        by (auto simp: Submit_def submit_prompt_def)
      with True before b show ?thesis by blast
    next
      case False
      obtain sent w3 where sent: "run_state (run_ok C [''agent'', ''send-keys'', paneID, ''enter'']) w2 = (sent, w3)"
        by fastforce
      with assms r Some stalled before b False have "sent = None"
        and await: "awaitStateChange C paneID (ag_Sequence b) w3 = Some (None, w')"
        by (auto simp: Submit_def submit_prompt_def apfst_def map_prod_def split: option.splits if_splits)
      from await have "\<exists>s1 w4. True \<and> run_state (await_round C paneID (ag_Sequence b) s1) w4 = (Inl None, w')"
        unfolding awaitStateChange_def by (rule loop_last_round) simp_all
      then obtain u w4 where last: "run_state (await_round C paneID (ag_Sequence b) u) w4 = (Inl None, w')" by blast
      obtain seen w5 where seen: "run_state (agentState C paneID) w4 = (seen, w5)" by fastforce
      with last obtain cur where "seen = Inr cur" "ag_Sequence b < ag_Sequence cur" "ag_Status cur \<noteq> ''unknown''" "w5 = w'"
        by (cases seen) (auto simp: await_round_def split: if_splits option.splits prod.splits)
      with before b seen show ?thesis by blast
    qed
  qed
qed

text \<open>A pane that stalls on the prompt because its agent is blocked.\<close>

definition stalling :: "nat cli" where
  "stalling = (answering [])
     \<lparr> exec := (\<lambda>args. State (\<lambda>n.
         (if args ! 1 = ''get''
          then \<lparr> ex_stdout = unquote ''{~agent~:{~agent_status~:~blocked~,~state_change_seq~:4}}'', ex_stderr = [],
                 ex_error = None \<rparr>
          else \<lparr> ex_stdout = unquote ''{~error~:{~code~:~agent_prompt_stalled~}}'', ex_stderr = [],
                 ex_error = Some ''exit status 1'' \<rparr>, Suc n))) \<rparr>"

lemma stalling_agentState:
  "run_state (agentState stalling ''p'') n = (Inr \<lparr> ag_Status = ''blocked'', ag_Sequence = 4 \<rparr>, Suc n)"
proof -
  have "decode_response dec_agent \<lparr> ag_Status = [], ag_Sequence = 0 \<rparr>
      (unquote ''{~agent~:{~agent_status~:~blocked~,~state_change_seq~:4}}'')
    = Inr \<lparr> ag_Status = ''blocked'', ag_Sequence = 4 \<rparr>" by code_simp
  then show ?thesis by (simp add: agentState_def run_into_def run_cli_def stalling_def)
qed

lemma stalling_prompt:
  "args ! 1 \<noteq> ''get'' \<Longrightarrow> run_state (run_ok stalling args) n = (Some (ApiError ''agent_prompt_stalled'' []), Suc n)"
proof -
  assume args: "args ! 1 \<noteq> ''get''"
  have "parseAPIError (unquote ''{~error~:{~code~:~agent_prompt_stalled~}}'') = Some (ApiError ''agent_prompt_stalled'' [])"
    by code_simp
  with args show ?thesis by (simp add: run_ok_def run_cli_def run_error_def stalling_def)
qed

theorem submit_needs_evidence_witness:
  "\<exists>w1 b. run_state (agentState stalling ''p'') w1 = (Inr b, 2) \<and> ag_Status b \<in> {''working'', ''done'', ''blocked''}"
proof -
  have "Submit stalling ''p'' ''go'' 0 = Some (None, 2)"
    by (simp add: Submit_def submit_prompt_def stalling_prompt stalling_agentState hasCode_def numeral_2_eq_2)
  from submit_needs_evidence [OF this] show ?thesis
    by (auto simp: stalling_prompt stalling_agentState)
qed

end
