(* ===== verification/EngineHost.thy ===== *)
theory EngineHost
  imports BoundedFiles StoreRuns
begin

text \<open>
  The services of the host that \<open>internal/engine\<close> uses beside the descriptor calls of
  \<open>BoundedFiles\<close>: the remaining file calls, the capacity of a volume, the private file a prompt is
  handed over in, and the name of an engine as the owner of claims.
\<close>

section \<open>Calls\<close>

text \<open>
  \<open>Unlinkat\<close> and \<open>Remove\<close> are called for their effect only. \<open>RenameExcl dir from to\<close> is
  \<open>renameatx_np\<close> with \<open>RENAME_EXCL\<close> inside one directory, \<open>Rewind\<close> is \<open>Seek(0, 0)\<close>, \<open>Mkdir\<close> and
  \<open>Chmod\<close> are called with mode 0700. \<open>CreateTemp\<close> gives the path and the descriptor of a new file.
\<close>

record statfs_t =
  Bavail :: nat
  Bsize :: int

record 'w disk =
  Mkdir :: "string \<Rightarrow> ('w, errno + unit) state"
  EvalSymlinks :: "string \<Rightarrow> ('w, errno + string) state"
  Chmod :: "string \<Rightarrow> ('w, errno + unit) state"
  Unlinkat :: "nat \<Rightarrow> string \<Rightarrow> ('w, unit) state"
  RenameExcl :: "nat \<Rightarrow> string \<Rightarrow> string \<Rightarrow> ('w, errno + unit) state"
  Rewind :: "nat \<Rightarrow> ('w, errno + unit) state"
  CreateTemp :: "string \<Rightarrow> ('w, errno + string \<times> nat) state"
  Remove :: "string \<Rightarrow> ('w, unit) state"
  StatDev :: "string \<Rightarrow> ('w, errno + nat option) state"
  Statfs :: "string \<Rightarrow> ('w, errno + statfs_t) state"

section \<open>Free space\<close>

record disk_capacity =
  FreeGiB :: float64
  Device :: nat

datatype probe_disk_err = DiskErrno errno | NoDeviceId string | BadBlockSize int

definition float_of_nat :: "nat \<Rightarrow> float64" where
  "float_of_nat n = of_rat64 (of_nat n)"

text \<open>A product of two non-negative conversions, and a quotient by a power of two.\<close>

definition fmul_nat :: "nat \<Rightarrow> nat \<Rightarrow> float64" where
  "fmul_nat a b =
     (case (float_of_nat a, float_of_nat b) of (Fin x, Fin y) \<Rightarrow> of_rat64 (x * y) | _ \<Rightarrow> PInf)"

definition fdiv_pow2 :: "float64 \<Rightarrow> nat \<Rightarrow> float64" where
  "fdiv_pow2 x k = (case x of Fin q \<Rightarrow> of_rat64 (q / 2 ^ k) | y \<Rightarrow> y)"

text \<open>\<open>StatDev\<close> gives \<open>None\<close> when the information has no device number.\<close>

definition ProbeDiskCapacity :: "'w disk \<Rightarrow> string \<Rightarrow> ('w, probe_disk_err + disk_capacity) state" where
  "ProbeDiskCapacity D path = do {
     info \<leftarrow> StatDev D path;
     (case info of
        Inl e \<Rightarrow> ret (Inl (DiskErrno e))
      | Inr None \<Rightarrow> ret (Inl (NoDeviceId path))
      | Inr (Some dev_id) \<Rightarrow> do {
          stat \<leftarrow> Statfs D path;
          ret (case stat of
                 Inl e \<Rightarrow> Inl (DiskErrno e)
               | Inr s \<Rightarrow>
                   if Bsize s \<le> 0 then Inl (BadBlockSize (Bsize s))
                   else Inr \<lparr> FreeGiB = fdiv_pow2 (fmul_nat (Bavail s) (nat (Bsize s))) 30, Device = dev_id \<rparr>) }) }"

section \<open>The prompt of a command\<close>

text \<open>Once the file exists, every failure removes it; the close of a failed file is not checked.\<close>

definition temporaryPrompt :: "'w files \<Rightarrow> 'w disk \<Rightarrow> string \<Rightarrow> ('w, errno + string) state" where
  "temporaryPrompt F D prompt =
     need (CreateTemp D ''herdr-bots-prompt-*.md'') (\<lambda>(path, fd).
       let close_remove = (\<lambda>e. do { _ \<leftarrow> Close F fd; _ \<leftarrow> Remove D path; ret (Inl e) })
       in attempt (Fchmod F fd) close_remove (\<lambda>_.
          attempt (write_all F fd prompt) close_remove (\<lambda>_.
          attempt (Close F fd) (\<lambda>e. do { _ \<leftarrow> Remove D path; ret (Inl e) }) (\<lambda>_. ret (Inr path)))))"

section \<open>The owner of claims\<close>

text \<open>
  Sixteen random bytes when there are some, and otherwise the process id with the next number of
  a counter of the process.
\<close>

definition newEngineOwner :: "nat list option \<Rightarrow> nat \<Rightarrow> nat \<Rightarrow> string" where
  "newEngineOwner random process sequence =
     (case random of
        Some token \<Rightarrow> EncodeToString token
      | None \<Rightarrow> ''fallback-'' @ show_nat process @ ''-'' @ show_nat sequence)"

lemma owner_not_empty:
  assumes "case random of Some token \<Rightarrow> length token = 16 | None \<Rightarrow> True"
  shows "newEngineOwner random process sequence \<noteq> []"
proof (cases random)
  case (Some token)
  with assms obtain b bs where "token = b # bs" by (cases token) auto
  with Some show ?thesis by (simp add: newEngineOwner_def EncodeToString_Cons)
qed (simp add: newEngineOwner_def)

end
