(* ===== verification/VerifierFiles.thy ===== *)
theory VerifierFiles
  imports EngineHost EngineText EngineProcess HerdrClient
begin

text \<open>
  The file protocol of the verifier in \<open>internal/engine/engine.go\<close>: the private directory of the
  receipts, the command that is run with its output in a claim-specific file, the receipt that is
  published by a rename which never replaces a file, and its reading after a restart.
\<close>

section \<open>Errors\<close>

text \<open>
  \<open>Protocol stage e\<close> is \<open>fmt.Errorf("%w: stage: %v", errVerifierReceiptProtocol, e)\<close>; a cancelled
  verifier that was not proven gone has the reason and both failures of the cleanup.
\<close>

datatype verifier_err =
    ClaimErr store_err | FileErrno errno | Unfit string | AlreadyExists string string
  | ReceiptErr receipt_err | StartFailed string | WaitFailed string | GroupErr kill_err
  | VerifierCancelled ctx_err
  | Protocol string verifier_err
  | NotProvenGone ctx_err "kill_err option" "kill_err option"

fun is_protocol :: "verifier_err \<Rightarrow> bool" where
  "is_protocol (Protocol _ _) \<longleftrightarrow> True"
| "is_protocol (NotProvenGone _ _ _) \<longleftrightarrow> True"
| "is_protocol _ \<longleftrightarrow> False"

text \<open>\<open>errors.Is(err, os.ErrNotExist)\<close>: the protocol errors do not wrap their cause.\<close>

definition is_not_exist :: "verifier_err \<Rightarrow> bool" where
  "is_not_exist e \<longleftrightarrow> e = FileErrno ENOENT"

definition io :: "('w, errno + 'a) state \<Rightarrow> ('w, verifier_err + 'a) state" where
  "io m = do { r \<leftarrow> m; ret (map_sum FileErrno id r) }"

definition unfit :: "string \<Rightarrow> ('w, verifier_err + 'a) state" where
  "unfit m = ret (Inl (Unfit m))"

definition at_stage :: "string \<Rightarrow> ('w, verifier_err + 'a) state \<Rightarrow> ('w, verifier_err + 'a) state" where
  "at_stage stage m = do { r \<leftarrow> m; ret (map_sum (Protocol stage) id r) }"

section \<open>Paths\<close>

definition PathBase :: "string \<Rightarrow> string" where
  "PathBase p =
     (let stripped = rev (dropWhile (\<lambda>c. c = CHR ''/'') (rev p))
      in if p = [] then ''.'' else if stripped = [] then ''/'' else after_last CHR ''/'' stripped)"

definition perm_600 :: "stat_t \<Rightarrow> bool" where
  "perm_600 s \<longleftrightarrow> st_mode s AND 511 = 384"

text \<open>\<open>os.SameFile\<close>\<close>

definition same_file :: "stat_t \<Rightarrow> stat_t \<Rightarrow> bool" where
  "same_file a b \<longleftrightarrow> st_dev a = st_dev b \<and> st_ino a = st_ino b"

definition canonical_receipt :: "string \<Rightarrow> string \<Rightarrow> string \<Rightarrow> string \<Rightarrow> verifier_err + string" where
  "canonical_receipt stateDir claim receipt message =
     (case VerifierReceiptPath stateDir claim of
        Inl e \<Rightarrow> Inl (ClaimErr e)
      | Inr expected \<Rightarrow>
          if receipt = [] \<or> \<not> IsAbs receipt \<or> Clean receipt \<noteq> receipt \<or> receipt \<noteq> expected
          then Inl (Unfit message) else Inr expected)"

text \<open>The directory, opened without following a link at its end; \<open>f\<close> gets the descriptor.\<close>

definition in_directory ::
  "'w files \<Rightarrow> string \<Rightarrow> (nat \<Rightarrow> ('w, verifier_err + 'a) state) \<Rightarrow> ('w, verifier_err + 'a) state" where
  "in_directory F path f = need (io (Open F ODirectory path)) (\<lambda>dirFD. closing F dirFD (f dirFD))"

definition absent :: "'w files \<Rightarrow> string \<Rightarrow> ('w, verifier_err + unit) state" where
  "absent F path =
     attempt (Lstat F path) (\<lambda>e. ret (if e = ENOENT then Inr () else Inl (FileErrno e)))
       (\<lambda>existing. ret (Inl (AlreadyExists path (if boundedIsSymlink existing then ''symlink'' else ''file''))))"

definition make_directory :: "'w disk \<Rightarrow> string \<Rightarrow> ('w, verifier_err + unit) state" where
  "make_directory D dir =
     attempt (Mkdir D dir) (\<lambda>e. ret (if e = EEXIST then Inr () else Inl (FileErrno e))) (\<lambda>_. ret (Inr ()))"

definition prepareVerifierReceipt ::
  "'w files \<Rightarrow> 'w disk \<Rightarrow> string \<Rightarrow> string \<Rightarrow> string \<Rightarrow> ('w, verifier_err + unit) state" where
  "prepareVerifierReceipt F D stateDir claim receipt =
     (case canonical_receipt stateDir claim receipt ''verifier receipt does not match its durable claim'' of
        Inl e \<Rightarrow> ret (Inl e)
      | Inr expected \<Rightarrow>
          (let dir = filepathDir expected
           in need (make_directory D dir) (\<lambda>_.
              need (io (Lstat F dir)) (\<lambda>info.
                if \<not> boundedIsDir info then unfit ''verifier state path is not a real directory''
                else need (io (EvalSymlinks D dir)) (\<lambda>canonicalDir.
                  if canonicalDir \<noteq> dir \<or> filepathDir expected \<noteq> canonicalDir
                  then unfit ''verifier state directory is not canonical''
                  else need (io (Chmod D dir)) (\<lambda>_.
                    each (absent F) [receipt, receipt @ ''.output'', receipt @ ''.tmp'']))))))"

definition validateVerifierReceiptPath ::
  "'w files \<Rightarrow> 'w disk \<Rightarrow> string \<Rightarrow> string \<Rightarrow> string \<Rightarrow> bool \<Rightarrow> ('w, verifier_err + unit) state" where
  "validateVerifierReceiptPath F D stateDir receipt claim requireMarker =
     (case canonical_receipt stateDir claim receipt ''stored verifier receipt is outside its claim-scoped state directory'' of
        Inl e \<Rightarrow> ret (Inl e)
      | Inr expected \<Rightarrow>
          (let dir = filepathDir expected
           in need (io (Lstat F dir)) (\<lambda>info.
                if \<not> boundedIsDir info then unfit ''verifier state path is not a real directory''
                else do {
                  canonical \<leftarrow> EvalSymlinks D dir;
                  if canonical \<noteq> Inr dir then unfit ''verifier state directory is not canonical''
                  else if \<not> requireMarker then ret (Inr ())
                  else need (io (Lstat F receipt)) (\<lambda>marker.
                    if \<not> boundedIsRegular marker \<or> \<not> perm_600 marker
                    then unfit ''verifier marker is not a mode-0600 regular file''
                    else ret (Inr ())) })))"

section \<open>Files\<close>

text \<open>A new file, proven to be the one at its path; a file that is refused is closed and left.\<close>

definition openExclusiveRegular :: "'w files \<Rightarrow> string \<Rightarrow> ('w, verifier_err + nat) state" where
  "openExclusiveRegular F path =
     need (in_directory F (filepathDir path) (\<lambda>dirFD. io (Openat F OCreateExclRdwr dirFD (PathBase path)))) (\<lambda>fd.
       let refused = (\<lambda>e. do { _ \<leftarrow> Close F fd; ret (Inl e) })
       in attempt (io (Fchmod F fd)) refused (\<lambda>_.
          attempt (io (Fstat F fd)) refused (\<lambda>info.
            if \<not> boundedIsRegular info \<or> \<not> perm_600 info then refused (Unfit (path @ '' is not a mode-0600 regular file''))
            else attempt (io (Lstat F path)) refused (\<lambda>pathInfo.
              if \<not> boundedIsRegular pathInfo \<or> \<not> same_file info pathInfo
              then refused (Unfit (path @ '' changed during exclusive creation''))
              else ret (Inr fd)))))"

definition removeVerifierFile :: "'w files \<Rightarrow> 'w disk \<Rightarrow> string \<Rightarrow> ('w, unit) state" where
  "removeVerifierFile F D path = do {
     opened_dir \<leftarrow> Open F ODirectory (filepathDir path);
     (case opened_dir of
        Inl _ \<Rightarrow> ret ()
      | Inr dirFD \<Rightarrow> do { _ \<leftarrow> Unlinkat D dirFD (PathBase path); _ \<leftarrow> Close F dirFD; ret () }) }"

definition removeVerifierArtifacts :: "'w files \<Rightarrow> 'w disk \<Rightarrow> string \<Rightarrow> string \<Rightarrow> ('w, unit) state" where
  "removeVerifierArtifacts F D stateDir claim =
     (case VerifierReceiptPath stateDir claim of
        Inl _ \<Rightarrow> ret ()
      | Inr receipt \<Rightarrow> do {
          _ \<leftarrow> removeVerifierFile F D receipt;
          _ \<leftarrow> removeVerifierFile F D (receipt @ ''.output'');
          removeVerifierFile F D (receipt @ ''.tmp'') })"

definition syncVerifierDirectory :: "'w files \<Rightarrow> string \<Rightarrow> ('w, verifier_err + unit) state" where
  "syncVerifierDirectory F path =
     need (io (Open F ODirectory path)) (\<lambda>dirFD. do {
       synced \<leftarrow> Fsync F dirFD;
       shut \<leftarrow> Close F dirFD;
       ret (case synced of Inl e \<Rightarrow> Inl (FileErrno e) | Inr _ \<Rightarrow> map_sum FileErrno id shut) })"

section \<open>Publishing\<close>

text \<open>
  The temporary file is written, synced and closed before the rename. \<open>written\<close> says whether the
  descriptor is still open: a deferred second close does nothing.
\<close>

definition write_temp :: "'w files \<Rightarrow> nat \<Rightarrow> string \<Rightarrow> ('w, verifier_err + unit) state" where
  "write_temp F fd payload = do {
     put \<leftarrow> need (io (write_all F fd payload)) (\<lambda>_. io (Fsync F fd));
     shut \<leftarrow> Close F fd;
     ret (case put of Inl e \<Rightarrow> Inl e | Inr _ \<Rightarrow> map_sum FileErrno id shut) }"

definition rename_temp :: "'w files \<Rightarrow> 'w disk \<Rightarrow> string \<Rightarrow> ('w, verifier_err + unit) state" where
  "rename_temp F D receipt =
     attempt (Lstat F receipt)
       (\<lambda>e. if e \<noteq> ENOENT then ret (Inl (FileErrno e))
            else in_directory F (filepathDir receipt) (\<lambda>dirFD.
                   io (RenameExcl D dirFD (PathBase (receipt @ ''.tmp'')) (PathBase receipt))))
       (\<lambda>existing. unfit (if boundedIsSymlink existing then ''final verifier marker is a symlink''
                          else ''final verifier marker already exists''))"

definition publishVerifierReceipt ::
  "'w files \<Rightarrow> 'w disk \<Rightarrow> string \<Rightarrow> string \<Rightarrow> verifier_receipt \<Rightarrow> ('w, verifier_err + unit) state" where
  "publishVerifierReceipt F D stateDir receipt record =
     need (validateVerifierReceiptPath F D stateDir receipt (vr_Claim record) False) (\<lambda>_.
       let tempPath = receipt @ ''.tmp''
       in need (openExclusiveRegular F tempPath) (\<lambda>fd.
            attempt (need (write_temp F fd (receipt_payload record)) (\<lambda>_. rename_temp F D receipt))
              (\<lambda>e. do { _ \<leftarrow> removeVerifierFile F D tempPath; ret (Inl e) })
              (\<lambda>_. syncVerifierDirectory F (filepathDir receipt))))"

definition readVerifierReceiptFiles ::
  "'w files \<Rightarrow> 'w disk \<Rightarrow> string \<Rightarrow> string \<Rightarrow> string \<Rightarrow> ('w, verifier_err + int \<times> string) state" where
  "readVerifierReceiptFiles F D stateDir receipt expectedClaim =
     need (validateVerifierReceiptPath F D stateDir receipt expectedClaim True) (\<lambda>_.
     need (in_directory F (filepathDir receipt) (\<lambda>dirFD. io (Openat F ORead dirFD (PathBase receipt)))) (\<lambda>fd.
       closing F fd (
         need (io (Fstat F fd)) (\<lambda>info. do {
           pathInfo \<leftarrow> Lstat F receipt;
           if (case pathInfo of Inl _ \<Rightarrow> True | Inr s \<Rightarrow> boundedIsSymlink s \<or> \<not> same_file info s)
           then unfit ''verifier marker changed during read''
           else if 64 * 1024 < st_size info then ret (Inl (ReceiptErr ReceiptTooLarge))
           else need (io (read_upto F fd (64 * 1024))) (\<lambda>raw.
             ret (map_sum ReceiptErr id (read_receipt raw expectedClaim))) }))))"

section \<open>Running the command\<close>

text \<open>
  A process started in a directory with its output in a file: \<open>start_process\<close> gives its id,
  \<open>await_end\<close> what came first of its end and the end of the context, \<open>reap\<close> waits for its end. \<open>None\<close>
  and \<open>False\<close>: the wait does not return.
\<close>

datatype ended = Exited wait_result | ContextDone ctx_err

record 'w launcher =
  start_process :: "string \<Rightarrow> nat \<Rightarrow> string \<Rightarrow> string list \<Rightarrow> ('w, string + int) state"
  await_end :: "('w, ended option) state"
  reap :: "('w, bool) state"

text \<open>The Perl program that outlives the scheduler, one line of the source per line.\<close>

definition supervisor :: string where
  "supervisor = Join
     [''use POSIX ();'',
      ''my $timeout = shift @ARGV;'',
      ''$SIG{ALRM} = sub { kill 9, -POSIX::getpgrp(); };'',
      ''alarm $timeout;'',
      ''my $pid = fork();'',
      ''die '' @ [CHR 0x22] @ ''fork verifier: $!'' @ [CHR 0x22] @ '' unless defined $pid;'',
      ''if ($pid == 0) { alarm 0; exec @ARGV; exit 127; }'',
      ''waitpid($pid, 0);'',
      ''my $status = $?;'',
      ''alarm 0;'',
      ''my $parent = $$;'',
      ''my $reaper = fork();'',
      ''exit 127 unless defined $reaper;'',
      ''if ($reaper == 0) {'',
      ''  while (getppid() == $parent) { select(undef, undef, undef, 0.01); }'',
      ''  kill 9, -POSIX::getpgrp();'',
      ''  exit 0;'',
      ''}'',
      ''if ($status & 127) { exit(128 + ($status & 127)); }'',
      ''exit($status >> 8);''] [CHR 0x0A]"

definition verifier_args :: "string list \<Rightarrow> string list" where
  "verifier_args command =
     [''-c'', ''ulimit -f '' @ [CHR 0x22] @ ''$1'' @ [CHR 0x22] @ ''; shift; exec '' @ [CHR 0x22] @ ''$@'' @ [CHR 0x22],
      ''herdr-bots-verifier-limit'', ''1024'', ''/usr/bin/perl'', ''-e'', supervisor, ''300''] @ command"

type_synonym verifier_result = "int \<times> string \<times> verifier_err option"

text \<open>A result, with whether the output file is still open and whether the receipt was published.\<close>

record outcome =
  still_open :: bool
  published :: bool
  result_of :: verifier_result

definition failed_open :: "verifier_err \<Rightarrow> outcome" where
  "failed_open e = \<lparr> still_open = True, published = False, result_of = (- 1, [], Some e) \<rparr>"

text \<open>A call that may not return, and what follows it.\<close>

definition returning :: "('w \<Rightarrow> ('r \<times> 'w) option) \<Rightarrow> ('r \<Rightarrow> ('w, 'a option) state) \<Rightarrow> ('w, 'a option) state" where
  "returning f g = State (\<lambda>w. case f w of None \<Rightarrow> (None, w) | Some (r, w') \<Rightarrow> run_state (g r) w')"

definition cancel_verifier :: "'w kernel \<Rightarrow> 'w launcher \<Rightarrow> int \<Rightarrow> ctx_err \<Rightarrow> ('w, outcome option) state" where
  "cancel_verifier K L process reason = do {
     killed \<leftarrow> killVerifierProcessGroupOnce K process;
     reaped \<leftarrow> reap L;
     if \<not> reaped then ret None
     else returning (waitVerifierProcessGroupGone K process) (\<lambda>waited.
            let first = (case killed of Inl e \<Rightarrow> Some e | Inr _ \<Rightarrow> None)
            in ret (Some (failed_open (if first = None \<and> waited = None then VerifierCancelled reason
                                       else NotProvenGone reason first waited)))) }"

definition read_output :: "'w files \<Rightarrow> 'w disk \<Rightarrow> nat \<Rightarrow> ('w, verifier_err + string) state" where
  "read_output F D fd =
     need (at_stage ''sync output'' (io (Fsync F fd))) (\<lambda>_.
     need (at_stage ''seek output'' (io (Rewind D fd))) (\<lambda>_.
       at_stage ''read output'' (io (read_upto F fd (maxVerifierOutputBytes + 1)))))"

text \<open>What follows the end of the process group.\<close>

definition deliver ::
  "'w files \<Rightarrow> 'w disk \<Rightarrow> string \<Rightarrow> string \<Rightarrow> string \<Rightarrow> nat \<Rightarrow> wait_result \<Rightarrow> ('w, outcome) state" where
  "deliver F D stateDir receipt claim fd waited =
     attempt (read_output F D fd) (\<lambda>e. ret (failed_open e)) (\<lambda>rawOutput.
       attempt (at_stage ''close output'' (io (Close F fd))) (\<lambda>e. ret ((failed_open e)\<lparr>still_open := False\<rparr>)) (\<lambda>_.
         case verifierExitCode waited of
           Inl m \<Rightarrow> ret ((failed_open (WaitFailed m))\<lparr>still_open := False\<rparr>)
         | Inr exitCode \<Rightarrow>
             (let detail = verifier_detail rawOutput;
                  record = \<lparr> vr_Version = verifierReceiptVersion, vr_Claim = claim, vr_ExitCode = exitCode, vr_Output = detail \<rparr>
              in attempt (at_stage [] (publishVerifierReceipt F D stateDir receipt record))
                   (\<lambda>e. ret \<lparr> still_open = False, published = False, result_of = (- 1, detail, Some e) \<rparr>)
                   (\<lambda>_. ret \<lparr> still_open = False, published = True, result_of = (exitCode, detail, None) \<rparr>))))"

definition supervise ::
  "'w files \<Rightarrow> 'w disk \<Rightarrow> 'w kernel \<Rightarrow> 'w launcher \<Rightarrow> string \<Rightarrow> string \<Rightarrow> string \<Rightarrow> string \<Rightarrow> string list \<Rightarrow> nat
   \<Rightarrow> ('w, outcome option) state" where
  "supervise F D K L stateDir worktree receipt claim command fd = do {
     started \<leftarrow> start_process L worktree fd ''/bin/sh'' (verifier_args command);
     (case started of
        Inl m \<Rightarrow> ret (Some (failed_open (StartFailed m)))
      | Inr process \<Rightarrow> do {
          e \<leftarrow> await_end L;
          (case e of
             None \<Rightarrow> ret None
           | Some (ContextDone reason) \<Rightarrow> cancel_verifier K L process reason
           | Some (Exited waited) \<Rightarrow> returning (terminateVerifierProcessGroup K process) (\<lambda>survivor.
               case survivor of
                 Some k \<Rightarrow> ret (Some (failed_open (Protocol [] (GroupErr k))))
               | None \<Rightarrow> do { o1 \<leftarrow> deliver F D stateDir receipt claim fd waited; ret (Some o1) })) }) }"

text \<open>\<open>None\<close>: the call does not return.\<close>

definition runVerifierCommand ::
  "'w files \<Rightarrow> 'w disk \<Rightarrow> 'w kernel \<Rightarrow> 'w launcher \<Rightarrow> string \<Rightarrow> string \<Rightarrow> string \<Rightarrow> string \<Rightarrow> string list
   \<Rightarrow> ('w, verifier_result option) state" where
  "runVerifierCommand F D K L stateDir worktree receipt claim command =
     attempt (at_stage [] (validateVerifierReceiptPath F D stateDir receipt claim False))
       (\<lambda>e. ret (Some (- 1, [], Some e))) (\<lambda>_.
     attempt (at_stage ''create output'' (openExclusiveRegular F (receipt @ ''.output'')))
       (\<lambda>e. ret (Some (- 1, [], Some e))) (\<lambda>fd. do {
         out \<leftarrow> supervise F D K L stateDir worktree receipt claim command fd;
         (case out of
            None \<Rightarrow> ret None
          | Some o1 \<Rightarrow> do {
              _ \<leftarrow> (if still_open o1 then do { _ \<leftarrow> Close F fd; ret () } else ret ());
              _ \<leftarrow> (if published o1 then ret () else do {
                      _ \<leftarrow> removeVerifierFile F D (receipt @ ''.output'');
                      removeVerifierFile F D (receipt @ ''.tmp'') });
              ret (Some (result_of o1)) }) }))"

end
