(* ===== verification/EngineWorld.thy ===== *)
theory EngineWorld
  imports VerifierFiles StoreQueries
begin

text \<open>
  The world of an \<open>Engine\<close>: the database it shares with other processes, its own in-memory
  state, and everything outside. An operation is a state transformer; every statement it sends
  to the store is preceded by a turn of the other processes and may fail.
\<close>

section \<open>Errors\<close>

datatype sentinel =
    StateConflict | ClosePending | ReceiptProtocol | InvalidEventID | NotEventJob | EventCanaryRequired
  | EventNotAccepted | RecoveryNotProvisioning | RecoveryLeaseLive | RecoveryReceiptPresent
  | RecoveryEffectPresent | RecoveryInvalidSavedInputs | RecoveryLookupFailed
  | RecoveryWorkspaceFound | RecoveryLookupInconsistent

text \<open>
  \<open>Refused s t\<close> is \<open>fmt.Errorf("%w: t", s)\<close>, \<open>Wrapped t e\<close> is \<open>fmt.Errorf("t: %w", e)\<close>. \<open>Diverges\<close> is the
  value of a call that does not return: nothing after it is executed.
\<close>

datatype review_err =
    RootErr root_err | ZoneErr | NoInstant | SourceExpand nat expand_err
  | DestinationErrs nat string "destination_err + path_err" | FileFailed file_err
  | ReceiptParse | ReceiptVersion int | ReceiptCount nat | ReceiptSize nat string int
  | ReceiptDigest nat string | ReceiptDuplicate nat string
  | GitOutput string string | GitParse string enum_err | ReservedUntracked string
  | OutsideScope string | UnstablePaths | UnstableContent

datatype eng_err =
    ReviewFailed review_err | StoreErr store_err | HerdrErr cli_err | ConfigErr config_err | ScheduleFailed string sched_err
  | ProbeFailed probe_err | LaunchFailed launch_err | AttestFailed attest_err
  | VerifierFailed verifier_err | PromptFailed errno | ProbeDiskFailed probe_disk_err | CapacityFailed string
  | Refused sentinel string | Plain string | Wrapped string eng_err | JoinedErrs eng_err eng_err
  | BadSnapshot | Diverges

fun is_sentinel :: "sentinel \<Rightarrow> eng_err \<Rightarrow> bool" where
  "is_sentinel s (Refused t _) \<longleftrightarrow> s = t"
| "is_sentinel s (StoreErr e) \<longleftrightarrow> s = StateConflict \<and> e = ErrStateConflict"
| "is_sentinel s (VerifierFailed e) \<longleftrightarrow> s = ReceiptProtocol \<and> is_protocol e"
| "is_sentinel s (Wrapped _ e) \<longleftrightarrow> is_sentinel s e"
| "is_sentinel s (JoinedErrs a b) \<longleftrightarrow> is_sentinel s a \<or> is_sentinel s b"
| "is_sentinel s _ \<longleftrightarrow> False"

text \<open>\<open>errors.Is\<close> with a context error, for the errors of the waits.\<close>

fun is_ctx :: "ctx_err \<Rightarrow> cli_err \<Rightarrow> bool" where
  "is_ctx c (CtxErr d) \<longleftrightarrow> c = d"
| "is_ctx c (JoinedErr a b) \<longleftrightarrow> is_ctx c a \<or> is_ctx c b"
| "is_ctx c _ \<longleftrightarrow> False"

section \<open>State\<close>

datatype task = Execute run | Monitor run string | MonitorCommand run

text \<open>\<open>tasks\<close> are the goroutines that were started and have not run yet.\<close>

record 'x world =
  wdb :: db
  inFlight :: "string set"
  asyncErr :: "eng_err option"
  tasks :: "task list"
  outer :: 'x

text \<open>One bounded run of git: both streams as far as they were produced, and the errors of starting or reading and of waiting.\<close>

record git_result =
  git_stdout :: string
  git_stderr :: string
  git_read_error :: "string option"
  git_wait_error :: "string option"

text \<open>
  What the engine is given and what it calls. \<open>turn\<close> is what the other processes and the other
  goroutines do before a statement of this one, with the error of the database if it fails.
  \<open>now_at\<close> is \<open>Engine.Now\<close>, \<open>wall\<close> is \<open>time.Now\<close>, \<open>token\<close> the bytes of a new claim, \<open>git_run\<close> the
  combined output of a git command with its error, \<open>disk_probe\<close> is \<open>Engine.DiskCapacity\<close>. The file
  and process calls are \<open>files_env\<close>, \<open>disk_env\<close>, \<open>kernel_env\<close> and \<open>launcher_env\<close>; \<open>err_text\<close> is \<open>Error()\<close>.
\<close>

record 'x env =
  turn :: "('x world, store_err option) state"
  now_at :: "('x world, time) state"
  wall :: "('x world, time) state"
  token :: "('x world, nat list) state"
  cfg_file :: "('x world, config_file) state"
  host_env :: host
  herdr :: "'x world cli"
  runner_env :: "'x world runner"
  git_run :: "string list \<Rightarrow> ('x world, string \<times> string option) state"
  disk_probe :: "string \<Rightarrow> ('x world, string + disk_capacity) state"
  files_env :: "'x world files"
  review_git :: "string list \<Rightarrow> ('x world, git_result) state"
  disk_env :: "'x world disk"
  kernel_env :: "'x world kernel"
  launcher_env :: "'x world launcher"
  state_dir :: string
  owner_id :: string
  random_id :: "('x world, nat list) state"
  err_text :: "eng_err \<Rightarrow> string"

section \<open>Statements\<close>

text \<open>One transaction of the store.\<close>

definition apply_db :: "(db \<Rightarrow> 'a outcome_db) \<Rightarrow> ('x world, eng_err + 'a) state" where
  "apply_db f = State (\<lambda>w. case f (wdb w) of (r, d) \<Rightarrow> (map_sum StoreErr id r, w\<lparr>wdb := d\<rparr>))"

definition store_op :: "'x env \<Rightarrow> (db \<Rightarrow> 'a outcome_db) \<Rightarrow> ('x world, eng_err + 'a) state" where
  "store_op E f = do {
     fault \<leftarrow> turn E;
     (case fault of Some e \<Rightarrow> ret (Inl (StoreErr e)) | None \<Rightarrow> apply_db f) }"

definition store_read :: "'x env \<Rightarrow> (db \<Rightarrow> store_err + 'a) \<Rightarrow> ('x world, eng_err + 'a) state" where
  "store_read E f = store_op E (\<lambda>d. (f d, d))"

text \<open>A call of the Herdr client that may never return.\<close>

definition waiting :: "('w \<Rightarrow> ('r \<times> 'w) option) \<Rightarrow> ('w, eng_err + 'r) state" where
  "waiting f = State (\<lambda>w. case f w of None \<Rightarrow> (Inl Diverges, w) | Some (r, w') \<Rightarrow> (Inr r, w'))"

definition outcome_of :: "string \<Rightarrow> string \<Rightarrow> string \<Rightarrow> string \<Rightarrow> string \<Rightarrow> string \<Rightarrow> finish" where
  "outcome_of st infra agent verdict code detail =
     \<lparr> f_state = st, f_infra = infra, f_agent = agent, f_verdict = verdict, f_code = code, f_detail = detail \<rparr>"

end
