(* ===== verification/EngineClose.thy ===== *)
theory EngineClose
  imports EngineWorld
begin

text \<open>
  How \<open>internal/engine\<close> ends a run: the durable workspace close and its recovery, the failures
  of a claim, and the errors that background work leaves for the next public call.
\<close>

definition provisioningLeaseDuration :: duration where "provisioningLeaseDuration = minute_ns"
definition workspaceCloseLease :: duration where "workspaceCloseLease = minute_ns"
definition verifierLease :: duration where "verifierLease = 6 * minute_ns"

section \<open>Background errors\<close>

definition recordBackgroundError :: "eng_err \<Rightarrow> ('x world, unit) state" where
  "recordBackgroundError e = State (\<lambda>w.
     ((), w\<lparr>asyncErr := Some (case asyncErr w of None \<Rightarrow> e | Some old \<Rightarrow> JoinedErrs old e)\<rparr>))"

definition backgroundError :: "('x world, eng_err option) state" where
  "backgroundError = State (\<lambda>w. (asyncErr w, w\<lparr>asyncErr := None\<rparr>))"

definition record_event :: "'x env \<Rightarrow> string \<Rightarrow> string \<Rightarrow> string \<Rightarrow> ('x world, eng_err + unit) state" where
  "record_event E i code detail = do {
     now \<leftarrow> now_at E;
     store_op E (RecordRunEvent i code detail now) }"

definition recordAsyncStoreError :: "'x env \<Rightarrow> string \<Rightarrow> string \<Rightarrow> eng_err \<Rightarrow> ('x world, unit) state" where
  "recordAsyncStoreError E operation i e = do {
     _ \<leftarrow> record_event E i ''background_store_error'' (''stage='' @ operation @ ''; '' @ err_text E e);
     recordBackgroundError (Wrapped (operation @ '' for run '' @ i) e) }"

definition benign :: "eng_err \<Rightarrow> bool" where
  "benign e \<longleftrightarrow> is_sentinel StateConflict e \<or> is_sentinel ClosePending e"

definition recordMonitoredPersistence :: "string \<Rightarrow> eng_err + unit \<Rightarrow> ('x world, unit) state" where
  "recordMonitoredPersistence i r =
     (case r of
        Inr _ \<Rightarrow> ret ()
      | Inl e \<Rightarrow> if benign e then ret ()
                 else recordBackgroundError (Wrapped (''persist monitored outcome for run '' @ i) e))"

text \<open>\<open>persist i m\<close> records the outcome of the statement \<open>m\<close>.\<close>

definition persist :: "string \<Rightarrow> ('x world, eng_err + unit) state \<Rightarrow> ('x world, unit) state" where
  "persist i m = do { r \<leftarrow> m; recordMonitoredPersistence i r }"

section \<open>Closing a workspace\<close>

definition dec_intent :: "finish decoder" where
  "dec_intent = dec_struct
     [(''terminal_state'', fld f_state (\<lambda>x f. f\<lparr>f_state := x\<rparr>) dec_string),
      (''infrastructure'', fld f_infra (\<lambda>x f. f\<lparr>f_infra := x\<rparr>) dec_string),
      (''agent'', fld f_agent (\<lambda>x f. f\<lparr>f_agent := x\<rparr>) dec_string),
      (''verdict'', fld f_verdict (\<lambda>x f. f\<lparr>f_verdict := x\<rparr>) dec_string),
      (''code'', fld f_code (\<lambda>x f. f\<lparr>f_code := x\<rparr>) dec_string),
      (''detail'', fld f_detail (\<lambda>x f. f\<lparr>f_detail := x\<rparr>) dec_string)]"

definition saved_intent :: "string \<Rightarrow> finish \<Rightarrow> finish" where
  "saved_intent text f =
     (case Unmarshal dec_intent text (outcome_of [] [] [] [] [] []) of
        Some intent \<Rightarrow> if IsTerminalState (f_state intent) then intent else f
      | None \<Rightarrow> f)"

definition finishWorkspaceClose :: "'x env \<Rightarrow> run \<Rightarrow> string \<Rightarrow> finish \<Rightarrow> ('x world, eng_err + unit) state" where
  "finishWorkspaceClose E r claim f = do {
     now \<leftarrow> now_at E;
     need (store_op E (FinishEffect (run_id r) (state r) (owner_id E) claim EffectWorkspaceClose f now)) (\<lambda>finished.
       ret (if finished then Inr ()
            else Inl (Refused StateConflict (''run '' @ run_id r @ '' lost workspace-close ownership before persistence'')))) }"

text \<open>An error of the close counts as success only when the workspace is seen to be absent.\<close>

definition close_workspace :: "'x env \<Rightarrow> run \<Rightarrow> ('x world, cli_err option) state" where
  "close_workspace E r = do {
     closeErr \<leftarrow> CloseWorkspace (herdr E) (workspace_id r);
     if closeErr \<noteq> None \<and> workspace_id r \<noteq> [] then do {
       exists \<leftarrow> WorkspaceExists (herdr E) (workspace_id r);
       ret (if exists = Inr False then None else closeErr) }
     else ret closeErr }"

definition close_failed_detail :: "'x env \<Rightarrow> run \<Rightarrow> cli_err \<Rightarrow> string" where
  "close_failed_detail E r e =
     ''workspace_id='' @ Quote (workspace_id r)
     @ ''; close failed and remains unverified under its durable claim: '' @ err_text E (HerdrErr e)"

definition executeWorkspaceClose :: "'x env \<Rightarrow> run \<Rightarrow> string \<Rightarrow> finish \<Rightarrow> ('x world, eng_err + unit) state" where
  "executeWorkspaceClose E r claim f = do {
     closeErr \<leftarrow> close_workspace E r;
     (case closeErr of
        None \<Rightarrow> finishWorkspaceClose E r claim f
      | Some e \<Rightarrow> do {
          noted \<leftarrow> record_event E (run_id r) ''workspace_close_failed'' (close_failed_detail E r e);
          ret (Inl (case noted of
                      Inl ev \<Rightarrow> JoinedErrs (HerdrErr e) (Wrapped ''persist close-failure evidence'' ev)
                    | Inr _ \<Rightarrow> Refused ClosePending (close_failed_detail E r e))) }) }"

text \<open>What is seen of a workspace whose close expired: a status, and the error of looking.\<close>

definition observe_close :: "'x env \<Rightarrow> run \<Rightarrow> ('x world, string \<times> eng_err option) state" where
  "observe_close E r =
     (let seen = (\<lambda>b. (if b then ''present'' else ''gone'', None));
          failed = (\<lambda>e. (''unknown'', Some (HerdrErr e)))
      in if workspace_id r \<noteq> [] then do {
           exists \<leftarrow> WorkspaceExists (herdr E) (workspace_id r);
           ret (case exists of Inl e \<Rightarrow> failed e | Inr b \<Rightarrow> seen b) }
         else if pane_id r = [] \<and> branch r \<noteq> [] then
           (case decode_job (run_definition r) of
              None \<Rightarrow> ret (''unknown'', Some BadSnapshot)
            | Some j \<Rightarrow> do {
                found \<leftarrow> FindWorkspaceByBranch (herdr E) (Repository (Execution j)) (branch r);
                ret (case found of Inl e \<Rightarrow> failed e | Inr (_, b) \<Rightarrow> seen b) })
         else if pane_id r = []
         then ret (''unknown'', Some (Plain ''workspace-close receipt has no pane id or planned branch''))
         else do {
           st \<leftarrow> Status (herdr E) (pane_id r);
           ret (case st of Inl e \<Rightarrow> ([], Some (HerdrErr e)) | Inr status \<Rightarrow> (status, None)) })"

definition unverified_detail :: "'x env \<Rightarrow> run \<Rightarrow> string \<Rightarrow> eng_err option \<Rightarrow> string" where
  "unverified_detail E r status err =
     ''workspace_id='' @ Quote (workspace_id r) @ '' pane_id='' @ Quote (pane_id r)
     @ ''; expired close outcome remains ambiguous; status='' @ Quote status
     @ (case err of None \<Rightarrow> [] | Some e \<Rightarrow> ''; status error: '' @ err_text E e)"

definition recoverExpiredWorkspaceClose ::
  "'x env \<Rightarrow> run \<Rightarrow> finish \<Rightarrow> time \<Rightarrow> ('x world, eng_err + unit) state" where
  "recoverExpiredWorkspaceClose E r f now =
     (let f' = saved_intent (effect_receipt r) f
      in do {
        seen \<leftarrow> observe_close E r;
        (case seen of (status, err) \<Rightarrow>
           if err \<noteq> None \<or> status \<noteq> ''gone'' then
             (let evidence = unverified_detail E r status err; pending = Refused ClosePending evidence
              in do {
                noted \<leftarrow> record_event E (run_id r) ''workspace_close_unverified'' evidence;
                ret (Inl (case noted of
                            Inl ev \<Rightarrow> JoinedErrs pending (Wrapped ''persist recovery evidence'' ev)
                          | Inr _ \<Rightarrow> pending)) })
           else do {
             tok \<leftarrow> token E;
             need (store_op E (ReclaimEffect (run_id r) (state r) EffectWorkspaceClose (owner_id E) now
                     (now + workspaceCloseLease) tok)) (\<lambda>claim.
               if claim = []
               then ret (Inl (Refused StateConflict (''run '' @ run_id r @ '' workspace-close recovery lost its claim'')))
               else finishWorkspaceClose E r claim f') }) })"

definition closeAndFinish :: "'x env \<Rightarrow> run \<Rightarrow> finish \<Rightarrow> time \<Rightarrow> ('x world, eng_err + unit) state" where
  "closeAndFinish E r f now =
     (let owned = Refused StateConflict (''run '' @ run_id r @ '' workspace close is already owned'')
      in if effect_kind r = EffectWorkspaceClose then
           (if effect_owner r \<noteq> [] \<and> now < effect_lease_until r then ret (Inl owned)
            else recoverExpiredWorkspaceClose E r f now)
         else if effect_kind r \<noteq> []
         then ret (Inl (Refused StateConflict (''run '' @ run_id r @ '' is owned by effect '' @ effect_kind r)))
         else do {
           tok \<leftarrow> token E;
           need (store_op E (ClaimWorkspaceClose (run_id r) (state r) (owner_id E) (intent_json f None) now
                   (now + workspaceCloseLease) tok)) (\<lambda>claim.
             if claim = [] then ret (Inl owned) else executeWorkspaceClose E r claim f) })"

definition interruptAndClose :: "'x env \<Rightarrow> run \<Rightarrow> string \<Rightarrow> string \<Rightarrow> ('x world, eng_err + unit) state" where
  "interruptAndClose E r code detail =
     (let f = outcome_of StateInterrupted ''uncertain'' ''unknown'' ''unverified'' code detail
      in do {
        now \<leftarrow> now_at E;
        if workspace_id r = [] then store_op E (Finish (run_id r) (state r) f now)
        else closeAndFinish E r f now })"

definition interruptExpiredStartingAndClose ::
  "'x env \<Rightarrow> run \<Rightarrow> string \<Rightarrow> string \<Rightarrow> time \<Rightarrow> ('x world, eng_err + unit) state" where
  "interruptExpiredStartingAndClose E r code detail now =
     (if workspace_id r = [] then
        need (store_op E (InterruptExpiredStarting (run_id r) code detail now)) (\<lambda>interrupted.
          ret (if interrupted then Inr ()
               else Inl (Refused StateConflict (''run '' @ run_id r @ '' starting claim is still owned''))))
      else closeAndFinish E r
             (outcome_of StateInterrupted ''uncertain'' ''not_started'' ''unverified'' code detail) now)"

section \<open>Failures\<close>

definition recordStartingUncertainty :: "'x env \<Rightarrow> string \<Rightarrow> string \<Rightarrow> eng_err \<Rightarrow> ('x world, unit) state" where
  "recordStartingUncertainty E i code cause =
     attempt (record_event E i code
         (''external start outcome is ambiguous and will be reconciled after claim expiry: '' @ err_text E cause))
       (recordAsyncStoreError E ''persist starting uncertainty'' i) (\<lambda>_. ret ())"

definition fail_results :: "string \<Rightarrow> string \<times> string" where
  "fail_results from =
     (if from = StateStarting then (''failed'', ''start_failed'')
      else if from = StateRunning then (''completed'', ''failed'')
      else if from = StateSettled \<or> from = StateVerifying then (''completed'', ''completed'')
      else (''failed'', ''not_started''))"

definition fail_run :: "'x env \<Rightarrow> run \<Rightarrow> string \<Rightarrow> string \<Rightarrow> eng_err \<Rightarrow> ('x world, unit) state" where
  "fail_run E r from code e =
     (case fail_results from of (infra, agent) \<Rightarrow> do {
        now \<leftarrow> now_at E;
        persist (run_id r) (store_op E (Finish (run_id r) from
          (outcome_of StateFailed infra agent ''unverified'' code (err_text E e)) now)) })"

definition failProvisioning :: "'x env \<Rightarrow> string \<Rightarrow> string \<Rightarrow> eng_err \<Rightarrow> ('x world, unit) state" where
  "failProvisioning E i code cause = do {
     now \<leftarrow> now_at E;
     attempt (store_op E (FinishProvisioningClaim i (owner_id E)
         (outcome_of StateFailed ''failed'' ''not_started'' ''unverified'' code (err_text E cause)) now))
       (recordAsyncStoreError E ''fail provisioning'' i) (\<lambda>_. ret ()) }"

definition failStarting :: "'x env \<Rightarrow> string \<Rightarrow> string \<Rightarrow> eng_err \<Rightarrow> ('x world, unit) state" where
  "failStarting E i code cause = do {
     now \<leftarrow> now_at E;
     attempt (store_op E (FinishStartingClaim i (owner_id E)
         (outcome_of StateFailed ''failed'' ''start_failed'' ''unverified'' code (err_text E cause)) now))
       (recordAsyncStoreError E ''fail starting'' i) (\<lambda>_. ret ()) }"

definition unsaved_detail :: "'x env \<Rightarrow> eng_err option \<Rightarrow> string" where
  "unsaved_detail E cause =
     ''workspace was created but its provisioning receipt was not durably confirmed''
     @ (case cause of None \<Rightarrow> [] | Some e \<Rightarrow> '': '' @ err_text E e)"

text \<open>
  A claim that comes back belongs to the row as it was claimed; without one the caller has
  lost. \<open>None\<close> is the zero \<open>Run\<close>, which never comes with a claim.
\<close>

definition recoverUnsavedReceipt ::
  "'x env \<Rightarrow> run \<Rightarrow> receipt \<Rightarrow> string \<Rightarrow> eng_err option \<Rightarrow> ('x world, unit) state" where
  "recoverUnsavedReceipt E r rc br cause =
     (let f = outcome_of StateInterrupted ''uncertain'' ''not_started'' ''unverified'' ''receipt_not_persisted''
                (unsaved_detail E cause)
      in do {
        now \<leftarrow> now_at E;
        tok \<leftarrow> token E;
        attempt (store_op E (ClaimLateProvisioningCleanup (run_id r) (owner_id E) (rc_WorkspaceID rc) (rc_PaneID rc)
            br (rc_Path rc) f now (now + workspaceCloseLease) tok))
          (recordAsyncStoreError E ''claim late provisioning cleanup'' (run_id r))
          (\<lambda>(row, claim).
             (case row of
                Some owned \<Rightarrow>
                  if claim = [] then ret ()
                  else attempt (executeWorkspaceClose E owned claim
                         (if IsTerminalState (state owned) then row_finish owned else f))
                       (\<lambda>e. if benign e then ret ()
                            else recordBackgroundError
                                   (Wrapped (''close late provisioning workspace for run '' @ run_id r) e))
                       (\<lambda>_. ret ())
              | None \<Rightarrow> ret ())) })"

end
