(* ===== verification/BoundedReview.thy ===== *)
theory BoundedReview
  imports EngineWorld
begin

text \<open>
  The bounded review of \<open>internal/engine/bounded_review.go\<close> as the engine runs it: inputs are
  staged and their receipt saved before the agent starts; afterwards the worktree is observed in
  two complete passes, and a change receipt is saved only when both agree.
\<close>

definition maxBoundedGitOutputBytes :: nat where "maxBoundedGitOutputBytes = 4194304"
definition maxBoundedGitStderrBytes :: nat where "maxBoundedGitStderrBytes = 4096"

definition lift_review :: "('w, review_err + 'a) state \<Rightarrow> ('w, eng_err + 'a) state" where
  "lift_review m = do { r \<leftarrow> m; ret (map_sum ReviewFailed id r) }"

definition files_op :: "('w, file_err + 'a) state \<Rightarrow> ('w, review_err + 'a) state" where
  "files_op m = do { r \<leftarrow> m; ret (map_sum FileFailed id r) }"

section \<open>Enumerating changes\<close>

definition boundedGitOutput ::
  "(string list \<Rightarrow> ('w, git_result) state) \<Rightarrow> string \<Rightarrow> string list \<Rightarrow> ('w, review_err + string) state" where
  "boundedGitOutput git worktree args = do {
     r \<leftarrow> git ([''-C'', worktree] @ args);
     ret (let output = take (maxBoundedGitOutputBytes + 1) (git_stdout r)
          in if maxBoundedGitOutputBytes < length output
             then Inl (GitOutput (Join args '' '') ''produced more than 4194304 bytes of output'')
             else case git_read_error r of
                    Some m \<Rightarrow> Inl (GitOutput (Join args '' '') (''read output: '' @ m))
                  | None \<Rightarrow>
                      (case git_wait_error r of
                         Some m \<Rightarrow>
                           (let message = TrimSpace (take maxBoundedGitStderrBytes (git_stderr r))
                            in Inl (GitOutput (Join args '' '') (if message = [] then m else message)))
                       | None \<Rightarrow> Inr output)) }"

definition parsed :: "string \<Rightarrow> enum_err + 'a \<Rightarrow> ('w, review_err + 'a) state" where
  "parsed stage r = ret (map_sum (GitParse stage) id r)"

definition changed_and_untracked :: "string list \<Rightarrow> string list \<Rightarrow> string list \<Rightarrow> string list \<times> string list" where
  "changed_and_untracked tracked others ignored =
     (let untracked = sort (remdups (others @ ignored))
      in (sort (remdups (tracked @ untracked)), untracked))"

definition boundedRepositoryChanges ::
  "(string list \<Rightarrow> ('w, git_result) state) \<Rightarrow> string \<Rightarrow> ('w, review_err + string list \<times> string list) state" where
  "boundedRepositoryChanges git worktree =
     need (boundedGitOutput git worktree [''diff'', ''--name-status'', ''-z'', ''HEAD'', ''--'']) (\<lambda>diff.
     need (parsed ''parse-diff'' (parseNameStatusPaths diff)) (\<lambda>tracked.
     need (boundedGitOutput git worktree [''ls-files'', ''--others'', ''--exclude-standard'', ''-z'']) (\<lambda>others.
     need (parsed ''parse-untracked'' (splitNULFields others)) (\<lambda>other_fields.
     need (boundedGitOutput git worktree [''ls-files'', ''--others'', ''--ignored'', ''--exclude-standard'', ''-z'']) (\<lambda>ignored.
     need (parsed ''parse-ignored'' (splitNULFields ignored)) (\<lambda>ignored_fields.
     need (parsed ''parse-untracked'' (valid_paths other_fields)) (\<lambda>other_paths.
     need (parsed ''parse-ignored'' (valid_paths ignored_fields)) (\<lambda>ignored_paths.
       ret (Inr (changed_and_untracked tracked other_paths ignored_paths))))))))))"

definition boundedEnumerateChanges ::
  "(string list \<Rightarrow> ('w, git_result) state) \<Rightarrow> string \<Rightarrow> string list \<Rightarrow> ('w, review_err + string list \<times> string list) state" where
  "boundedEnumerateChanges git worktree excluded =
     need (boundedRepositoryChanges git worktree) (\<lambda>(changed, untracked).
       ret (case find (\<lambda>p. p \<notin> set excluded \<and> boundedIsReservedPath p) untracked of
              Some p \<Rightarrow> Inl (ReservedUntracked p)
            | None \<Rightarrow> Inr (filter (\<lambda>p. p \<notin> set excluded) changed, untracked)))"

section \<open>Staged inputs\<close>

definition receipt_entry_check :: "string \<Rightarrow> nat \<Rightarrow> string list \<Rightarrow> input_file \<Rightarrow> review_err option" where
  "receipt_entry_check worktree i seen file =
     (let d = in_Destination file
      in case boundedDestinationPath worktree d of
           Inl e \<Rightarrow> Some (DestinationErrs i d e)
         | Inr _ \<Rightarrow>
             if in_Size file < 0 \<or> maxBoundedInputFileBytes < in_Size file then Some (ReceiptSize i d (in_Size file))
             else if \<not> isSHA256Hex (in_SHA256 file) then Some (ReceiptDigest i d)
             else if d \<in> set seen then Some (ReceiptDuplicate i d)
             else None)"

fun verify_files ::
  "'w files \<Rightarrow> string \<Rightarrow> nat \<Rightarrow> string list \<Rightarrow> input_file list \<Rightarrow> ('w, review_err + string list) state" where
  "verify_files F worktree i seen [] = ret (Inr [])"
| "verify_files F worktree i seen (file # rest) =
     (case receipt_entry_check worktree i seen file of
        Some e \<Rightarrow> ret (Inl e)
      | None \<Rightarrow>
          need (files_op (verifyOneStagedInput F worktree file)) (\<lambda>_.
          need (verify_files F worktree (Suc i) (in_Destination file # seen) rest) (\<lambda>ds.
            ret (Inr (in_Destination file # ds)))))"

definition verifyStagedInputs :: "'w files \<Rightarrow> string \<Rightarrow> string \<Rightarrow> ('w, review_err + string list) state" where
  "verifyStagedInputs F worktree receipt =
     (if receipt = [] then ret (Inr [])
      else case decode_input_receipt receipt of
             None \<Rightarrow> ret (Inl ReceiptParse)
           | Some r \<Rightarrow>
               if ir_Version r \<noteq> boundedReceiptVersion then ret (Inl (ReceiptVersion (ir_Version r)))
               else if MaxBoundedInputs < length (ir_Files r) then ret (Inl (ReceiptCount (length (ir_Files r))))
               else verify_files F worktree 0 [] (ir_Files r))"

definition boundedOccurrenceTime :: "host \<Rightarrow> run \<Rightarrow> job \<Rightarrow> review_err + civil" where
  "boundedOccurrenceTime h r j =
     (case LoadLocation h (Timezone (Schedule j)) of
        None \<Rightarrow> Inl ZoneErr
      | Some loc \<Rightarrow>
          (let instant = (case scheduled_for r of None \<Rightarrow> accepted_at r
                          | Some t \<Rightarrow> if IsZero t then accepted_at r else t)
           in if IsZero instant then Inl NoInstant else Inr (wall_clock loc instant)))"

fun stage_files ::
  "'w files \<Rightarrow> string \<Rightarrow> civil \<Rightarrow> nat \<Rightarrow> int \<Rightarrow> input_snapshot list \<Rightarrow> ('w, review_err + input_file list) state" where
  "stage_files F worktree day i sofar [] = ret (Inr [])"
| "stage_files F worktree day i sofar (input # rest) =
     (case expandBoundedSource (Source input) day of
        Inl e \<Rightarrow> ret (Inl (SourceExpand i e))
      | Inr source \<Rightarrow>
          (case boundedDestinationPath worktree (Destination input) of
             Inl e \<Rightarrow> ret (Inl (DestinationErrs i (Destination input) e))
           | Inr _ \<Rightarrow>
               need (files_op (stageOneBoundedInput F worktree source (Destination input) sofar)) (\<lambda>file.
               need (stage_files F worktree day (Suc i) (sofar + in_Size file) rest) (\<lambda>fs.
                 ret (Inr (file # fs))))))"

definition stageBoundedInputs :: "'x env \<Rightarrow> run \<Rightarrow> job \<Rightarrow> ('x world, eng_err + string) state" where
  "stageBoundedInputs E r j =
     (if \<not> HasBoundedInputs (Execution j) then ret (Inr [])
      else case boundedWorktreeRoot (worktree_path r) of
             Inl e \<Rightarrow> ret (Inl (ReviewFailed (RootErr e)))
           | Inr worktree \<Rightarrow>
               (case boundedOccurrenceTime (host_env E) r j of
                  Inl e \<Rightarrow> ret (Inl (ReviewFailed e))
                | Inr day \<Rightarrow>
                    need (lift_review (stage_files (files_env E) worktree day 0 0 (Inputs (Execution j)))) (\<lambda>fs.
                      let payload = input_receipt_json
                            \<lparr> ir_Version = boundedReceiptVersion, ir_Date = fmt_date day, ir_Files = fs \<rparr>
                      in do {
                        clock \<leftarrow> wall E;
                        need (store_op E (SetInputReceipt (run_id r) payload clock)) (\<lambda>_. ret (Inr payload)) })))"

section \<open>The review\<close>

definition review_pass ::
  "(string list \<Rightarrow> ('w, git_result) state) \<Rightarrow> 'w files \<Rightarrow> string \<Rightarrow> string list \<Rightarrow> string list
   \<Rightarrow> ('w, review_err + string list \<times> string list \<times> path_state list) state" where
  "review_pass git F worktree excluded allowed =
     need (boundedEnumerateChanges git worktree excluded) (\<lambda>(remaining, untracked).
       case boundedCheckWriteScope remaining allowed of
         Some m \<Rightarrow> ret (Inl (OutsideScope m))
       | None \<Rightarrow> need (files_op (boundedObserveChangedPaths F worktree remaining)) (\<lambda>states.
           ret (Inr (remaining, untracked, states))))"

text \<open>Two passes agree when they saw the same paths, or the same states, in the same order.\<close>

definition boundedSamePaths :: "string list \<Rightarrow> string list \<Rightarrow> bool" where
  "boundedSamePaths first second \<longleftrightarrow>
     length first = length second \<and> list_all (\<lambda>i. first ! i = second ! i) [0..<length first]"

definition boundedSameStates :: "path_state list \<Rightarrow> path_state list \<Rightarrow> bool" where
  "boundedSameStates first second \<longleftrightarrow>
     length first = length second \<and> list_all (\<lambda>i. first ! i = second ! i) [0..<length first]"

lemma boundedSame_eq [simp]:
  "boundedSamePaths first second \<longleftrightarrow> first = second" "boundedSameStates states states' \<longleftrightarrow> states = states'"
  by (simp_all add: boundedSamePaths_def boundedSameStates_def list_all_iff
      atLeast0LessThan lessThan_iff Ball_def
      list_eq_iff_nth_eq [of first second] list_eq_iff_nth_eq [of states states'])

text \<open>The second pass compares its paths with the first before it reads any content again.\<close>

definition review_again ::
  "(string list \<Rightarrow> ('w, git_result) state) \<Rightarrow> 'w files \<Rightarrow> string \<Rightarrow> string list \<Rightarrow> string list
   \<Rightarrow> string list \<times> string list \<times> path_state list \<Rightarrow> ('w, review_err + path_state list) state" where
  "review_again git F worktree excluded allowed first_pass =
     (case first_pass of (remaining, untracked, states) \<Rightarrow>
        need (boundedEnumerateChanges git worktree excluded) (\<lambda>(remaining', untracked').
          case boundedCheckWriteScope remaining' allowed of
            Some m \<Rightarrow> ret (Inl (OutsideScope m))
          | None \<Rightarrow>
              if \<not> boundedSamePaths remaining remaining' \<or> \<not> boundedSamePaths untracked untracked' then ret (Inl UnstablePaths)
              else need (files_op (boundedObserveChangedPaths F worktree remaining')) (\<lambda>states'.
                     ret (if \<not> boundedSameStates states states' then Inl UnstableContent else Inr states'))))"

definition observe_review ::
  "(string list \<Rightarrow> ('w, git_result) state) \<Rightarrow> 'w files \<Rightarrow> string \<Rightarrow> string \<Rightarrow> job \<Rightarrow> ('w, review_err + change_receipt_rec option) state" where
  "observe_review git F worktree receipt j =
     need (verifyStagedInputs F worktree receipt) (\<lambda>excluded.
       if \<not> HasWriteScope (Execution j)
       then need (boundedEnumerateChanges git worktree excluded) (\<lambda>_. ret (Inr None))
       else
         (let allowed = sort (AllowedWritePaths (Execution j))
          in need (review_pass git F worktree excluded allowed) (\<lambda>(remaining, untracked, states).
             need (review_again git F worktree excluded allowed (remaining, untracked, states)) (\<lambda>states'.
               ret (Inr (Some \<lparr> cr_Version = boundedReceiptVersion, cr_Allowed = allowed, cr_Changed = remaining,
                               cr_States = states', cr_Verdict = boundedVerdictWithinScope \<rparr>))))))"

definition verifyBoundedReview :: "'x env \<Rightarrow> run \<Rightarrow> job \<Rightarrow> ('x world, eng_err + string) state" where
  "verifyBoundedReview E r j =
     (if input_receipt r = [] \<and> \<not> HasWriteScope (Execution j) then ret (Inr [])
      else case boundedWorktreeRoot (worktree_path r) of
             Inl e \<Rightarrow> ret (Inl (ReviewFailed (RootErr e)))
           | Inr worktree \<Rightarrow>
               need (lift_review (observe_review (review_git E) (files_env E) worktree (input_receipt r) j)) (\<lambda>found.
                 case found of
                   None \<Rightarrow> ret (Inr [])
                 | Some c \<Rightarrow> do {
                     clock \<leftarrow> wall E;
                     need (store_op E (SetChangeReceipt (run_id r) (change_receipt_json c) clock)) (\<lambda>_.
                       ret (Inr (change_receipt_json c))) }))"

end
