(* ===== verification/EngineRun.thy ===== *)
theory EngineRun
  imports EngineClose BoundedReview
begin

text \<open>
  One run on its goroutine: \<open>execute\<close> from the claim to the confirmed start, the monitors, the
  verifier and its recovery. The deadlines of contexts are part of the client's world; a wait
  that never returns ends the goroutine.
\<close>

section \<open>Source context\<close>

record source_input =
  si_Base :: string
  si_Revision :: string
  si_Context :: string

definition LF :: string where "LF = [CHR 0x0A]"

definition gitOutput :: "'x env \<Rightarrow> string \<Rightarrow> string list \<Rightarrow> ('x world, eng_err + string) state" where
  "gitOutput E repo args = do {
     r \<leftarrow> git_run E ([''-C'', repo] @ args);
     ret (case r of (output, err) \<Rightarrow>
            (case err of
               None \<Rightarrow> Inr output
             | Some m \<Rightarrow> (let message = TrimSpace output
                         in Inl (Plain (''git '' @ Join args '' '' @ '': '' @ (if message = [] then m else message)))))) }"

definition ResolveSourceRevision :: "'x env \<Rightarrow> string \<Rightarrow> string \<Rightarrow> ('x world, eng_err + string) state" where
  "ResolveSourceRevision E repo ref =
     need (gitOutput E repo [''rev-parse'', ''--verify'', ref @ ''^{commit}'']) (\<lambda>raw.
       let revision = TrimSpace raw
       in ret (if isHexRevision revision then Inr revision
               else Inl (Plain (''git returned invalid source revision '' @ Quote revision))))"

definition context_text ::
  "'x env \<Rightarrow> string \<Rightarrow> string \<Rightarrow> string \<Rightarrow> ('x world, eng_err + string) state" where
  "context_text E repo base revision =
     (if base = [] then
        ret (Inr (''Current source revision: '' @ revision @ LF
             @ ''No prior successful source revision exists. Treat this as the initial baseline.''))
      else if \<not> isHexRevision base then ret (Inl (Plain ''stored source revision is invalid''))
      else if base = revision then
        ret (Inr (''Base and current source revision: '' @ revision @ LF @ ''No committed source changes were observed.''))
      else do {
        ancestor \<leftarrow> gitOutput E repo [''merge-base'', ''--is-ancestor'', base, revision];
        (case ancestor of
           Inl e \<Rightarrow> ret (Inl (Wrapped (''source history diverged from last successful revision '' @ base) e))
         | Inr _ \<Rightarrow>
             need (gitOutput E repo [''log'', ''--no-merges'', ''--format=%h %s'', ''--max-count=50'', base @ ''..'' @ revision]) (\<lambda>commits.
             need (gitOutput E repo [''diff'', ''--name-status'', base, revision, ''--'']) (\<lambda>paths.
               ret (Inr (''Base source revision: '' @ base @ LF @ ''Current source revision: '' @ revision @ LF @ LF
                    @ ''Commits:'' @ LF @ TrimSpace commits @ LF @ LF @ ''Changed paths:'' @ LF @ TrimSpace paths))))) })"

definition sourceInput :: "'x env \<Rightarrow> job \<Rightarrow> string \<Rightarrow> ('x world, eng_err + source_input) state" where
  "sourceInput E j jobRevision =
     (let repo = Repository (Execution j)
      in need (ResolveSourceRevision E repo (BaseRef (Execution j))) (\<lambda>revision.
         need (store_op E (\<lambda>d. (Inr (LastSuccessfulSource (ID j) d), d))) (\<lambda>previous.
           let base = (if src_JobRevision previous = jobRevision then src_SourceRevision previous else [])
           in need (context_text E repo base revision) (\<lambda>ctx.
                ret (Inr \<lparr> si_Base = base, si_Revision = revision, si_Context = truncate_text ctx 12000 \<rparr>)))))"

section \<open>The verifier\<close>

definition readVerifierReceipt :: "'x env \<Rightarrow> run \<Rightarrow> ('x world, verifier_err + int \<times> string) state" where
  "readVerifierReceipt E r =
     (if effect_claim r = [] then unfit ''verifier claim is missing''
      else readVerifierReceiptFiles (files_env E) (disk_env E) (state_dir E) (effect_receipt r) (effect_claim r))"

definition must_review :: "job \<Rightarrow> bool" where
  "must_review j \<longleftrightarrow> HasBoundedInputs (Execution j) \<or> HasWriteScope (Execution j)"

text \<open>State, verdict, code and detail of a finished verifier.\<close>

type_synonym verdict = "string \<times> string \<times> string \<times> string"

definition boundary_failed :: "'x env \<Rightarrow> string \<Rightarrow> verdict" where
  "boundary_failed E detail =
     (StateFailed, ''unverified'', ''bounded_review_failed'', ''post-verifier boundary check: '' @ detail)"

definition after_review :: "'x env \<Rightarrow> run \<Rightarrow> job \<Rightarrow> verdict \<Rightarrow> ('x world, verdict) state" where
  "after_review E r j v =
     (if must_review j then
        attempt (verifyBoundedReview E r j) (\<lambda>e. ret (boundary_failed E (err_text E e))) (\<lambda>_. ret v)
      else ret v)"

definition recovered_verdict :: "'x env \<Rightarrow> run \<Rightarrow> ('x world, verdict \<times> bool) state" where
  "recovered_verdict E r =
     (if effect_receipt r = []
      then ret ((StateInterrupted, ''unverified'', ''missing_verifier_receipt'', ''verifier run has no durable result receipt''), False)
      else do {
        result \<leftarrow> readVerifierReceipt E r;
        ret (case result of
               Inr (code, output) \<Rightarrow>
                 ((if code = 0 then (StateSucceeded, ''passed'', [], output)
                   else (StateFailed, ''failed'', ''verifier_failed'', output)), True)
             | Inl e \<Rightarrow>
                 ((StateInterrupted, ''unverified'',
                   (if is_not_exist e then (''restart_during_verifier'', ''verifier ownership expired without a durable result'')
                    else (''invalid_verifier_receipt'', err_text E (VerifierFailed e)))), False)) })"

definition remove_artifacts :: "'x env \<Rightarrow> string \<Rightarrow> ('x world, unit) state" where
  "remove_artifacts E claim = removeVerifierArtifacts (files_env E) (disk_env E) (state_dir E) claim"

definition reconcileExpiredVerifier :: "'x env \<Rightarrow> run \<Rightarrow> ('x world, unit) state" where
  "reconcileExpiredVerifier E r = do {
     now \<leftarrow> now_at E;
     if effect_owner r \<noteq> [] \<and> now < effect_lease_until r then ret ()
     else do {
       found \<leftarrow> recovered_verdict E r;
       final \<leftarrow> (case found of (v, durable) \<Rightarrow>
                  if \<not> durable then ret v
                  else (case decode_job (run_definition r) of
                          None \<Rightarrow> ret (boundary_failed E (''invalid snapshot: '' @ err_text E BadSnapshot))
                        | Some j \<Rightarrow> after_review E r j v));
       (case final of (st, verdict, code, detail) \<Rightarrow>
          attempt (store_op E (FinishExpiredVerifier (run_id r)
              (outcome_of st (if st = StateInterrupted then ''uncertain'' else ''completed'') ''completed'' verdict code detail) now))
            (recordAsyncStoreError E ''reconcile expired verifier'' (run_id r))
            (\<lambda>finished. if finished then remove_artifacts E (effect_claim r) else ret ())) } }"

definition verifier_verdict :: "'x env \<Rightarrow> int \<Rightarrow> string \<Rightarrow> verifier_err option \<Rightarrow> verdict" where
  "verifier_verdict E code detail err =
     (if err = None \<and> code = 0 then (StateSucceeded, ''passed'', [], detail)
      else (let protocol = (case err of None \<Rightarrow> False | Some e \<Rightarrow> is_protocol e);
                text = (if detail \<noteq> [] then detail
                        else case err of Some e \<Rightarrow> err_text E (VerifierFailed e) | None \<Rightarrow> ''verifier exited '' @ show_int code)
            in (StateFailed, (if protocol then ''unverified'' else ''failed''),
                (if protocol then ''verifier_receipt_failed'' else ''verifier_failed''), text)))"

definition finish_verifier :: "'x env \<Rightarrow> run \<Rightarrow> string \<Rightarrow> finish \<Rightarrow> ('x world, eng_err + bool) state" where
  "finish_verifier E r claim f = do {
     now \<leftarrow> now_at E;
     store_op E (FinishEffect (run_id r) StateVerifying (owner_id E) claim EffectVerifier f now) }"

definition run_verifier :: "'x env \<Rightarrow> run \<Rightarrow> job \<Rightarrow> string list \<Rightarrow> string \<Rightarrow> string \<Rightarrow> ('x world, unit) state" where
  "run_verifier E r j command claim receipt = do {
     prepared \<leftarrow> prepareVerifierReceipt (files_env E) (disk_env E) (state_dir E) claim receipt;
     (case prepared of
        Inl e \<Rightarrow>
          attempt (finish_verifier E r claim
              (outcome_of StateFailed ''failed'' ''completed'' ''unverified'' ''verifier_receipt_failed'' (err_text E (VerifierFailed e))))
            (\<lambda>fe. recordMonitoredPersistence (run_id r) (Inl fe)) (\<lambda>_. ret ())
      | Inr _ \<Rightarrow> do {
          result \<leftarrow> runVerifierCommand (files_env E) (disk_env E) (kernel_env E) (launcher_env E) (state_dir E)
                      (worktree_path r) receipt claim command;
          (case result of
             None \<Rightarrow> ret ()
           | Some (code, detail, err) \<Rightarrow> do {
               final \<leftarrow> after_review E r j (verifier_verdict E code detail err);
               (case final of (st, verdict, code, detail) \<Rightarrow>
                  attempt (finish_verifier E r claim (outcome_of st ''completed'' ''completed'' verdict code detail))
                    (\<lambda>fe. recordMonitoredPersistence (run_id r) (Inl fe))
                    (\<lambda>finished. if finished then remove_artifacts E claim else ret ())) }) }) }"

section \<open>Monitoring\<close>

definition finish_run :: "'x env \<Rightarrow> string \<Rightarrow> string \<Rightarrow> finish \<Rightarrow> ('x world, unit) state" where
  "finish_run E i from f = do {
     now \<leftarrow> wall E;
     persist i (store_op E (Finish i from f now)) }"

text \<open>The part of \<open>monitor\<close> after the transition to settled; \<open>st\<close> is the state reached.\<close>

definition after_settled :: "'x env \<Rightarrow> run \<Rightarrow> job \<Rightarrow> string \<Rightarrow> ('x world, unit) state" where
  "after_settled E r j st =
     (case Verifier j of
        None \<Rightarrow> finish_run E (run_id r) st (outcome_of StateSucceeded ''completed'' ''completed'' ''unverified'' [] [])
      | Some v \<Rightarrow>
          if st = StateVerifying then reconcileExpiredVerifier E r
          else do {
            now \<leftarrow> now_at E;
            tok \<leftarrow> token E;
            attempt (store_op E (ClaimVerifier (state_dir E) (run_id r) (owner_id E) now (now + verifierLease) tok))
              (recordAsyncStoreError E ''claim verifier'' (run_id r))
              (\<lambda>(claim, receipt). if claim = [] then ret () else run_verifier E r j (Command v) claim receipt) })"

definition settle :: "'x env \<Rightarrow> run \<Rightarrow> job \<Rightarrow> ('x world, unit) state" where
  "settle E r j =
     (if state r \<noteq> StateSettled \<and> state r \<noteq> StateVerifying then do {
        now \<leftarrow> wall E;
        attempt (store_op E (Transition (run_id r) (state r) StateSettled ''agent settled'' now))
          (\<lambda>e. recordMonitoredPersistence (run_id r) (Inl e)) (\<lambda>_. after_settled E r j StateSettled) }
      else after_settled E r j (state r))"

definition observed_status :: "'x env \<Rightarrow> run \<Rightarrow> job \<Rightarrow> string \<Rightarrow> ('x world, unit) state" where
  "observed_status E r j status =
     (if status = ''blocked'' then
        finish_run E (run_id r) (state r) (outcome_of StateBlocked ''completed'' ''blocked'' ''unverified''
          ''approval_required'' ''agent requires authority outside the saved profile'')
      else if status = ''gone'' then
        persist (run_id r) (interruptAndClose E r ''agent_gone''
          ''Herdr agent is no longer present; workspace cleanup was required'')
      else if must_review j then
        attempt (verifyBoundedReview E r j) (fail_run E r (state r) ''bounded_review_failed'')
          (\<lambda>receipt. settle E (r\<lparr>change_receipt := receipt\<rparr>) j)
      else settle E r j)"

definition timeout_of :: "job \<Rightarrow> duration" where
  "timeout_of j = int64 (TimeoutMinutes j * minute_ns)"

definition timed_out :: "'x env \<Rightarrow> run \<Rightarrow> string \<Rightarrow> string \<Rightarrow> ('x world, unit) state" where
  "timed_out E r code detail = do {
     now \<leftarrow> now_at E;
     persist (run_id r) (closeAndFinish E r
       (outcome_of StateTimedOut ''completed'' ''timed_out'' ''unverified'' code detail) now) }"

text \<open>What a wait's error means; a cancelled one leaves the run for a restart.\<close>

definition wait_failed :: "'x env \<Rightarrow> run \<Rightarrow> string \<Rightarrow> string \<Rightarrow> cli_err \<Rightarrow> ('x world, unit) state" where
  "wait_failed E r timeout_code failed_code e =
     (if is_ctx Canceled e then ret ()
      else if is_ctx DeadlineExceeded e then timed_out E r timeout_code (err_text E (HerdrErr e))
      else persist (run_id r) (interruptAndClose E r failed_code (err_text E (HerdrErr e))))"

definition monitor :: "'x env \<Rightarrow> run \<Rightarrow> string \<Rightarrow> ('x world, unit) state" where
  "monitor E r known =
     (case decode_job (run_definition r) of
        None \<Rightarrow> fail_run E r (state r) ''snapshot_invalid'' BadSnapshot
      | Some j \<Rightarrow>
          if known \<noteq> [] then observed_status E r j known
          else do {
            waited \<leftarrow> waiting (Wait (herdr E) (pane_id r) (timeout_of j));
            (case waited of
               Inl _ \<Rightarrow> ret ()
             | Inr (Inl e) \<Rightarrow> wait_failed E r ''agent_timeout'' ''agent_wait_failed'' e
             | Inr (Inr status) \<Rightarrow> observed_status E r j status) })"

definition attest :: "'x env \<Rightarrow> run \<Rightarrow> job \<Rightarrow> ('x world, string option) state" where
  "attest E r j = do {
     read \<leftarrow> CommandTranscript (herdr E) (pane_id r);
     (case read of
        Inl e \<Rightarrow> ret (Some (''stage=transcript; '' @ err_text E (HerdrErr e)))
      | Inr transcript \<Rightarrow>
          (case ParseClaudeModelAttestation transcript (completion_marker r) (Model (Execution j)) of
             Inl e \<Rightarrow> ret (Some (''stage=parse; '' @ err_text E (AttestFailed e)))
           | Inr receipt \<Rightarrow> do {
               clock \<leftarrow> wall E;
               saved \<leftarrow> store_op E (SetModelAttestation (run_id r) receipt clock);
               ret (case saved of Inl e \<Rightarrow> Some (''stage=persist; '' @ err_text E e) | Inr _ \<Rightarrow> None) })) }"

definition failAttestation :: "'x env \<Rightarrow> run \<Rightarrow> string \<Rightarrow> ('x world, unit) state" where
  "failAttestation E r detail = do {
     now \<leftarrow> now_at E;
     persist (run_id r) (store_op E (Finish (run_id r) (state r)
       (outcome_of StateFailed ''completed'' ''failed'' ''unverified'' ''model_attestation_failed'' detail) now)) }"

definition completeCommand :: "'x env \<Rightarrow> run \<Rightarrow> int \<Rightarrow> ('x world, unit) state" where
  "completeCommand E r code =
     (if code \<noteq> 0 then
        finish_run E (run_id r) (state r) (outcome_of StateFailed ''completed'' ''failed'' ''unverified''
          ''command_failed'' (''headless harness command exited '' @ show_int code))
      else case decode_job (run_definition r) of
             None \<Rightarrow> failAttestation E r (''stage=snapshot; '' @ err_text E BadSnapshot)
           | Some j \<Rightarrow> do {
               refused \<leftarrow> (if RequiresModelAttestation (Execution j) \<and> model_attestation r = [] then attest E r j
                          else ret None);
               (case refused of Some detail \<Rightarrow> failAttestation E r detail | None \<Rightarrow> monitor E r ''idle'') })"

definition monitorCommand :: "'x env \<Rightarrow> run \<Rightarrow> ('x world, unit) state" where
  "monitorCommand E r =
     (case decode_job (run_definition r) of
        None \<Rightarrow> fail_run E r (state r) ''snapshot_invalid'' BadSnapshot
      | Some j \<Rightarrow> do {
          waited \<leftarrow> waiting (WaitCommand (herdr E) (pane_id r) (completion_marker r) (timeout_of j));
          (case waited of
             Inl _ \<Rightarrow> ret ()
           | Inr (Inl e) \<Rightarrow> wait_failed E r ''command_timeout'' ''command_wait_failed'' e
           | Inr (Inr code) \<Rightarrow> completeCommand E r code) })"

section \<open>Execution\<close>

text \<open>\<open>owning E op i next\<close> renews the claim and goes on only while it is still owned.\<close>

definition owning :: "'x env \<Rightarrow> string \<Rightarrow> string \<Rightarrow> ('x world, unit) state \<Rightarrow> ('x world, unit) state" where
  "owning E operation i next_step = do {
     now \<leftarrow> now_at E;
     attempt (store_op E (RenewProvisioningClaim i (owner_id E) now (now + provisioningLeaseDuration)))
       (recordAsyncStoreError E operation i) (\<lambda>owned. if owned then next_step else ret ()) }"

definition confirm_and :: "'x env \<Rightarrow> string \<Rightarrow> string \<Rightarrow> string \<Rightarrow> ('x world, unit) state \<Rightarrow> ('x world, unit) state" where
  "confirm_and E operation i detail next_step = do {
     now \<leftarrow> now_at E;
     attempt (store_op E (ConfirmStartingClaim i (owner_id E) detail now))
       (recordAsyncStoreError E operation i) (\<lambda>confirmed. if confirmed then next_step else ret ()) }"

definition start_command :: "'x env \<Rightarrow> run \<Rightarrow> launch \<Rightarrow> string \<Rightarrow> ('x world, unit) state" where
  "start_command E r l prompt =
     attempt (temporaryPrompt (files_env E) (disk_env E) prompt)
       (\<lambda>e. failStarting E (run_id r) ''prompt_file_failed'' (PromptFailed e))
       (\<lambda>path. do {
          _ \<leftarrow> owning E ''renew command-start claim'' (run_id r) (do {
            started \<leftarrow> StartCommand (herdr E) (pane_id r) (commandLine (launch_kind l) (launch_args l) path (completion_marker r));
            (case started of
               Some e \<Rightarrow> recordStartingUncertainty E (run_id r) ''command_start_uncertain'' (HerdrErr e)
             | None \<Rightarrow> confirm_and E ''confirm command start'' (run_id r) ''headless harness command started''
                         (monitorCommand E (r\<lparr>state := StateRunning\<rparr>))) });
          Remove (disk_env E) path })"

definition start_agent :: "'x env \<Rightarrow> run \<Rightarrow> launch \<Rightarrow> string \<Rightarrow> ('x world, unit) state" where
  "start_agent E r l prompt =
     owning E ''renew agent-start claim'' (run_id r) (do {
       started \<leftarrow> StartAgent (herdr E) (agentName (run_id r)) (launch_kind l) (pane_id r) (launch_args l);
       (case started of
          Some e \<Rightarrow> recordStartingUncertainty E (run_id r) ''agent_start_uncertain'' (HerdrErr e)
        | None \<Rightarrow>
            owning E ''renew prompt-submit claim'' (run_id r) (do {
              sent \<leftarrow> waiting (Submit (herdr E) (pane_id r) prompt);
              (case sent of
                 Inl _ \<Rightarrow> ret ()
               | Inr (Some e) \<Rightarrow> recordStartingUncertainty E (run_id r) ''prompt_submit_uncertain'' (HerdrErr e)
               | Inr None \<Rightarrow> confirm_and E ''confirm agent start'' (run_id r) ''agent prompt accepted and working''
                               (monitor E (r\<lparr>state := StateRunning\<rparr>) [])) })) })"

definition start_harness :: "'x env \<Rightarrow> run \<Rightarrow> job \<Rightarrow> launch \<Rightarrow> ('x world, unit) state" where
  "start_harness E r j l =
     attempt (stageBoundedInputs E r j) (failStarting E (run_id r) ''input_staging_failed'') (\<lambda>staged.
       let receipt = (if HasBoundedInputs (Execution j) then staged else input_receipt r);
           prompt = boundedReviewPrompt (sourceAwarePrompt (Prompt j) (input_context r)) j receipt;
           r' = r\<lparr>input_receipt := receipt\<rparr>
       in if launch_mode l = ModeCommand then start_command E r' l prompt else start_agent E r' l prompt)"

definition uncertain_detail :: "'x env \<Rightarrow> receipt \<Rightarrow> string \<Rightarrow> cli_err \<Rightarrow> string" where
  "uncertain_detail E rc br e =
     ''workspace_id='' @ Quote (rc_WorkspaceID rc) @ '' branch='' @ Quote br
     @ ''; provisioning outcome is ambiguous and awaits branch-based reconciliation: '' @ err_text E (HerdrErr e)"

text \<open>
  After a failed call of \<open>Provision\<close>: what is known of the workspace is saved, and the run is
  never ended on an ambiguous receipt.
\<close>

definition provision_failed :: "'x env \<Rightarrow> run \<Rightarrow> receipt \<Rightarrow> string \<Rightarrow> cli_err \<Rightarrow> ('x world, unit) state" where
  "provision_failed E r rc br e =
     (let note = attempt (record_event E (run_id r) ''provision_outcome_uncertain'' (uncertain_detail E rc br e))
                   (recordAsyncStoreError E ''persist uncertain provisioning outcome'' (run_id r)) (\<lambda>_. ret ())
      in if rc_WorkspaceID rc = [] then note
         else do {
           now \<leftarrow> now_at E;
           attempt (store_op E (SavePartialProvisioningReceipt (run_id r) (owner_id E) (rc_WorkspaceID rc) (rc_PaneID rc) br now))
             (\<lambda>se. recoverUnsavedReceipt E r rc br (Some (JoinedErrs (HerdrErr e) se)))
             (\<lambda>saved. if saved then note else recoverUnsavedReceipt E r rc br (Some (HerdrErr e))) })"

definition provisioned :: "'x env \<Rightarrow> run \<Rightarrow> job \<Rightarrow> launch \<Rightarrow> receipt \<Rightarrow> string \<Rightarrow> ('x world, unit) state" where
  "provisioned E r j l rc br =
     (let marker = (if launch_mode l = ModeCommand then completionMarker (run_id r) else [])
      in do {
        now \<leftarrow> now_at E;
        attempt (store_op E (SaveProvisioningReceipt (run_id r) (owner_id E) (rc_WorkspaceID rc) (rc_PaneID rc)
            (rc_Branch rc) (rc_Path rc) (launch_mode l) marker now))
          (\<lambda>e. recoverUnsavedReceipt E r rc br (Some e))
          (\<lambda>saved.
             if \<not> saved then recoverUnsavedReceipt E r rc br None
             else start_harness E
               (r\<lparr> workspace_id := rc_WorkspaceID rc, pane_id := rc_PaneID rc, branch := rc_Branch rc,
                   worktree_path := rc_Path rc, execution_mode := launch_mode l, completion_marker := marker,
                   state := StateStarting \<rparr>) j l) })"

definition provision :: "'x env \<Rightarrow> run \<Rightarrow> job \<Rightarrow> launch \<Rightarrow> ('x world, unit) state" where
  "provision E r j l =
     owning E ''renew provisioning claim'' (run_id r) (do {
       stamp \<leftarrow> wall E;
       (let br = branchName (ID j) (run_id r) stamp
        in do {
          now \<leftarrow> now_at E;
          attempt (store_op E (SaveProvisioningPlan (run_id r) (owner_id E) br now))
            (recordAsyncStoreError E ''persist provisioning plan'' (run_id r))
            (\<lambda>planned.
               if \<not> planned then ret ()
               else do {
                 made \<leftarrow> Provision (herdr E) (Repository (Execution j)) (Workspace (Execution j))
                   (if source_revision r \<noteq> [] then source_revision r else BaseRef (Execution j)) br (''auto: '' @ ID j);
                 (case made of
                    (rc, Some e) \<Rightarrow> provision_failed E (r\<lparr>branch := br\<rparr>) rc br e
                  | (rc, None) \<Rightarrow> provisioned E (r\<lparr>branch := br\<rparr>) j l rc br) }) }) })"

definition with_source :: "'x env \<Rightarrow> run \<Rightarrow> job \<Rightarrow> ('x world, eng_err + run) state" where
  "with_source E r j =
     (if BaseRef (Execution j) \<noteq> [] \<and> source_revision r = [] then
        need (sourceInput E j (job_revision r)) (\<lambda>input. do {
          clock \<leftarrow> wall E;
          need (store_op E (SetSourceContext (run_id r) (si_Base input) (si_Revision input) (si_Context input) clock)) (\<lambda>_.
            ret (Inr (r\<lparr> source_base_revision := si_Base input, source_revision := si_Revision input,
                         input_context := si_Context input \<rparr>))) })
      else ret (Inr r))"

definition execute :: "'x env \<Rightarrow> run \<Rightarrow> ('x world, unit) state" where
  "execute E r =
     (case decode_job (run_definition r) of
        None \<Rightarrow> failProvisioning E (run_id r) ''snapshot_invalid'' BadSnapshot
      | Some j \<Rightarrow>
          owning E ''renew route-probe claim'' (run_id r) (do {
            probed \<leftarrow> Probe (runner_env E) j;
            (case probed of
               Some e \<Rightarrow> failProvisioning E (run_id r) ''route_unavailable'' (ProbeFailed e)
             | None \<Rightarrow>
                 (case LaunchFor j of
                    Inl e \<Rightarrow> failProvisioning E (run_id r) ''route_invalid'' (LaunchFailed e)
                  | Inr l \<Rightarrow>
                      attempt (with_source E r j) (failProvisioning E (run_id r) ''source_context_failed'')
                        (\<lambda>r'. provision E r' j l))) }))"

end
