(* ===== verification/Snapshot.thy ===== *)
theory Snapshot
  imports JsonEncode Config
begin

text \<open>
  \<open>Job.Snapshot\<close> of \<open>internal/config\<close>: the JSON text of a job that is stored with every run, its
  digest, and the round trip through the decoder that reads it back when the run ends.
\<close>

section \<open>Floating point texts\<close>

text \<open>
  \<open>encoding/json\<close> writes the shortest decimal that reads back as the same number: the first
  number of digits, at most seventeen, whose nearest decimal rounds to it.
\<close>

fun zeros_below :: "nat \<Rightarrow> rat \<Rightarrow> nat" where
  "zeros_below 0 x = 0"
| "zeros_below (Suc n) x = (if 1 \<le> x then 0 else Suc (zeros_below n (10 * x)))"

definition exp10 :: "rat \<Rightarrow> int" where
  "exp10 x = (if 1 \<le> x then int (length (show_nat (nat (floor x)))) - 1 else - int (zeros_below 400 x))"

definition pow10 :: "int \<Rightarrow> rat" where
  "pow10 e = (if 0 \<le> e then 10 ^ nat e else 1 / 10 ^ nat (- e))"

text \<open>The digits and the decimal exponent of the first digit.\<close>

definition digits_at :: "rat \<Rightarrow> nat \<Rightarrow> string \<times> int" where
  "digits_at x k =
     (let q = exp10 x - int k + 1; ds = show_nat (nat (round_half_even (x / pow10 q)))
      in (ds, q + int (length ds) - 1))"

definition digits_ok :: "rat \<Rightarrow> string \<times> int \<Rightarrow> bool" where
  "digits_ok x d \<longleftrightarrow> (case d of (ds, e) \<Rightarrow> of_rat64 (of_int (digits_val ds) * pow10 (e - int (length ds) + 1)) = Fin x)"

fun shortest_from :: "nat \<Rightarrow> rat \<Rightarrow> nat \<Rightarrow> string \<times> int" where
  "shortest_from 0 x k = digits_at x k"
| "shortest_from (Suc n) x k = (if digits_ok x (digits_at x k) then digits_at x k else shortest_from n x (Suc k))"

definition strip_zeros :: "string \<Rightarrow> string" where
  "strip_zeros ds = (let s = rev (dropWhile (\<lambda>c. c = CHR ''0'') (rev ds)) in if s = [] then ''0'' else s)"

definition pos_float_text :: "rat \<Rightarrow> string" where
  "pos_float_text x =
     (case shortest_from 16 x 1 of (raw, e) \<Rightarrow>
        (let ds = strip_zeros raw; n = int (length ds); dp = e + 1
         in if fless (Fin x) (of_rat64 (1 / 1000000)) \<or> 10 ^ 21 \<le> x then
              hd ds # (if n = 1 then [] else ''.'' @ tl ds) @ ''e''
              @ (if e < 0 then ''-'' @ show_nat (nat (- e)) else ''+'' @ pad 2 (nat e))
            else if dp \<le> 0 then ''0.'' @ replicate (nat (- dp)) CHR ''0'' @ ds
            else if n \<le> dp then ds @ replicate (nat (dp - n)) CHR ''0''
            else take (nat dp) ds @ ''.'' @ drop (nat dp) ds))"

text \<open>Infinities and NaN are errors of \<open>json.Marshal\<close>.\<close>

definition float_text :: "float64 \<Rightarrow> string option" where
  "float_text f =
     (case f of
        Fin x \<Rightarrow> Some (if x = 0 then ''0'' else if x < 0 then ''-'' @ pos_float_text (- x) else pos_float_text x)
      | _ \<Rightarrow> None)"

section \<open>The job\<close>

definition bool_text :: "bool \<Rightarrow> string" where
  "bool_text b = (if b then ''true'' else ''false'')"

definition omit_empty :: "string \<Rightarrow> string \<Rightarrow> (string \<times> string) list" where
  "omit_empty k s = (if s = [] then [] else [(k, json_quote s)])"

definition opt_text :: "('a \<Rightarrow> string) \<Rightarrow> 'a option \<Rightarrow> string" where
  "opt_text f x = (case x of None \<Rightarrow> ''null'' | Some y \<Rightarrow> f y)"

definition omit_nil :: "string \<Rightarrow> ('a \<Rightarrow> string) \<Rightarrow> 'a option \<Rightarrow> (string \<times> string) list" where
  "omit_nil k f x = (case x of None \<Rightarrow> [] | Some y \<Rightarrow> [(k, f y)])"

definition array_text :: "('a \<Rightarrow> string) \<Rightarrow> 'a list \<Rightarrow> string" where
  "array_text f xs = ''['' @ Join (map f xs) '','' @ '']''"

definition schedule_json :: "schedule \<Rightarrow> string" where
  "schedule_json s =
     json_object ([(''kind'', json_quote (Kind s))] @ omit_empty ''expression'' (Expression s) @ omit_empty ''at'' (At s)
       @ [(''timezone'', json_quote (Timezone s)),
          (''catch_up_grace_minutes'', opt_text show_int (CatchUpGraceMinutes s))])"

definition input_json :: "input_snapshot \<Rightarrow> string" where
  "input_json i = json_object [(''source'', json_quote (Source i)), (''destination'', json_quote (Destination i))]"

definition execution_json :: "execution \<Rightarrow> string" where
  "execution_json e =
     json_object ([(''repository'', json_quote (Repository e)), (''workspace'', json_quote (Workspace e))]
       @ omit_empty ''base_ref'' (BaseRef e)
       @ [(''harness'', json_quote (Harness e))] @ omit_empty ''provider'' (Provider e)
       @ [(''model'', json_quote (Model e)), (''thinking'', json_quote (Thinking e)),
          (''permission_profile'', json_quote (PermissionProfile e))]
       @ omit_nil ''require_model_attestation'' bool_text (RequireModelAttestation e)
       @ (if Inputs e = [] then [] else [(''inputs'', array_text input_json (Inputs e))])
       @ (if AllowedWritePaths e = [] then [] else [(''allowed_write_paths'', array_text json_quote (AllowedWritePaths e))]))"

text \<open>A nil and an empty command are the same list here; validation refuses both.\<close>

definition verifier_json :: "verifier \<Rightarrow> string" where
  "verifier_json v =
     json_object [(''command'', if Command v = [] then ''null'' else array_text json_quote (Command v))]"

definition acceptance_json :: "acceptance \<Rightarrow> string" where
  "acceptance_json a =
     json_object ([(''mode'', json_quote (Mode a))]
       @ (if SamplePercent a = 0 then [] else [(''sample_percent'', show_int (SamplePercent a))]))"

definition attention_json :: "attention \<Rightarrow> string" where
  "attention_json a = json_object (omit_nil ''max_unread_terminal_runs'' show_int (MaxUnread a))"

definition limits_json :: "limits \<Rightarrow> string option" where
  "limits_json l =
     map_option (\<lambda>reserve. json_object [(''max_runs_per_day'', show_int (MaxRunsPerDay l)), (''disk_reserve_gib'', reserve)])
       (case DiskReserveGiB l of None \<Rightarrow> Some ''null'' | Some f \<Rightarrow> float_text f)"

definition job_json :: "job \<Rightarrow> string option" where
  "job_json j =
     map_option (\<lambda>limits.
       json_object ([(''id'', json_quote (ID j)), (''revision'', show_int (Revision j)),
            (''enabled'', opt_text bool_text (Enabled j)), (''schedule'', schedule_json (Schedule j)),
            (''execution'', execution_json (Execution j)), (''run_if_changed'', bool_text (RunIfChanged j)),
            (''prompt'', json_quote (Prompt j)), (''timeout_minutes'', show_int (TimeoutMinutes j)),
            (''overlap'', json_quote (Overlap j))]
          @ omit_nil ''verifier'' verifier_json (Verifier j)
          @ omit_nil ''acceptance'' acceptance_json (Acceptance j)
          @ [(''limits'', limits)]
          @ omit_nil ''attention'' attention_json (Attention j)))
       (limits_json (Limits j))"

definition Snapshot :: "job \<Rightarrow> (string \<times> string) option" where
  "Snapshot j = map_option (\<lambda>text. (text, sha256_hex text)) (job_json j)"

end
