(* ===== verification/EngineDispatch.thy ===== *)
theory EngineDispatch
  imports EngineRun Snapshot
begin

text \<open>
  The public operations of \<open>Engine\<close>: evaluating schedules, accepting events and attended runs,
  admitting accepted runs, cancelling, reconciling after a restart, and the explicit recovery
  of \<open>recovery.go\<close>.
\<close>

section \<open>Admission\<close>

definition deviceID :: "disk_capacity \<Rightarrow> string" where
  "deviceID c = show_nat (Device c)"

text \<open>
  The loop over the active runs adds up what is reserved; a hold or an unreadable snapshot ends
  it. The sums are float64.
\<close>

datatype reserve_end = OverlapHold | SnapshotBad string | Reserved float64 float64

fun sum_reserves :: "job \<Rightarrow> string \<Rightarrow> float64 \<Rightarrow> float64 \<Rightarrow> run list \<Rightarrow> reserve_end" where
  "sum_reserves cand dev_id on_device legacy [] = Reserved on_device legacy"
| "sum_reserves cand dev_id on_device legacy (r # rs) =
     (if Overlap cand = ''queue_one'' \<and> job_id r = ID cand then OverlapHold
      else if disk_device r \<noteq> [] \<and> fless (Fin 0) (disk_reserve_gib r) then
        sum_reserves cand dev_id
          (if disk_device r = dev_id then fadd on_device (disk_reserve_gib r) else on_device) legacy rs
      else (case decode_job (run_definition r) of
              None \<Rightarrow> SnapshotBad (run_id r)
            | Some j \<Rightarrow> sum_reserves cand dev_id on_device (fadd legacy (DiskReserve j)) rs))"

definition no_decision :: decision where
  "no_decision = \<lparr> Admit = False, FailureCode = [], FailureDetail = [], HoldCode = [], HoldDetail = [] \<rparr>"

definition hold :: "string \<Rightarrow> string \<Rightarrow> decision" where
  "hold code detail = no_decision\<lparr> HoldCode := code, HoldDetail := detail \<rparr>"

definition requiredGiB :: "config \<Rightarrow> job \<Rightarrow> float64 \<Rightarrow> float64 \<Rightarrow> float64" where
  "requiredGiB cfg cand on_device legacy =
     fadd (fadd (fadd (MinFreeDisk (Capacity cfg)) on_device) legacy) (DiskReserve cand)"

text \<open>\<open>gib_text\<close> is the verb \<open>%.2f\<close>.\<close>

definition gib_text :: "float64 \<Rightarrow> string" where
  "gib_text f =
     (case f of
        PInf \<Rightarrow> ''+Inf'' | NInf \<Rightarrow> ''-Inf'' | NaN \<Rightarrow> ''NaN''
      | Fin x \<Rightarrow> (let n = nat (round_half_even (\<bar>x\<bar> * 100))
                  in (if x < 0 then ''-'' else []) @ show_nat (n div 100) @ ''.'' @ pad 2 (n mod 100)))"

definition admissionDecision ::
  "config \<Rightarrow> job \<Rightarrow> string + disk_capacity \<Rightarrow> run list \<Rightarrow> store_err + decision" where
  "admissionDecision cfg cand probe active =
     (case probe of
        Inl m \<Rightarrow> Inr (no_decision\<lparr> FailureCode := ''capacity_probe_failed'', FailureDetail := m \<rparr>)
      | Inr cap \<Rightarrow>
          if MaxConcurrent (Capacity cfg) \<le> int (length active)
          then Inr (hold ''capacity_hold'' ''maximum concurrent runs are already active'')
          else (case sum_reserves cand (deviceID cap) (Fin 0) (Fin 0) active of
                  OverlapHold \<Rightarrow> Inr (hold ''overlap_hold'' ''another run for this job is already active'')
                | SnapshotBad i \<Rightarrow> Inl (ErrMsg (''active run '' @ i @ '' has invalid snapshot''))
                | Reserved on_device legacy \<Rightarrow>
                    (let required = requiredGiB cfg cand on_device legacy
                     in Inr (if fless (FreeGiB cap) required
                             then hold ''disk_hold'' (''free disk '' @ gib_text (FreeGiB cap)
                                    @ '' GiB is below required '' @ gib_text required @ '' GiB'')
                             else no_decision\<lparr> Admit := True \<rparr>))))"

section \<open>Goroutines\<close>

text \<open>\<open>claim\<close> and the \<open>go\<close> statement; the task's \<open>release\<close> runs when it ends.\<close>

definition run_of :: "task \<Rightarrow> run" where
  "run_of t = (case t of Execute r \<Rightarrow> r | Monitor r _ \<Rightarrow> r | MonitorCommand r \<Rightarrow> r)"

definition start_task :: "task \<Rightarrow> ('x world, unit) state" where
  "start_task t = State (\<lambda>w. ((),
     if run_id (run_of t) \<in> inFlight w then w
     else w\<lparr> inFlight := insert (run_id (run_of t)) (inFlight w), tasks := tasks w @ [t] \<rparr>))"

definition release :: "string \<Rightarrow> ('x world, unit) state" where
  "release i = State (\<lambda>w. ((), w\<lparr>inFlight := inFlight w - {i}\<rparr>))"

definition task_body :: "'x env \<Rightarrow> task \<Rightarrow> ('x world, unit) state" where
  "task_body E t =
     (case t of
        Execute r \<Rightarrow> execute E r
      | Monitor r known \<Rightarrow> monitor E r known
      | MonitorCommand r \<Rightarrow> monitorCommand E r)"

definition run_task :: "'x env \<Rightarrow> ('x world, unit) state" where
  "run_task E = do {
     next_task \<leftarrow> State (\<lambda>w. case tasks w of [] \<Rightarrow> (None, w) | t # ts \<Rightarrow> (Some t, w\<lparr>tasks := ts\<rparr>));
     (case next_task of
        None \<Rightarrow> ret ()
      | Some t \<Rightarrow> do { _ \<leftarrow> task_body E t; release (run_id (run_of t)) }) }"

section \<open>Dispatch\<close>

definition load_config :: "'x env \<Rightarrow> ('x world, eng_err + config) state" where
  "load_config E = do {
     f \<leftarrow> cfg_file E;
     ret (map_sum ConfigErr id (Load (host_env E) f)) }"

definition surfacing :: "('x world, eng_err + unit) state \<Rightarrow> ('x world, eng_err + unit) state" where
  "surfacing m = do {
     e \<leftarrow> backgroundError;
     (case e of Some err \<Rightarrow> ret (Inl err) | None \<Rightarrow> m) }"

text \<open>One accepted run. A canary needs the call that created it.\<close>

definition dispatch_admit :: "'x env \<Rightarrow> config \<Rightarrow> run \<Rightarrow> job \<Rightarrow> ('x world, eng_err + unit) state" where
  "dispatch_admit E cfg r j = do {
     now \<leftarrow> now_at E;
     probe \<leftarrow> disk_probe E (Repository (Execution j));
     (let dev_id = (case probe of Inl _ \<Rightarrow> [] | Inr c \<Rightarrow> deviceID c)
      in need (store_op E (DecideAdmission (run_id r) (owner_id E) dev_id (DiskReserve j) now
                 (now + provisioningLeaseDuration) (admissionDecision cfg j probe))) (\<lambda>admitted.
           if \<not> admitted then ret (Inr ())
           else do { _ \<leftarrow> start_task (Execute (r\<lparr>state := StateProvisioning\<rparr>)); ret (Inr ()) })) }"

definition dispatch_run :: "'x env \<Rightarrow> config \<Rightarrow> string \<Rightarrow> bool \<Rightarrow> run \<Rightarrow> ('x world, eng_err + unit) state" where
  "dispatch_run E cfg target attended r =
     (if state r \<noteq> StateAccepted then ret (Inr ())
      else if trigger r = ''canary'' \<and> (target = [] \<or> \<not> attended) then ret (Inr ())
      else need (store_read E (Job (job_id r))) (\<lambda>js.
             if trigger r \<noteq> ''canary'' \<and> (\<not> enabled js \<or> paused js) then ret (Inr ())
             else (case decode_job (run_definition r) of
                     None \<Rightarrow> do {
                       now \<leftarrow> wall E;
                       store_op E (Finish (run_id r) StateAccepted (outcome_of StateFailed ''not_started''
                         ''not_started'' ''unverified'' ''snapshot_invalid'' (err_text E BadSnapshot)) now) }
                   | Some j \<Rightarrow> dispatch_admit E cfg r j)))"

definition dispatch :: "'x env \<Rightarrow> string \<Rightarrow> bool \<Rightarrow> ('x world, eng_err + unit) state" where
  "dispatch E target attended = surfacing (
     need (load_config E) (\<lambda>cfg.
     need (if target = [] then store_read E (\<lambda>d. Inr (GlobalPaused d)) else ret (Inr False)) (\<lambda>stop.
       if stop then ret (Inr ())
       else need (if target = [] then store_read E (\<lambda>d. Inr (NonTerminalRuns d))
                  else need (store_read E (GetRun target)) (\<lambda>r. ret (Inr [r])))
              (each (dispatch_run E cfg target attended)))))"

definition Dispatch :: "'x env \<Rightarrow> ('x world, eng_err + unit) state" where
  "Dispatch E = dispatch E [] False"

section \<open>Evaluation of schedules\<close>

text \<open>
  \<open>time.Date\<close> of local wall-clock seconds: the offset in force at the guess, looked up again at
  the corrected instant.
\<close>

definition date_in :: "location \<Rightarrow> int \<Rightarrow> time" where
  "date_in loc secs =
     (let off = loc (secs * second_ns)
      in (if off = 0 then secs else secs - loc ((secs - off) * second_ns)) * second_ns)"

definition day_bounds :: "location \<Rightarrow> time \<Rightarrow> time \<times> time" where
  "day_bounds loc now =
     (let c = wall_clock loc now;
          start = date_in loc (days_of_civil (c_year c) (c_month c) (c_day c) * 86400);
          s = wall_clock loc start
      in (start, date_in loc ((days_of_civil (c_year s) (c_month s) (c_day s) + 1) * 86400
                    + c_hour s * 3600 + c_minute s * 60 + c_second s)))"

definition request_of ::
  "job \<Rightarrow> string \<times> string \<Rightarrow> string \<Rightarrow> string \<Rightarrow> time \<Rightarrow> time \<times> time \<Rightarrow> time \<Rightarrow> accept_request" where
  "request_of j snap key trig sched bounds now =
     \<lparr> req_JobID = ID j, req_JobConfigRevision = Revision j, req_JobRevision = snd snap, req_JobEnabled = IsEnabled j,
       req_OccurrenceKey = key, req_Definition = fst snap, req_Trigger = trig, req_ScheduledFor = sched,
       req_Overlap = Overlap j, req_DayStart = fst bounds, req_DayEnd = snd bounds,
       req_MaxRunsPerDay = MaxRunsPerDay (Limits j), req_SourceBaseRevision = [], req_SourceRevision = [],
       req_InputContext = [], req_Now = now, req_MaxUnread = MaxUnreadTerminalRuns j \<rparr>"

definition snapshot :: "job \<Rightarrow> ('w, eng_err + string \<times> string) state" where
  "snapshot j = ret (case Snapshot j of None \<Rightarrow> Inl (Plain ''json: unsupported value'') | Some s \<Rightarrow> Inr s)"

text \<open>A decided \<open>once\<close> schedule is completed.\<close>

definition complete_once :: "'x env \<Rightarrow> job \<Rightarrow> string \<Rightarrow> ('x world, eng_err + bool) state" where
  "complete_once E j hash =
     (if Kind (Schedule j) = ScheduleOnce then do {
        clock \<leftarrow> wall E;
        need (store_op E (SetCompletedIfAuthority (ID j) (Revision j) hash True clock)) (\<lambda>_. ret (Inr False)) }
      else ret (Inr False))"

definition record_occ :: "'x env \<Rightarrow> accept_request \<Rightarrow> string \<Rightarrow> string \<Rightarrow> ('x world, eng_err + unit) state" where
  "record_occ E req out detail = need (store_op E (RecordOccurrenceIfAuthority req out detail)) (\<lambda>_. ret (Inr ()))"

text \<open>The result says whether the unread guard paused the job, which ends its loop.\<close>

definition accept_occ :: "'x env \<Rightarrow> job \<Rightarrow> accept_request \<Rightarrow> ('x world, eng_err + bool) state" where
  "accept_occ E j req = do {
     rnd \<leftarrow> random_id E;
     need (store_op E (AcceptScheduledOccurrence req rnd)) (\<lambda>res.
       if ar_Outcome res = ''paused_unread_limit'' then ret (Inr True)
       else complete_once E j (req_JobRevision req)) }"

definition evaluate_occ ::
  "'x env \<Rightarrow> job \<Rightarrow> string \<times> string \<Rightarrow> time \<times> time \<Rightarrow> time \<Rightarrow> occurrence \<Rightarrow> ('x world, eng_err + bool) state" where
  "evaluate_occ E j snap bounds now occ =
     (let req = request_of j snap (Key occ) (Trigger occ) (ScheduledFor occ) bounds now
      in if Outcome occ = ''missed''
         then need (record_occ E req ''missed'' (Detail occ)) (\<lambda>_. complete_once E j (snd snap))
         else if RunIfChanged j then do {
           got \<leftarrow> sourceInput E j (snd snap);
           (case got of
              Inl e \<Rightarrow> ret (Inl (Wrapped (ID j @ '': source revision gate'') e))
            | Inr input \<Rightarrow>
                if si_Base input \<noteq> [] \<and> si_Base input = si_Revision input
                then need (record_occ E req ''skipped_unchanged'' (''source revision unchanged at '' @ si_Revision input))
                       (\<lambda>_. complete_once E j (snd snap))
                else accept_occ E j (req\<lparr> req_SourceBaseRevision := si_Base input, req_SourceRevision := si_Revision input,
                                          req_InputContext := si_Context input \<rparr>)) }
         else accept_occ E j req)"

definition set_cursor :: "'x env \<Rightarrow> job \<Rightarrow> string \<Rightarrow> time \<Rightarrow> bool \<Rightarrow> ('x world, eng_err + unit) state" where
  "set_cursor E j hash now required = do {
     clock \<leftarrow> wall E;
     store_op E (SetCursorIfAuthority (ID j) (Revision j) hash now required clock) }"

text \<open>A schedule without a next time makes \<open>Between\<close>, and so the whole call, diverge.\<close>

definition evaluate_due ::
  "'x env \<Rightarrow> job \<Rightarrow> string \<times> string \<Rightarrow> time \<Rightarrow> time \<Rightarrow> ('x world, eng_err + unit) state" where
  "evaluate_due E j snap since now =
     (case Between (host_env E) j since now of
        None \<Rightarrow> ret (Inl Diverges)
      | Some (Inl e) \<Rightarrow> ret (Inl (ScheduleFailed (ID j) e))
      | Some (Inr occs) \<Rightarrow>
          (case LoadLocation (host_env E) (Timezone (Schedule j)) of
             None \<Rightarrow> ret (Inl (ScheduleFailed (ID j) UnknownTimezone))
           | Some loc \<Rightarrow>
               need (each_until (evaluate_occ E j snap (day_bounds loc now) now) occs) (\<lambda>guardPaused.
                 if guardPaused then ret (Inr ()) else set_cursor E j (snd snap) now True)))"

definition evaluate_job :: "'x env \<Rightarrow> bool \<Rightarrow> time \<Rightarrow> job \<Rightarrow> ('x world, eng_err + unit) state" where
  "evaluate_job E globalPaused now j =
     need (snapshot j) (\<lambda>snap.
     need (store_op E (SyncJobAuthority (ID j) (Revision j) (snd snap) (fst snap) (IsEnabled j) now)) (\<lambda>js.
       if \<not> IsEnabled j then set_cursor E j (snd snap) now False
       else if completed js \<or> paused js \<or> globalPaused then ret (Inr ())
       else evaluate_due E j snap (cursor js) now))"

definition Evaluate :: "'x env \<Rightarrow> time \<Rightarrow> ('x world, eng_err + unit) state" where
  "Evaluate E now =
     need (load_config E) (\<lambda>cfg.
     need (store_read E (\<lambda>d. Inr (GlobalPaused d))) (\<lambda>globalPaused.
     need (each (evaluate_job E globalPaused now) (Jobs cfg)) (\<lambda>_. Dispatch E)))"

section \<open>Events and attended runs\<close>

definition select_job :: "'x env \<Rightarrow> string \<Rightarrow> ('x world, eng_err + job) state" where
  "select_job E i =
     need (load_config E) (\<lambda>cfg.
       ret (case find (\<lambda>j. ID j = i) (Jobs cfg) of
              None \<Rightarrow> Inl (Plain (''no job named '' @ Quote i))
            | Some j \<Rightarrow> Inr j))"

text \<open>A result without a run comes with the error that says why.\<close>

definition event_not_accepted :: "accept_result \<Rightarrow> string" where
  "event_not_accepted res =
     (if ar_Detail res = [] then ''event was not accepted: '' @ ar_Outcome res
      else ''event was not accepted: '' @ ar_Outcome res @ '': '' @ ar_Detail res)"

definition Enqueue :: "'x env \<Rightarrow> string \<Rightarrow> string \<Rightarrow> time \<Rightarrow> ('x world, eng_err + accept_result) state" where
  "Enqueue E i eventID now =
     (if ValidateEventID eventID \<noteq> None then ret (Inl (Refused InvalidEventID eventID))
      else need (select_job E i) (\<lambda>j.
        if Kind (Schedule j) \<noteq> ScheduleEvent then ret (Inl (Refused NotEventJob i))
        else need (snapshot j) (\<lambda>snap.
          case LoadLocation (host_env E) (Timezone (Schedule j)) of
            None \<Rightarrow> ret (Inl (ScheduleFailed i UnknownTimezone))
          | Some loc \<Rightarrow> do {
              rnd \<leftarrow> random_id E;
              need (store_op E (EnqueueEvent (request_of j snap (''event:'' @ eventID) ''event'' now (day_bounds loc now) now) rnd))
                (\<lambda>res. ret (if ar_Run res = None then Inl (Refused EventNotAccepted (event_not_accepted res)) else Inr res)) })))"

definition attended_request :: "job \<Rightarrow> string \<times> string \<Rightarrow> time \<Rightarrow> accept_request" where
  "attended_request j snap now =
     (request_of j snap [] ''manual'' zero_time (zero_time, zero_time) now)
       \<lparr> req_Overlap := [], req_MaxRunsPerDay := 0 \<rparr>"

definition RunNow :: "'x env \<Rightarrow> string \<Rightarrow> bool \<Rightarrow> time \<Rightarrow> ('x world, eng_err + run) state" where
  "RunNow E i canary now =
     need (select_job E i) (\<lambda>j.
       if Kind (Schedule j) = ScheduleEvent \<and> \<not> canary then ret (Inl (Refused EventCanaryRequired []))
       else need (snapshot j) (\<lambda>snap.
       need (store_op E (SyncJobAuthority (ID j) (Revision j) (snd snap) (fst snap) (IsEnabled j) now)) (\<lambda>_. do {
         rnd \<leftarrow> random_id E;
         need (if Kind (Schedule j) = ScheduleEvent \<and> canary
               then store_op E (CreateCanaryRun (ID j) (snd snap) (fst snap) now rnd)
               else store_op E (CreateManualRunIfAuthority (attended_request j snap now) rnd)) (\<lambda>r.
         need (dispatch E (run_id r) (trigger r = ''canary'')) (\<lambda>_.
           store_read E (GetRun (run_id r)))) })))"

section \<open>Cancellation\<close>

definition Cancel :: "'x env \<Rightarrow> string \<Rightarrow> time \<Rightarrow> ('x world, eng_err + unit) state" where
  "Cancel E i now =
     need (store_read E (GetRun i)) (\<lambda>r.
       if IsTerminalState (state r)
       then ret (Inl (Plain (''run '' @ i @ '' is already terminal in '' @ state r)))
       else if state r = StateProvisioning
               \<or> (state r = StateStarting \<and> provisioning_owner r \<noteq> [] \<and> now < provisioning_lease_until r)
       then ret (Inl (Plain (''run '' @ i @ '' has an active provisioning/start claim; cancellation is safe after start confirmation'')))
       else if state r = StateAccepted
       then store_op E (Finish (run_id r) (state r) (outcome_of StateCancelled ''not_started'' ''cancelled'' ''unverified''
              ''cancelled'' ''cancelled before provisioning'') now)
       else if workspace_id r = [] then ret (Inl (Plain (''run '' @ i @ '' has no workspace receipt'')))
       else closeAndFinish E r (outcome_of StateCancelled ''completed'' ''cancelled'' ''unverified'' ''cancelled''
              ''workspace closed by explicit cancellation'') now)"

section \<open>Reconciliation\<close>

definition reconcileCommand :: "'x env \<Rightarrow> run \<Rightarrow> ('x world, eng_err + unit) state" where
  "reconcileCommand E r =
     (let interrupt = (\<lambda>code detail.
            if state r = StateStarting
            then do { now \<leftarrow> now_at E; interruptExpiredStartingAndClose E r code detail now }
            else interruptAndClose E r code detail)
      in if pane_id r = [] \<or> completion_marker r = []
         then interrupt ''missing_command_receipt'' ''headless command run has no pane or completion marker''
         else do {
           result \<leftarrow> CommandResult (herdr E) (pane_id r) (completion_marker r);
           (case result of
              Inl e \<Rightarrow> interrupt ''reconcile_failed'' (err_text E (HerdrErr e))
            | Inr (code, done) \<Rightarrow>
                if state r = StateStarting then
                  (if \<not> done then interrupt ''restart_during_command_start'' ''command start was not durably confirmed''
                   else do {
                     now \<leftarrow> now_at E;
                     need (store_op E (ConfirmExpiredCommandStart (run_id r)
                             ''command completion marker found during reconciliation'' now)) (\<lambda>confirmed.
                       if \<not> confirmed then ret (Inr ())
                       else do { _ \<leftarrow> completeCommand E (r\<lparr>state := StateRunning\<rparr>) code; ret (Inr ()) }) })
                else if done then do { _ \<leftarrow> completeCommand E r code; ret (Inr ()) }
                else do { _ \<leftarrow> start_task (MonitorCommand r); ret (Inr ()) }) })"

definition ignoring :: "(eng_err \<Rightarrow> bool) \<Rightarrow> ('w, eng_err + unit) state \<Rightarrow> ('w, eng_err + unit) state" where
  "ignoring P m = do { r \<leftarrow> m; ret (case r of Inl e \<Rightarrow> if P e then Inr () else Inl e | Inr _ \<Rightarrow> Inr ()) }"

definition unowned_detail :: "run \<Rightarrow> receipt \<Rightarrow> string" where
  "unowned_detail r rc =
     ''branch='' @ Quote (branch r) @ '' path='' @ Quote (rc_Path rc)
     @ ''; Git worktree exists without a Herdr workspace identity; manual cleanup is required''"

definition retire_provisioning :: "'x env \<Rightarrow> run \<Rightarrow> time \<Rightarrow> ('x world, eng_err + unit) state" where
  "retire_provisioning E r now =
     (if workspace_id r \<noteq> [] then
        ignoring benign (closeAndFinish E r (outcome_of StateInterrupted ''uncertain'' ''not_started'' ''unverified''
          ''restart_during_provisioning'' ''workspace was created before its durable provisioning receipt was saved'') now)
      else need (store_op E (InterruptExpiredProvisioning (run_id r) now)) (\<lambda>_. ret (Inr ())))"

definition reconcile_provisioning :: "'x env \<Rightarrow> run \<Rightarrow> time \<Rightarrow> ('x world, eng_err + unit) state" where
  "reconcile_provisioning E r now =
     (if provisioning_owner r \<noteq> [] \<and> now < provisioning_lease_until r then ret (Inr ())
      else if workspace_id r = [] \<and> branch r \<noteq> [] then
        (case decode_job (run_definition r) of
           None \<Rightarrow> ret (Inl (Wrapped (''recover provisioning run '' @ run_id r) BadSnapshot))
         | Some j \<Rightarrow> do {
             found \<leftarrow> FindWorkspaceByBranch (herdr E) (Repository (Execution j)) (branch r);
             (case found of
                Inl e \<Rightarrow> ret (Inl (Wrapped (''find provisioned workspace for run '' @ run_id r) (HerdrErr e)))
              | Inr (rc, present) \<Rightarrow>
                  if present \<and> rc_WorkspaceID rc = []
                  then store_op E (RecordRunEvent (run_id r) ''provisioned_worktree_unowned'' (unowned_detail r rc) now)
                  else if present then
                    need (store_op E (RecoverProvisioningWorkspace (run_id r) (branch r) (rc_WorkspaceID rc) (rc_Path rc) now)) (\<lambda>recovered.
                      if \<not> recovered then ret (Inr ())
                      else retire_provisioning E (r\<lparr>workspace_id := rc_WorkspaceID rc, worktree_path := rc_Path rc\<rparr>) now)
                  else retire_provisioning E r now) })
      else retire_provisioning E r now)"

definition reconcile_agent :: "'x env \<Rightarrow> run \<Rightarrow> ('x world, eng_err + unit) state" where
  "reconcile_agent E r =
     (if pane_id r = [] then interruptAndClose E r ''missing_receipt'' ''nonterminal run has no pane receipt''
      else do {
        st \<leftarrow> Status (herdr E) (pane_id r);
        (case st of
           Inl e \<Rightarrow> interruptAndClose E r ''reconcile_failed'' (err_text E (HerdrErr e))
         | Inr status \<Rightarrow>
             if status = ''unknown'' \<or> status = ''gone''
             then interruptAndClose E r ''reconcile_failed'' ''Herdr execution could not be reconciled''
             else do {
               _ \<leftarrow> start_task (Monitor r (if status = ''idle'' \<or> status = ''done'' \<or> status = ''blocked'' then status else []));
               ret (Inr ()) }) })"

definition reconcile_run :: "'x env \<Rightarrow> run \<Rightarrow> ('x world, eng_err + unit) state" where
  "reconcile_run E r = do {
     now \<leftarrow> now_at E;
     if effect_kind r = EffectWorkspaceClose then
       (if effect_owner r \<noteq> [] \<and> now < effect_lease_until r then ret (Inr ())
        else ignoring benign (recoverExpiredWorkspaceClose E r (outcome_of StateInterrupted ''uncertain'' ''unknown''
               ''unverified'' ''restart_during_workspace_close''
               ''workspace-close ownership expired before its outcome was persisted'') now))
     else if state r = StateAccepted then ret (Inr ())
     else if state r = StateProvisioning then reconcile_provisioning E r now
     else if state r = StateStarting then do {
       again \<leftarrow> now_at E;
       if provisioning_owner r \<noteq> [] \<and> again < provisioning_lease_until r then ret (Inr ())
       else if execution_mode r = ModeCommand then reconcileCommand E r
       else interruptExpiredStartingAndClose E r ''restart_during_agent_start''
              ''agent prompt was not durably accepted before the start claim expired'' again }
     else if state r = StateSettled then do { _ \<leftarrow> start_task (Monitor r ''idle''); ret (Inr ()) }
     else if state r = StateVerifying then do { _ \<leftarrow> reconcileExpiredVerifier E r; ret (Inr ()) }
     else if execution_mode r = ModeCommand then reconcileCommand E r
     else reconcile_agent E r }"

definition Reconcile :: "'x env \<Rightarrow> ('x world, eng_err + unit) state" where
  "Reconcile E = surfacing (
     need (store_read E (\<lambda>d. Inr (NonTerminalRuns d))) (\<lambda>rs.
     need (each (reconcile_run E) rs) (\<lambda>_. Dispatch E)))"

section \<open>Explicit recovery\<close>

definition recovery_job_refusal :: "run \<Rightarrow> job \<Rightarrow> bool" where
  "recovery_job_refusal r j \<longleftrightarrow>
     ID j = [] \<or> ID j \<noteq> job_id r \<or> Repository (Execution j) = [] \<or> \<not> IsAbs (Repository (Execution j))
     \<or> Workspace (Execution j) \<noteq> WorkspaceWorktree"

text \<open>The refusals before anything is observed, in the order of the code.\<close>

definition recovery_check :: "run \<Rightarrow> time \<Rightarrow> sentinel option" where
  "recovery_check r now =
     (if state r \<noteq> StateProvisioning then Some RecoveryNotProvisioning
      else if now < provisioning_lease_until r then Some RecoveryLeaseLive
      else if workspace_id r \<noteq> [] \<or> pane_id r \<noteq> [] \<or> worktree_path r \<noteq> [] then Some RecoveryReceiptPresent
      else if effect_owner r \<noteq> [] \<or> effect_claim r \<noteq> [] \<or> effect_kind r \<noteq> [] \<or> effect_receipt r \<noteq> []
      then Some RecoveryEffectPresent
      else if \<not> IsZero (effect_lease_until r) \<and> now < effect_lease_until r then Some RecoveryEffectPresent
      else if branch r = [] then Some RecoveryInvalidSavedInputs
      else case decode_job (run_definition r) of
             None \<Rightarrow> Some RecoveryInvalidSavedInputs
           | Some j \<Rightarrow> if recovery_job_refusal r j then Some RecoveryInvalidSavedInputs else None)"

definition observed_absence :: "cli_err + receipt \<times> bool \<Rightarrow> sentinel option" where
  "observed_absence found =
     (case found of
        Inl _ \<Rightarrow> Some RecoveryLookupFailed
      | Inr (rc, present) \<Rightarrow>
          if present then Some RecoveryWorkspaceFound
          else if rc_WorkspaceID rc \<noteq> [] \<or> rc_PaneID rc \<noteq> [] \<or> rc_Branch rc \<noteq> [] \<or> rc_Path rc \<noteq> []
          then Some RecoveryLookupInconsistent
          else None)"

definition RecoverProvisioning :: "'x env \<Rightarrow> string \<Rightarrow> time \<Rightarrow> ('x world, eng_err + run) state" where
  "RecoverProvisioning E i now =
     need (store_read E (GetRun i)) (\<lambda>r.
       case (recovery_check r now, decode_job (run_definition r)) of
         (None, Some j) \<Rightarrow> do {
           found \<leftarrow> FindWorkspaceByBranch (herdr E) (Repository (Execution j)) (branch r);
           (case observed_absence found of
              Some s \<Rightarrow> ret (Inl (Refused s i))
            | None \<Rightarrow>
                need (store_op E (InterruptRecoveredProvisioning r now)) (\<lambda>recovered.
                  if \<not> recovered then ret (Inl (Refused StateConflict (''run '' @ i @ '' changed during explicit recovery'')))
                  else need (store_read E (GetRun i)) (\<lambda>final.
                    ret (if state final \<noteq> StateInterrupted
                         then Inl (Plain (''explicit recovery did not retire run '' @ i))
                         else Inr final)))) }
       | (Some s, _) \<Rightarrow> ret (Inl (Refused s i))
       | (None, None) \<Rightarrow> ret (Inl (Refused RecoveryInvalidSavedInputs i)))"

end
