(* ===== verification/AdmissionProperties.thy ===== *)
theory AdmissionProperties
  imports EngineDispatch ClaimProperties
begin

text \<open>
  What the admission of a run guarantees: the decision of \<open>Engine.admissionDecision\<close> inside the
  transaction of \<open>Store.DecideAdmission\<close>.
\<close>

section \<open>Reserves\<close>

definition claims_disk :: "run \<Rightarrow> bool" where
  "claims_disk r \<longleftrightarrow> disk_device r \<noteq> [] \<and> fless (Fin 0) (disk_reserve_gib r)"

definition snapshot_reserve :: "run \<Rightarrow> float64" where
  "snapshot_reserve r = (case decode_job (run_definition r) of None \<Rightarrow> Fin 0 | Some j \<Rightarrow> DiskReserve j)"

text \<open>The two sums, by filters.\<close>

definition device_reserve :: "string \<Rightarrow> run list \<Rightarrow> float64" where
  "device_reserve dev_id rs = foldl fadd (Fin 0) (map disk_reserve_gib (filter (\<lambda>r. claims_disk r \<and> disk_device r = dev_id) rs))"

definition legacy_reserve :: "run list \<Rightarrow> float64" where
  "legacy_reserve rs = foldl fadd (Fin 0) (map snapshot_reserve (filter (\<lambda>r. \<not> claims_disk r) rs))"

lemma sum_reserves_folds:
  "sum_reserves cand dev_id a b rs = Reserved x y \<Longrightarrow>
     x = foldl fadd a (map disk_reserve_gib (filter (\<lambda>r. claims_disk r \<and> disk_device r = dev_id) rs))
     \<and> y = foldl fadd b (map snapshot_reserve (filter (\<lambda>r. \<not> claims_disk r) rs))
     \<and> (Overlap cand = ''queue_one'' \<longrightarrow> (\<forall>r \<in> set rs. job_id r \<noteq> ID cand))
     \<and> (\<forall>r \<in> set rs. claims_disk r \<or> decode_job (run_definition r) \<noteq> None)"
proof (induction rs arbitrary: a b)
  case (Cons r rs)
  have "claims_disk r \<longleftrightarrow> disk_device r \<noteq> [] \<and> fless (Fin 0) (disk_reserve_gib r)" by (rule claims_disk_def)
  then show ?case
    using Cons.prems Cons.IH
    by (cases "claims_disk r"; cases "decode_job (run_definition r)")
      (auto simp: snapshot_reserve_def split: if_splits)
qed simp

lemma admit_decision:
  assumes "admissionDecision cfg j probe active = Inr dc" and "Admit dc"
  shows "\<exists>cap. probe = Inr cap \<and> int (length active) < MaxConcurrent (Capacity cfg)
    \<and> (Overlap j = ''queue_one'' \<longrightarrow> (\<forall>r \<in> set active. job_id r \<noteq> ID j))
    \<and> \<not> fless (FreeGiB cap) (requiredGiB cfg j (device_reserve (deviceID cap) active) (legacy_reserve active))"
proof -
  have plain: "\<not> Admit no_decision" "\<not> Admit (hold c m)" for c m by (simp_all add: no_decision_def hold_def)
  from assms plain obtain cap where cap: "probe = Inr cap"
    by (cases probe) (auto simp: admissionDecision_def no_decision_def)
  with assms plain have few: "int (length active) < MaxConcurrent (Capacity cfg)"
    by (auto simp: admissionDecision_def not_le[symmetric] split: if_splits)
  from assms plain cap few obtain x y where
    sums: "sum_reserves j (deviceID cap) (Fin 0) (Fin 0) active = Reserved x y"
    and room: "\<not> fless (FreeGiB cap) (requiredGiB cfg j x y)"
    by (auto simp: admissionDecision_def Let_def split: reserve_end.splits if_splits)
  from sum_reserves_folds [OF sums] room few cap show ?thesis
    by (simp add: device_reserve_def legacy_reserve_def)
qed

section \<open>Counting\<close>

lemma length_filter_one:
  assumes "distinct (map k xs)" and "x \<in> set xs" and "P x" and "\<And>q. P q \<Longrightarrow> k q = k x"
    and "\<not> A x" and "A (f x)"
  shows "length (filter A (map (\<lambda>q. if P q then f q else q) xs)) = Suc (length (filter A xs))"
proof -
  obtain us vs where xs: "xs = us @ x # vs" using assms(2) by (meson split_list)
  have same: "map (\<lambda>q. if P q then f q else q) ys = ys" if "k x \<notin> k ` set ys" for ys
    using that assms(4) by (intro map_idI) (metis image_eqI)
  have "k x \<notin> k ` set us" "k x \<notin> k ` set vs" using assms(1) xs by auto
  with same have "map (\<lambda>q. if P q then f q else q) xs = us @ f x # vs"
    using assms(3) by (simp add: xs)
  with assms(5,6) show ?thesis by (simp add: xs)
qed

lemma length_active_runs: "length (active_runs d) = length (filter (\<lambda>r. state r \<in> set (tl nonterminalStates)) (runs d))"
  by (simp add: active_runs_def run_order_def)

lemma finish_never: "finishAdmissionTx k f now d \<noteq> (Inr True, d')"
  by (simp add: finishAdmissionTx_def split: option.split)

lemma decide_admits:
  assumes "decide r owner dev_id reserve now lease dc d = (Inr True, d')"
  shows "Admit dc \<and> cas_event_bool (accepted_where (run_id r)) (admit_set owner lease dev_id reserve now)
      (run_id r) StateAccepted StateProvisioning now [] ''capacity admitted; route validation pending'' d = (Inr True, d')"
proof -
  note eq = assms [unfolded decide_def]
  from eq have "FailureCode dc = [] \<or> HoldCode dc = []" by (cases "FailureCode dc \<noteq> [] \<and> HoldCode dc \<noteq> []") (simp_all split: if_splits)
  with eq have "FailureCode dc = []" by (cases "FailureCode dc = []") (simp_all add: finish_never split: if_splits)
  with eq show ?thesis by (cases "Admit dc") (simp_all add: finish_never split: if_splits)
qed

lemma admission_decided:
  assumes "DecideAdmission i owner dev_id reserve now lease check d = (Inr True, d')"
  shows "\<exists>r dc. find_run i d = Some r \<and> state r = StateAccepted \<and> check (active_runs d) = Inr dc
    \<and> decide r owner dev_id reserve now lease dc d = (Inr True, d')"
proof -
  note eq = assms [unfolded DecideAdmission_def]
  from eq have lease: "validateProvisioningLease owner now lease = None" by (cases "validateProvisioningLease owner now lease") simp_all
  note eq = eq [unfolded lease option.case]
  from eq have lock: "meta ''admission_lock'' d \<noteq> None" by (cases "meta ''admission_lock'' d = None") simp_all
  note eq = eq [unfolded if_not_P [OF lock]]
  from eq obtain r where r: "find_run i d = Some r" by (cases "find_run i d") simp_all
  note eq = eq [unfolded r option.case]
  from eq obtain j where j: "find_job (job_id r) d = Some j" by (cases "find_job (job_id r) d") simp_all
  note eq = eq [unfolded j option.case]
  from eq have st: "state r = StateAccepted" by (cases "state r = StateAccepted") simp_all
  from eq st have free: "authority_hold j d = None" by (cases "authority_hold j d") (simp_all add: finish_never split: if_splits)
  from eq st free have "(if trigger r = ''canary'' then canary_refusal r d else None) = None"
    by (cases "if trigger r = ''canary'' then canary_refusal r d else None") (simp_all add: finish_never)
  with eq st free have "(case check (active_runs d) of Inl e \<Rightarrow> (Inl e, d)
      | Inr dc \<Rightarrow> decide r owner dev_id reserve now lease dc d) = (Inr True, d')"
    by simp
  with r st show ?thesis by (cases "check (active_runs d)") simp_all
qed

text \<open>C8: An admission takes a run only within the capacity. With the engine's decision inside the
  transaction of the store, an admitted run was accepted, is now provisioning under its owner with
  its device and reserve recorded, the runs beyond acceptance are one more than before and at most
  the configured maximum, no run of a \<open>queue_one\<close> job was active, and the free space covers the
  configured minimum, the reserves recorded for the same device, the reserves of runs without a
  recorded claim, and the run's own reserve.\<close>

theorem admission_within_capacity:
  assumes "db_ok d"
    and "DecideAdmission i owner dev_id (DiskReserve j) now lease (admissionDecision cfg j probe) d = (Inr True, d')"
  shows "\<exists>cap r. probe = Inr cap \<and> find_run i d = Some r \<and> state r = StateAccepted
    \<and> find_run i d' = Some (admit_set owner lease dev_id (DiskReserve j) now r)
    \<and> length (active_runs d') = Suc (length (active_runs d))
    \<and> int (length (active_runs d')) \<le> MaxConcurrent (Capacity cfg)
    \<and> (Overlap j = ''queue_one'' \<longrightarrow> ID j \<notin> job_id ` set (active_runs d))
    \<and> \<not> fless (FreeGiB cap)
        (requiredGiB cfg j (device_reserve (deviceID cap) (active_runs d)) (legacy_reserve (active_runs d)))"
proof -
  from admission_decided [OF assms(2)] obtain r dc where r: "find_run i d = Some r" "state r = StateAccepted"
    and dc: "admissionDecision cfg j probe (active_runs d) = Inr dc"
    and run: "decide r owner dev_id (DiskReserve j) now lease dc d = (Inr True, d')"
    by blast
  have id: "run_id r = i" using find_run_Some [OF r(1)] by simp
  from decide_admits [OF run] id have admit: "Admit dc"
    and cas: "cas_event_bool (accepted_where i) (admit_set owner lease dev_id (DiskReserve j) now)
      i StateAccepted StateProvisioning now [] ''capacity admitted; route validation pending'' d = (Inr True, d')"
    by simp_all
  have keys: "run_keys d" by (rule db_ok_keys [OF assms(1)])
  have here: "accepted_where i r" using r id by (simp add: accepted_where_def)
  from cas cas_event_bool_id [OF keys r(1), of "accepted_where i"] here
  have d': "d' = add_event i StateAccepted StateProvisioning now [] ''capacity admitted; route validation pending''
      (rewrite (accepted_where i) (admit_set owner lease dev_id (DiskReserve j) now) d)"
    by (simp add: accepted_where_def)
  have found: "find_run i d' = Some (admit_set owner lease dev_id (DiskReserve j) now r)"
    using r here by (simp add: d' find_run_rewrite_id admit_set_def)
  let ?A = "\<lambda>q. state q \<in> set (tl nonterminalStates)" and ?f = "admit_set owner lease dev_id (DiskReserve j) now"
  have beyond: "\<not> ?A r" "?A (?f r)" by (simp_all add: r(2) nonterminalStates_def admit_set_def)
  have ids: "distinct (map run_id (runs d))" using keys by (simp add: run_keys_def)
  have same: "accepted_where i q \<Longrightarrow> run_id q = run_id r" for q using id by (simp add: accepted_where_def)
  have count: "length (active_runs d') = Suc (length (active_runs d))"
    using length_filter_one [where k = run_id and x = r and P = "accepted_where i" and A = ?A and f = ?f,
        OF ids _ here same beyond] find_run_Some [OF r(1)]
    unfolding length_active_runs d' by (simp add: add_event_def)
  from admit_decision [OF dc admit] obtain cap where "probe = Inr cap"
    "int (length (active_runs d)) < MaxConcurrent (Capacity cfg)"
    "Overlap j = ''queue_one'' \<longrightarrow> ID j \<notin> job_id ` set (active_runs d)"
    "\<not> fless (FreeGiB cap)
       (requiredGiB cfg j (device_reserve (deviceID cap) (active_runs d)) (legacy_reserve (active_runs d)))"
    by (metis (no_types, lifting) imageE)
  with r found count show ?thesis by simp
qed

definition demo_queue :: job where
  "demo_queue = zero_job\<lparr>ID := ''nightly'', Overlap := ''queue_one'',
     Limits := \<lparr> MaxRunsPerDay = 0, DiskReserveGiB = Some (Fin 1) \<rparr> \<rparr>"

definition demo_limits :: config where
  "demo_limits = \<lparr> Version = 1, Capacity = \<lparr> MaxConcurrentRuns = Some 1, MinFreeDiskGiB = Some (Fin 3) \<rparr>, Jobs = [demo_queue] \<rparr>"

lemma demo_required: "requiredGiB demo_limits demo_queue (Fin 0) (Fin 0) = Fin 4"
proof -
  have "bitlen 3 = 2" "bitlen 4 = 3" "bitlen 1 = 1" by (simp_all add: compute_bitlen)
  then have "of_rat64 3 = Fin 3" "of_rat64 4 = Fin 4"
    by (simp_all add: of_rat64_def round_pos_def exponent_def pow2_def round_half_even_def Let_def)
  then show ?thesis
    by (simp add: requiredGiB_def demo_limits_def demo_queue_def MinFreeDisk_def DiskReserve_def)
qed

lemma demo_decision: "admissionDecision demo_limits demo_queue (Inr \<lparr> FreeGiB = Fin 9, Device = 7 \<rparr>) [] = admit_all []"
  by (simp add: admissionDecision_def admit_all_def no_decision_def demo_required)
    (simp add: demo_limits_def MaxConcurrent_def)

theorem admission_within_capacity_witness:
  "length (active_runs db_claimed) = Suc 0 \<and> Overlap demo_queue = ''queue_one'' \<and> DiskReserve demo_queue = Fin 1"
proof -
  have job: "DiskReserve demo_queue = Fin 1" "Overlap demo_queue = ''queue_one''"
    by (simp_all add: demo_queue_def DiskReserve_def)
  have none: "active_runs db_run = []"
    by (simp add: active_runs_def run_order_def db_run_runs nonterminalStates_def)
  have "DecideAdmission (run_id demo_run) ''w1'' ''dev'' (DiskReserve demo_queue) 8 60000000008
      (admissionDecision demo_limits demo_queue (Inr \<lparr> FreeGiB = Fin 9, Device = 7 \<rparr>)) db_run = (Inr True, db_claimed)"
    using demo_admit unfolding DecideAdmission_def none demo_decision job by simp
  from admission_within_capacity [OF reach_ok [OF db_run_reach] this] none job show ?thesis by auto
qed

end
