(* ===== verification/Frame.thy ===== *)
theory Frame
  imports VerifierFiles
begin

text \<open>
  Frames: a reflexive and transitive relation that every call to the outside keeps is kept by
  whatever the clients, the probe and the file code do with those calls.
\<close>

abbreviation framed :: "('w \<Rightarrow> 'w \<Rightarrow> bool) \<Rightarrow> ('w, 'a) state \<Rightarrow> bool" where
  "framed R m \<equiv> state_io_rel R m"

definition cli_within :: "('w \<Rightarrow> 'w \<Rightarrow> bool) \<Rightarrow> 'w cli \<Rightarrow> bool" where
  "cli_within R C \<longleftrightarrow>
     (\<forall>args. framed R (exec C args)) \<and> framed R (ctx_Err C) \<and> framed R (call_Err C) \<and> framed R (cli_now C)
     \<and> (\<forall>d. framed R (pause C d))"

definition runner_within :: "('w \<Rightarrow> 'w \<Rightarrow> bool) \<Rightarrow> 'w runner \<Rightarrow> bool" where
  "runner_within R P \<longleftrightarrow> (\<forall>p. framed R (LookPath P p)) \<and> (\<forall>p args. framed R (Run P p args))"

definition files_within :: "('w \<Rightarrow> 'w \<Rightarrow> bool) \<Rightarrow> 'w files \<Rightarrow> bool" where
  "files_within R F \<longleftrightarrow>
     (\<forall>p. framed R (Lstat F p)) \<and> (\<forall>fd. framed R (Fstat F fd)) \<and> (\<forall>fd n. framed R (Fstatat F fd n))
     \<and> (\<forall>m p. framed R (Open F m p)) \<and> (\<forall>m fd n. framed R (Openat F m fd n)) \<and> (\<forall>fd n. framed R (Mkdirat F fd n))
     \<and> (\<forall>fd n k. framed R (Readlinkat F fd n k)) \<and> (\<forall>fd k. framed R (read_upto F fd k))
     \<and> (\<forall>fd s. framed R (write_all F fd s)) \<and> (\<forall>fd. framed R (Fchmod F fd)) \<and> (\<forall>fd. framed R (Fsync F fd))
     \<and> (\<forall>fd. framed R (Close F fd))"

lemma cli_withinD:
  assumes "cli_within R C"
  shows "framed R (exec C args)" "framed R (ctx_Err C)" "framed R (call_Err C)" "framed R (cli_now C)" "framed R (pause C d)"
  using assms by (simp_all add: cli_within_def)

lemma runner_withinD:
  assumes "runner_within R P"
  shows "framed R (LookPath P p)" "framed R (Run P p args)"
  using assms by (simp_all add: runner_within_def)

lemma files_withinD:
  assumes "files_within R F"
  shows "framed R (Lstat F p)" "framed R (Fstat F fd)" "framed R (Fstatat F fd n)" "framed R (Open F m p)"
    "framed R (Openat F m fd n)" "framed R (Mkdirat F fd n)" "framed R (Readlinkat F fd n k)"
    "framed R (read_upto F fd k)" "framed R (write_all F fd s)" "framed R (Fchmod F fd)" "framed R (Fsync F fd)"
    "framed R (Close F fd)"
  using assms by (simp_all add: files_within_def)

definition disk_within :: "('w \<Rightarrow> 'w \<Rightarrow> bool) \<Rightarrow> 'w disk \<Rightarrow> bool" where
  "disk_within R D \<longleftrightarrow>
     (\<forall>p. framed R (Mkdir D p)) \<and> (\<forall>p. framed R (EvalSymlinks D p)) \<and> (\<forall>p. framed R (Chmod D p))
     \<and> (\<forall>fd n. framed R (Unlinkat D fd n)) \<and> (\<forall>fd a b. framed R (RenameExcl D fd a b)) \<and> (\<forall>fd. framed R (Rewind D fd))
     \<and> (\<forall>p. framed R (CreateTemp D p)) \<and> (\<forall>p. framed R (Remove D p))"

definition kernel_within :: "('w \<Rightarrow> 'w \<Rightarrow> bool) \<Rightarrow> 'w kernel \<Rightarrow> bool" where
  "kernel_within R K \<longleftrightarrow>
     (\<forall>pg. framed R (observe K pg)) \<and> (\<forall>pg. framed R (signal_group K pg)) \<and> framed R (wall_time K) \<and> framed R (sleep_poll K)"

definition launcher_within :: "('w \<Rightarrow> 'w \<Rightarrow> bool) \<Rightarrow> 'w launcher \<Rightarrow> bool" where
  "launcher_within R L \<longleftrightarrow>
     (\<forall>dir out prog args. framed R (start_process L dir out prog args)) \<and> framed R (await_end L) \<and> framed R (reap L)"

lemma disk_withinD:
  assumes "disk_within R D"
  shows "framed R (Mkdir D p)" "framed R (EvalSymlinks D p)" "framed R (Chmod D p)" "framed R (Unlinkat D fd n)"
    "framed R (RenameExcl D fd a b)" "framed R (Rewind D fd)" "framed R (CreateTemp D p)" "framed R (Remove D p)"
  using assms by (simp_all add: disk_within_def)

lemma kernel_withinD:
  assumes "kernel_within R K"
  shows "framed R (observe K pg)" "framed R (signal_group K pg)" "framed R (wall_time K)" "framed R (sleep_poll K)"
  using assms by (simp_all add: kernel_within_def)

lemma launcher_withinD:
  assumes "launcher_within R L"
  shows "framed R (start_process L dir out prog args)" "framed R (await_end L)" "framed R (reap L)"
  using assms by (simp_all add: launcher_within_def)

text \<open>Branches.\<close>

named_theorems branches \<open>a frame is kept by a branch when it is kept by its arms\<close>

lemma within_if [branches]: "framed R a \<Longrightarrow> framed R b \<Longrightarrow> framed R (if c then a else b)"
  by simp

lemma within_option [branches]: "framed R a \<Longrightarrow> (\<And>x. framed R (f x)) \<Longrightarrow> framed R (case y of None \<Rightarrow> a | Some x \<Rightarrow> f x)"
  by (cases y) simp_all

lemma within_sum [branches]:
  "(\<And>x. framed R (f x)) \<Longrightarrow> (\<And>x. framed R (g x)) \<Longrightarrow> framed R (case y of Inl x \<Rightarrow> f x | Inr x \<Rightarrow> g x)"
  by (cases y) simp_all

lemma within_prod [branches]: "(\<And>a b. framed R (f a b)) \<Longrightarrow> framed R (case y of (a, b) \<Rightarrow> f a b)"
  by (cases y) simp

lemma within_Let [branches]: "(\<And>x. framed R (f x)) \<Longrightarrow> framed R (Let y f)"
  by (simp add: Let_def)

lemma within_walk_err [branches]:
  "(\<And>w e. framed R (f w e)) \<Longrightarrow> (\<And>w m. framed R (g w m)) \<Longrightarrow> framed R (case y of WalkErrno w e \<Rightarrow> f w e | WalkBad w m \<Rightarrow> g w m)"
  by (cases y) simp_all

lemma within_kill [branches]:
  "framed R a \<Longrightarrow> framed R b \<Longrightarrow> framed R c \<Longrightarrow> (\<And>m. framed R (f m))
   \<Longrightarrow> framed R (case y of Killed \<Rightarrow> a | EPERM \<Rightarrow> b | ESRCH \<Rightarrow> c | KillError m \<Rightarrow> f m)"
  by (cases y) simp_all

lemma within_ended [branches]:
  "(\<And>x. framed R (f x)) \<Longrightarrow> (\<And>c. framed R (g c)) \<Longrightarrow> framed R (case y of Exited x \<Rightarrow> f x | ContextDone c \<Rightarrow> g c)"
  by (cases y) simp_all

locale frame =
  fixes R :: "'w \<Rightarrow> 'w \<Rightarrow> bool"
  assumes refl: "reflp R" and trans: "transp R"
begin

lemma ret: "framed R (ret x)"
  using refl by simp

lemma bind: "framed R m \<Longrightarrow> (\<And>x. framed R (f x)) \<Longrightarrow> framed R (State_Monad.bind m f)"
  using trans by (rule state_io_rel_bind)

lemma need: "framed R m \<Longrightarrow> (\<And>x. framed R (f x)) \<Longrightarrow> framed R (need m f)"
  using refl trans by (rule state_io_rel_need)

lemma attempt: "framed R m \<Longrightarrow> (\<And>e. framed R (h e)) \<Longrightarrow> (\<And>x. framed R (f x)) \<Longrightarrow> framed R (attempt m h f)"
  using trans by (rule state_io_rel_attempt)

lemma each: "(\<And>x. framed R (f x)) \<Longrightarrow> framed R (each f xs)"
  using refl trans by (rule state_io_rel_each)

lemma each_until: "(\<And>x. framed R (f x)) \<Longrightarrow> framed R (each_until f xs)"
  using refl trans by (rule state_io_rel_each_until)

lemma loop: "loop f s w = Some (r, w') \<Longrightarrow> (\<And>s. framed R (f s)) \<Longrightarrow> R w w'"
  using loop_keeps refl trans by metis

lemmas rules = ret bind need attempt each each_until branches

text \<open>The client.\<close>

lemma run_cli: "cli_within R C \<Longrightarrow> framed R (run_cli C args)"
  unfolding run_cli_def by (intro rules cli_withinD)

lemma run_ok: "cli_within R C \<Longrightarrow> framed R (run_ok C args)"
  unfolding run_ok_def by (intro rules run_cli)

lemma run_into: "cli_within R C \<Longrightarrow> framed R (run_into C dec zero args)"
  unfolding run_into_def by (intro rules run_cli)

lemma paneRead: "cli_within R C \<Longrightarrow> framed R (paneRead C p n)"
  unfolding paneRead_def by (intro rules cli_withinD)

lemmas client_steps = run_ok run_into paneRead cli_withinD

lemma WorkspaceExists: "cli_within R C \<Longrightarrow> framed R (WorkspaceExists C i)"
  unfolding WorkspaceExists_def by (intro rules client_steps)

lemma FindWorkspaceByBranch: "cli_within R C \<Longrightarrow> framed R (FindWorkspaceByBranch C repo b)"
  unfolding FindWorkspaceByBranch_def by (intro rules client_steps)

lemma worktreePath: "cli_within R C \<Longrightarrow> framed R (worktreePath C repo b)"
  unfolding worktreePath_def by (intro rules client_steps)

lemma Provision: "cli_within R C \<Longrightarrow> framed R (Provision C repo ws base b l)"
  unfolding Provision_def by (intro rules client_steps worktreePath)

lemma CloseWorkspace: "cli_within R C \<Longrightarrow> framed R (CloseWorkspace C i)"
  unfolding CloseWorkspace_def by (rule run_ok)

lemma agentState: "cli_within R C \<Longrightarrow> framed R (agentState C p)"
  unfolding agentState_def by (intro rules client_steps)

lemma Status: "cli_within R C \<Longrightarrow> framed R (Status C p)"
  unfolding Status_def by (intro rules agentState)

lemma StartAgent: "cli_within R C \<Longrightarrow> framed R (StartAgent C n k p args)"
  unfolding StartAgent_def by (rule run_ok)

lemma StartCommand: "cli_within R C \<Longrightarrow> framed R (StartCommand C p c)"
  unfolding StartCommand_def by (rule run_ok)

lemma CommandTranscript: "cli_within R C \<Longrightarrow> framed R (CommandTranscript C p)"
  unfolding CommandTranscript_def by (rule paneRead)

lemma CommandResult: "cli_within R C \<Longrightarrow> framed R (CommandResult C p m)"
  unfolding CommandResult_def by (intro rules paneRead)

lemma Submit:
  assumes "cli_within R C" and "Submit C p prompt w = Some (r, w')"
  shows "R w w'"
proof -
  have first: "framed R (submit_prompt C p prompt)"
    unfolding submit_prompt_def using assms(1) by (intro rules client_steps agentState)
  have round: "framed R (await_round C p i s)" for i s
    unfolding await_round_def using assms(1) by (intro rules client_steps agentState)
  obtain out w1 where out: "run_state (submit_prompt C p prompt) w = (out, w1)" by fastforce
  with first have R1: "R w w1" by (rule state_io_relD)
  show ?thesis
  proof (cases out)
    case (Inl res)
    with assms(2) out R1 show ?thesis by (simp add: Submit_def)
  next
    case (Inr ei)
    with assms(2) out obtain r' where "awaitStateChange C p (snd ei) w1 = Some (r', w')"
      by (auto simp: Submit_def split: prod.splits)
    then have "R w1 w'" unfolding awaitStateChange_def using round by (rule loop)
    with R1 trans show ?thesis by (blast dest: transpD)
  qed
qed

lemma statusAfterCompletedWait:
  assumes "cli_within R C" and "statusAfterCompletedWait C p d w = Some (r, w')"
  shows "R w w'"
proof -
  have round: "framed R (status_round C p t s)" for t s
    unfolding status_round_def using assms(1) by (intro rules client_steps Status)
  obtain now w1 where now: "run_state (cli_now C) w = (now, w1)" by fastforce
  with assms(1) have "R w w1" by (blast dest: cli_withinD state_io_relD)
  moreover from assms(2) now have "R w1 w'"
    by (auto simp: statusAfterCompletedWait_def intro: loop round)
  ultimately show ?thesis using trans by (blast dest: transpD)
qed

lemma Wait:
  assumes "cli_within R C" and "Wait C p t w = Some (r, w')"
  shows "R w w'"
proof -
  have round: "framed R (wait_round C p d s)" for d s
    unfolding wait_round_def using assms(1) by (intro rules client_steps)
  obtain now w1 where now: "run_state (cli_now C) w = (now, w1)" by fastforce
  with assms(1) have R1: "R w w1" by (blast dest: cli_withinD state_io_relD)
  from assms(2) now obtain out w2 where out: "loop (wait_round C p (now + t)) () w1 = Some (out, w2)"
    by (auto simp: Wait_def Let_def split: option.splits)
  then have R2: "R w1 w2" using round by (rule loop)
  have "R w2 w'"
  proof (cases out)
    case (WaitEnds x)
    with assms(2) now out refl show ?thesis by (simp add: Wait_def Let_def reflpD)
  next
    case WaitCompleted
    with assms now out show ?thesis by (auto simp: Wait_def Let_def dest: statusAfterCompletedWait)
  qed
  with R1 R2 trans show ?thesis by (blast dest: transpD)
qed

lemma WaitCommand:
  assumes "cli_within R C" and "WaitCommand C p m t w = Some (r, w')"
  shows "R w w'"
proof -
  have round: "framed R (command_round C p m d s)" for d s
    unfolding command_round_def Let_def using assms(1) by (intro rules client_steps CommandResult)
  obtain now w1 where now: "run_state (cli_now C) w = (now, w1)" by fastforce
  with assms(1) have "R w w1" by (blast dest: cli_withinD state_io_relD)
  moreover from assms(2) now have "R w1 w'"
    by (auto simp: WaitCommand_def intro: loop round)
  ultimately show ?thesis using trans by (blast dest: transpD)
qed

text \<open>The probe.\<close>

lemma Probe: "runner_within R P \<Longrightarrow> framed R (Probe P j)"
  unfolding Probe_def by (intro rules runner_withinD)

text \<open>The file code.\<close>

lemma sys: "framed R m \<Longrightarrow> framed R (sys stage path m)"
  unfolding sys_def by (intro rules)

lemma refuse: "framed R (refuse stage path m)"
  unfolding refuse_def by (rule ret)

lemma closing: "files_within R F \<Longrightarrow> framed R m \<Longrightarrow> framed R (closing F fd m)"
  unfolding closing_def by (intro rules files_withinD)

lemmas file_steps = files_withinD sys refuse closing

lemma open_next: "files_within R F \<Longrightarrow> framed R (open_next F c n w)"
  unfolding open_next_def by (intro rules file_steps)

lemma walk: "(\<And>c n w. framed R (step c n w)) \<Longrightarrow> framed R (walk step c w ns)"
  by (induction ns arbitrary: c w) (auto intro!: need ret simp: Let_def)

lemma openBoundedParents: "files_within R F \<Longrightarrow> framed R (openBoundedParents F wt d)"
  unfolding openBoundedParents_def open_parents_def bounded_step_def by (intro rules file_steps walk open_next)

lemma openReservedParents: "files_within R F \<Longrightarrow> framed R (openReservedParents F wt d b)"
  unfolding openReservedParents_def open_parents_def reserved_step_def by (intro rules file_steps walk open_next)

lemma stageOneBoundedInput: "files_within R F \<Longrightarrow> framed R (stageOneBoundedInput F wt s d n)"
  unfolding stageOneBoundedInput_def openBoundedSource_def create_snapshot_def closing_copy_def copy_snapshot_def
  by (intro rules file_steps openReservedParents)

lemma verifyOneStagedInput: "files_within R F \<Longrightarrow> framed R (verifyOneStagedInput F wt f)"
  unfolding verifyOneStagedInput_def by (intro rules file_steps openReservedParents)

lemma boundedObserveOnePath: "files_within R F \<Longrightarrow> framed R (boundedObserveOnePath F wt p)"
  unfolding boundedObserveOnePath_def boundedObserveSymlink_def boundedObserveRegularFile_def
  by (intro rules file_steps openBoundedParents)

lemma boundedObserveChangedPaths: "files_within R F \<Longrightarrow> framed R (boundedObserveChangedPaths F wt ps)"
proof -
  assume F: "files_within R F"
  have "framed R (observe_from F wt n ps)" for n
    by (induction ps arbitrary: n) (auto intro!: rules refuse boundedObserveOnePath F)
  then show ?thesis by (simp add: boundedObserveChangedPaths_def)
qed

text \<open>The prompt file.\<close>

lemma temporaryPrompt: "files_within R F \<Longrightarrow> disk_within R D \<Longrightarrow> framed R (temporaryPrompt F D p)"
  unfolding temporaryPrompt_def Let_def by (intro rules files_withinD disk_withinD)

text \<open>Ending a process group.\<close>

lemma killVerifierProcessGroupOnce: "kernel_within R K \<Longrightarrow> framed R (killVerifierProcessGroupOnce K pg)"
  unfolding killVerifierProcessGroupOnce_def by (intro rules kernel_withinD)

lemma poll_gone:
  assumes "poll_gone K pg deadline w = Some (r, w')" and "kernel_within R K"
  shows "R w w'"
proof -
  have "R w (snd out)" if "poll_gone TK pg deadline w = Some out" "TK = K" for TK w out
    using that
  proof (induction TK pg deadline w out rule: poll_gone.raw_induct [rotated, consumes 1])
    case (1 pg_gone TK pg deadline w out)
    obtain seen w1 where o: "run_state (observe K pg) w = (seen, w1)" by fastforce
    obtain t w2 where t: "run_state (wall_time K) w1 = (t, w2)" by fastforce
    obtain w3 where u: "run_state (sleep_poll K) w2 = ((), w3)" by (cases "run_state (sleep_poll K) w2") simp
    note K = kernel_withinD [OF assms(2)]
    from K(1) o have R1: "R w w1" by (rule state_io_relD)
    from K(3) t have R2: "R w1 w2" by (rule state_io_relD)
    from K(4) u have R3: "R w2 w3" by (rule state_io_relD)
    from R1 R2 trans have R12: "R w w2" by (blast dest: transpD)
    with R3 trans have R13: "R w w3" by (blast dest: transpD)
    have "R w3 (snd out)" if "pg_gone K pg deadline w3 = Some out"
      using that 1(1,3) by blast
    with 1(2,3) o t u R1 R12 R13 trans show ?case
      by (auto split: sum.splits if_splits dest: transpD)
  qed
  from this [OF assms(1)] show ?thesis by simp
qed

lemma waitVerifierProcessGroupGone:
  assumes "waitVerifierProcessGroupGone K pg w = Some (r, w')" and "kernel_within R K"
  shows "R w w'"
proof -
  obtain t w1 where t: "run_state (wall_time K) w = (t, w1)" by fastforce
  with assms have "R w w1" by (blast dest: kernel_withinD state_io_relD)
  moreover from assms t have "R w1 w'" by (auto simp: waitVerifierProcessGroupGone_def intro: poll_gone)
  ultimately show ?thesis using trans by (blast dest: transpD)
qed

lemma terminateVerifierProcessGroup:
  assumes "terminateVerifierProcessGroup K pg w = Some (r, w')" and "kernel_within R K"
  shows "R w w'"
proof -
  obtain res w1 where k: "run_state (killVerifierProcessGroupOnce K pg) w = (res, w1)" by fastforce
  with killVerifierProcessGroupOnce [OF assms(2)] have "R w w1" by (rule state_io_relD)
  moreover from assms k refl have "R w1 w'"
    by (auto simp: terminateVerifierProcessGroup_def dest: reflpD waitVerifierProcessGroupGone split: sum.splits if_splits)
  ultimately show ?thesis using trans by (blast dest: transpD)
qed

text \<open>The verifier.\<close>

lemma returning:
  assumes "\<And>w r w'. f w = Some (r, w') \<Longrightarrow> R w w'" and "\<And>r. framed R (g r)"
  shows "framed R (returning f g)"
proof (rule state_io_relI)
  fix b s s'
  assume run: "run_state (returning f g) s = (b, s')"
  show "R s s'"
  proof (cases "f s")
    case None
    with run refl show ?thesis by (auto simp: returning_def dest: reflpD)
  next
    case (Some p)
    obtain r t where p: "p = (r, t)" by fastforce
    with run Some have "run_state (g r) t = (b, s')" by (simp add: returning_def)
    with assms Some p trans show ?thesis by (blast dest: state_io_relD transpD)
  qed
qed

lemma io: "framed R m \<Longrightarrow> framed R (io m)"
  unfolding io_def by (intro rules)

lemma unfit: "framed R (unfit m)"
  unfolding unfit_def by (rule ret)

lemma at_stage: "framed R m \<Longrightarrow> framed R (at_stage s m)"
  unfolding at_stage_def by (intro rules)

lemma in_directory: "files_within R F \<Longrightarrow> (\<And>fd. framed R (f fd)) \<Longrightarrow> framed R (in_directory F p f)"
  unfolding in_directory_def by (intro rules io closing files_withinD)

lemmas verifier_steps = io unfit at_stage in_directory closing files_withinD disk_withinD

lemma prepareVerifierReceipt:
  "files_within R F \<Longrightarrow> disk_within R D \<Longrightarrow> framed R (prepareVerifierReceipt F D sd c r)"
  unfolding prepareVerifierReceipt_def make_directory_def absent_def by (intro rules verifier_steps)

lemma validateVerifierReceiptPath:
  "files_within R F \<Longrightarrow> disk_within R D \<Longrightarrow> framed R (validateVerifierReceiptPath F D sd r c b)"
  unfolding validateVerifierReceiptPath_def by (intro rules verifier_steps)

lemma openExclusiveRegular: "files_within R F \<Longrightarrow> framed R (openExclusiveRegular F p)"
  unfolding openExclusiveRegular_def Let_def by (intro rules verifier_steps)

lemma removeVerifierFile: "files_within R F \<Longrightarrow> disk_within R D \<Longrightarrow> framed R (removeVerifierFile F D p)"
  unfolding removeVerifierFile_def by (intro rules verifier_steps)

lemma removeVerifierArtifacts:
  "files_within R F \<Longrightarrow> disk_within R D \<Longrightarrow> framed R (removeVerifierArtifacts F D sd c)"
  unfolding removeVerifierArtifacts_def by (intro rules removeVerifierFile)

lemma write_temp: "files_within R F \<Longrightarrow> framed R (write_temp F fd p)"
  unfolding write_temp_def by (intro rules verifier_steps)

lemma rename_temp: "files_within R F \<Longrightarrow> disk_within R D \<Longrightarrow> framed R (rename_temp F D r)"
  unfolding rename_temp_def by (intro rules verifier_steps)

lemma syncVerifierDirectory: "files_within R F \<Longrightarrow> framed R (syncVerifierDirectory F p)"
  unfolding syncVerifierDirectory_def by (intro rules verifier_steps)

lemma publishVerifierReceipt:
  "files_within R F \<Longrightarrow> disk_within R D \<Longrightarrow> framed R (publishVerifierReceipt F D sd r x)"
  unfolding publishVerifierReceipt_def
  by (intro rules validateVerifierReceiptPath openExclusiveRegular write_temp rename_temp removeVerifierFile
      syncVerifierDirectory)

lemma readVerifierReceiptFiles:
  "files_within R F \<Longrightarrow> disk_within R D \<Longrightarrow> framed R (readVerifierReceiptFiles F D sd r c)"
  unfolding readVerifierReceiptFiles_def by (intro rules verifier_steps validateVerifierReceiptPath)

lemma deliver: "files_within R F \<Longrightarrow> disk_within R D \<Longrightarrow> framed R (deliver F D sd r c fd x)"
  unfolding deliver_def read_output_def by (intro rules verifier_steps publishVerifierReceipt)

lemma supervise:
  assumes "files_within R F" and "disk_within R D" and "kernel_within R K" and "launcher_within R L"
  shows "framed R (supervise F D K L sd wt r c cmd fd)"
  unfolding supervise_def cancel_verifier_def using assms
  by (intro rules launcher_withinD returning deliver killVerifierProcessGroupOnce)
     (auto dest: waitVerifierProcessGroupGone terminateVerifierProcessGroup)

lemma runVerifierCommand:
  assumes "files_within R F" and "disk_within R D" and "kernel_within R K" and "launcher_within R L"
  shows "framed R (runVerifierCommand F D K L sd wt r c cmd)"
  unfolding runVerifierCommand_def using assms
  by (intro rules at_stage validateVerifierReceiptPath openExclusiveRegular supervise files_withinD removeVerifierFile)

end

end
