(* ===== verification/EngineRefinement.thy ===== *)
theory EngineRefinement
  imports EngineDispatch Frame
begin

text \<open>
  The engine refines the store: whatever it does, and whatever happens around it, the database
  only moves by operations of the store. So every invariant of the store holds under any
  interleaving of engines, and no engine can get around a fence.
\<close>

definition keeps :: "'x world \<Rightarrow> 'x world \<Rightarrow> bool" where
  "keeps w w' \<longleftrightarrow> store_steps (wdb w) (wdb w')"

interpretation db_frame: frame "keeps :: 'x world \<Rightarrow> 'x world \<Rightarrow> bool"
proof
  show "reflp (keeps :: 'x world \<Rightarrow> 'x world \<Rightarrow> bool)" by (auto intro: reflpI simp: keeps_def)
  show "transp (keeps :: 'x world \<Rightarrow> 'x world \<Rightarrow> bool)" by (rule transpI) (simp add: keeps_def)
qed

text \<open>
  What is assumed of the surroundings: they change the database by operations of the store only,
  and a token is sixteen bytes.
\<close>

definition surroundings_ok :: "'x env \<Rightarrow> bool" where
  "surroundings_ok E \<longleftrightarrow>
     framed keeps (turn E) \<and> framed keeps (now_at E) \<and> framed keeps (wall E) \<and> framed keeps (token E)
     \<and> framed keeps (cfg_file E) \<and> (\<forall>args. framed keeps (git_run E args)) \<and> (\<forall>p. framed keeps (disk_probe E p))
     \<and> (\<forall>args. framed keeps (review_git E args)) \<and> framed keeps (random_id E)
     \<and> cli_within keeps (herdr E) \<and> runner_within keeps (runner_env E) \<and> files_within keeps (files_env E)
     \<and> disk_within keeps (disk_env E) \<and> kernel_within keeps (kernel_env E) \<and> launcher_within keeps (launcher_env E)
     \<and> (\<forall>w. good_token (fst (run_state (token E) w)))"

lemma surroundings:
  assumes "surroundings_ok E"
  shows "framed keeps (turn E)" "framed keeps (now_at E)" "framed keeps (wall E)"
    "framed keeps (cfg_file E)" "framed keeps (git_run E args)" "framed keeps (disk_probe E p)"
    "framed keeps (review_git E args)" "framed keeps (random_id E)"
    "cli_within keeps (herdr E)" "runner_within keeps (runner_env E)" "files_within keeps (files_env E)"
    "disk_within keeps (disk_env E)" "kernel_within keeps (kernel_env E)" "launcher_within keeps (launcher_env E)"
  using assms by (simp_all add: surroundings_ok_def)

lemma with_token:
  assumes "surroundings_ok E" and "\<And>tok. good_token tok \<Longrightarrow> framed keeps (f tok)"
  shows "framed keeps (State_Monad.bind (token E) f)"
proof
  fix b s s'
  assume run: "run_state (State_Monad.bind (token E) f) s = (b, s')"
  obtain tok t where t: "run_state (token E) s = (tok, t)" by fastforce
  with assms(1) have "good_token tok" "keeps s t"
    unfolding surroundings_ok_def by (metis fst_conv, metis state_io_relD)
  moreover from run t have "run_state (f tok) t = (b, s')" by simp
  ultimately show "keeps s s'" using assms(2) db_frame.trans by (blast dest: state_io_relD transpD)
qed

lemma apply_db: "(\<And>d. store_steps d (snd (f d))) \<Longrightarrow> framed keeps (apply_db f)"
  by (rule state_io_relI) (auto simp: apply_db_def keeps_def split: prod.splits, metis snd_conv)

lemma store_op: "surroundings_ok E \<Longrightarrow> (\<And>d. store_step d (snd (f d))) \<Longrightarrow> framed keeps (store_op E f)"
  unfolding store_op_def by (intro db_frame.rules surroundings apply_db r_into_rtranclp)

lemma store_same: "surroundings_ok E \<Longrightarrow> framed keeps (store_op E (\<lambda>d. (Inr (f d), d)))"
  unfolding store_op_def by (intro db_frame.rules surroundings apply_db) simp_all

lemma store_read: "surroundings_ok E \<Longrightarrow> framed keeps (store_read E f)"
  unfolding store_read_def store_op_def by (intro db_frame.rules surroundings apply_db) simp_all

lemma waiting: "(\<And>w r w'. f w = Some (r, w') \<Longrightarrow> keeps w w') \<Longrightarrow> framed keeps (waiting f)"
  by (rule state_io_relI) (auto simp: waiting_def keeps_def split: option.splits)

lemma memory_frames [simp]:
  "framed keeps (recordBackgroundError e)" "framed keeps backgroundError" "framed keeps (start_task t)"
  "framed keeps (release i)"
  by (rule state_io_relI; auto simp: recordBackgroundError_def backgroundError_def start_task_def release_def keeps_def)+

lemmas client = db_frame.WorkspaceExists db_frame.FindWorkspaceByBranch db_frame.Provision db_frame.CloseWorkspace
  db_frame.Status db_frame.StartAgent db_frame.StartCommand db_frame.CommandTranscript db_frame.CommandResult

text \<open>One rule per operation of the store that the engine uses.\<close>

lemma store_ops:
  assumes "surroundings_ok E"
  shows "framed keeps (store_op E (RecordRunEvent i code detail now))"
    "framed keeps (store_op E (Finish i fr f now))"
    "framed keeps (store_op E (FinishEffect i fr owner c kind f now))"
    "framed keeps (store_op E (FinishExpiredVerifier i f now))"
    "framed keeps (store_op E (Transition i fr st detail now))"
    "framed keeps (store_op E (SetModelAttestation i x now))"
    "framed keeps (store_op E (SetInputReceipt i x now))"
    "framed keeps (store_op E (SetChangeReceipt i x now))"
    "framed keeps (store_op E (SetSourceContext i base revision ctx now))"
    "framed keeps (store_op E (SaveProvisioningPlan i owner b now))"
    "framed keeps (store_op E (SavePartialProvisioningReceipt i owner ws pane b now))"
    "framed keeps (store_op E (SaveProvisioningReceipt i owner ws pane b pa m k now))"
    "framed keeps (store_op E (RecoverProvisioningWorkspace i b ws pa now))"
    "framed keeps (store_op E (RenewProvisioningClaim i owner now l))"
    "framed keeps (store_op E (ConfirmStartingClaim i owner detail now))"
    "framed keeps (store_op E (ConfirmExpiredCommandStart i detail now))"
    "framed keeps (store_op E (FinishStartingClaim i owner f now))"
    "framed keeps (store_op E (FinishProvisioningClaim i owner f now))"
    "framed keeps (store_op E (InterruptExpiredProvisioning i now))"
    "framed keeps (store_op E (InterruptExpiredStarting i code detail now))"
    "framed keeps (store_op E (InterruptRecoveredProvisioning r now))"
    "framed keeps (store_op E (DecideAdmission i owner dev_id reserve now l check))"
    "framed keeps (store_op E (SyncJobAuthority i crev hash def en now))"
    "framed keeps (store_op E (SetCursorIfAuthority i crev hash cur flag now))"
    "framed keeps (store_op E (SetCompletedIfAuthority i crev hash flag now))"
    "framed keeps (store_op E (RecordOccurrenceIfAuthority req out detail))"
    "framed keeps (store_op E (AcceptScheduledOccurrence req rnd))"
    "framed keeps (store_op E (EnqueueEvent req rnd))"
    "framed keeps (store_op E (CreateManualRunIfAuthority req rnd))"
    "framed keeps (store_op E (CreateCanaryRun i hash def now rnd))"
  unfolding SetInputReceipt_def SetChangeReceipt_def CreateCanaryRun_def
  by (rule store_op [OF assms], rule store_step.intros)+

lemma claim_ops:
  assumes "surroundings_ok E" and "good_token tok"
  shows "framed keeps (store_op E (ClaimWorkspaceClose i fr owner intent now l tok))"
    "framed keeps (store_op E (ClaimLateProvisioningCleanup i owner ws pane b pa f now l tok))"
    "framed keeps (store_op E (ReclaimEffect i fr kind owner now l tok))"
    "framed keeps (store_op E (ClaimVerifier sd i owner now l tok))"
  by (rule store_op [OF assms(1)], rule store_step.intros, rule assms(2))+

lemmas engine_rules = with_token db_frame.rules surroundings store_ops claim_ops store_read store_same memory_frames
  client [OF surroundings(9)] db_frame.Probe [OF surroundings(10)] disk_withinD [OF surroundings(12)]
  db_frame.temporaryPrompt [OF surroundings(11) surroundings(12)]
  db_frame.prepareVerifierReceipt [OF surroundings(11) surroundings(12)]
  db_frame.readVerifierReceiptFiles [OF surroundings(11) surroundings(12)]
  db_frame.removeVerifierArtifacts [OF surroundings(11) surroundings(12)]
  db_frame.runVerifierCommand [OF surroundings(11) surroundings(12) surroundings(13) surroundings(14)]

lemma waits:
  assumes "surroundings_ok E"
  shows "framed keeps (waiting (Wait (herdr E) p t))" "framed keeps (waiting (WaitCommand (herdr E) p m t))"
    "framed keeps (waiting (Submit (herdr E) p s))"
  using surroundings(9) [OF assms]
  by (auto intro!: waiting elim: db_frame.Wait db_frame.WaitCommand db_frame.Submit)

section \<open>Every operation\<close>

named_theorems engine_frames \<open>operations of the engine that keep the frame\<close>

lemma record_event [engine_frames]: "surroundings_ok E \<Longrightarrow> framed keeps (record_event E i code detail)"
  unfolding record_event_def by (intro engine_rules)

lemma recordAsyncStoreError [engine_frames]: "surroundings_ok E \<Longrightarrow> framed keeps (recordAsyncStoreError E op i e)"
  unfolding recordAsyncStoreError_def by (intro engine_rules engine_frames)

lemma recordMonitoredPersistence [engine_frames]: "framed keeps (recordMonitoredPersistence i r)"
  unfolding recordMonitoredPersistence_def by (intro engine_rules)

lemma persist [engine_frames]: "framed keeps m \<Longrightarrow> framed keeps (persist i m)"
  unfolding persist_def by (intro engine_rules engine_frames)

lemma finishWorkspaceClose [engine_frames]: "surroundings_ok E \<Longrightarrow> framed keeps (finishWorkspaceClose E r c f)"
  unfolding finishWorkspaceClose_def by (intro engine_rules)

lemma executeWorkspaceClose [engine_frames]: "surroundings_ok E \<Longrightarrow> framed keeps (executeWorkspaceClose E r c f)"
  unfolding executeWorkspaceClose_def close_workspace_def by (intro engine_rules engine_frames)

lemma recoverExpiredWorkspaceClose [engine_frames]:
  "surroundings_ok E \<Longrightarrow> framed keeps (recoverExpiredWorkspaceClose E r f now)"
  unfolding recoverExpiredWorkspaceClose_def observe_close_def by (intro engine_rules engine_frames)

lemma closeAndFinish [engine_frames]: "surroundings_ok E \<Longrightarrow> framed keeps (closeAndFinish E r f now)"
  unfolding closeAndFinish_def by (intro engine_rules engine_frames)

lemma interruptAndClose [engine_frames]: "surroundings_ok E \<Longrightarrow> framed keeps (interruptAndClose E r code detail)"
  unfolding interruptAndClose_def by (intro engine_rules engine_frames)

lemma interruptExpiredStartingAndClose [engine_frames]: "surroundings_ok E \<Longrightarrow> framed keeps (interruptExpiredStartingAndClose E r code detail now)"
  unfolding interruptExpiredStartingAndClose_def by (intro engine_rules engine_frames)

lemma recordStartingUncertainty [engine_frames]: "surroundings_ok E \<Longrightarrow> framed keeps (recordStartingUncertainty E i code e)"
  unfolding recordStartingUncertainty_def by (intro engine_rules engine_frames)

lemma fail_run [engine_frames]: "surroundings_ok E \<Longrightarrow> framed keeps (fail_run E r fr code e)"
  unfolding fail_run_def by (intro engine_rules engine_frames)

lemma failProvisioning [engine_frames]: "surroundings_ok E \<Longrightarrow> framed keeps (failProvisioning E i code e)"
  unfolding failProvisioning_def by (intro engine_rules engine_frames)

lemma failStarting [engine_frames]: "surroundings_ok E \<Longrightarrow> framed keeps (failStarting E i code e)"
  unfolding failStarting_def by (intro engine_rules engine_frames)

lemma recoverUnsavedReceipt [engine_frames]: "surroundings_ok E \<Longrightarrow> framed keeps (recoverUnsavedReceipt E r rc b cause)"
  unfolding recoverUnsavedReceipt_def by (intro engine_rules engine_frames)

lemma each_changes: "surroundings_ok E \<Longrightarrow> framed keeps (boundedEnumerateChanges (review_git E) wt ex)"
  unfolding boundedEnumerateChanges_def boundedRepositoryChanges_def boundedGitOutput_def parsed_def by (intro engine_rules)

lemma files_op: "framed keeps m \<Longrightarrow> framed keeps (files_op m)"
  unfolding files_op_def by (intro engine_rules)

lemma lift_review: "framed keeps m \<Longrightarrow> framed keeps (lift_review m)"
  unfolding lift_review_def by (intro engine_rules)

lemma verify_files: "surroundings_ok E \<Longrightarrow> framed keeps (verify_files (files_env E) wt i seen fs)"
  by (induction fs arbitrary: i seen)
     (auto intro!: engine_rules files_op db_frame.verifyOneStagedInput split: option.split)

lemma stage_files: "surroundings_ok E \<Longrightarrow> framed keeps (stage_files (files_env E) wt day i n inputs)"
  by (induction inputs arbitrary: i n)
     (auto intro!: engine_rules files_op db_frame.stageOneBoundedInput split: sum.split)

lemmas review_steps = each_changes files_op lift_review verify_files stage_files db_frame.boundedObserveChangedPaths

lemma observe_review: "surroundings_ok E \<Longrightarrow> framed keeps (observe_review (review_git E) (files_env E) wt rc j)"
  unfolding observe_review_def verifyStagedInputs_def review_pass_def review_again_def
  by (intro engine_rules review_steps)

lemma stageBoundedInputs [engine_frames]: "surroundings_ok E \<Longrightarrow> framed keeps (stageBoundedInputs E r j)"
  unfolding stageBoundedInputs_def by (intro engine_rules engine_frames review_steps)

lemma verifyBoundedReview [engine_frames]: "surroundings_ok E \<Longrightarrow> framed keeps (verifyBoundedReview E r j)"
  unfolding verifyBoundedReview_def by (intro engine_rules engine_frames review_steps observe_review)

lemma gitOutput [engine_frames]: "surroundings_ok E \<Longrightarrow> framed keeps (gitOutput E repo args)"
  unfolding gitOutput_def by (intro engine_rules engine_frames)

lemma sourceInput [engine_frames]: "surroundings_ok E \<Longrightarrow> framed keeps (sourceInput E j h)"
  unfolding sourceInput_def ResolveSourceRevision_def context_text_def by (intro engine_rules engine_frames)

lemma after_review [engine_frames]: "surroundings_ok E \<Longrightarrow> framed keeps (after_review E r j v)"
  unfolding after_review_def by (intro engine_rules engine_frames)

lemma reconcileExpiredVerifier [engine_frames]: "surroundings_ok E \<Longrightarrow> framed keeps (reconcileExpiredVerifier E r)"
  unfolding reconcileExpiredVerifier_def recovered_verdict_def readVerifierReceipt_def remove_artifacts_def
  by (intro engine_rules engine_frames db_frame.unfit)

lemma finish_verifier [engine_frames]: "surroundings_ok E \<Longrightarrow> framed keeps (finish_verifier E r c f)"
  unfolding finish_verifier_def by (intro engine_rules engine_frames)

lemma run_verifier [engine_frames]: "surroundings_ok E \<Longrightarrow> framed keeps (run_verifier E r j cmd c rc)"
  unfolding run_verifier_def remove_artifacts_def by (intro engine_rules engine_frames)

lemma finish_run [engine_frames]: "surroundings_ok E \<Longrightarrow> framed keeps (finish_run E i fr f)"
  unfolding finish_run_def by (intro engine_rules engine_frames)

lemma after_settled [engine_frames]: "surroundings_ok E \<Longrightarrow> framed keeps (after_settled E r j st)"
  unfolding after_settled_def by (intro engine_rules engine_frames)

lemma settle [engine_frames]: "surroundings_ok E \<Longrightarrow> framed keeps (settle E r j)"
  unfolding settle_def by (intro engine_rules engine_frames)

lemma observed_status [engine_frames]: "surroundings_ok E \<Longrightarrow> framed keeps (observed_status E r j status)"
  unfolding observed_status_def by (intro engine_rules engine_frames)

lemma timed_out [engine_frames]: "surroundings_ok E \<Longrightarrow> framed keeps (timed_out E r code detail)"
  unfolding timed_out_def by (intro engine_rules engine_frames)

lemma wait_failed [engine_frames]: "surroundings_ok E \<Longrightarrow> framed keeps (wait_failed E r a b e)"
  unfolding wait_failed_def by (intro engine_rules engine_frames)

lemma monitor [engine_frames]: "surroundings_ok E \<Longrightarrow> framed keeps (monitor E r known)"
  unfolding monitor_def by (intro engine_rules engine_frames waits)

lemma attest [engine_frames]: "surroundings_ok E \<Longrightarrow> framed keeps (attest E r j)"
  unfolding attest_def by (intro engine_rules engine_frames)

lemma failAttestation [engine_frames]: "surroundings_ok E \<Longrightarrow> framed keeps (failAttestation E r detail)"
  unfolding failAttestation_def by (intro engine_rules engine_frames)

lemma completeCommand [engine_frames]: "surroundings_ok E \<Longrightarrow> framed keeps (completeCommand E r code)"
  unfolding completeCommand_def by (intro engine_rules engine_frames)

lemma monitorCommand [engine_frames]: "surroundings_ok E \<Longrightarrow> framed keeps (monitorCommand E r)"
  unfolding monitorCommand_def by (intro engine_rules engine_frames waits)

lemma owning [engine_frames]: "surroundings_ok E \<Longrightarrow> framed keeps m \<Longrightarrow> framed keeps (owning E op i m)"
  unfolding owning_def by (intro engine_rules engine_frames)

lemma confirm_and [engine_frames]: "surroundings_ok E \<Longrightarrow> framed keeps m \<Longrightarrow> framed keeps (confirm_and E op i d m)"
  unfolding confirm_and_def by (intro engine_rules engine_frames)

lemma start_command [engine_frames]: "surroundings_ok E \<Longrightarrow> framed keeps (start_command E r l p)"
  unfolding start_command_def by (intro engine_rules engine_frames)

lemma start_agent [engine_frames]: "surroundings_ok E \<Longrightarrow> framed keeps (start_agent E r l p)"
  unfolding start_agent_def by (intro engine_rules engine_frames waits)

lemma start_harness [engine_frames]: "surroundings_ok E \<Longrightarrow> framed keeps (start_harness E r j l)"
  unfolding start_harness_def by (intro engine_rules engine_frames)

lemma provision_failed [engine_frames]: "surroundings_ok E \<Longrightarrow> framed keeps (provision_failed E r rc b e)"
  unfolding provision_failed_def Let_def by (intro engine_rules engine_frames)

lemma provisioned [engine_frames]: "surroundings_ok E \<Longrightarrow> framed keeps (provisioned E r j l rc b)"
  unfolding provisioned_def by (intro engine_rules engine_frames)

lemma provision [engine_frames]: "surroundings_ok E \<Longrightarrow> framed keeps (provision E r j l)"
  unfolding provision_def by (intro engine_rules engine_frames)

lemma with_source [engine_frames]: "surroundings_ok E \<Longrightarrow> framed keeps (with_source E r j)"
  unfolding with_source_def by (intro engine_rules engine_frames)

lemma execute [engine_frames]: "surroundings_ok E \<Longrightarrow> framed keeps (execute E r)"
  unfolding execute_def by (intro engine_rules engine_frames)

lemma task_body [engine_frames]: "surroundings_ok E \<Longrightarrow> framed keeps (task_body E t)"
  by (cases t) (auto simp: task_body_def intro: engine_frames)

lemma next_task: "framed keeps (State (\<lambda>w. case tasks w of [] \<Rightarrow> (None, w) | t # ts \<Rightarrow> (Some t, w\<lparr>tasks := ts\<rparr>)))"
  by (rule state_io_relI) (auto simp: keeps_def split: list.splits)

lemma run_task [engine_frames]: "surroundings_ok E \<Longrightarrow> framed keeps (run_task E)"
  unfolding run_task_def by (intro engine_rules engine_frames next_task)

lemma load_config [engine_frames]: "surroundings_ok E \<Longrightarrow> framed keeps (load_config E)"
  unfolding load_config_def by (intro engine_rules engine_frames)

lemma surfacing [engine_frames]: "framed keeps m \<Longrightarrow> framed keeps (surfacing m)"
  unfolding surfacing_def by (intro engine_rules engine_frames)

lemma ignoring [engine_frames]: "framed keeps m \<Longrightarrow> framed keeps (ignoring P m)"
  unfolding ignoring_def by (intro engine_rules engine_frames)

lemma snapshot [engine_frames]: "framed keeps (snapshot j)"
  unfolding snapshot_def by (intro engine_rules)

lemma dispatch_admit [engine_frames]: "surroundings_ok E \<Longrightarrow> framed keeps (dispatch_admit E cfg r j)"
  unfolding dispatch_admit_def by (intro engine_rules engine_frames)

lemma dispatch_run [engine_frames]: "surroundings_ok E \<Longrightarrow> framed keeps (dispatch_run E cfg target att r)"
  unfolding dispatch_run_def by (intro engine_rules engine_frames)

lemma dispatch [engine_frames]: "surroundings_ok E \<Longrightarrow> framed keeps (dispatch E target att)"
  unfolding dispatch_def by (intro engine_rules engine_frames)

lemma Dispatch [engine_frames]: "surroundings_ok E \<Longrightarrow> framed keeps (Dispatch E)"
  unfolding Dispatch_def by (intro engine_rules engine_frames)

lemma complete_once [engine_frames]: "surroundings_ok E \<Longrightarrow> framed keeps (complete_once E j h)"
  unfolding complete_once_def by (intro engine_rules engine_frames)

lemma record_occ [engine_frames]: "surroundings_ok E \<Longrightarrow> framed keeps (record_occ E req out detail)"
  unfolding record_occ_def by (intro engine_rules engine_frames)

lemma accept_occ [engine_frames]: "surroundings_ok E \<Longrightarrow> framed keeps (accept_occ E j req)"
  unfolding accept_occ_def by (intro engine_rules engine_frames)

lemma evaluate_occ [engine_frames]: "surroundings_ok E \<Longrightarrow> framed keeps (evaluate_occ E j snap bounds now oc)"
  unfolding evaluate_occ_def by (intro engine_rules engine_frames)

lemma set_cursor [engine_frames]: "surroundings_ok E \<Longrightarrow> framed keeps (set_cursor E j h now flag)"
  unfolding set_cursor_def by (intro engine_rules engine_frames)

lemma evaluate_due [engine_frames]: "surroundings_ok E \<Longrightarrow> framed keeps (evaluate_due E j snap since now)"
  unfolding evaluate_due_def by (intro engine_rules engine_frames)

lemma evaluate_job [engine_frames]: "surroundings_ok E \<Longrightarrow> framed keeps (evaluate_job E flag now j)"
  unfolding evaluate_job_def by (intro engine_rules engine_frames)

lemma Evaluate [engine_frames]: "surroundings_ok E \<Longrightarrow> framed keeps (Evaluate E now)"
  unfolding Evaluate_def by (intro engine_rules engine_frames)

lemma select_job [engine_frames]: "surroundings_ok E \<Longrightarrow> framed keeps (select_job E i)"
  unfolding select_job_def by (intro engine_rules engine_frames)

lemma Enqueue [engine_frames]: "surroundings_ok E \<Longrightarrow> framed keeps (Enqueue E i ev now)"
  unfolding Enqueue_def by (intro engine_rules engine_frames)

lemma RunNow [engine_frames]: "surroundings_ok E \<Longrightarrow> framed keeps (RunNow E i canary now)"
  unfolding RunNow_def by (intro engine_rules engine_frames)

lemma Cancel [engine_frames]: "surroundings_ok E \<Longrightarrow> framed keeps (Cancel E i now)"
  unfolding Cancel_def by (intro engine_rules engine_frames)

lemma reconcileCommand [engine_frames]: "surroundings_ok E \<Longrightarrow> framed keeps (reconcileCommand E r)"
  unfolding reconcileCommand_def Let_def by (intro engine_rules engine_frames)

lemma retire_provisioning [engine_frames]: "surroundings_ok E \<Longrightarrow> framed keeps (retire_provisioning E r now)"
  unfolding retire_provisioning_def by (intro engine_rules engine_frames)

lemma reconcile_provisioning [engine_frames]: "surroundings_ok E \<Longrightarrow> framed keeps (reconcile_provisioning E r now)"
  unfolding reconcile_provisioning_def by (intro engine_rules engine_frames)

lemma reconcile_agent [engine_frames]: "surroundings_ok E \<Longrightarrow> framed keeps (reconcile_agent E r)"
  unfolding reconcile_agent_def by (intro engine_rules engine_frames)

lemma reconcile_run [engine_frames]: "surroundings_ok E \<Longrightarrow> framed keeps (reconcile_run E r)"
  unfolding reconcile_run_def by (intro engine_rules engine_frames)

lemma Reconcile [engine_frames]: "surroundings_ok E \<Longrightarrow> framed keeps (Reconcile E)"
  unfolding Reconcile_def by (intro engine_rules engine_frames)

lemma RecoverProvisioning [engine_frames]: "surroundings_ok E \<Longrightarrow> framed keeps (RecoverProvisioning E i now)"
  unfolding RecoverProvisioning_def by (intro engine_rules engine_frames)

end
