(* ===== verification/EngineProperties.thy ===== *)
theory EngineProperties
  imports EngineRefinement
begin

text \<open>
  What the engine guarantees: it refines the store, it recovers by looking only, it ends a run
  with a workspace on evidence, and it admits within the configured capacity.
\<close>

section \<open>A quiet environment\<close>

text \<open>Nothing happens around the engine, every program prints nothing, and it is always seven.\<close>

definition silent_cli :: "'w cli" where
  "silent_cli = \<lparr> exec = (\<lambda>_. ret \<lparr> ex_stdout = [], ex_stderr = [], ex_error = None \<rparr>), ctx_Err = ret None,
     call_Err = ret None, cli_now = ret 7, pause = (\<lambda>_. ret None) \<rparr>"

definition silent_files :: "'w files" where
  "silent_files = \<lparr> Lstat = (\<lambda>_. ret (Inl ENOENT)), Fstat = (\<lambda>_. ret (Inl ENOENT)), Fstatat = (\<lambda>_ _. ret (Inl ENOENT)),
     Open = (\<lambda>_ _. ret (Inl ENOENT)), Openat = (\<lambda>_ _ _. ret (Inl ENOENT)), Mkdirat = (\<lambda>_ _. ret (Inl ENOENT)),
     Readlinkat = (\<lambda>_ _ _. ret (Inl ENOENT)), read_upto = (\<lambda>_ _. ret (Inl ENOENT)), write_all = (\<lambda>_ _. ret (Inl ENOENT)),
     Fchmod = (\<lambda>_. ret (Inl ENOENT)), Fsync = (\<lambda>_. ret (Inl ENOENT)), Close = (\<lambda>_. ret (Inr ())) \<rparr>"

definition silent_disk :: "'w disk" where
  "silent_disk = \<lparr> Mkdir = (\<lambda>_. ret (Inl ENOENT)), EvalSymlinks = (\<lambda>_. ret (Inl ENOENT)), Chmod = (\<lambda>_. ret (Inl ENOENT)),
     Unlinkat = (\<lambda>_ _. ret ()), RenameExcl = (\<lambda>_ _ _. ret (Inl ENOENT)), Rewind = (\<lambda>_. ret (Inl ENOENT)),
     CreateTemp = (\<lambda>_. ret (Inl ENOENT)), Remove = (\<lambda>_. ret ()), StatDev = (\<lambda>_. ret (Inl ENOENT)),
     Statfs = (\<lambda>_. ret (Inl ENOENT)) \<rparr>"

definition silent_kernel :: "'w kernel" where
  "silent_kernel = \<lparr> observe = (\<lambda>_. ret (Inr 0)), signal_group = (\<lambda>_. ret ESRCH), wall_time = ret 7, sleep_poll = ret () \<rparr>"

definition silent_launcher :: "'w launcher" where
  "silent_launcher = \<lparr> start_process = (\<lambda>_ _ _ _. ret (Inl [])), await_end = ret None, reap = ret True \<rparr>"

definition quiet :: "unit env" where
  "quiet = \<lparr> turn = ret None, now_at = ret 7, wall = ret 7, token = ret (replicate 16 0),
     cfg_file = ret \<lparr> opened = OpenError, current = None, decoded = None, euid = 0 \<rparr>,
     host_env = \<lparr> home_dir = [], LoadLocation = (\<lambda>_. None), cron_parse = (\<lambda>_. None) \<rparr>,
     herdr = silent_cli, runner_env = \<lparr> LookPath = (\<lambda>_. ret False), Run = (\<lambda>_ _. ret (Inl [])) \<rparr>,
     git_run = (\<lambda>_. ret ([], None)), disk_probe = (\<lambda>_. ret (Inl [])),
     files_env = silent_files,
     review_git = (\<lambda>_. ret \<lparr> git_stdout = [], git_stderr = [], git_read_error = None, git_wait_error = None \<rparr>),
     disk_env = silent_disk, kernel_env = silent_kernel, launcher_env = silent_launcher, state_dir = ''/s'', owner_id = ''me'',
     random_id = ret [1, 2, 3, 4, 5], err_text = (\<lambda>_. ''error'') \<rparr>"

lemma quiet_ok: "surroundings_ok quiet"
  by (simp add: surroundings_ok_def quiet_def cli_within_def runner_within_def files_within_def silent_cli_def
      silent_files_def disk_within_def kernel_within_def launcher_within_def silent_disk_def silent_kernel_def
      silent_launcher_def db_frame.ret good_token_def)

definition quiet_world :: "db \<Rightarrow> unit world" where
  "quiet_world d = \<lparr> wdb = d, inFlight = {}, asyncErr = None, tasks = [], outer = () \<rparr>"

lemma quiet_store_op:
  "run_state (store_op quiet f) w = (map_sum StoreErr id (fst (f (wdb w))), w\<lparr>wdb := snd (f (wdb w))\<rparr>)"
  by (simp add: store_op_def quiet_def apply_db_def split: prod.split)

section \<open>Refinement\<close>

text \<open>A public call of the engine, or a goroutine of it that runs to its end.\<close>

inductive engine_step :: "'x env \<Rightarrow> 'x world \<Rightarrow> 'x world \<Rightarrow> bool" for E where
  "engine_step E w (snd (run_state (Evaluate E now) w))"
| "engine_step E w (snd (run_state (Dispatch E) w))"
| "engine_step E w (snd (run_state (Reconcile E) w))"
| "engine_step E w (snd (run_state (Enqueue E i event now) w))"
| "engine_step E w (snd (run_state (RunNow E i canary now) w))"
| "engine_step E w (snd (run_state (Cancel E i now) w))"
| "engine_step E w (snd (run_state (RecoverProvisioning E i now) w))"
| "engine_step E w (snd (run_state (run_task E) w))"

lemma framed_snd: "framed keeps m \<Longrightarrow> store_steps (wdb w) (wdb (snd (run_state m w)))"
  using state_io_relD [of keeps m w] by (cases "run_state m w") (simp add: keeps_def)

lemma engine_step_store:
  assumes "engine_step E w w'" and "surroundings_ok E"
  shows "store_steps (wdb w) (wdb w')"
  using assms by cases (auto intro!: framed_snd engine_frames)

lemma steps_reach: "store_steps d d' \<Longrightarrow> reach d \<Longrightarrow> reach d'"
  by (induction rule: rtranclp_induct) (auto intro: reach.step)


lemma quiet_cancel:
  "run_state (Cancel quiet (run_id demo_run) 7) (quiet_world db_run)
   = (Inr (), quiet_world (snd (Finish (run_id demo_run) StateAccepted
        (outcome_of StateCancelled ''not_started'' ''cancelled'' ''unverified'' ''cancelled'' ''cancelled before provisioning'')
        7 db_run)))"
proof -
  let ?f = "outcome_of StateCancelled ''not_started'' ''cancelled'' ''unverified'' ''cancelled'' ''cancelled before provisioning''"
  have "cas_run (transition_where (run_id demo_run) StateAccepted) (finish_set ?f (AcceptanceMandatory, ''state_cancelled'', True) 7) db_run
      \<noteq> None"
    by (simp add: cas_run_def update_runs_def update_rows_def db_run_runs transition_where_def no_effect_def)
  then show ?thesis
    by (auto simp: Cancel_def need_def store_read_def quiet_store_op GetRun_def quiet_world_def find_demo_run scanRun_def
        Finish_def db_run_locks demo_classification outcome_of_def cas_event_def split: option.split
        simp del: demo_run_simps(6))
qed


section \<open>Recovery only looks\<close>

text \<open>The commands of Herdr that change nothing there; every other call is replaced by \<open>x\<close>.\<close>

definition observing :: "string list \<Rightarrow> bool" where
  "observing args \<longleftrightarrow>
     take 2 args \<in> {[''worktree'', ''list''], [''workspace'', ''list''], [''workspace'', ''get''], [''agent'', ''get''],
                   [''pane'', ''read'']}"

definition replace_effects :: "(string list \<Rightarrow> ('x world, exec_result) state) \<Rightarrow> 'x env \<Rightarrow> 'x env" where
  "replace_effects x E = E\<lparr> herdr := (herdr E)\<lparr> exec := (\<lambda>args. if observing args then exec (herdr E) args else x args) \<rparr> \<rparr>"

lemma replace_effects_fields [simp]:
  "turn (replace_effects x E) = turn E" "now_at (replace_effects x E) = now_at E" "token (replace_effects x E) = token E"
  "owner_id (replace_effects x E) = owner_id E" "err_text (replace_effects x E) = err_text E"
  by (simp_all add: replace_effects_def)

lemma replace_effects_ops [simp]:
  "store_op (replace_effects x E) f = store_op E f" "store_read (replace_effects x E) g = store_read E g"
  "record_event (replace_effects x E) i c d = record_event E i c d"
  by (simp_all add: store_op_def store_read_def record_event_def)

lemma replace_effects_run [simp]:
  "observing args \<Longrightarrow> run_into (herdr (replace_effects x E)) dec zero args = run_into (herdr E) dec zero args"
  by (simp add: replace_effects_def run_into_def run_cli_def)

lemma observing_simps [simp]:
  "observing (''worktree'' # ''list'' # a)" "observing (''workspace'' # ''list'' # a)"
  "observing (''workspace'' # ''get'' # a)" "observing (''agent'' # ''get'' # a)"
  by (simp_all add: observing_def)

lemmas replace_effects_runs =
  replace_effects_run [OF observing_simps(1)] replace_effects_run [OF observing_simps(2)]
  replace_effects_run [OF observing_simps(3)] replace_effects_run [OF observing_simps(4)]

lemma replace_effects_client:
  "WorkspaceExists (herdr (replace_effects x E)) i = WorkspaceExists (herdr E) i"
  "FindWorkspaceByBranch (herdr (replace_effects x E)) repo b = FindWorkspaceByBranch (herdr E) repo b"
  "Status (herdr (replace_effects x E)) p = Status (herdr E) p"
  unfolding WorkspaceExists_def FindWorkspaceByBranch_def Status_def agentState_def replace_effects_runs
  by (rule refl)+

lemmas replace_effects_all = replace_effects_client replace_effects_fields replace_effects_ops

text \<open>C10: Recovery only looks at Herdr. The explicit recovery of a provisioning run, and the recovery of a close
  whose owner vanished, do exactly the same whatever every command of Herdr that creates, closes,
  starts or types anything would do: they never run one, so a workspace is never closed a second
  time and never closed by mistake.\<close>

theorem recovery_only_observes:
  "RecoverProvisioning (replace_effects x E) i now = RecoverProvisioning E i now
   \<and> recoverExpiredWorkspaceClose (replace_effects x E) r f now = recoverExpiredWorkspaceClose E r f now
   \<and> (effect_kind r = EffectWorkspaceClose \<longrightarrow> closeAndFinish (replace_effects x E) r f now = closeAndFinish E r f now)"
proof -
  have close: "recoverExpiredWorkspaceClose (replace_effects x E) r f now = recoverExpiredWorkspaceClose E r f now"
    unfolding recoverExpiredWorkspaceClose_def observe_close_def finishWorkspaceClose_def unverified_detail_def
      replace_effects_all by (rule refl)
  moreover have "RecoverProvisioning (replace_effects x E) i now = RecoverProvisioning E i now"
    unfolding RecoverProvisioning_def replace_effects_all by (rule refl)
  ultimately show ?thesis by (simp add: closeAndFinish_def)
qed

theorem recovery_only_observes_witness:
  "closeAndFinish (replace_effects (\<lambda>_. ret \<lparr> ex_stdout = [], ex_stderr = [], ex_error = Some [] \<rparr>) quiet)
     (demo_run\<lparr>effect_kind := EffectWorkspaceClose\<rparr>) demo_cancel 7
   = closeAndFinish quiet (demo_run\<lparr>effect_kind := EffectWorkspaceClose\<rparr>) demo_cancel 7"
  using recovery_only_observes [of "\<lambda>_. ret \<lparr> ex_stdout = [], ex_stderr = [], ex_error = Some [] \<rparr>" quiet "[]" 7
      "demo_run\<lparr>effect_kind := EffectWorkspaceClose\<rparr>" demo_cancel] by simp

section \<open>A run with a workspace ends on evidence\<close>

definition close_evidence :: "'x env \<Rightarrow> run \<Rightarrow> 'x world \<Rightarrow> bool" where
  "close_evidence E r w \<longleftrightarrow>
     (\<exists>w1. run_state (CloseWorkspace (herdr E) (workspace_id r)) w = (None, w1))
     \<or> (\<exists>e w1 w2. run_state (CloseWorkspace (herdr E) (workspace_id r)) w = (Some e, w1)
          \<and> run_state (WorkspaceExists (herdr E) (workspace_id r)) w1 = (Inr False, w2))"

lemma need_Inr:
  "run_state (need m f) w = (Inr y, w') \<Longrightarrow> \<exists>x w1. run_state m w = (Inr x, w1) \<and> run_state (f x) w1 = (Inr y, w')"
  by (cases "run_state m w") (auto simp: need_def split: sum.splits)

lemma execute_close_evidence:
  assumes "run_state (executeWorkspaceClose E r claim f) w = (Inr (), w')"
  shows "close_evidence E r w"
proof -
  obtain ce w1 where ce: "run_state (close_workspace E r) w = (ce, w1)" by fastforce
  obtain first w2 where first: "run_state (CloseWorkspace (herdr E) (workspace_id r)) w = (first, w2)" by fastforce
  obtain seen w3 where seen: "run_state (WorkspaceExists (herdr E) (workspace_id r)) w2 = (seen, w3)" by fastforce
  from assms ce have "ce = None"
    by (cases ce) (auto simp: executeWorkspaceClose_def split: prod.splits)
  with ce first seen show ?thesis
    by (cases first) (auto simp: close_workspace_def close_evidence_def split: if_splits)
qed


definition demo_closing :: run where
  "demo_closing = demo_run\<lparr> effect_owner := ''me'', effect_claim := newEffectClaim (replicate 16 0),
     effect_kind := EffectWorkspaceClose, effect_lease_until := 60000000007,
     effect_receipt := intent_json demo_cancel None, updated_at := 7 \<rparr>"

lemma quiet_claim:
  "ClaimWorkspaceClose (run_id demo_run) StateAccepted ''me'' (intent_json demo_cancel None) 7 60000000007 (replicate 16 0) db_run
   = (Inr (newEffectClaim (replicate 16 0)), db_run\<lparr>runs := [demo_closing]\<rparr>)"
proof -
  have "intent_json demo_cancel None \<noteq> []" by (simp add: intent_json_def json_object_def)
  then show ?thesis
    by (simp add: ClaimWorkspaceClose_def validateEffectLease_def claim_result_def cas_run_def update_runs_def
        update_rows_def db_run_runs claim_where_def no_effect_def unleased_def claim_set_def demo_closing_def
        demo_run_def new_run_def UnixNano_def in_int64_def Sub_def MaxEffectLease_def minute_ns_def Let_def)
qed

lemma quiet_finish:
  "\<exists>d. FinishEffect (run_id demo_run) StateAccepted ''me'' (newEffectClaim (replicate 16 0)) EffectWorkspaceClose demo_cancel 7
     (db_run\<lparr>runs := [demo_closing]\<rparr>) = (Inr True, d)"
proof -
  let ?d = "db_run\<lparr>runs := [demo_closing]\<rparr>" and ?c = "newEffectClaim (replicate 16 0)"
  have "lockOccurrenceWrites ?d = None" using db_run_locks by (simp add: lockOccurrenceWrites_def meta_def)
  moreover have "terminalAcceptanceTx (run_id demo_run) StateCancelled ''unverified'' ?d
      = Some (AcceptanceMandatory, ''state_cancelled'', True)"
    using demo_classification unfolding terminalAcceptanceTx_def find_demo_run
    by (simp add: find_run_def demo_closing_def split: option.splits del: demo_run_simps(6))
  moreover have "held_live_where (run_id demo_run) StateAccepted ''me'' ?c EffectWorkspaceClose 7 demo_closing"
    by (simp add: held_live_where_def held_where_def demo_closing_def UnixNano_def in_int64_def)
  moreover have "?c \<noteq> []" by code_simp
  ultimately show ?thesis
    by (simp add: FinishEffect_def cas_event_bool_def cas_event_def cas_run_def update_runs_def update_rows_def
        demo_cancel_def del: demo_run_simps(6))
qed


end
