(* ===== verification/RecoveryProperties.thy ===== *)
theory RecoveryProperties
  imports EngineProperties ClaimProperties HerdrProperties JsonEncode
begin

text \<open>
  Explicit recovery of a stuck provisioning run, and the durable intent of a workspace close:
  what the recovery of either relies on, and what it leaves behind.
\<close>

section \<open>Explicit recovery\<close>

lemma store_op_Inr:
  assumes "surroundings_ok E" and "run_state (store_op E f) w = (Inr x, w')"
  shows "\<exists>d. store_steps (wdb w) d \<and> f d = (Inr x, wdb w')"
proof -
  obtain fault w1 where fault: "run_state (turn E) w = (fault, w1)" by fastforce
  with surroundings(1) [OF assms(1)] have steps: "store_steps (wdb w) (wdb w1)"
    using state_io_relD [of keeps "turn E" w] by (auto simp: keeps_def)
  from assms(2) fault have "map_sum StoreErr id (fst (f (wdb w1))) = Inr x" "wdb w' = snd (f (wdb w1))"
    by (auto simp: store_op_def apply_db_def split: option.splits prod.splits)
  then have "f (wdb w1) = (Inr x, wdb w')" by (cases "f (wdb w1)"; cases "fst (f (wdb w1))") auto
  with steps show ?thesis by blast
qed

lemma interrupt_recovered:
  assumes "db_ok d" and "InterruptRecoveredProvisioning r now d = (Inr True, d')"
  shows "\<exists>q cls. find_run (run_id r) d = Some q \<and> recovered_where r now q
    \<and> find_run (run_id r) d' = Some (claim_finish_set
        (uncertain_finish RecoveryCodeProvisioning recoveryDetailProvisioning) cls now q)"
proof -
  let ?f = "uncertain_finish RecoveryCodeProvisioning recoveryDetailProvisioning"
  from assms(2) obtain cls where cls: "terminalAcceptanceTx (run_id r) StateInterrupted ''unverified'' d = Some cls"
    and cas: "cas_event_bool (recovered_where r now) (claim_finish_set ?f cls now) (run_id r) StateProvisioning
       StateInterrupted now RecoveryCodeProvisioning (f_detail ?f) d = (Inr True, d')"
    by (auto simp: InterruptRecoveredProvisioning_def interrupt_claim_def split: option.splits)
  from cls obtain q where q: "find_run (run_id r) d = Some q"
    by (auto simp: terminalAcceptanceTx_def split: option.splits)
  have keys: "run_keys d" by (rule db_ok_keys [OF assms(1)])
  from cas cas_event_bool_id [OF keys q, of "recovered_where r now"] guard_ids(7)
  have here: "recovered_where r now q" and d': "d' = add_event (run_id r) StateProvisioning StateInterrupted now
      RecoveryCodeProvisioning (f_detail ?f) (rewrite (recovered_where r now) (claim_finish_set ?f cls now) d)"
    by (auto split: if_splits)
  have "find_run (run_id r) d' = Some (claim_finish_set ?f cls now q)"
    unfolding d' find_run_add_event
    by (subst find_run_rewrite_id)
      (auto simp: q here claim_finish_set_def outcome_set_def clear_provisioning_def split: prod.split)
  with q here show ?thesis by blast
qed

lemma observed_absence_None:
  "observed_absence found = None \<longleftrightarrow> (\<exists>rc. found = Inr (rc, False) \<and> rc_WorkspaceID rc = [] \<and> rc_PaneID rc = []
     \<and> rc_Branch rc = [] \<and> rc_Path rc = [])"
  by (auto simp: observed_absence_def split: sum.splits if_splits)

text \<open>The preconditions, as the comment of the code lists them.\<close>

lemma recovery_check_None:
  assumes "recovery_check r now = None"
  shows "state r = StateProvisioning \<and> provisioning_lease_until r \<le> now \<and> workspace_id r = [] \<and> pane_id r = []
    \<and> worktree_path r = [] \<and> no_effect r \<and> branch r \<noteq> []
    \<and> (\<exists>j. decode_job (run_definition r) = Some j \<and> ID j = job_id r \<and> IsAbs (Repository (Execution j))
         \<and> Workspace (Execution j) = WorkspaceWorktree)"
  using assms by (auto simp: recovery_check_def no_effect_def recovery_job_refusal_def split: if_splits option.splits)

text \<open>The statements of a successful recovery, in order.\<close>

lemma recovery_trace:
  assumes "run_state (RecoverProvisioning E i now) w = (Inr final, w')"
  shows "\<exists>r j rc w1 w2 w3. run_state (store_read E (GetRun i)) w = (Inr r, w1) \<and> recovery_check r now = None
    \<and> decode_job (run_definition r) = Some j
    \<and> run_state (FindWorkspaceByBranch (herdr E) (Repository (Execution j)) (branch r)) w1 = (Inr (rc, False), w2)
    \<and> run_state (store_op E (InterruptRecoveredProvisioning r now)) w2 = (Inr True, w3)
    \<and> run_state (store_read E (GetRun i)) w3 = (Inr final, w') \<and> state final = StateInterrupted"
proof -
  let ?last = "\<lambda>final. ret (if state final \<noteq> StateInterrupted
      then Inl (Plain (''explicit recovery did not retire run '' @ i)) else Inr final)"
  let ?move = "\<lambda>recovered. if \<not> recovered then ret (Inl (Refused StateConflict (''run '' @ i @ '' changed during explicit recovery'')))
      else need (store_read E (GetRun i)) ?last"
  obtain r w1 where get: "run_state (store_read E (GetRun i)) w = (Inr r, w1)"
    and rest: "run_state (case (recovery_check r now, decode_job (run_definition r)) of
         (None, Some j) \<Rightarrow> do {
           found \<leftarrow> FindWorkspaceByBranch (herdr E) (Repository (Execution j)) (branch r);
           (case observed_absence found of
              Some s \<Rightarrow> ret (Inl (Refused s i))
            | None \<Rightarrow> need (store_op E (InterruptRecoveredProvisioning r now)) ?move) }
       | (Some s, _) \<Rightarrow> ret (Inl (Refused s i))
       | (None, None) \<Rightarrow> ret (Inl (Refused RecoveryInvalidSavedInputs i))) w1 = (Inr final, w')"
    using assms unfolding RecoverProvisioning_def by (blast dest: need_Inr)
  from rest obtain j where check: "recovery_check r now = None" and j: "decode_job (run_definition r) = Some j"
    by (cases "recovery_check r now"; cases "decode_job (run_definition r)") simp_all
  obtain found w2 where find: "run_state (FindWorkspaceByBranch (herdr E) (Repository (Execution j)) (branch r)) w1 = (found, w2)"
    by fastforce
  from rest check j find have absent: "observed_absence found = None" by (cases "observed_absence found") simp_all
  with rest check j find have "run_state (need (store_op E (InterruptRecoveredProvisioning r now)) ?move) w2 = (Inr final, w')"
    by simp
  then obtain recovered w3 where cas: "run_state (store_op E (InterruptRecoveredProvisioning r now)) w2 = (Inr recovered, w3)"
    and move: "run_state (?move recovered) w3 = (Inr final, w')"
    by (blast dest: need_Inr)
  from move have yes: "recovered" by (cases recovered) simp_all
  with move have "run_state (need (store_read E (GetRun i)) ?last) w3 = (Inr final, w')" by simp
  then obtain x w4 where "run_state (store_read E (GetRun i)) w3 = (Inr x, w4)" "run_state (?last x) w4 = (Inr final, w')"
    by (blast dest: need_Inr)
  then have "run_state (store_read E (GetRun i)) w3 = (Inr final, w')" "state final = StateInterrupted"
    by (auto split: if_splits)
  moreover from absent obtain rc where "found = Inr (rc, False)" by (auto simp: observed_absence_None)
  moreover have "run_state (store_op E (InterruptRecoveredProvisioning r now)) w2 = (Inr True, w3)"
    using cas yes by simp
  ultimately show ?thesis using get check j find by blast
qed

lemma framed_steps: "framed keeps m \<Longrightarrow> run_state m w = (x, w') \<Longrightarrow> store_steps (wdb w) (wdb w')"
  using state_io_relD [of keeps m w x w'] by (simp add: keeps_def)

text \<open>C13: An explicit recovery that succeeds retired exactly one stuck run on verified absence. The row it
  read was provisioning, with an expired claim, no receipt and no effect; Herdr was asked for the
  planned branch in the saved repository and reported no workspace; at that later moment the row
  still had every column the decision rested on; and its state went from provisioning to
  interrupted, with the recovery's code, whatever other processes did in between.\<close>

theorem recovery_retires_the_absent:
  assumes "surroundings_ok E" and "reach (wdb w)" and "run_state (RecoverProvisioning E i now) w = (Inr final, w')"
  shows "\<exists>r j rc w1 w2 d d' q cls.
    find_run i (wdb w1) = Some r \<and> state r = StateProvisioning \<and> provisioning_lease_until (scanRun r) \<le> now
    \<and> decode_job (run_definition r) = Some j
    \<and> run_state (FindWorkspaceByBranch (herdr E) (Repository (Execution j)) (branch r)) w1 = (Inr (rc, False), w2)
    \<and> store_steps (wdb w2) d \<and> find_run i d = Some q \<and> recovered_where (scanRun r) now q
    \<and> find_run i d' = Some (claim_finish_set
         (uncertain_finish RecoveryCodeProvisioning recoveryDetailProvisioning) cls now q)
    \<and> store_steps d' (wdb w') \<and> state final = StateInterrupted"
proof -
  from recovery_trace [OF assms(3)] obtain r0 j rc w1 w2 w3 where
    get: "run_state (store_read E (GetRun i)) w = (Inr r0, w1)" and check: "recovery_check r0 now = None"
    and j: "decode_job (run_definition r0) = Some j"
    and find: "run_state (FindWorkspaceByBranch (herdr E) (Repository (Execution j)) (branch r0)) w1 = (Inr (rc, False), w2)"
    and cas: "run_state (store_op E (InterruptRecoveredProvisioning r0 now)) w2 = (Inr True, w3)"
    and again: "run_state (store_read E (GetRun i)) w3 = (Inr final, w')" and ended: "state final = StateInterrupted"
    by blast
  from store_op_Inr [OF assms(1) get [unfolded store_read_def]] obtain r where
    steps1: "store_steps (wdb w) (wdb w1)" and r: "find_run i (wdb w1) = Some r" "r0 = scanRun r"
    by (auto simp: GetRun_def split: option.splits)
  have r0: "state r0 = state r" "run_definition r0 = run_definition r" "branch r0 = branch r" "run_id r0 = i"
    using find_run_Some [OF r(1)] by (simp_all add: r(2) scanRun_def)
  from store_op_Inr [OF assms(1) cas] obtain d where
    steps2: "store_steps (wdb w2) d" and move: "InterruptRecoveredProvisioning r0 now d = (Inr True, wdb w3)" by blast
  have "store_steps (wdb w1) (wdb w2)"
    by (rule framed_steps [OF client(2) [OF surroundings(9) [OF assms(1)]] find])
  with assms(2) steps1 steps2 have "reach d" by (blast intro: steps_reach)
  from interrupt_recovered [OF reach_ok [OF this] move, unfolded r0(4)] obtain q cls where
    q: "find_run i d = Some q" "recovered_where r0 now q"
    "find_run i (wdb w3) = Some (claim_finish_set
       (uncertain_finish RecoveryCodeProvisioning recoveryDetailProvisioning) cls now q)"
    by blast
  have "store_steps (wdb w3) (wdb w')" by (rule framed_steps [OF store_read [OF assms(1)] again])
  with r q find j ended steps2 recovery_check_None [OF check] show ?thesis unfolding r0 by blast
qed

text \<open>A run that was admitted, planned its branch, and whose process then died.\<close>

definition stuck_definition :: string where
  "stuck_definition =
     unquote ''{~id~:~nightly~,~revision~:1,~execution~:{~repository~:~/r~,~workspace~:~worktree~}}''"

definition stuck_job :: db where
  "stuck_job = snd (SyncJobAuthority ''nightly'' 1 ''h1'' stuck_definition True 0 init_db)"

definition stuck_accepted :: db where
  "stuck_accepted = snd (createAttendedRun ''nightly'' ''h1'' stuck_definition ''manual'' 5 [1, 2, 3, 4, 5] stuck_job)"

definition stuck_claimed :: db where
  "stuck_claimed = snd (DecideAdmission (run_id demo_run) ''w1'' ''dev'' (Fin 1) 8 60000000008 admit_all stuck_accepted)"

definition stuck_db :: db where
  "stuck_db = snd (SaveProvisioningPlan (run_id demo_run) ''w1'' ''auto/x'' 9 stuck_claimed)"

definition stuck_run :: run where
  "stuck_run = (admit_set ''w1'' 60000000008 ''dev'' (Fin 1) 8
     (new_run (run_id demo_run) ''nightly'' ''h1'' stuck_definition ''manual'' None 5))
     \<lparr> branch := ''auto/x'', updated_at := 9 \<rparr>"

lemma stuck_reach: "reach stuck_accepted" "reach stuck_claimed" "reach stuck_db"
proof -
  have "reach stuck_job" unfolding stuck_job_def by (intro reach.step [OF reach.start] store_step.intros)
  then show a: "reach stuck_accepted" unfolding stuck_accepted_def by (rule reach.step) (rule store_step.intros)
  then show c: "reach stuck_claimed" unfolding stuck_claimed_def by (rule reach.step) (rule store_step.intros)
  then show "reach stuck_db" unfolding stuck_db_def by (rule reach.step) (rule store_step.intros)
qed

lemma stuck_revision: "configRevisionFromDefinition stuck_definition = Some 1"
  unfolding stuck_definition_def by code_simp

lemma stuck_accepted_eq:
  "runs stuck_accepted = [new_run (run_id demo_run) ''nightly'' ''h1'' stuck_definition ''manual'' None 5]"
  "jobs stuck_accepted = [new_job ''nightly'' 1 ''h1'' stuck_definition True 0]" "metadata stuck_accepted = metadata init_db"
  by (simp_all add: stuck_accepted_def stuck_job_def SyncJobAuthority_def lockAuthorityWrites_def meta_def init_db_def
      syncJobAuthorityTx_def stuck_revision find_job_def createAttendedRun_def attended_run_def insert_run_def
      find_run_def new_run_def new_job_def)

lemma stuck_claimed_runs:
  "runs stuck_claimed = [admit_set ''w1'' 60000000008 ''dev'' (Fin 1) 8
     (new_run (run_id demo_run) ''nightly'' ''h1'' stuck_definition ''manual'' None 5)]"
proof -
  let ?r = "new_run (run_id demo_run) ''nightly'' ''h1'' stuck_definition ''manual'' None 5"
  have r: "run_id ?r = run_id demo_run" "job_id ?r = ''nightly''" "state ?r = StateAccepted" "trigger ?r = ''manual''"
    by (simp_all add: new_run_def)
  obtain y where lock: "meta ''admission_lock'' stuck_accepted = Some y"
    using reach_ok [OF stuck_reach(1)] by (auto simp: db_ok_def locks_ok_def lockOccurrenceWrites_def split: if_splits)
  have find: "find_run (run_id demo_run) stuck_accepted = Some ?r"
    by (simp add: find_run_def stuck_accepted_eq r(1) del: demo_run_simps(6))
  have job: "find_job ''nightly'' stuck_accepted = Some (new_job ''nightly'' 1 ''h1'' stuck_definition True 0)"
    by (simp add: find_job_def stuck_accepted_eq new_job_def)
  have hold: "authority_hold (new_job ''nightly'' 1 ''h1'' stuck_definition True 0) stuck_accepted = None"
    by (simp add: authority_hold_def new_job_def meta_def stuck_accepted_eq init_db_def)
  show ?thesis
    unfolding stuck_claimed_def DecideAdmission_def demo_lease find
    using lock job hold r by (simp add: admit_all_def decide_def cas_event_bool_def cas_event_def cas_run_def
        update_runs_def update_rows_def stuck_accepted_eq accepted_where_def add_event_def del: demo_run_simps(6))
qed

lemma stuck_runs: "runs stuck_db = [stuck_run]"
  by (simp add: stuck_db_def SaveProvisioningPlan_def cas_bool_def cas_run_def update_runs_def update_rows_def
      stuck_claimed_runs provisioning_where_def leased_by_def admit_set_def new_run_def stuck_run_def UnixNano_def in_int64_def)

text \<open>The quiet environment with a Herdr that lists two worktrees, neither on the planned branch.\<close>

definition listing :: "unit env" where
  "listing = quiet\<lparr> herdr := silent_cli\<lparr> exec := (\<lambda>_. ret \<lparr> ex_stdout = demo_inventory, ex_stderr = [], ex_error = None \<rparr>) \<rparr> \<rparr>"

lemma listing_ok: "surroundings_ok listing"
  using quiet_ok by (simp add: surroundings_ok_def listing_def quiet_def cli_within_def silent_cli_def db_frame.ret)

lemma listing_find:
  "run_state (FindWorkspaceByBranch (herdr listing) ''/r'' ''auto/x'') w = (Inr (no_receipt, False), w)"
proof -
  have "decode_response (dec_struct [(''worktrees'', dec_raw)]) None demo_inventory
      = Inr (Some (JArr [JObj [(''branch'', JStr ''main''), (''path'', JStr ''/r'')],
                         JObj [(''is_detached'', JBool True), (''path'', JStr ''/d'')]]))" by code_simp
  moreover have "decodeWorktreeInventory (Some (JArr [JObj [(''branch'', JStr ''main''), (''path'', JStr ''/r'')],
                         JObj [(''is_detached'', JBool True), (''path'', JStr ''/d'')]]))
      = Inr [\<lparr> inv_branch = Some ''main'', inv_path = ''/r'' \<rparr>, \<lparr> inv_branch = None, inv_path = ''/d'' \<rparr>]" by code_simp
  ultimately show ?thesis
    by (simp add: FindWorkspaceByBranch_def run_into_def run_cli_def listing_def quiet_def worktree_of_def)
qed

lemma listing_store_op:
  "run_state (store_op listing f) w = (map_sum StoreErr id (fst (f (wdb w))), w\<lparr>wdb := snd (f (wdb w))\<rparr>)"
  by (simp add: store_op_def listing_def quiet_def apply_db_def split: prod.split)

lemma stuck_check:
  "recovery_check (scanRun stuck_run) 60000000008 = None"
  "\<exists>j. decode_job stuck_definition = Some j \<and> Repository (Execution j) = ''/r''"
proof -
  have "case decode_job stuck_definition of None \<Rightarrow> False | Some j \<Rightarrow> ID j = ''nightly'' \<and> Repository (Execution j) = ''/r''
      \<and> Workspace (Execution j) = WorkspaceWorktree"
    unfolding stuck_definition_def by code_simp
  then obtain j where j: "decode_job stuck_definition = Some j" "ID j = ''nightly''" "Repository (Execution j) = ''/r''"
    "Workspace (Execution j) = WorkspaceWorktree" by (auto split: option.splits)
  then show "\<exists>j. decode_job stuck_definition = Some j \<and> Repository (Execution j) = ''/r''" by blast
  show "recovery_check (scanRun stuck_run) 60000000008 = None"
    using j by (simp add: recovery_check_def recovery_job_refusal_def scanRun_def stuck_run_def admit_set_def new_run_def
        lease_time_def UnixNano_def in_int64_def IsAbs_def HasPrefix_def IsZero_def zero_time_def)
qed

lemma stuck_recovered:
  "\<exists>d' q. InterruptRecoveredProvisioning (scanRun stuck_run) 60000000008 stuck_db = (Inr True, d')
     \<and> find_run (run_id demo_run) d' = Some q \<and> state q = StateInterrupted"
proof -
  let ?i = "run_id demo_run" and ?f = "uncertain_finish RecoveryCodeProvisioning recoveryDetailProvisioning"
  have ok: "db_ok stuck_db" by (rule reach_ok [OF stuck_reach(3)])
  have id: "run_id stuck_run = ?i" by (simp add: stuck_run_def admit_set_def new_run_def)
  have find: "find_run ?i stuck_db = Some stuck_run" by (simp add: find_run_def stuck_runs id del: demo_run_simps(6))
  obtain cls where cls: "terminalAcceptanceTx ?i StateInterrupted ''unverified'' stuck_db = Some cls"
    by (simp add: terminalAcceptanceTx_def find del: demo_run_simps(6))
  have free: "recovery_refusal (scanRun stuck_run) 60000000008 = None"
    by (simp add: recovery_refusal_def scanRun_def stuck_run_def admit_set_def new_run_def newRunID_def
        lease_time_def UnixNano_def in_int64_def IsZero_def zero_time_def)
  have here: "recovered_where (scanRun stuck_run) 60000000008 stuck_run"
    by (simp add: recovered_where_def scanRun_def stuck_run_def admit_set_def new_run_def no_effect_def
        lease_time_def leaseNanos_def UnixNano_def in_int64_def IsZero_def zero_time_def)
  have lock: "lockOccurrenceWrites stuck_db = None" using ok by (simp add: db_ok_def locks_ok_def)
  have scanned: "run_id (scanRun stuck_run) = ?i" by (simp add: scanRun_def id)
  have only: "recovered_where (scanRun stuck_run) 60000000008 q \<Longrightarrow> run_id q = ?i" for q
    using guard_ids(7) scanned by metis
  have "\<exists>d'. InterruptRecoveredProvisioning (scanRun stuck_run) 60000000008 stuck_db = (Inr True, d')"
    unfolding InterruptRecoveredProvisioning_def free interrupt_claim_def lock scanned cls option.case
    by (subst cas_event_bool_id [OF db_ok_keys [OF ok] find only]) (simp_all add: here)
  then obtain d' where d': "InterruptRecoveredProvisioning (scanRun stuck_run) 60000000008 stuck_db = (Inr True, d')" ..
  from interrupt_recovered [OF ok this] obtain q c where "find_run ?i d' = Some (claim_finish_set ?f c 60000000008 q)"
    by (auto simp: scanRun_def id simp del: demo_run_simps(6))
  moreover have "state (claim_finish_set ?f c 60000000008 q) = StateInterrupted"
    by (simp add: claim_finish_set_def outcome_set_def uncertain_finish_def split: prod.split)
  ultimately show ?thesis using d' by blast
qed

theorem recovery_retires_the_absent_witness:
  "\<exists>final w'. run_state (RecoverProvisioning listing (run_id demo_run) 60000000008) (quiet_world stuck_db) = (Inr final, w')
     \<and> state final = StateInterrupted"
proof -
  let ?i = "run_id demo_run" and ?w = "quiet_world stuck_db"
  obtain d' q where move: "InterruptRecoveredProvisioning (scanRun stuck_run) 60000000008 stuck_db = (Inr True, d')"
    and q: "find_run ?i d' = Some q" "state q = StateInterrupted"
    using stuck_recovered by blast
  obtain j where j: "decode_job stuck_definition = Some j" "Repository (Execution j) = ''/r''" using stuck_check(2) by blast
  have find: "find_run ?i stuck_db = Some stuck_run"
    by (simp add: find_run_def stuck_runs stuck_run_def admit_set_def new_run_def del: demo_run_simps(6))
  have row: "run_definition (scanRun stuck_run) = stuck_definition" "branch (scanRun stuck_run) = ''auto/x''"
    by (simp_all add: scanRun_def stuck_run_def admit_set_def new_run_def)
  have absent: "observed_absence (Inr (no_receipt, False)) = None" by (simp add: observed_absence_def no_receipt_def)
  have run: "run_state (RecoverProvisioning listing ?i 60000000008) ?w = (Inr (scanRun q), ?w\<lparr>wdb := d'\<rparr>)"
    using move q find row j absent stuck_check(1) listing_find
    by (simp add: RecoverProvisioning_def need_def store_read_def listing_store_op GetRun_def quiet_world_def
        scanRun_def [of q] del: demo_run_simps(6))
  have "reach (wdb ?w)" using stuck_reach(3) by (simp add: quiet_world_def)
  from recovery_retires_the_absent [OF listing_ok this run] have "state (scanRun q) = StateInterrupted" by blast
  with run show ?thesis by blast
qed

section \<open>The durable intent of a close\<close>

definition ascii_finish :: "finish \<Rightarrow> bool" where
  "ascii_finish f \<longleftrightarrow> ascii (f_state f) \<and> ascii (f_infra f) \<and> ascii (f_agent f) \<and> ascii (f_verdict f)
     \<and> ascii (f_code f) \<and> ascii (f_detail f)"

lemma intent_roundtrip:
  assumes "ascii_finish f"
  shows "Unmarshal dec_intent (intent_json f None) g = Some f"
proof -
  let ?ms = "[(''terminal_state'', JStr (f_state f), json_quote (f_state f)),
      (''infrastructure'', JStr (f_infra f), json_quote (f_infra f)), (''agent'', JStr (f_agent f), json_quote (f_agent f)),
      (''verdict'', JStr (f_verdict f), json_quote (f_verdict f)), (''code'', JStr (f_code f), json_quote (f_code f)),
      (''detail'', JStr (f_detail f), json_quote (f_detail f))]"
  have "reads (JObj (map (\<lambda>(k, v, s). (k, v)) ?ms)) (json_object (map (\<lambda>(k, v, s). (k, s)) ?ms))"
    using assms by (intro reads_object) (auto simp: ascii_finish_def reads_quote ascii_def)
  from parse_json_reads(1) [OF this]
  have "parse_json (intent_json f None) = Some (JObj (map (\<lambda>(k, v, s). (k, v)) ?ms))"
    by (simp add: intent_json_def)
  then show ?thesis
    by (simp add: Unmarshal_def dec_intent_def dec_struct_def find_field_def fld_def dec_string_def)
qed

lemma recover_uses_intent:
  "saved_intent (effect_receipt r) g = saved_intent (effect_receipt r) f \<Longrightarrow>
     recoverExpiredWorkspaceClose E r g now = recoverExpiredWorkspaceClose E r f now"
  unfolding recoverExpiredWorkspaceClose_def by simp



end
