(* ===== verification/ReviewProperties.thy ===== *)
theory ReviewProperties
  imports EngineRun
begin

text \<open>
  What a bounded review proves: a change receipt is only written for a worktree that two complete
  passes agreed on, with every change inside the declared scope.
\<close>

lemma need_InrE:
  assumes "run_state (need m f) w = (Inr y, w')"
  obtains x w1 where "run_state m w = (Inr x, w1)" "run_state (f x) w1 = (Inr y, w')"
  using assms by (cases "run_state m w") (auto simp: need_def split: sum.splits)

lemma files_op_Inr: "run_state (files_op m) w = (Inr x, w') \<longleftrightarrow> run_state m w = (Inr x, w')"
  by (cases "run_state m w"; cases "fst (run_state m w)") (auto simp: files_op_def)

lemma closing_Inr: "run_state (closing F fd m) w = (Inr x, w') \<Longrightarrow> \<exists>w1. run_state m w = (Inr x, w1)"
  by (cases "run_state m w"; cases "run_state (Close F fd) (snd (run_state m w))") (auto simp: closing_def)

section \<open>Enumerations\<close>

lemma changed_sorted:
  "sorted (fst (changed_and_untracked t u i)) \<and> distinct (fst (changed_and_untracked t u i))"
  by (simp add: changed_and_untracked_def Let_def)

lemma parsed_Inr: "run_state (parsed stage r) w = (Inr x, w') \<longleftrightarrow> r = Inr x \<and> w' = w"
  by (cases r) (auto simp: parsed_def)

lemma repository_changes_sorted:
  assumes "run_state (boundedRepositoryChanges git wt) w = (Inr (changed, untracked), w')"
  shows "sorted changed \<and> distinct changed"
  using assms unfolding boundedRepositoryChanges_def
  by (auto elim!: need_InrE simp: changed_and_untracked_def Let_def)

lemma enumerate_sound:
  assumes "run_state (boundedEnumerateChanges git wt staged) w = (Inr (changed, untracked), w')"
  shows "sorted changed \<and> distinct changed \<and> set changed \<inter> set staged = {}
    \<and> (\<forall>p\<in>set untracked. boundedIsReservedPath p \<longrightarrow> p \<in> set staged)"
proof -
  from assms obtain all where
    all: "run_state (boundedRepositoryChanges git wt) w = (Inr (all, untracked), w')"
    and none: "find (\<lambda>p. p \<notin> set staged \<and> boundedIsReservedPath p) untracked = None"
    and changed: "changed = filter (\<lambda>p. p \<notin> set staged) all"
    unfolding boundedEnumerateChanges_def
    by (auto elim!: need_InrE split: option.splits prod.splits)
  from repository_changes_sorted [OF all] none show ?thesis
    by (auto simp: changed find_None_iff sorted_wrt_filter)
qed

section \<open>Observations\<close>

definition fits :: "string \<Rightarrow> path_state \<Rightarrow> bool" where
  "fits p s \<longleftrightarrow> ps_Path s = p \<and> 0 \<le> ps_Size s \<and> ps_Size s \<le> maxBoundedChangeFileBytes"

lemma refuse_Inr [simp]: "run_state (refuse a b c) w \<noteq> (Inr x, w')"
  by (simp add: refuse_def)

lemma observed_regular:
  assumes "run_state (boundedObserveRegularFile F fd p name named) w = (Inr s, w')"
  shows "fits p s"
  using assms unfolding boundedObserveRegularFile_def Let_def fits_def
  by (auto split: if_splits elim!: need_InrE dest!: closing_Inr)

lemma observed_symlink:
  assumes "run_state (boundedObserveSymlink F fd p name named) w = (Inr s, w')"
  shows "fits p s"
  using assms unfolding boundedObserveSymlink_def Let_def fits_def
  by (auto split: if_splits elim!: need_InrE)

lemma observed_path:
  assumes "run_state (boundedObserveOnePath F wt p) w = (Inr s, w')"
  shows "fits p s \<and> (\<exists>a. boundedWorktreePath wt p = Inr a)"
proof -
  from assms obtain a where a: "boundedWorktreePath wt p = Inr a"
    by (cases "boundedWorktreePath wt p") (auto simp: boundedObserveOnePath_def Let_def)
  obtain parent w1 where parent: "run_state (openBoundedParents F wt (filepathDir p)) w = (parent, w1)" by fastforce
  have deleted: "fits p (deleted_path p)" by (simp add: fits_def deleted_path_def maxBoundedChangeFileBytes_def)
  show ?thesis
  proof (cases parent)
    case (Inl e)
    with assms a parent deleted show ?thesis
      by (cases e) (auto simp: boundedObserveOnePath_def Let_def split: if_splits)
  next
    case (Inr fd)
    let ?look = "do {
        named \<leftarrow> Fstatat F fd (filepathBase p);
        (case named of
           Inl e \<Rightarrow> ret (if e = ENOENT then Inr (deleted_path p) else Inl (Sys ''observe-change'' p e))
         | Inr s \<Rightarrow>
             if boundedIsSymlink s then boundedObserveSymlink F fd p (filepathBase p) s
             else if boundedIsRegular s then boundedObserveRegularFile F fd p (filepathBase p) s
             else if boundedIsDir s then refuse ''observe-change'' p ''changed path is a directory''
             else refuse ''observe-change'' p ''changed path is neither a regular file nor a symlink'') }"
    from assms a parent Inr have "run_state (closing F fd ?look) w1 = (Inr s, w')"
      by (simp add: boundedObserveOnePath_def Let_def)
    from closing_Inr [OF this] obtain w2 where look: "run_state ?look w1 = (Inr s, w2)" ..
    obtain named w3 where "run_state (Fstatat F fd (filepathBase p)) w1 = (named, w3)" by fastforce
    with look a deleted show ?thesis
      by (cases named) (auto split: if_splits dest: observed_regular observed_symlink)
  qed
qed

lemma observed_paths:
  "run_state (observe_from F wt n ps) w = (Inr ss, w') \<Longrightarrow> n \<le> maxBoundedChangeTotalBytes \<Longrightarrow>
     list_all2 fits ps ss \<and> (\<forall>p\<in>set ps. \<exists>a. boundedWorktreePath wt p = Inr a)
     \<and> n + sum_list (map ps_Size ss) \<le> maxBoundedChangeTotalBytes"
proof (induction ps arbitrary: n w ss)
  case (Cons p ps)
  from Cons.prems(1) obtain s w1 where s: "run_state (boundedObserveOnePath F wt p) w = (Inr s, w1)"
    and rest: "run_state (if maxBoundedChangeTotalBytes < n + ps_Size s
       then refuse ''observe-change'' p ''observing this path would exceed the total change limit''
       else need (observe_from F wt (n + ps_Size s) ps) (\<lambda>rest. ret (Inr (s # rest)))) w1 = (Inr ss, w')"
    by (auto elim: need_InrE)
  from rest have room: "n + ps_Size s \<le> maxBoundedChangeTotalBytes" by (auto split: if_splits)
  with rest obtain rs where rs: "run_state (observe_from F wt (n + ps_Size s) ps) w1 = (Inr rs, w')" and ss: "ss = s # rs"
    by (auto elim: need_InrE)
  from Cons.IH [OF rs room] observed_path [OF s] ss show ?case by simp
qed simp

section \<open>The scope\<close>

definition in_scope :: "string list \<Rightarrow> string \<Rightarrow> bool" where
  "in_scope allowed p \<longleftrightarrow> (\<exists>e\<in>set allowed. p = e \<or> (\<exists>d below. e = d @ ''/'' \<and> p = d @ ''/'' @ below))"

lemma write_allowed: "boundedWriteAllowed p allowed \<Longrightarrow> in_scope allowed p"
  by (auto simp: boundedWriteAllowed_def in_scope_def list_ex_iff HasSuffix_def HasPrefix_def suffix_def prefix_def
      split: if_splits) blast

lemma scope_checked: "boundedCheckWriteScope changed allowed = None \<Longrightarrow> list_all (in_scope allowed) changed"
  by (auto simp: boundedCheckWriteScope_def list_all_iff filter_empty_conv split: list.splits intro: write_allowed)

text \<open>One complete pass over the worktree, from \<open>w\<close> to \<open>w'\<close>.\<close>

definition full_pass ::
  "(string list \<Rightarrow> ('w, git_result) state) \<Rightarrow> 'w files \<Rightarrow> string \<Rightarrow> string list \<Rightarrow> string list \<Rightarrow> string list
   \<Rightarrow> path_state list \<Rightarrow> 'w \<Rightarrow> 'w \<Rightarrow> bool" where
  "full_pass git F wt staged changed untracked states w w' \<longleftrightarrow>
     (\<exists>v. run_state (boundedEnumerateChanges git wt staged) w = (Inr (changed, untracked), v)
        \<and> run_state (boundedObserveChangedPaths F wt changed) v = (Inr states, w'))"

lemma first_pass:
  assumes "run_state (review_pass git F wt staged allowed) w = (Inr (changed, untracked, states), w')"
  shows "full_pass git F wt staged changed untracked states w w' \<and> list_all (in_scope allowed) changed"
proof -
  from assms obtain v where en: "run_state (boundedEnumerateChanges git wt staged) w = (Inr (changed, untracked), v)"
    and scope: "boundedCheckWriteScope changed allowed = None"
    and obs: "run_state (boundedObserveChangedPaths F wt changed) v = (Inr states, w')"
    unfolding review_pass_def by (auto elim!: need_InrE simp: files_op_Inr split: prod.splits option.splits)
  from scope_checked [OF scope] en obs show ?thesis by (auto simp: full_pass_def)
qed

lemma second_pass:
  assumes "run_state (review_again git F wt staged allowed (changed, untracked, states)) w = (Inr states', w')"
  shows "full_pass git F wt staged changed untracked states w w' \<and> states' = states"
  using assms unfolding review_again_def full_pass_def
  by (auto elim!: need_InrE simp: files_op_Inr split: prod.splits option.splits if_splits)

text \<open>C9: A change receipt is only written for a worktree that stayed within its scope. The staged inputs
  were proved first; then two complete passes, one after the other, found the same paths with the
  same fingerprints. Every changed path resolves inside the worktree and is covered by an entry of
  the declared scope, none is a staged input, and nothing untracked lies in the reserved directory
  but the staged inputs. The receipt lists the paths once each, in order, each with its state,
  within the limits on sizes.\<close>

theorem review_within_scope:
  assumes "run_state (observe_review git F wt receipt j) w = (Inr (Some c), w')"
  shows "\<exists>staged untracked w1 w2. run_state (verifyStagedInputs F wt receipt) w = (Inr staged, w1)
    \<and> full_pass git F wt staged (cr_Changed c) untracked (cr_States c) w1 w2
    \<and> full_pass git F wt staged (cr_Changed c) untracked (cr_States c) w2 w'
    \<and> list_all (in_scope (AllowedWritePaths (Execution j))) (cr_Changed c)
    \<and> (\<forall>p\<in>set (cr_Changed c). p \<notin> set staged \<and> (\<exists>a. boundedWorktreePath wt p = Inr a))
    \<and> (\<forall>p\<in>set untracked. boundedIsReservedPath p \<longrightarrow> p \<in> set staged)
    \<and> sorted (cr_Changed c) \<and> distinct (cr_Changed c) \<and> list_all2 fits (cr_Changed c) (cr_States c)
    \<and> sum_list (map ps_Size (cr_States c)) \<le> maxBoundedChangeTotalBytes"
proof -
  let ?allowed = "sort (AllowedWritePaths (Execution j))"
  from assms obtain staged w1 changed untracked states w2 states' where
    staged: "run_state (verifyStagedInputs F wt receipt) w = (Inr staged, w1)"
    and one: "run_state (review_pass git F wt staged ?allowed) w1 = (Inr (changed, untracked, states), w2)"
    and two: "run_state (review_again git F wt staged ?allowed (changed, untracked, states)) w2 = (Inr states', w')"
    and c: "c = \<lparr> cr_Version = boundedReceiptVersion, cr_Allowed = ?allowed, cr_Changed = changed, cr_States = states',
             cr_Verdict = boundedVerdictWithinScope \<rparr>"
    unfolding observe_review_def Let_def by (auto elim!: need_InrE split: if_splits prod.splits)
  from first_pass [OF one] second_pass [OF two] have
    passes: "full_pass git F wt staged changed untracked states w1 w2" "full_pass git F wt staged changed untracked states w2 w'"
    and scope: "list_all (in_scope ?allowed) changed" and same: "states' = states" by blast+
  from passes(1) obtain v where en: "run_state (boundedEnumerateChanges git wt staged) w1 = (Inr (changed, untracked), v)"
    and obs: "run_state (observe_from F wt 0 changed) v = (Inr states, w2)"
    by (auto simp: full_pass_def boundedObserveChangedPaths_def)
  have "in_scope ?allowed = in_scope (AllowedWritePaths (Execution j))" by (rule ext) (simp add: in_scope_def)
  with scope enumerate_sound [OF en] observed_paths [OF obs] staged passes same show ?thesis
    by (auto simp: c maxBoundedChangeTotalBytes_def)
qed

text \<open>A worktree in which one file of two bytes was changed.\<close>

definition demo_stat :: stat_t where
  "demo_stat = \<lparr> st_mode = 32768, st_dev = 1, st_ino = 2, st_size = 2, st_mtim = (0, 0), st_ctim = (0, 0) \<rparr>"

definition demo_files :: "unit files" where
  "demo_files = \<lparr> Lstat = (\<lambda>_. ret (Inr demo_stat)), Fstat = (\<lambda>_. ret (Inr demo_stat)), Fstatat = (\<lambda>_ _. ret (Inr demo_stat)),
     Open = (\<lambda>_ _. ret (Inr 3)), Openat = (\<lambda>_ _ _. ret (Inr 4)), Mkdirat = (\<lambda>_ _. ret (Inr ())),
     Readlinkat = (\<lambda>_ _ _. ret (Inl ENOENT)), read_upto = (\<lambda>_ _. ret (Inr ''hi'')), write_all = (\<lambda>_ _. ret (Inr ())),
     Fchmod = (\<lambda>_. ret (Inr ())), Fsync = (\<lambda>_. ret (Inr ())), Close = (\<lambda>_. ret (Inr ())) \<rparr>"

definition demo_git :: "string list \<Rightarrow> (unit, git_result) state" where
  "demo_git args = ret \<lparr> git_stdout = (if ''diff'' \<in> set args then ''M'' @ [NUL] @ ''a'' @ [NUL] else []), git_stderr = [],
     git_read_error = None, git_wait_error = None \<rparr>"

definition demo_scope :: job where
  "demo_scope = zero_job\<lparr>Execution := (Execution zero_job)\<lparr>AllowedWritePaths := [''a'']\<rparr>\<rparr>"

lemma demo_changes: "run_state (boundedEnumerateChanges demo_git ''/w'' []) () = (Inr ([''a''], []), ())"
proof -
  have "parseNameStatusPaths (''M'' @ [NUL] @ ''a'' @ [NUL]) = Inr [''a'']" by code_simp
  moreover have "splitNULFields [] = Inr []" "valid_paths [] = Inr []" by (simp_all add: splitNULFields_def)
  moreover have "\<not> boundedIsReservedPath ''a''" by code_simp
  ultimately show ?thesis
    by (simp add: boundedEnumerateChanges_def boundedRepositoryChanges_def need_def boundedGitOutput_def demo_git_def
        parsed_def maxBoundedGitOutputBytes_def changed_and_untracked_def)
qed

lemma demo_observed: "\<exists>s. run_state (boundedObserveChangedPaths demo_files ''/w'' [''a'']) () = (Inr [s], ())"
proof -
  have path: "boundedWorktreePath ''/w'' ''a'' = Inr ''/w/a''" "filepathDir ''a'' = ''.''" "filepathBase ''a'' = ''a''" by code_simp+
  have kind: "\<not> boundedIsSymlink demo_stat" "boundedIsRegular demo_stat" by code_simp+
  have parents: "run_state (openBoundedParents demo_files ''/w'' ''.'') () = (Inr 3, ())"
    by (simp add: openBoundedParents_def open_parents_def demo_files_def)
  have regular: "run_state (boundedObserveRegularFile demo_files 3 ''a'' ''a'' demo_stat) ()
      = (Inr \<lparr> ps_Path = ''a'', ps_Kind = boundedPathKindFile, ps_Size = 2, ps_SHA256 = sha256_hex ''hi'' \<rparr>, ())"
    by (simp add: boundedObserveRegularFile_def Let_def need_def sys_def closing_def demo_files_def
        boundedSameStatIdentity_def maxBoundedChangeFileBytes_def demo_stat_def)
  have named: "run_state (Fstatat demo_files 3 ''a'') () = (Inr demo_stat, ())" "run_state (Close demo_files 3) () = (Inr (), ())"
    by (simp_all add: demo_files_def)
  have "run_state (boundedObserveOnePath demo_files ''/w'' ''a'') ()
      = (Inr \<lparr> ps_Path = ''a'', ps_Kind = boundedPathKindFile, ps_Size = 2, ps_SHA256 = sha256_hex ''hi'' \<rparr>, ())"
    using path kind parents regular named by (simp add: boundedObserveOnePath_def Let_def closing_def)
  then show ?thesis
    by (simp add: boundedObserveChangedPaths_def need_def maxBoundedChangeTotalBytes_def)
qed

theorem review_within_scope_witness:
  "\<exists>c. run_state (observe_review demo_git demo_files ''/w'' [] demo_scope) () = (Inr (Some c), ())
     \<and> cr_Changed c = [''a''] \<and> list_all2 fits (cr_Changed c) (cr_States c)"
proof -
  obtain s where obs: "run_state (boundedObserveChangedPaths demo_files ''/w'' [''a'']) () = (Inr [s], ())"
    using demo_observed by blast
  have scope: "HasWriteScope (Execution demo_scope)" "AllowedWritePaths (Execution demo_scope) = [''a'']"
    by (simp_all add: demo_scope_def HasWriteScope_def)
  have "boundedCheckWriteScope [''a''] [''a''] = None" by code_simp
  with scope demo_changes obs have run: "run_state (observe_review demo_git demo_files ''/w'' [] demo_scope) ()
      = (Inr (Some \<lparr> cr_Version = boundedReceiptVersion, cr_Allowed = [''a''], cr_Changed = [''a''], cr_States = [s],
                     cr_Verdict = boundedVerdictWithinScope \<rparr>), ())"
    by (simp add: observe_review_def verifyStagedInputs_def need_def Let_def review_pass_def review_again_def files_op_def)
  from review_within_scope [OF run] have "list_all2 fits [''a''] [s]" by auto
  with run show ?thesis by auto
qed

end
