(* ===== verification/VerifierProperties.thy ===== *)
theory VerifierProperties
  imports Frame
begin

text \<open>
  What the file protocol of the verifier guarantees: nothing is published while a process of the
  verifier may still be alive, and what is published is what a later scheduler reads.
\<close>

section \<open>Calls under a log\<close>

text \<open>Every call of the kernel is logged; the file system and the launcher leave the log alone.\<close>

definition same_log :: "'w \<times> kernel_call list \<Rightarrow> 'w \<times> kernel_call list \<Rightarrow> bool" where
  "same_log a b \<longleftrightarrow> snd a = snd b"

interpretation log_frame: frame "same_log :: 'w \<times> kernel_call list \<Rightarrow> 'w \<times> kernel_call list \<Rightarrow> bool"
proof
  show "reflp (same_log :: 'w \<times> kernel_call list \<Rightarrow> 'w \<times> kernel_call list \<Rightarrow> bool)"
    by (auto intro: reflpI simp: same_log_def)
  show "transp (same_log :: 'w \<times> kernel_call list \<Rightarrow> 'w \<times> kernel_call list \<Rightarrow> bool)"
    by (rule transpI) (simp add: same_log_def)
qed

lemma log_kept:
  assumes "framed same_log m" and "run_state m (w, tr) = (r, (w', tr'))"
  shows "tr' = tr"
  using state_io_relD [OF assms] by (simp add: same_log_def)

text \<open>
  The same launcher with a record of the process it started. In a whole log the first call is the
  start of the verifier's process, and its process id is its group: the group is gone when the last
  call saw it without an owned member, every other call is about that group, and at most one of them
  is a signal, right after owned members were observed.
\<close>

definition traced_launcher :: "('w \<times> kernel_call list) launcher \<Rightarrow> ('w \<times> kernel_call list) launcher" where
  "traced_launcher L =
     L\<lparr>start_process := \<lambda>dir fd p args. State (\<lambda>s. case run_state (start_process L dir fd p args) s of
         (r, (w, tr)) \<Rightarrow> (r, (w, case r of Inl _ \<Rightarrow> tr | Inr process \<Rightarrow> tr @ [Started process])))\<rparr>"

lemma traced_launcher_simps [simp]:
  "await_end (traced_launcher L) = await_end L" "reap (traced_launcher L) = reap L"
  "run_state (start_process (traced_launcher L) dir fd p args) s = (case run_state (start_process L dir fd p args) s of
     (r, (w, tr)) \<Rightarrow> (r, (w, case r of Inl _ \<Rightarrow> tr | Inr process \<Rightarrow> tr @ [Started process])))"
  by (simp_all add: traced_launcher_def)

definition group_gone :: "kernel_call list \<Rightarrow> bool" where
  "group_gone tr \<longleftrightarrow> (case tr of Started process # calls \<Rightarrow> seen_gone process calls | _ \<Rightarrow> False)"

definition own_group :: "kernel_call list \<Rightarrow> bool" where
  "own_group tr \<longleftrightarrow> (case tr of [] \<Rightarrow> True | Started process # calls \<Rightarrow> signalled_once process calls | _ \<Rightarrow> False)"

lemma log_simps [simp]:
  "own_group []" "own_group (Started process # calls) = signalled_once process calls"
  "group_gone (Started process # calls) = seen_gone process calls" "signalled_once process []"
  by (simp_all add: own_group_def group_gone_def signalled_once_def)

text \<open>A rename before the group is gone does \<open>X\<close> instead.\<close>

definition fenced ::
  "(nat \<Rightarrow> string \<Rightarrow> string \<Rightarrow> ('w \<times> kernel_call list, errno + unit) state) \<Rightarrow> ('w \<times> kernel_call list) disk
   \<Rightarrow> ('w \<times> kernel_call list) disk" where
  "fenced X D =
     D\<lparr>RenameExcl := \<lambda>fd a b. State (\<lambda>(w, tr).
         run_state (if group_gone tr then RenameExcl D fd a b else X fd a b) (w, tr))\<rparr>"

lemma fenced_simps [simp]:
  "Mkdir (fenced X D) = Mkdir D" "EvalSymlinks (fenced X D) = EvalSymlinks D" "Chmod (fenced X D) = Chmod D"
  "Unlinkat (fenced X D) = Unlinkat D" "Rewind (fenced X D) = Rewind D"
  "run_state (RenameExcl (fenced X D) fd a b) (w, tr)
     = run_state (if group_gone tr then RenameExcl D fd a b else X fd a b) (w, tr)"
  by (simp_all add: fenced_def)

definition agree :: "('w \<times> kernel_call list, 'a) state \<Rightarrow> ('w \<times> kernel_call list, 'a) state \<Rightarrow> bool" where
  "agree m m' \<longleftrightarrow> (\<forall>w tr. group_gone tr \<longrightarrow> run_state m (w, tr) = run_state m' (w, tr))"

lemma agree_refl: "agree m m"
  by (simp add: agree_def)

lemma agree_bind:
  assumes "agree m m'" and "framed same_log m'" and "\<And>x. agree (f x) (f' x)"
  shows "agree (State_Monad.bind m f) (State_Monad.bind m' f')"
  unfolding agree_def
proof (intro allI impI)
  fix w :: 'a and tr
  assume tr: "group_gone tr"
  obtain x w1 tr1 where run: "run_state m' (w, tr) = (x, (w1, tr1))" by (metis prod.exhaust)
  with assms(2) have "tr1 = tr" by (rule log_kept)
  with run tr assms(1,3) show "run_state (State_Monad.bind m f) (w, tr) = run_state (State_Monad.bind m' f') (w, tr)"
    by (simp add: agree_def)
qed

lemma agree_need:
  assumes "agree m m'" and "framed same_log m'" and "\<And>x. agree (f x) (f' x)"
  shows "agree (need m f) (need m' f')"
  unfolding need_def using assms by (intro agree_bind) (auto intro: agree_refl split: sum.split)

lemma agree_attempt:
  assumes "agree m m'" and "framed same_log m'" and "\<And>e. agree (h e) (h' e)" and "\<And>x. agree (f x) (f' x)"
  shows "agree (attempt m h f) (attempt m' h' f')"
  unfolding attempt_def using assms by (intro agree_bind) (auto split: sum.split)

lemma agree_if: "agree a a' \<Longrightarrow> agree b b' \<Longrightarrow> agree (if c then a else b) (if c then a' else b')"
  by simp

lemma agree_rename: "agree (RenameExcl (fenced X D) fd a b) (RenameExcl D fd a b)"
  by (simp add: agree_def)

lemmas agree_rules = agree_bind agree_need agree_attempt agree_if agree_refl agree_rename

section \<open>Publishing waits for the group\<close>

lemma fenced_same:
  "validateVerifierReceiptPath F (fenced X D) = validateVerifierReceiptPath F D"
  "removeVerifierFile F (fenced X D) = removeVerifierFile F D"
  "read_output F (fenced X D) = read_output F D"
  unfolding validateVerifierReceiptPath_def [abs_def] removeVerifierFile_def [abs_def] read_output_def [abs_def] fenced_simps
  by (rule refl)+

lemma agree_publish:
  assumes "files_within same_log F" and "disk_within same_log D"
  shows "agree (publishVerifierReceipt F (fenced X D) sd r x) (publishVerifierReceipt F D sd r x)"
proof -
  note frames = log_frame.rules log_frame.verifier_steps log_frame.validateVerifierReceiptPath
    log_frame.openExclusiveRegular log_frame.write_temp log_frame.rename_temp assms
  have io: "agree (io m) (io m')" if "agree m m'" "framed same_log m'" for m m' :: "('a \<times> kernel_call list, errno + unit) state"
    unfolding io_def using that by (intro agree_rules)
  have rename: "agree (rename_temp F (fenced X D) r) (rename_temp F D r)"
    unfolding rename_temp_def in_directory_def closing_def by (intro agree_rules io frames)
  show ?thesis
    unfolding publishVerifierReceipt_def fenced_same Let_def by (intro agree_rules rename frames)
qed

lemma agree_deliver:
  assumes "files_within same_log F" and "disk_within same_log D"
  shows "agree (deliver F (fenced X D) sd r c fd x) (deliver F D sd r c fd x)"
proof -
  have stage: "agree (at_stage s m) (at_stage s m')" if "agree m m'" "framed same_log m'"
    for s and m m' :: "('a \<times> kernel_call list, verifier_err + unit) state"
    unfolding at_stage_def using that by (intro agree_rules)
  note frames = log_frame.rules log_frame.verifier_steps log_frame.publishVerifierReceipt assms
  show ?thesis
    unfolding deliver_def fenced_same Let_def
    by (intro agree_rules; (cases "verifierExitCode x"; simp)?)
       (auto intro!: agree_rules stage agree_publish frames simp: read_output_def)
qed

lemma supervise_fenced:
  assumes F: "files_within same_log F" and D: "disk_within same_log D" and L: "launcher_within same_log L"
    and run: "run_state (supervise F D (traced K) (traced_launcher L) sd wt r c cmd fd) (w, []) = (out, (w', tr))"
  shows "run_state (supervise F (fenced X D) (traced K) (traced_launcher L) sd wt r c cmd fd) (w, []) = (out, (w', tr))
    \<and> own_group tr \<and> (\<forall>o1. out = Some o1 \<and> snd (snd (result_of o1)) = None \<longrightarrow> group_gone tr)"
proof -
  note L = launcher_withinD [OF L]
  obtain started w1 tr1 where st: "run_state (start_process L wt fd ''/bin/sh'' (verifier_args cmd)) (w, []) = (started, (w1, tr1))"
    by (metis prod.exhaust)
  with L(1) have st1: "tr1 = []" by (rule log_kept)
  show ?thesis
  proof (cases started)
    case (Inl m)
    with run st st1 show ?thesis by (auto simp: supervise_def failed_open_def)
  next
    case (Inr process)
    obtain e w2 tr2 where e: "run_state (await_end L) (w1, [Started process]) = (e, (w2, tr2))" by (metis prod.exhaust)
    with L(2) have tr2: "tr2 = [Started process]" by (rule log_kept)
    note start = supervise_def st st1 Inr e tr2
    consider "e = None" | reason where "e = Some (ContextDone reason)" | waited where "e = Some (Exited waited)"
      by (cases e) (auto intro: ended.exhaust)
    then show ?thesis
    proof cases
      case 1
      with run show ?thesis by (auto simp: start)
    next
      case 2
      with run have same: "run_state (supervise F (fenced X D) (traced K) (traced_launcher L) sd wt r c cmd fd) (w, []) = (out, (w', tr))"
        and cancel: "run_state (cancel_verifier (traced K) (traced_launcher L) process reason) (w2, [Started process]) = (out, (w', tr))"
        by (auto simp: start)
      obtain k w3 tr3 where k: "run_state (killVerifierProcessGroupOnce (traced K) process) (w2, [Started process]) = (k, (w3, tr3))"
        by (metis prod.exhaust)
      from kill_log [OF k] obtain calls where tr3: "tr3 = Started process # calls" and sig: "signalled_once process calls" by auto
      obtain b w4 tr4 where b: "run_state (reap L) (w3, tr3) = (b, (w4, tr4))" by (metis prod.exhaust)
      with L(3) have tr4: "tr4 = tr3" by (rule log_kept)
      show ?thesis
      proof (cases "waitVerifierProcessGroupGone (traced K) process (w4, tr3)")
        case None
        with cancel k b tr4 sig same tr3 show ?thesis by (cases b) (auto simp: cancel_verifier_def returning_def)
      next
        case (Some p)
        obtain res w5 tr5 where p: "p = (res, (w5, tr5))" by (metis prod.exhaust)
        from wait_log [OF Some [unfolded p]] sig tr3 have "own_group tr5" by (auto intro: signalled_once_more)
        with cancel k b tr4 sig same Some p tr3 show ?thesis
          by (cases b) (auto simp: cancel_verifier_def returning_def failed_open_def Let_def)
      qed
    next
      case 3
      show ?thesis
      proof (cases "terminateVerifierProcessGroup (traced K) process (w2, [Started process])")
        case None
        with run 3 show ?thesis by (auto simp: start returning_def)
      next
        case (Some p)
        obtain res w3 tr3 where p: "p = (res, (w3, tr3))" by (metis prod.exhaust)
        from terminate_log [OF Some [unfolded p]] have log: "own_group tr3" "res = None \<Longrightarrow> group_gone tr3" by auto
        show ?thesis
        proof (cases res)
          case None
          obtain o1 w4 tr4 where d: "run_state (deliver F D sd r c fd waited) (w3, tr3) = (o1, (w4, tr4))"
            by (metis prod.exhaust)
          with log_frame.deliver [OF F D] have "tr4 = tr3" by (rule log_kept)
          moreover have "run_state (deliver F (fenced X D) sd r c fd waited) (w3, tr3) = (o1, (w4, tr4))"
            using agree_deliver [OF F D] log(2) [OF None] d by (simp add: agree_def)
          ultimately show ?thesis using run 3 Some p None d log by (auto simp: start returning_def)
        next
          case (Some k)
          with run 3 \<open>terminateVerifierProcessGroup _ _ _ = _\<close> p log show ?thesis
            by (auto simp: start returning_def failed_open_def)
        qed
      qed
    qed
  qed
qed

text \<open>C37: A verifier's receipt is only published after its process group was seen to be gone. Over every
  outcome of the command, replacing each rename that happens before the last look at the process
  table showed no member of the group of the process that was started by anything else changes
  nothing. That group, and no other, is observed and signalled, the signal at most once and right
  after the group was observed to have a member of this user, also when the command is cancelled;
  and a result without an error means that this group was gone. The file system and the launcher are
  any that make no kernel call of their own about a process group.\<close>

theorem published_after_group_gone:
  assumes "files_within same_log F" and "disk_within same_log D" and "launcher_within same_log L"
    and "run_state (runVerifierCommand F D (traced K) (traced_launcher L) sd wt r c cmd) (w, []) = (out, (w', tr))"
  shows "run_state (runVerifierCommand F (fenced X D) (traced K) (traced_launcher L) sd wt r c cmd) (w, []) = (out, (w', tr))
    \<and> own_group tr \<and> (\<forall>code detail. out = Some (code, detail, None) \<longrightarrow> group_gone tr)"
proof -
  note F = assms(1) and D = assms(2)
  note frames = log_frame.rules log_frame.at_stage log_frame.validateVerifierReceiptPath
    log_frame.openExclusiveRegular log_frame.removeVerifierFile files_withinD [OF F] F D
  obtain v w1 tr1 where v: "run_state (at_stage [] (validateVerifierReceiptPath F D sd r c False)) (w, []) = (v, (w1, tr1))"
    by (metis prod.exhaust)
  have "framed same_log (at_stage [] (validateVerifierReceiptPath F D sd r c False))" by (intro frames)
  from log_kept [OF this v] have tr1: "tr1 = []" .
  obtain f w2 tr2 where f: "run_state (at_stage ''create output'' (openExclusiveRegular F (r @ ''.output''))) (w1, []) = (f, (w2, tr2))"
    by (metis prod.exhaust)
  have "framed same_log (at_stage ''create output'' (openExclusiveRegular F (r @ ''.output'')))" by (intro frames)
  from log_kept [OF this f] have tr2: "tr2 = []" .
  note start = runVerifierCommand_def attempt_def fenced_same v tr1
  consider e where "v = Inl e" | u e where "v = Inr u" "f = Inl e" | u fd where "v = Inr u" "f = Inr fd"
    by (cases v; cases f) auto
  then show ?thesis
  proof cases
    case 1
    with assms(4) show ?thesis by (auto simp: start)
  next
    case 2
    with assms(4) f tr2 show ?thesis by (auto simp: start)
  next
    case 3
    obtain o1 w3 tr3 where s: "run_state (supervise F D (traced K) (traced_launcher L) sd wt r c cmd fd) (w2, []) = (o1, (w3, tr3))"
      by (metis prod.exhaust)
    note fenced = supervise_fenced [OF assms(1-3) s, of X]
    show ?thesis
    proof (cases o1)
      case None
      with 3 assms(4) f tr2 s fenced show ?thesis by (auto simp: start)
    next
      case (Some o2)
      let ?tail = "do {
        _ \<leftarrow> (if still_open o2 then do { _ \<leftarrow> Close F fd; ret () } else ret ());
        _ \<leftarrow> (if published o2 then ret () else do {
                _ \<leftarrow> removeVerifierFile F D (r @ ''.output'');
                removeVerifierFile F D (r @ ''.tmp'') });
        ret (Some (result_of o2)) }"
      have tail: "run_state ?tail (w3, tr3) = (out, (w', tr))"
        using 3 assms(4) f tr2 s Some by (simp add: start)
      have "framed same_log ?tail" by (intro frames)
      from log_kept [OF this tail] have "tr = tr3" .
      moreover have "out = Some (result_of o2)"
        using tail by (auto split: prod.splits if_splits)
      ultimately show ?thesis
        using 3 assms(4) f tr2 s Some fenced by (auto simp: start)
    qed
  qed
qed

section \<open>A verifier that passes\<close>

text \<open>
  A state directory with one regular file at every other path than the receipt's, a command that
  prints \<open>ok\<close> and exits, and a process table without its group.
\<close>

definition demo_claim :: string where "demo_claim = replicate 32 CHR ''0''"
definition demo_receipt :: string where "demo_receipt = ''/s/verifiers/verifier-'' @ demo_claim @ ''.result''"

definition demo_stat :: "16 word \<Rightarrow> stat_t" where
  "demo_stat mode = \<lparr> st_mode = mode, st_dev = 1, st_ino = 2, st_size = 2, st_mtim = (0, 0), st_ctim = (0, 0) \<rparr>"

definition passing_files :: "'w files" where
  "passing_files = \<lparr> Lstat = (\<lambda>p. ret (if p = demo_receipt then Inl ENOENT
        else Inr (demo_stat (if p = ''/s/verifiers'' then 16832 else 33152)))),
     Fstat = (\<lambda>_. ret (Inr (demo_stat 33152))), Fstatat = (\<lambda>_ _. ret (Inl ENOENT)), Open = (\<lambda>_ _. ret (Inr 3)),
     Openat = (\<lambda>_ _ _. ret (Inr 4)), Mkdirat = (\<lambda>_ _. ret (Inr ())), Readlinkat = (\<lambda>_ _ _. ret (Inl ENOENT)),
     read_upto = (\<lambda>_ _. ret (Inr ''ok'')), write_all = (\<lambda>_ _. ret (Inr ())), Fchmod = (\<lambda>_. ret (Inr ())),
     Fsync = (\<lambda>_. ret (Inr ())), Close = (\<lambda>_. ret (Inr ())) \<rparr>"

definition passing_disk :: "'w disk" where
  "passing_disk = \<lparr> Mkdir = (\<lambda>_. ret (Inr ())), EvalSymlinks = (\<lambda>p. ret (Inr p)), Chmod = (\<lambda>_. ret (Inr ())),
     Unlinkat = (\<lambda>_ _. ret ()), RenameExcl = (\<lambda>_ _ _. ret (Inr ())), Rewind = (\<lambda>_. ret (Inr ())),
     CreateTemp = (\<lambda>_. ret (Inl ENOENT)), Remove = (\<lambda>_. ret ()), StatDev = (\<lambda>_. ret (Inl ENOENT)),
     Statfs = (\<lambda>_. ret (Inl ENOENT)) \<rparr>"

definition passing_launcher :: "'w launcher" where
  "passing_launcher = \<lparr> start_process = (\<lambda>_ _ _ _. ret (Inr 7)), await_end = ret (Some (Exited WaitOk)), reap = ret True \<rparr>"

definition empty_kernel :: "unit kernel" where
  "empty_kernel = \<lparr> observe = (\<lambda>_. ret (Inr 0)), signal_group = (\<lambda>_. ret ESRCH), wall_time = ret 0, sleep_poll = ret () \<rparr>"

lemma passing:
  "Lstat passing_files p = ret (if p = demo_receipt then Inl ENOENT else Inr (demo_stat (if p = ''/s/verifiers'' then 16832 else 33152)))"
  "Fstat passing_files fd = ret (Inr (demo_stat 33152))" "Open passing_files mode p = ret (Inr 3)"
  "Openat passing_files mode fd p = ret (Inr 4)" "read_upto passing_files fd k = ret (Inr ''ok'')"
  "write_all passing_files fd s = ret (Inr ())" "Fchmod passing_files fd = ret (Inr ())" "Fsync passing_files fd = ret (Inr ())"
  "Close passing_files fd = ret (Inr ())" "EvalSymlinks passing_disk p = ret (Inr p)"
  "RenameExcl passing_disk fd a b = ret (Inr ())" "Rewind passing_disk fd = ret (Inr ())"
  "start_process passing_launcher p fd q args = ret (Inr 7)" "await_end passing_launcher = ret (Some (Exited WaitOk))"
  by (simp_all add: passing_files_def passing_disk_def passing_launcher_def)

lemma demo_paths:
  "canonical_receipt ''/s'' demo_claim demo_receipt m = Inr demo_receipt" "filepathDir demo_receipt = ''/s/verifiers''"
  "filepathDir (demo_receipt @ ''.output'') = ''/s/verifiers''" "filepathDir (demo_receipt @ ''.tmp'') = ''/s/verifiers''"
  by code_simp+

lemma demo_stats:
  "boundedIsDir (demo_stat 16832)" "boundedIsRegular (demo_stat 33152)" "perm_600 (demo_stat 33152)" "same_file s s"
  by (simp_all add: boundedIsDir_def boundedIsRegular_def perm_600_def same_file_def demo_stat_def S_IFMT_def)

lemma demo_receipt_neq: "demo_receipt \<noteq> ''/s/verifiers''"
  by (simp add: demo_receipt_def)

lemma demo_valid:
  "run_state (validateVerifierReceiptPath passing_files passing_disk ''/s'' demo_receipt demo_claim False) w = (Inr (), w)"
  using demo_stats demo_receipt_neq
  by (simp add: validateVerifierReceiptPath_def demo_paths passing need_def io_def Let_def)

lemma demo_open:
  assumes "p = demo_receipt @ ''.output'' \<or> p = demo_receipt @ ''.tmp''"
  shows "run_state (openExclusiveRegular passing_files p) w = (Inr 4, w)"
proof -
  have "p \<noteq> demo_receipt" "p \<noteq> ''/s/verifiers''" using assms by (auto simp: demo_receipt_def)
  then show ?thesis
    using demo_stats
    by (simp add: openExclusiveRegular_def in_directory_def closing_def passing need_def attempt_def io_def Let_def)
qed

lemmas demo_opens = demo_open [OF disjI1 [OF refl]] demo_open [OF disjI2 [OF refl]]

lemma demo_publish:
  assumes "vr_Claim x = demo_claim"
  shows "run_state (publishVerifierReceipt passing_files passing_disk ''/s'' demo_receipt x) w = (Inr (), w)"
  using assms
  by (simp add: publishVerifierReceipt_def demo_opens demo_valid need_def attempt_def write_temp_def rename_temp_def
      in_directory_def closing_def syncVerifierDirectory_def io_def Let_def passing)

lemma demo_detail: "verifier_detail ''ok'' = ''ok''"
proof -
  have "TrimSpace ''ok'' = ''ok''" "length (runes ''ok'') = 2" by code_simp+
  then show ?thesis by (simp add: verifier_detail_def maxVerifierOutputBytes_def truncate_text_def)
qed

lemma demo_pass:
  "run_state (runVerifierCommand passing_files passing_disk (traced empty_kernel) (traced_launcher passing_launcher) ''/s'' ''/w''
      demo_receipt demo_claim [''make'']) ((), [])
   = (Some (0, ''ok'', None), ((), [Started 7, Observed 7 (Inr 0)]))"
proof -
  have "terminateVerifierProcessGroup (traced empty_kernel) 7 ((), [Started 7]) = Some (None, ((), [Started 7, Observed 7 (Inr 0)]))"
    by (simp add: terminateVerifierProcessGroup_def killVerifierProcessGroupOnce_def) (simp add: empty_kernel_def)
  moreover have "run_state (deliver passing_files passing_disk ''/s'' demo_receipt demo_claim 4 WaitOk) w
      = (\<lparr> still_open = False, published = True, result_of = (0, ''ok'', None) \<rparr>, w)" for w :: "unit \<times> kernel_call list"
    by (simp add: deliver_def read_output_def at_stage_def need_def attempt_def verifierExitCode_def Let_def demo_publish
        io_def demo_detail passing)
  ultimately show ?thesis
    by (simp add: runVerifierCommand_def demo_opens demo_valid at_stage_def attempt_def supervise_def returning_def passing)
qed

theorem published_after_group_gone_witness:
  "run_state (runVerifierCommand passing_files (fenced (\<lambda>_ _ _. ret (Inl ENOENT)) passing_disk) (traced empty_kernel)
      (traced_launcher passing_launcher) ''/s'' ''/w'' demo_receipt demo_claim [''make'']) ((), [])
   = (Some (0, ''ok'', None), ((), [Started 7, Observed 7 (Inr 0)]))"
proof -
  have "files_within same_log passing_files" "disk_within same_log passing_disk" "launcher_within same_log passing_launcher"
    by (simp_all add: files_within_def disk_within_def launcher_within_def passing_files_def passing_disk_def
        passing_launcher_def log_frame.ret)
  from published_after_group_gone [OF this demo_pass] show ?thesis by blast
qed

end
