(* ===== verification/Pane.thy ===== *)
theory Pane
  imports EngineProperties
begin

text \<open>
  \<open>internal/pane/pane.go\<close>: the inbox of runs. The event loop of the terminal library calls
  \<open>Update\<close> with one message at a time and runs the commands it returns; styles and the local time
  zone are arguments.
\<close>

section \<open>Model\<close>

text \<open>\<open>pane_err\<close> is the error of the last load, as its text.\<close>

record pane =
  pane_runs :: "run list"
  pane_cursor :: int
  pane_width :: int
  pane_err :: "string option"
  pane_notice :: string

datatype pane_msg = WindowSizeMsg int | RefreshMsg | FocusMsg "string option" | KeyMsg string | OtherMsg

datatype pane_cmd = NoCmd | TickCmd | QuitCmd | FocusCmd run

definition load_pane :: "'x env \<Rightarrow> ('x world, pane) state" where
  "load_pane E = do {
     listed \<leftarrow> store_read E (\<lambda>d. Inr (ListRunsGroupedByAcceptance [] 100 d));
     ret \<lparr> pane_runs = (case listed of Inl _ \<Rightarrow> [] | Inr rs \<Rightarrow> rs), pane_cursor = 0, pane_width = 0,
           pane_err = (case listed of Inl e \<Rightarrow> Some (err_text E e) | Inr _ \<Rightarrow> None), pane_notice = [] \<rparr> }"

section \<open>Messages\<close>

definition refreshed :: "pane \<Rightarrow> pane \<Rightarrow> pane" where
  "refreshed m loaded =
     (let n = int (length (pane_runs loaded))
      in loaded\<lparr> pane_cursor := (if n \<le> pane_cursor m then max 0 (n - 1) else pane_cursor m),
                 pane_width := pane_width m, pane_notice := pane_notice m \<rparr>)"

definition press :: "pane \<Rightarrow> string \<Rightarrow> pane \<times> pane_cmd" where
  "press m key =
     (if key \<in> {''q'', ''esc'', ''ctrl+c''} then (m, QuitCmd)
      else if key \<in> {''up'', ''k''} then
        (if 0 < pane_cursor m then m\<lparr>pane_cursor := pane_cursor m - 1\<rparr> else m, NoCmd)
      else if key \<in> {''down'', ''j''} then
        (if pane_cursor m < int (length (pane_runs m)) - 1 then m\<lparr>pane_cursor := pane_cursor m + 1\<rparr> else m, NoCmd)
      else if key = ''enter'' then
        (if int (length (pane_runs m)) \<le> pane_cursor m then (m, NoCmd)
         else let r = pane_runs m ! nat (pane_cursor m)
              in if workspace_id r = [] then (m\<lparr>pane_notice := ''run has no Herdr workspace''\<rparr>, NoCmd)
                 else (m, FocusCmd r))
      else (m, NoCmd))"

definition Update_pane :: "'x env \<Rightarrow> pane \<Rightarrow> pane_msg \<Rightarrow> ('x world, pane \<times> pane_cmd) state" where
  "Update_pane E m msg =
     (case msg of
        WindowSizeMsg width \<Rightarrow> ret (m\<lparr>pane_width := width\<rparr>, NoCmd)
      | RefreshMsg \<Rightarrow> do { loaded \<leftarrow> load_pane E; ret (refreshed m loaded, TickCmd) }
      | FocusMsg (Some e) \<Rightarrow> ret (m\<lparr>pane_notice := e\<rparr>, NoCmd)
      | FocusMsg None \<Rightarrow> ret (m, QuitCmd)
      | KeyMsg key \<Rightarrow> ret (press m key)
      | OtherMsg \<Rightarrow> ret (m, NoCmd))"

text \<open>The command of Enter: the run is marked read once its workspace and pane have the focus.\<close>

definition focus_run :: "'x env \<Rightarrow> run \<Rightarrow> ('x world, pane_msg) state" where
  "focus_run E r = do {
     focused \<leftarrow> Focus (herdr E) (workspace_id r) (pane_id r);
     (case focused of
        Some e \<Rightarrow> ret (FocusMsg (Some (err_text E (HerdrErr e))))
      | None \<Rightarrow> do {
          marked \<leftarrow> store_op E (MarkRead (run_id r));
          ret (FocusMsg (case marked of Inl e \<Rightarrow> Some (err_text E e) | Inr _ \<Rightarrow> None)) }) }"

section \<open>The view\<close>

datatype style = TitleStyle | DimStyle | SelectedStyle | FailureStyle | SuccessStyle

definition ellipsis :: string where "ellipsis = of_runes [8230]"

definition truncate_pane :: "string \<Rightarrow> int \<Rightarrow> string" where
  "truncate_pane value limit =
     (let rs = runes value
      in if limit \<le> 0 \<or> int (length rs) \<le> limit then value else of_runes (take (nat (limit - 1)) rs) @ ellipsis)"

definition acceptanceField :: "string \<Rightarrow> string" where
  "acceptanceField value = (if value = [] then ''-'' else value)"

text \<open>The verb \<open>%-ns\<close> pads to \<open>n\<close> runes.\<close>

definition pad_right :: "nat \<Rightarrow> string \<Rightarrow> string" where
  "pad_right n s = s @ replicate (n - length (runes s)) CHR '' ''"

definition month_names :: "string list" where
  "month_names = [''Jan'', ''Feb'', ''Mar'', ''Apr'', ''May'', ''Jun'', ''Jul'', ''Aug'', ''Sep'', ''Oct'', ''Nov'', ''Dec'']"

definition fmt_inbox_time :: "civil \<Rightarrow> string" where
  "fmt_inbox_time c =
     fmt_2 (c_day c) @ '' '' @ month_names ! nat (c_month c - 1) @ '' '' @ fmt_2 (c_hour c) @ '':'' @ fmt_2 (c_minute c)"

definition row_text :: "location \<Rightarrow> run \<Rightarrow> string" where
  "row_text local_zone r =
     (if unread r then ''*'' else '' '') @ '' '' @ pad_right 16 (truncate_pane (job_id r) 16)
     @ '' '' @ pad_right 10 (truncate_pane (task_verdict r) 10)
     @ '' '' @ pad_right 11 (truncate_pane (acceptanceField (acceptance_lane r)) 11)
     @ '' '' @ pad_right 18 (truncate_pane (acceptanceField (acceptance_reason r)) 18)
     @ '' '' @ pad_right 12 (truncate_pane (state r) 12)
     @ '' '' @ fmt_inbox_time (wall_clock local_zone (updated_at r))"

definition row_style :: "run \<Rightarrow> style" where
  "row_style r =
     (if state r = StateSucceeded then SuccessStyle
      else if state r = StateFailed \<or> state r = StateBlocked \<or> state r = StateInterrupted then FailureStyle
      else DimStyle)"

definition view_row :: "location \<Rightarrow> int \<Rightarrow> nat \<Rightarrow> run \<Rightarrow> style \<times> string" where
  "view_row local_zone cur i r =
     (if int i = cur then (SelectedStyle, '' '' @ row_text local_zone r @ '' '')
      else (row_style r, '' '' @ row_text local_zone r))"

definition view_rows :: "location \<Rightarrow> pane \<Rightarrow> (style \<times> string) list" where
  "view_rows local_zone m =
     map (\<lambda>(i, r). view_row local_zone (pane_cursor m) i r) (enumerate 0 (pane_runs m))"

definition View :: "(style \<Rightarrow> string \<Rightarrow> string) \<Rightarrow> location \<Rightarrow> pane \<Rightarrow> string" where
  "View render local_zone m =
     (let line = (\<lambda>(s, t). render s t @ [CHR 0x0A]);
          out = render TitleStyle ''Bot inbox'' @ render DimStyle ''  enter: open run  j/k: move  q: quit'' @ [CHR 0x0A, CHR 0x0A]
      in case pane_err m of
           Some e \<Rightarrow> out @ line (FailureStyle, e)
         | None \<Rightarrow>
             if pane_runs m = [] then out @ line (DimStyle, ''No bot runs yet.'')
             else out @ concat (map line (view_rows local_zone m))
                  @ (if pane_notice m = [] then []
                     else let width = (if pane_width m < 20 then 80 else pane_width m)
                          in [CHR 0x0A] @ line (FailureStyle, truncate_pane (Join (Fields (pane_notice m)) '' '') (width - 2))))"

section \<open>The cursor\<close>

text \<open>Every state of the pane: the first load, then any messages.\<close>

inductive pane_reach :: "'x env \<Rightarrow> pane \<Rightarrow> bool" for E where
  loaded: "run_state (load_pane E) w = (m, w') \<Longrightarrow> pane_reach E m"
| updated: "pane_reach E m \<Longrightarrow> run_state (Update_pane E m msg) w = ((m', c), w') \<Longrightarrow> pane_reach E m'"

definition cursor_ok :: "pane \<Rightarrow> bool" where
  "cursor_ok m \<longleftrightarrow> 0 \<le> pane_cursor m \<and> (pane_cursor m < int (length (pane_runs m)) \<or> pane_runs m = [] \<and> pane_cursor m = 0)"

lemma load_cursor: "run_state (load_pane E) w = (m, w') \<Longrightarrow> cursor_ok m \<and> (pane_err m \<noteq> None \<longrightarrow> pane_runs m = [])"
  by (auto simp: load_pane_def cursor_ok_def split: prod.splits sum.splits)

text \<open>A key changes nothing, moves the cursor inside the list, or leaves a notice.\<close>

lemma press_cases:
  "fst (press m key) = m
   \<or> 0 < pane_cursor m \<and> fst (press m key) = m\<lparr>pane_cursor := pane_cursor m - 1\<rparr>
   \<or> pane_cursor m < int (length (pane_runs m)) - 1 \<and> fst (press m key) = m\<lparr>pane_cursor := pane_cursor m + 1\<rparr>
   \<or> fst (press m key) = m\<lparr>pane_notice := ''run has no Herdr workspace''\<rparr>"
proof -
  define quit where "quit \<longleftrightarrow> key \<in> {''q'', ''esc'', ''ctrl+c''}"
  define up where "up \<longleftrightarrow> key \<in> {''up'', ''k''}"
  define down where "down \<longleftrightarrow> key \<in> {''down'', ''j''}"
  define enter where "enter \<longleftrightarrow> key = ''enter''"
  define notice where "notice = ''run has no Herdr workspace''"
  show ?thesis
    unfolding press_def Let_def quit_def [symmetric] up_def [symmetric] down_def [symmetric] enter_def [symmetric]
      notice_def [symmetric]
    by (cases quit; cases up; cases down; cases enter; simp)
qed

lemma press_cursor: "cursor_ok m \<Longrightarrow> cursor_ok (fst (press m key))"
  using press_cases [of m key] by (elim disjE conjE) (simp_all add: cursor_ok_def)

lemma press_kept: "pane_err (fst (press m key)) = pane_err m" "pane_runs (fst (press m key)) = pane_runs m"
  using press_cases [of m key] by (elim disjE conjE; simp)+

lemma pane_ok: "pane_reach E m \<Longrightarrow> cursor_ok m \<and> (pane_err m \<noteq> None \<longrightarrow> pane_runs m = [])"
proof (induction rule: pane_reach.induct)
  case (loaded w m w')
  then show ?case by (rule load_cursor)
next
  case (updated m msg w m' c w')
  show ?case
  proof (cases msg)
    case RefreshMsg
    obtain l w1 where l: "run_state (load_pane E) w = (l, w1)" by fastforce
    with updated(2) RefreshMsg have "m' = refreshed m l" by (simp add: Update_pane_def)
    with load_cursor [OF l] updated.IH show ?thesis by (auto simp: refreshed_def cursor_ok_def Let_def)
  next
    case (KeyMsg key)
    with updated(2) have "m' = fst (press m key)" by (auto simp: Update_pane_def)
    with updated.IH show ?thesis by (simp add: press_cursor press_kept)
  next
    case (FocusMsg e)
    with updated show ?thesis by (cases e) (auto simp: Update_pane_def cursor_ok_def)
  qed (use updated in \<open>auto simp: Update_pane_def cursor_ok_def\<close>)
qed

text \<open>C38: The row the inbox highlights is the run that Enter opens. In every state the pane reaches the
  cursor is the position of a run, or zero in an empty list; exactly the row at the cursor has
  the selected style; and Enter focuses that run, or says that it has no workspace.\<close>

theorem pane_cursor_valid:
  assumes "pane_reach E m"
  shows "(pane_runs m = [] \<longrightarrow> pane_cursor m = 0 \<and> press m ''enter'' = (m, NoCmd))
    \<and> (pane_runs m \<noteq> [] \<longrightarrow>
        (\<exists>i<length (pane_runs m). pane_cursor m = int i
          \<and> filter (\<lambda>k. fst (view_rows loc m ! k) = SelectedStyle) [0..<length (view_rows loc m)] = [i]
          \<and> snd (view_rows loc m ! i) = '' '' @ row_text loc (pane_runs m ! i) @ '' ''
          \<and> press m ''enter'' =
              (if workspace_id (pane_runs m ! i) = [] then (m\<lparr>pane_notice := ''run has no Herdr workspace''\<rparr>, NoCmd)
               else (m, FocusCmd (pane_runs m ! i)))))"
proof (cases "pane_runs m = []")
  case True
  with pane_ok [OF assms] have "pane_cursor m = 0" by (auto simp: cursor_ok_def)
  with True show ?thesis by (simp add: press_def)
next
  case False
  with pane_ok [OF assms] obtain i where i: "pane_cursor m = int i" "i < length (pane_runs m)"
    by (auto simp: cursor_ok_def dest: zero_le_imp_eq_int)
  have row: "view_rows loc m ! k = view_row loc (int i) k (pane_runs m ! k)" if "k < length (pane_runs m)" for k
    using that i(1) by (simp add: view_rows_def nth_enumerate_eq)
  have len: "length (view_rows loc m) = length (pane_runs m)" by (simp add: view_rows_def)
  have "row_style r \<noteq> SelectedStyle" for r by (simp add: row_style_def)
  then have sel: "fst (view_rows loc m ! k) = SelectedStyle \<longleftrightarrow> k = i" if "k < length (pane_runs m)" for k
    using that by (simp add: row view_row_def)
  have "filter (\<lambda>k. fst (view_rows loc m ! k) = SelectedStyle) [0..<length (view_rows loc m)]
      = filter (\<lambda>k. k = i) [0..<length (pane_runs m)]"
    unfolding len by (rule filter_cong) (auto simp: sel)
  also have "\<dots> = [i]"
  proof -
    have "[0..<length (pane_runs m)] = [0..<i] @ i # [Suc i..<length (pane_runs m)]"
      using i(2) upt_conv_Cons [of i "length (pane_runs m)"] upt_add_eq_append [of 0 i "length (pane_runs m) - i"] by simp
    then show ?thesis by (auto simp: filter_empty_conv)
  qed
  finally have "filter (\<lambda>k. fst (view_rows loc m ! k) = SelectedStyle) [0..<length (view_rows loc m)] = [i]" .
  with False i row [OF i(2)] show ?thesis
    by (auto simp: press_def view_row_def Let_def)
qed

lemma load_demo:
  "run_state (load_pane quiet) (quiet_world db_run)
   = (\<lparr> pane_runs = [scanRun demo_run], pane_cursor = 0, pane_width = 0, pane_err = None, pane_notice = [] \<rparr>,
      quiet_world db_run)"
proof -
  have "ListRunsGroupedByAcceptance [] 100 db_run = [scanRun demo_run]"
    by (simp add: ListRunsGroupedByAcceptance_def reviewable_def open_run_def sql_limit_def of_job_def db_run_runs
        IsTerminalState_def)
  then show ?thesis
    by (simp add: load_pane_def store_read_def quiet_store_op quiet_world_def del: demo_run_simps(6))
qed

theorem pane_cursor_valid_witness:
  "\<exists>m. pane_reach quiet m \<and> pane_runs m = [scanRun demo_run] \<and> pane_cursor m = 0
    \<and> press m ''enter'' = (m\<lparr>pane_notice := ''run has no Herdr workspace''\<rparr>, NoCmd)"
proof -
  have ws: "workspace_id (scanRun demo_run) = []" by (simp add: scanRun_def demo_run_def new_run_def)
  show ?thesis
    using pane_cursor_valid [OF pane_reach.loaded [OF load_demo], of utc] pane_reach.loaded [OF load_demo] ws by auto
qed

end
