(* ===== verification/Launchd.thy ===== *)
theory Launchd
  imports GoText
begin

text \<open>
  \<open>internal/service/launchd.go\<close>: the property list that \<open>service render\<close> prints, and how an XML
  reader gets the configured paths back from it.
\<close>

section \<open>Escaping\<close>

text \<open>\<open>xml.EscapeText\<close>: what XML cannot contain becomes U+FFFD.\<close>

definition isInCharacterRange :: "nat \<Rightarrow> bool" where
  "isInCharacterRange r \<longleftrightarrow>
     r \<in> {9, 10, 13} \<or> 32 \<le> r \<and> r \<le> 55295 \<or> 57344 \<le> r \<and> r \<le> 65533 \<or> 65536 \<le> r \<and> r \<le> 1114111"

definition escape_rune :: "nat \<Rightarrow> string \<Rightarrow> string" where
  "escape_rune r bytes =
     (if r = 34 then ''&#34;'' else if r = 39 then ''&#39;'' else if r = 38 then ''&amp;''
      else if r = 60 then ''&lt;'' else if r = 62 then ''&gt;''
      else if r = 9 then ''&#x9;'' else if r = 10 then ''&#xA;'' else if r = 13 then ''&#xD;''
      else if \<not> isInCharacterRange r \<or> r = RuneError \<and> length bytes = 1 then utf8 RuneError
      else bytes)"

fun escape :: "string \<Rightarrow> string" where
  "escape [] = []"
| "escape (c # cs) =
     (case decode_rune (c # cs) of (r, w) \<Rightarrow> escape_rune r (take w (c # cs)) @ escape (drop (w - 1) cs))"

section \<open>Rendering\<close>

definition Label :: string where "Label = ''com.terry.herdr-bots''"

record launchd_config =
  Binary :: string
  ConfigPath :: string
  StatePath :: string
  LogPath :: string
  Home :: string
  EnvPath :: string

datatype launchd_err = IsRequired string | MustBeAbsolute string

definition required_fields :: "launchd_config \<Rightarrow> (string \<times> string) list" where
  "required_fields cfg =
     [(''binary'', Binary cfg), (''config'', ConfigPath cfg), (''state'', StatePath cfg), (''log'', LogPath cfg),
      (''home'', Home cfg), (''path'', EnvPath cfg)]"

definition absolute_fields :: "launchd_config \<Rightarrow> (string \<times> string) list" where
  "absolute_fields cfg =
     [(''binary'', Binary cfg), (''config'', ConfigPath cfg), (''state'', StatePath cfg), (''log'', LogPath cfg),
      (''home'', Home cfg)]"

definition NL :: string where "NL = [CHR 0x0A]"

definition quoted :: "string \<Rightarrow> string" where "quoted s = [CHR 0x22] @ s @ [CHR 0x22]"

definition keyStringIndented :: "string \<Rightarrow> string \<Rightarrow> nat \<Rightarrow> string" where
  "keyStringIndented key val spaces =
     (let indent = replicate spaces CHR '' ''
      in indent @ ''<key>'' @ escape key @ ''</key>'' @ NL @ indent @ ''<string>'' @ escape val @ ''</string>'' @ NL)"

definition keyString :: "string \<Rightarrow> string \<Rightarrow> string" where
  "keyString key val = keyStringIndented key val 2"

definition argument_line :: "string \<Rightarrow> string" where
  "argument_line arg = ''    <string>'' @ escape arg @ ''</string>'' @ NL"

definition plist_head :: string where
  "plist_head =
     ''<?xml version='' @ quoted ''1.0'' @ '' encoding='' @ quoted ''UTF-8'' @ ''?>'' @ NL
     @ ''<!DOCTYPE plist PUBLIC '' @ quoted ''-//Apple//DTD PLIST 1.0//EN'' @ '' ''
     @ quoted ''http://www.apple.com/DTDs/PropertyList-1.0.dtd'' @ ''>'' @ NL
     @ ''<plist version='' @ quoted ''1.0'' @ ''>'' @ NL @ ''<dict>'' @ NL"

definition plist_policy :: string where
  "plist_policy =
     ''  <key>RunAtLoad</key>'' @ NL @ ''  <true/>'' @ NL
     @ ''  <key>KeepAlive</key>'' @ NL @ ''  <dict>'' @ NL @ ''    <key>SuccessfulExit</key>'' @ NL @ ''    <false/>'' @ NL
     @ ''  </dict>'' @ NL @ ''  <key>ThrottleInterval</key>'' @ NL @ ''  <integer>5</integer>'' @ NL"

definition plist_text :: "launchd_config \<Rightarrow> string" where
  "plist_text cfg =
     plist_head @ keyString ''Label'' Label
     @ ''  <key>ProgramArguments</key>'' @ NL @ ''  <array>'' @ NL
     @ concat (map argument_line [Binary cfg, ''daemon'', ''--config'', ConfigPath cfg, ''--state'', StatePath cfg])
     @ ''  </array>'' @ NL @ ''  <key>EnvironmentVariables</key>'' @ NL @ ''  <dict>'' @ NL
     @ keyStringIndented ''HOME'' (Home cfg) 4 @ keyStringIndented ''PATH'' (EnvPath cfg) 4
     @ ''  </dict>'' @ NL @ plist_policy
     @ keyString ''StandardOutPath'' (LogPath cfg) @ keyString ''StandardErrorPath'' (LogPath cfg)
     @ ''</dict>'' @ NL @ ''</plist>'' @ NL"

text \<open>A range over a map visits the keys in any order: the two orders are arguments.\<close>

definition RenderLaunchd :: "string list \<Rightarrow> string list \<Rightarrow> launchd_config \<Rightarrow> launchd_err + string" where
  "RenderLaunchd order1 order2 cfg =
     (case find (\<lambda>n. map_of (required_fields cfg) n = Some []) order1 of
        Some n \<Rightarrow> Inl (IsRequired n)
      | None \<Rightarrow>
          (case find (\<lambda>n. case map_of (absolute_fields cfg) n of Some v \<Rightarrow> \<not> IsAbs v | None \<Rightarrow> False) order2 of
             Some n \<Rightarrow> Inl (MustBeAbsolute n)
           | None \<Rightarrow> Inr (plist_text cfg)))"

section \<open>Reading it back\<close>

text \<open>The references an XML reader replaces.\<close>

definition entities :: "(string \<times> char) list" where
  "entities =
     [(''&#34;'', CHR 0x22), (''&#39;'', CHR 0x27), (''&amp;'', CHR 0x26), (''&lt;'', CHR 0x3C), (''&gt;'', CHR 0x3E),
      (''&#x9;'', CHR 0x09), (''&#xA;'', CHR 0x0A), (''&#xD;'', CHR 0x0D)]"

fun unescape :: "string \<Rightarrow> string" where
  "unescape [] = []"
| "unescape (c # cs) =
     (case find (\<lambda>e. prefix (fst e) (c # cs)) entities of
        None \<Rightarrow> c # unescape cs
      | Some (e, x) \<Rightarrow> x # unescape (drop (length e - 1) cs))"

text \<open>
  What a property list says: values nested in arrays and in dictionaries, whose keys are kept in the
  order of the document. A reader of the format skips blanks between elements; each element opens
  and closes with its own tag, a dictionary alternates keys and values, and the text of a key or a
  string has its references replaced. Every call consumes a tag, so the length of the text is fuel
  enough.
\<close>

datatype plist = PStr string | PInt int | PBool bool | PArray "plist list" | PDict "(string \<times> plist) list"

definition xml_blank :: "char \<Rightarrow> bool" where
  "xml_blank c \<longleftrightarrow> c = CHR '' '' \<or> c = CHR 0x09 \<or> c = CHR 0x0A \<or> c = CHR 0x0D"

definition skip_space :: "string \<Rightarrow> string" where "skip_space s = dropWhile xml_blank s"

definition after_tag :: "string \<Rightarrow> string \<Rightarrow> string option" where
  "after_tag p s = (if prefix p s then Some (drop (length p) s) else None)"

definition read_text :: "string \<Rightarrow> string \<Rightarrow> (string \<times> string) option" where
  "read_text close s =
     map_option (Pair (unescape (takeWhile (\<lambda>c. c \<noteq> CHR ''<'') s))) (after_tag close (dropWhile (\<lambda>c. c \<noteq> CHR ''<'') s))"

definition read_int :: "string \<Rightarrow> int option" where
  "read_int s = (if s \<noteq> [] \<and> list_all is_digit s
     then Some (foldl (\<lambda>n c. 10 * n + (int (of_char c) - 48)) 0 s) else None)"

fun read_value :: "nat \<Rightarrow> string \<Rightarrow> (plist \<times> string) option"
and read_items :: "nat \<Rightarrow> string \<Rightarrow> (plist list \<times> string) option"
and read_pairs :: "nat \<Rightarrow> string \<Rightarrow> ((string \<times> plist) list \<times> string) option" where
  "read_value 0 s = None"
| "read_value (Suc n) s =
     (let s = skip_space s
      in case after_tag ''<string>'' s of
           Some r \<Rightarrow> map_option (apfst PStr) (read_text ''</string>'' r)
         | None \<Rightarrow>
      (case after_tag ''<integer>'' s of
           Some r \<Rightarrow> Option.bind (read_text ''</integer>'' r) (\<lambda>(t, r). map_option (\<lambda>i. (PInt i, r)) (read_int t))
         | None \<Rightarrow>
      (case after_tag ''<true/>'' s of
           Some r \<Rightarrow> Some (PBool True, r)
         | None \<Rightarrow>
      (case after_tag ''<false/>'' s of
           Some r \<Rightarrow> Some (PBool False, r)
         | None \<Rightarrow>
      (case after_tag ''<array>'' s of
           Some r \<Rightarrow> map_option (apfst PArray) (read_items n r)
         | None \<Rightarrow>
      (case after_tag ''<dict>'' s of
           Some r \<Rightarrow> map_option (apfst PDict) (read_pairs n r)
         | None \<Rightarrow> None))))))"
| "read_items 0 s = None"
| "read_items (Suc n) s =
     (case after_tag ''</array>'' (skip_space s) of
        Some r \<Rightarrow> Some ([], r)
      | None \<Rightarrow> Option.bind (read_value n s) (\<lambda>(v, r). map_option (apfst (Cons v)) (read_items n r)))"
| "read_pairs 0 s = None"
| "read_pairs (Suc n) s =
     (case after_tag ''</dict>'' (skip_space s) of
        Some r \<Rightarrow> Some ([], r)
      | None \<Rightarrow>
          Option.bind (Option.bind (after_tag ''<key>'' (skip_space s)) (read_text ''</key>'')) (\<lambda>(k, r).
          Option.bind (read_value n r) (\<lambda>(v, r). map_option (apfst (Cons (k, v))) (read_pairs n r))))"

definition read_plist :: "string \<Rightarrow> plist option" where
  "read_plist s =
     Option.bind (Option.bind (after_tag ''<?xml '' s) (after_first ''?>'')) (\<lambda>s.
     Option.bind (Option.bind (after_tag ''<!DOCTYPE plist '' (skip_space s)) (after_first ''>'')) (\<lambda>s.
     Option.bind (after_tag (''<plist version='' @ quoted ''1.0'' @ ''>'') (skip_space s)) (\<lambda>s.
     Option.bind (read_value (length s) s) (\<lambda>(v, s).
     Option.bind (after_tag ''</plist>'' (skip_space s)) (\<lambda>s.
     if skip_space s = [] then Some v else None)))))"

text \<open>Text that XML can contain.\<close>

definition xml_rune :: "nat \<Rightarrow> bool" where
  "xml_rune r \<longleftrightarrow> valid_rune r \<and> isInCharacterRange r"

definition xml_text :: "string \<Rightarrow> bool" where
  "xml_text s \<longleftrightarrow> (\<exists>rs. s = of_runes rs \<and> list_all xml_rune rs)"

lemma utf8_ascii: "r < 128 \<Longrightarrow> utf8 r = [char_of r]"
  by (simp add: utf8_def)

lemma utf8_high: "128 \<le> r \<Longrightarrow> r < 1114112 \<Longrightarrow> c \<in> set (utf8 r) \<Longrightarrow> of_char c \<ge> (128 :: nat)"
  by (auto simp: utf8_def split: if_splits)

lemma unescape_plain: "c \<noteq> CHR ''&'' \<Longrightarrow> unescape (c # cs) = c # unescape cs"
  by (simp add: entities_def)

lemma unescape_plains: "CHR ''&'' \<notin> set s \<Longrightarrow> unescape (s @ t) = s @ unescape t"
  by (induction s) (auto simp: unescape_plain simp del: unescape.simps(2))

text \<open>A rune is either one of the eight, or copied.\<close>

definition special :: "nat set" where "special = {34, 39, 38, 60, 62, 9, 10, 13}"

lemma unescape_entities:
  "unescape (''&#34;'' @ t) = CHR 0x22 # unescape t" "unescape (''&#39;'' @ t) = CHR 0x27 # unescape t"
  "unescape (''&amp;'' @ t) = CHR 0x26 # unescape t" "unescape (''&lt;'' @ t) = CHR 0x3C # unescape t"
  "unescape (''&gt;'' @ t) = CHR 0x3E # unescape t" "unescape (''&#x9;'' @ t) = CHR 0x09 # unescape t"
  "unescape (''&#xA;'' @ t) = CHR 0x0A # unescape t" "unescape (''&#xD;'' @ t) = CHR 0x0D # unescape t"
  by (simp_all add: entities_def)

lemma escape_rune_entities:
  "escape_rune 34 b = ''&#34;''" "escape_rune 39 b = ''&#39;''" "escape_rune 38 b = ''&amp;''" "escape_rune 60 b = ''&lt;''"
  "escape_rune 62 b = ''&gt;''" "escape_rune 9 b = ''&#x9;''" "escape_rune 10 b = ''&#xA;''" "escape_rune 13 b = ''&#xD;''"
  by (simp_all add: escape_rune_def)

lemma special_chars:
  "utf8 34 = [CHR 0x22]" "utf8 39 = [CHR 0x27]" "utf8 38 = [CHR 0x26]" "utf8 60 = [CHR 0x3C]"
  "utf8 62 = [CHR 0x3E]" "utf8 9 = [CHR 0x09]" "utf8 10 = [CHR 0x0A]" "utf8 13 = [CHR 0x0D]"
  by code_simp+

lemma unescape_special: "r \<in> special \<Longrightarrow> unescape (escape_rune r b @ t) = utf8 r @ unescape t"
  unfolding special_def insert_iff empty_iff
  by (elim disjE FalseE; hypsubst; unfold escape_rune_entities special_chars unescape_entities; simp)

lemma special_no_lt: "r \<in> special \<Longrightarrow> CHR ''<'' \<notin> set (escape_rune r b)"
  unfolding special_def insert_iff empty_iff
  by (elim disjE FalseE; hypsubst; unfold escape_rune_entities; simp)

lemma escape_rune_other:
  assumes "xml_rune r" and "r \<notin> special"
  shows "escape_rune r (utf8 r) = utf8 r"
proof -
  have "length (utf8 RuneError) = 3" by (simp add: utf8_def RuneError_def)
  with assms show ?thesis by (auto simp: escape_rune_def special_def xml_rune_def)
qed

lemma utf8_other:
  assumes "xml_rune r" and "r \<notin> special"
  shows "CHR ''&'' \<notin> set (utf8 r)" "CHR ''<'' \<notin> set (utf8 r)"
proof -
  have r: "r < 1114112" using assms(1) by (simp add: xml_rune_def valid_rune_def)
  have "c \<notin> set (utf8 r)" if "of_char c \<in> {38, 60 :: nat}" for c
  proof (cases "r < 128")
    case True
    then have "r < 256" by simp
    then have "of_char (char_of r :: char) = r" by (simp add: of_char_of)
    with True that assms(2) show ?thesis by (auto simp: utf8_ascii special_def)
  next
    case False
    with utf8_high [of r c] r that show ?thesis by auto
  qed
  then show "CHR ''&'' \<notin> set (utf8 r)" "CHR ''<'' \<notin> set (utf8 r)" by simp_all
qed

lemma escape_rune_ok:
  assumes "xml_rune r"
  shows "unescape (escape_rune r (utf8 r) @ t) = utf8 r @ unescape t" "CHR ''<'' \<notin> set (escape_rune r (utf8 r))"
  using assms unescape_special [of r] special_no_lt [of r] escape_rune_other [of r] utf8_other [of r]
  by (cases "r \<in> special"; simp add: unescape_plains)+

lemma escape_of_runes:
  "list_all xml_rune rs \<Longrightarrow> escape (of_runes rs) = concat (map (\<lambda>r. escape_rune r (utf8 r)) rs)"
proof (induction rs)
  case Nil
  then show ?case by (simp add: of_runes_def)
next
  case (Cons r rs)
  then have v: "valid_rune r" by (simp add: xml_rune_def)
  obtain c cs where u: "utf8 r = c # cs" using utf8_nonempty by (cases "utf8 r") auto
  have "of_runes (r # rs) = c # cs @ of_runes rs" using v u by (simp add: of_runes_def)
  moreover have "decode_rune (c # cs @ of_runes rs) = (r, Suc (length cs))"
    using decode_utf8 [OF v, of "of_runes rs"] u by simp
  ultimately show ?case using Cons u by simp
qed

lemma escape_text:
  assumes "xml_text s"
  shows "unescape (escape s) = s" "CHR ''<'' \<notin> set (escape s)"
proof -
  from assms obtain rs where rs: "s = of_runes rs" "list_all xml_rune rs" by (auto simp: xml_text_def)
  have "unescape (concat (map (\<lambda>r. escape_rune r (utf8 r)) rs)) = of_runes rs"
    using rs(2) by (induction rs) (auto simp: escape_rune_ok of_runes_def xml_rune_def)
  with rs show "unescape (escape s) = s" by (simp add: escape_of_runes)
  show "CHR ''<'' \<notin> set (escape s)"
    using rs by (auto simp: escape_of_runes list_all_iff escape_rune_ok)
qed

section \<open>The document\<close>

lemma xml_ascii: "list_all (\<lambda>c. 32 \<le> (of_char c :: nat) \<and> of_char c < (127 :: nat)) s \<Longrightarrow> xml_text s"
proof -
  assume s: "list_all (\<lambda>c. 32 \<le> (of_char c :: nat) \<and> of_char c < (127 :: nat)) s"
  then have "of_runes (map of_char s) = s" "list_all xml_rune (map of_char s)"
    by (induction s) (auto simp: of_runes_def utf8_ascii xml_rune_def valid_rune_def isInCharacterRange_def)
  then show "xml_text s" unfolding xml_text_def by metis
qed

declare read_value.simps [simp del] read_items.simps [simp del] read_pairs.simps [simp del]

lemma blank_cons: "xml_blank c \<Longrightarrow> skip_space (c # s) = skip_space s"
  by (simp add: skip_space_def)

lemma skip_indent: "skip_space (replicate k CHR '' '' @ s) = skip_space s"
  by (induction k) (simp_all add: blank_cons xml_blank_def)

lemma skip_NL: "skip_space (NL @ s) = skip_space s"
  by (simp add: NL_def blank_cons xml_blank_def)

lemma skip_lt: "skip_space (CHR ''<'' # s) = CHR ''<'' # s"
  by (simp add: skip_space_def xml_blank_def)

lemma skip_Nil: "skip_space [] = []"
  by (simp add: skip_space_def)

lemma value_skip: "skip_space s = skip_space t \<Longrightarrow> read_value n s = read_value n t"
  by (cases n) (simp_all add: read_value.simps)

lemma items_skip: "skip_space s = skip_space t \<Longrightarrow> read_items n s = read_items n t"
  by (cases n) (simp_all add: read_items.simps value_skip [of s t] split: option.split)

lemma pairs_skip: "skip_space s = skip_space t \<Longrightarrow> read_pairs n s = read_pairs n t"
  by (cases n) (simp_all add: read_pairs.simps split: option.split)

lemma after_tag_append: "after_tag p (p @ s) = Some s"
  by (simp add: after_tag_def)

lemma read_text_escape:
  assumes "xml_text v"
  shows "read_text (CHR ''<'' # cl) (escape v @ CHR ''<'' # cl @ t) = Some (v, t)"
proof -
  let ?close = "CHR ''<'' # cl"
  have "takeWhile (\<lambda>c. c \<noteq> CHR ''<'') (escape v @ ?close @ t) = escape v"
    "dropWhile (\<lambda>c. c \<noteq> CHR ''<'') (escape v @ ?close @ t) = ?close @ t"
    using escape_text(2) [OF assms] by (auto simp: takeWhile_append dropWhile_append)
  then show ?thesis by (simp add: read_text_def escape_text(1) [OF assms] after_tag_def)
qed

lemma read_string:
  assumes "xml_text v"
  shows "read_value (Suc n) (''<string>'' @ escape v @ ''</string>'' @ t) = Some (PStr v, t)"
  using read_text_escape [OF assms, of "''/string>''" t]
  by (simp add: read_value.simps skip_lt after_tag_def)

lemma read_atoms:
  "read_value (Suc n) (''<true/>'' @ t) = Some (PBool True, t)"
  "read_value (Suc n) (''<false/>'' @ t) = Some (PBool False, t)"
  "read_value (Suc n) (''<integer>5</integer>'' @ t) = Some (PInt 5, t)"
  "read_value (Suc n) (''<array>'' @ t) = map_option (apfst PArray) (read_items n t)"
  "read_value (Suc n) (''<dict>'' @ t) = map_option (apfst PDict) (read_pairs n t)"
  by (simp_all add: read_value.simps skip_lt after_tag_def read_text_def read_int_def unescape_plain entities_def is_digit_def)

lemma read_close:
  "read_items (Suc n) (''</array>'' @ t) = Some ([], t)" "read_pairs (Suc n) (''</dict>'' @ t) = Some ([], t)"
  by (simp_all add: read_items.simps read_pairs.simps skip_lt after_tag_def)

lemma read_key:
  assumes "xml_text k"
  shows "read_pairs (Suc n) (''<key>'' @ escape k @ ''</key>'' @ t)
    = Option.bind (read_value n t) (\<lambda>(v, r). map_option (apfst (Cons (k, v))) (read_pairs n r))"
  using read_text_escape [OF assms, of "''/key>''" t]
  by (simp add: read_pairs.simps skip_lt after_tag_def)

lemma read_item:
  "read_items (Suc n) (''<string>'' @ t)
    = Option.bind (read_value n (''<string>'' @ t)) (\<lambda>(v, r). map_option (apfst (Cons v)) (read_items n r))"
  by (simp add: read_items.simps skip_lt after_tag_def)


lemma blanks:
  "read_value n (CHR '' '' # s) = read_value n s" "read_items n (CHR '' '' # s) = read_items n s"
  "read_pairs n (CHR '' '' # s) = read_pairs n s" "read_value n (NL @ s) = read_value n s"
  "read_items n (NL @ s) = read_items n s" "read_pairs n (NL @ s) = read_pairs n s"
  "read_value n (replicate k CHR '' '' @ s) = read_value n s" "read_items n (replicate k CHR '' '' @ s) = read_items n s"
  "read_pairs n (replicate k CHR '' '' @ s) = read_pairs n s"
  by (rule value_skip items_skip pairs_skip; simp add: blank_cons xml_blank_def skip_NL skip_indent)+

lemma key_string:
  assumes "xml_text k" and "xml_text v"
  shows "read_pairs (Suc (Suc n)) (keyStringIndented k v m @ t) = map_option (apfst (Cons (k, PStr v))) (read_pairs (Suc n) t)"
  unfolding keyStringIndented_def Let_def append_assoc blanks read_key [OF assms(1)] read_string [OF assms(2)]
  by (simp add: blanks)

lemma key_literal:
  assumes "list_all (\<lambda>c. 32 \<le> (of_char c :: nat) \<and> of_char c < (127 :: nat)) k" and "escape k = k"
  shows "read_pairs (Suc n) (''<key>'' @ k @ ''</key>'' @ t)
    = Option.bind (read_value n t) (\<lambda>(v, r). map_option (apfst (Cons (k, v))) (read_pairs n r))"
  using read_key [OF xml_ascii [OF assms(1)]] assms(2) by simp

lemma escape_plain:
  assumes "list_all (\<lambda>c. 32 \<le> (of_char c :: nat) \<and> of_char c < (127 :: nat) \<and> of_char c \<notin> special) s"
  shows "escape s = s"
proof -
  from assms have rs: "of_runes (map of_char s) = s" "list_all xml_rune (map of_char s)"
    by (induction s) (auto simp: of_runes_def utf8_ascii xml_rune_def valid_rune_def isInCharacterRange_def)
  from assms have "concat (map (\<lambda>r. escape_rune r (utf8 r)) (map of_char s)) = s"
    by (induction s) (auto simp: escape_rune_def utf8_ascii special_def isInCharacterRange_def RuneError_def)
  with escape_of_runes [OF rs(2)] rs(1) show ?thesis by simp
qed

lemma plain_keys:
  "escape ''ProgramArguments'' = ''ProgramArguments''" "escape ''EnvironmentVariables'' = ''EnvironmentVariables''"
  "escape ''RunAtLoad'' = ''RunAtLoad''" "escape ''KeepAlive'' = ''KeepAlive''"
  "escape ''SuccessfulExit'' = ''SuccessfulExit''" "escape ''ThrottleInterval'' = ''ThrottleInterval''"
  by (rule escape_plain; simp add: special_def)+

lemma key_literals:
  "read_pairs (Suc n) (''<key>ProgramArguments</key>'' @ t)
    = Option.bind (read_value n t) (\<lambda>(v, r). map_option (apfst (Cons (''ProgramArguments'', v))) (read_pairs n r))"
  "read_pairs (Suc n) (''<key>EnvironmentVariables</key>'' @ t)
    = Option.bind (read_value n t) (\<lambda>(v, r). map_option (apfst (Cons (''EnvironmentVariables'', v))) (read_pairs n r))"
  "read_pairs (Suc n) (''<key>RunAtLoad</key>'' @ t)
    = Option.bind (read_value n t) (\<lambda>(v, r). map_option (apfst (Cons (''RunAtLoad'', v))) (read_pairs n r))"
  "read_pairs (Suc n) (''<key>KeepAlive</key>'' @ t)
    = Option.bind (read_value n t) (\<lambda>(v, r). map_option (apfst (Cons (''KeepAlive'', v))) (read_pairs n r))"
  "read_pairs (Suc n) (''<key>SuccessfulExit</key>'' @ t)
    = Option.bind (read_value n t) (\<lambda>(v, r). map_option (apfst (Cons (''SuccessfulExit'', v))) (read_pairs n r))"
  "read_pairs (Suc n) (''<key>ThrottleInterval</key>'' @ t)
    = Option.bind (read_value n t) (\<lambda>(v, r). map_option (apfst (Cons (''ThrottleInterval'', v))) (read_pairs n r))"
  using key_literal [of "''ProgramArguments''" n t] key_literal [of "''EnvironmentVariables''" n t]
    key_literal [of "''RunAtLoad''" n t] key_literal [of "''KeepAlive''" n t]
    key_literal [of "''SuccessfulExit''" n t] key_literal [of "''ThrottleInterval''" n t]
  unfolding plain_keys by simp_all

lemma apfst_apfst: "apfst f (apfst g x) = apfst (\<lambda>y. f (g y)) x"
  by (cases x) simp

lemma indented:
  "'' '' @ s = CHR '' '' # s" "''  <key>ProgramArguments</key>'' = ''  '' @ ''<key>ProgramArguments</key>''"
  by simp_all

lemma read_policy:
  "read_pairs (Suc (Suc (Suc (Suc (Suc (Suc n)))))) (plist_policy @ t)
   = map_option (apfst (\<lambda>ps. (''RunAtLoad'', PBool True) # (''KeepAlive'', PDict [(''SuccessfulExit'', PBool False)])
       # (''ThrottleInterval'', PInt 5) # ps)) (read_pairs (Suc (Suc (Suc n))) t)"
proof -
  have "plist_policy @ t = '' '' @ '' '' @ ''<key>RunAtLoad</key>'' @ NL @ '' '' @ '' '' @ ''<true/>'' @ NL
     @ '' '' @ '' '' @ ''<key>KeepAlive</key>'' @ NL @ '' '' @ '' '' @ ''<dict>'' @ NL @ '' '' @ '' '' @ '' '' @ '' '' @ ''<key>SuccessfulExit</key>''
     @ NL @ '' '' @ '' '' @ '' '' @ '' '' @ ''<false/>'' @ NL
     @ '' '' @ '' '' @ ''</dict>'' @ NL @ '' '' @ '' '' @ ''<key>ThrottleInterval</key>'' @ NL @ '' '' @ '' '' @ ''<integer>5</integer>'' @ NL @ t"
    unfolding plist_policy_def by simp
  then show ?thesis
    by (simp only: key_literals blanks indented(1) read_atoms read_close Option.bind.simps option.map prod.case apfst_conv
        option.map_comp o_def apfst_apfst)
qed

text \<open>What the property list is to say.\<close>

definition plist_spec :: "launchd_config \<Rightarrow> plist" where
  "plist_spec cfg = PDict
     [(''Label'', PStr Label),
      (''ProgramArguments'', PArray (map PStr
         [Binary cfg, ''daemon'', ''--config'', ConfigPath cfg, ''--state'', StatePath cfg])),
      (''EnvironmentVariables'', PDict [(''HOME'', PStr (Home cfg)), (''PATH'', PStr (EnvPath cfg))]),
      (''RunAtLoad'', PBool True),
      (''KeepAlive'', PDict [(''SuccessfulExit'', PBool False)]),
      (''ThrottleInterval'', PInt 5),
      (''StandardOutPath'', PStr (LogPath cfg)),
      (''StandardErrorPath'', PStr (LogPath cfg))]"

lemma xml_words:
  "xml_text Label" "xml_text ''Label''" "xml_text ''daemon''" "xml_text ''--config''" "xml_text ''--state''"
  "xml_text ''HOME''" "xml_text ''PATH''" "xml_text ''StandardOutPath''" "xml_text ''StandardErrorPath''"
  by (rule xml_ascii; simp add: Label_def)+

lemma read_argument:
  assumes "xml_text v"
  shows "read_items (Suc (Suc n)) (argument_line v @ t) = map_option (apfst (Cons (PStr v))) (read_items (Suc n) t)"
proof -
  have "argument_line v @ t = replicate 4 CHR '' '' @ ''<string>'' @ escape v @ ''</string>'' @ NL @ t"
    by (simp add: argument_line_def numeral_eq_Suc)
  then show ?thesis by (simp only: blanks read_item read_string [OF assms] Option.bind.simps prod.case)
qed

lemma read_arguments:
  assumes "list_all xml_text vs"
  shows "read_items (length vs + Suc n) (concat (map argument_line vs) @ ''</array>'' @ t) = Some (map PStr vs, t)"
  using assms
proof (induction vs)
  case Nil
  then show ?case by (simp only: list.map concat.simps append_Nil list.size add_0 read_close)
next
  case (Cons v vs)
  then show ?case by (simp add: read_argument del: append_Cons)
qed

lemma read_logs:
  assumes "xml_text path"
  shows "read_pairs (Suc (Suc (Suc n))) (keyString ''StandardOutPath'' path @ keyString ''StandardErrorPath'' path
      @ ''</dict>'' @ t) = Some ([(''StandardOutPath'', PStr path), (''StandardErrorPath'', PStr path)], t)"
  by (simp only: keyString_def key_string xml_words assms read_close option.map apfst_conv)

definition env_text :: "launchd_config \<Rightarrow> string" where
  "env_text cfg = ''  <key>EnvironmentVariables</key>'' @ NL @ ''  <dict>'' @ NL
     @ keyStringIndented ''HOME'' (Home cfg) 4 @ keyStringIndented ''PATH'' (EnvPath cfg) 4 @ ''  </dict>'' @ NL"

lemma read_env:
  assumes "xml_text (Home cfg)" and "xml_text (EnvPath cfg)"
  shows "read_pairs (Suc (Suc (Suc (Suc (Suc n))))) (env_text cfg @ t)
    = map_option (apfst (Cons (''EnvironmentVariables'', PDict [(''HOME'', PStr (Home cfg)), (''PATH'', PStr (EnvPath cfg))])))
        (read_pairs (Suc (Suc (Suc (Suc n)))) t)"
proof -
  have "env_text cfg @ t = '' '' @ '' '' @ ''<key>EnvironmentVariables</key>'' @ NL @ '' '' @ '' '' @ ''<dict>'' @ NL
     @ keyStringIndented ''HOME'' (Home cfg) 4 @ keyStringIndented ''PATH'' (EnvPath cfg) 4 @ '' '' @ '' '' @ ''</dict>'' @ NL @ t"
    by (simp add: env_text_def)
  then show ?thesis
    by (simp only: key_literals blanks indented(1) read_atoms key_string xml_words assms read_close Option.bind.simps
        option.map prod.case apfst_conv)
qed

definition args_text :: "launchd_config \<Rightarrow> string" where
  "args_text cfg = ''  <key>ProgramArguments</key>'' @ NL @ ''  <array>'' @ NL
     @ concat (map argument_line [Binary cfg, ''daemon'', ''--config'', ConfigPath cfg, ''--state'', StatePath cfg])
     @ ''  </array>'' @ NL"

lemma items_end: "read_items (Suc n) (''  </array>'' @ t) = Some ([], t)"
  using read_close(1) [of n t] by (simp only: indented(1) blanks append_Cons append_Nil)

lemma read_args:
  assumes "xml_text (Binary cfg)" and "xml_text (ConfigPath cfg)" and "xml_text (StatePath cfg)"
  shows "read_pairs (Suc (Suc (Suc (Suc (Suc (Suc (Suc (Suc (Suc n))))))))) (args_text cfg @ t)
    = map_option (apfst (Cons (''ProgramArguments'', PArray (map PStr
          [Binary cfg, ''daemon'', ''--config'', ConfigPath cfg, ''--state'', StatePath cfg]))))
        (read_pairs (Suc (Suc (Suc (Suc (Suc (Suc (Suc (Suc n)))))))) t)"
proof -
  have "args_text cfg @ t = '' '' @ '' '' @ ''<key>ProgramArguments</key>'' @ NL @ '' '' @ '' '' @ ''<array>'' @ NL
     @ concat (map argument_line [Binary cfg, ''daemon'', ''--config'', ConfigPath cfg, ''--state'', StatePath cfg])
     @ ''  </array>'' @ NL @ t"
    by (simp add: args_text_def)
  then show ?thesis
    by (simp only: key_literals blanks indented(1) read_atoms read_argument items_end xml_words assms Option.bind.simps
        list.map concat.simps append_assoc append_Nil option.map prod.case apfst_conv)
qed

lemma plist_text_parts:
  "plist_text cfg = plist_head @ keyString ''Label'' Label @ args_text cfg @ env_text cfg @ plist_policy
     @ keyString ''StandardOutPath'' (LogPath cfg) @ keyString ''StandardErrorPath'' (LogPath cfg)
     @ ''</dict>'' @ NL @ ''</plist>'' @ NL"
  by (simp add: plist_text_def args_text_def env_text_def)

lemma read_head:
  "read_plist (plist_head @ t) =
     Option.bind (read_value (length (NL @ ''<dict>'' @ NL @ t)) (NL @ ''<dict>'' @ NL @ t)) (\<lambda>(v, s).
     Option.bind (after_tag ''</plist>'' (skip_space s)) (\<lambda>s. if skip_space s = [] then Some v else None))"
  by (simp add: read_plist_def plist_head_def NL_def quoted_def after_tag_def blank_cons xml_blank_def skip_lt)

lemma document:
  assumes "list_all xml_text [Binary cfg, ConfigPath cfg, StatePath cfg, LogPath cfg, Home cfg, EnvPath cfg]"
  shows "read_plist (plist_text cfg) = Some (plist_spec cfg)"
proof -
  have vals: "xml_text (Binary cfg)" "xml_text (ConfigPath cfg)" "xml_text (StatePath cfg)" "xml_text (LogPath cfg)"
    "xml_text (Home cfg)" "xml_text (EnvPath cfg)"
    using assms by simp_all
  define body where "body = keyString ''Label'' Label @ args_text cfg @ env_text cfg @ plist_policy
     @ keyString ''StandardOutPath'' (LogPath cfg) @ keyString ''StandardErrorPath'' (LogPath cfg)
     @ ''</dict>'' @ NL @ ''</plist>'' @ NL"
  have "11 \<le> length body" by (simp add: body_def plist_policy_def)
  then obtain k where "length (NL @ ''<dict>'' @ NL @ body) = Suc (11 + k)"
    by (auto simp: NL_def dest!: le_Suc_ex intro: that)
  then have fuel: "length (NL @ ''<dict>'' @ NL @ body) = Suc (Suc (Suc (Suc (Suc (Suc (Suc (Suc (Suc (Suc (Suc (Suc k)))))))))))"
    by simp
  have "read_value (length (NL @ ''<dict>'' @ NL @ body)) (NL @ ''<dict>'' @ NL @ body)
      = Some (plist_spec cfg, NL @ ''</plist>'' @ NL)"
    unfolding fuel
    unfolding body_def plist_spec_def
    by (simp only: blanks read_atoms keyString_def [of _ Label] key_string xml_words read_args read_env read_policy read_logs vals
        option.map apfst_conv)
  then show ?thesis
    unfolding plist_text_parts body_def [symmetric] read_head
    by (simp only: Option.bind.simps prod.case) (simp add: NL_def after_tag_def blank_cons xml_blank_def skip_lt skip_Nil)
qed

text \<open>C40: The property list starts exactly the configured command. Every path of a configuration that is
  rendered is there and all but the search path are absolute; and when every configured value is
  text that XML can contain (UTF-8 without the control characters and noncharacters XML excludes), a
  property-list reader gets from the document exactly this dictionary: the label, the six words of
  the command line with the paths as they were configured, HOME and PATH with the configured home and
  search path, the policy that restarts the daemon only after a failure, and the configured log for
  both outputs. No value, whatever marks it holds, can add, move or rename an element.\<close>

theorem launchd_roundtrip:
  assumes "RenderLaunchd order1 order2 cfg = Inr doc"
    and "set order1 = set (map fst (required_fields cfg))" and "set order2 = set (map fst (absolute_fields cfg))"
    and "\<forall>v\<in>set (map snd (required_fields cfg)). xml_text v"
  shows "read_plist doc = Some (plist_spec cfg)
    \<and> (\<forall>v\<in>set (map snd (absolute_fields cfg)). IsAbs v) \<and> EnvPath cfg \<noteq> []"
proof -
  from assms(1) have doc: "doc = plist_text cfg"
    and none: "find (\<lambda>n. map_of (required_fields cfg) n = Some []) order1 = None"
      "find (\<lambda>n. case map_of (absolute_fields cfg) n of Some v \<Rightarrow> \<not> IsAbs v | None \<Rightarrow> False) order2 = None"
    by (auto simp: RenderLaunchd_def split: option.splits)
  have sets: "set order1 = fst ` set (required_fields cfg)" "set order2 = fst ` set (absolute_fields cfg)"
    using assms(2,3) by simp_all
  from none have "\<forall>n\<in>set order1. map_of (required_fields cfg) n \<noteq> Some []"
    "\<forall>n\<in>set order2. \<not> (case map_of (absolute_fields cfg) n of Some v \<Rightarrow> \<not> IsAbs v | None \<Rightarrow> False)"
    by (simp_all add: find_None_iff)
  then have paths: "EnvPath cfg \<noteq> []" "\<forall>v\<in>set (map snd (absolute_fields cfg)). IsAbs v"
    unfolding sets by (simp_all add: required_fields_def absolute_fields_def)
  have "list_all xml_text [Binary cfg, ConfigPath cfg, StatePath cfg, LogPath cfg, Home cfg, EnvPath cfg]"
    using assms(4) by (simp add: required_fields_def)
  with doc paths show ?thesis by (simp add: document)
qed

definition demo_service :: launchd_config where
  "demo_service = \<lparr> Binary = ''/b'', ConfigPath = ''/c<&>'', StatePath = ''/s'', LogPath = ''/l'', Home = ''/h'', EnvPath = ''/bin'' \<rparr>"

lemma demo_render: "RenderLaunchd (map fst (required_fields demo_service)) (map fst (absolute_fields demo_service)) demo_service
    = Inr (plist_text demo_service)"
  by (simp add: RenderLaunchd_def required_fields_def absolute_fields_def demo_service_def IsAbs_def HasPrefix_def)

theorem launchd_roundtrip_witness:
  "read_plist (plist_text demo_service) = Some (PDict
     [(''Label'', PStr ''com.terry.herdr-bots''),
      (''ProgramArguments'', PArray
         [PStr ''/b'', PStr ''daemon'', PStr ''--config'', PStr ''/c<&>'', PStr ''--state'', PStr ''/s'']),
      (''EnvironmentVariables'', PDict [(''HOME'', PStr ''/h''), (''PATH'', PStr ''/bin'')]),
      (''RunAtLoad'', PBool True),
      (''KeepAlive'', PDict [(''SuccessfulExit'', PBool False)]),
      (''ThrottleInterval'', PInt 5),
      (''StandardOutPath'', PStr ''/l''), (''StandardErrorPath'', PStr ''/l'')])"
proof -
  have "\<forall>v\<in>set (map snd (required_fields demo_service)). xml_text v"
    unfolding required_fields_def demo_service_def by (simp add: xml_ascii)
  from launchd_roundtrip [OF demo_render refl refl this] show ?thesis
    by (simp add: demo_service_def Label_def plist_spec_def)
qed

end
