(* ===== verification/GoFlag.thy ===== *)
theory GoFlag
  imports GoText GoFloat GoTime
begin

text \<open>
  Package \<open>flag\<close> as \<open>cmd/herdr-bots\<close> uses it: a set of boolean, text, integer and duration flags
  with defaults, parsed with \<open>ContinueOnError\<close>; and the parsers of their values in \<open>strconv\<close> and
  \<open>time\<close>.
\<close>

section \<open>Values\<close>

definition ParseBool :: "string \<Rightarrow> bool option" where
  "ParseBool s =
     (if s \<in> {''1'', ''t'', ''T'', ''true'', ''TRUE'', ''True''} then Some True
      else if s \<in> {''0'', ''f'', ''F'', ''false'', ''FALSE'', ''False''} then Some False
      else None)"

definition lower_char :: "char \<Rightarrow> char" where
  "lower_char c = (if CHR ''A'' \<le> c \<and> c \<le> CHR ''Z'' then char_of (of_char c + 32 :: nat) else c)"

text \<open>
  \<open>strconv.ParseInt(s, 0, 64)\<close>: a sign, a prefix that chooses the base, and digits that may be
  separated by single underscores, also right after the prefix.
\<close>

definition digit_of :: "char \<Rightarrow> int option" where
  "digit_of c =
     (let d = lower_char c
      in if is_digit d then Some (int (of_char d) - 48)
         else if CHR ''a'' \<le> d \<and> d \<le> CHR ''z'' then Some (int (of_char d) - 87) else None)"

fun digits_in :: "int \<Rightarrow> int \<Rightarrow> string \<Rightarrow> int option" where
  "digits_in base n [] = Some n"
| "digits_in base n (c # cs) =
     (if c = CHR ''_'' then digits_in base n cs
      else case digit_of c of
             None \<Rightarrow> None
           | Some d \<Rightarrow> if base \<le> d then None else digits_in base (n * base + d) cs)"

text \<open>No underscore at the end, at the start of a number without prefix, or next to another.\<close>

fun underscores_ok :: "char \<Rightarrow> string \<Rightarrow> bool" where
  "underscores_ok prev [] \<longleftrightarrow> prev \<noteq> CHR ''_''"
| "underscores_ok prev (c # cs) \<longleftrightarrow> (c = CHR ''_'' \<longrightarrow> prev = CHR ''0'') \<and> underscores_ok (if c = CHR ''_'' then c else CHR ''0'') cs"

definition base_prefix :: "string \<Rightarrow> int \<times> string" where
  "base_prefix s =
     (if s = [] \<or> hd s \<noteq> CHR ''0'' then (10, s)
      else if 3 \<le> length s \<and> lower_char (s ! 1) = CHR ''b'' then (2, drop 2 s)
      else if 3 \<le> length s \<and> lower_char (s ! 1) = CHR ''o'' then (8, drop 2 s)
      else if 3 \<le> length s \<and> lower_char (s ! 1) = CHR ''x'' then (16, drop 2 s)
      else (8, drop 1 s))"

definition ParseInt0 :: "string \<Rightarrow> int option" where
  "ParseInt0 s =
     (let neg = HasPrefix s ''-'';
          body = (if neg \<or> HasPrefix s ''+'' then drop 1 s else s)
      in if body = [] then None
         else case base_prefix body of (base, ds) \<Rightarrow>
           (case digits_in base 0 ds of
              None \<Rightarrow> None
            | Some n \<Rightarrow>
                if CHR ''_'' \<in> set ds \<and> \<not> underscores_ok (if base = 10 then CHR ''.'' else CHR ''0'') ds then None
                else let v = (if neg then - n else n) in if in_int64 v then Some v else None))"

section \<open>Durations\<close>

definition unit_ns :: "string \<Rightarrow> int option" where
  "unit_ns u =
     (if u = ''ns'' then Some 1
      else if u = ''us'' \<or> u = of_runes [181, 115] \<or> u = of_runes [956, 115] then Some 1000
      else if u = ''ms'' then Some 1000000
      else if u = ''s'' then Some second_ns
      else if u = ''m'' then Some minute_ns
      else if u = ''h'' then Some hour_ns
      else None)"

text \<open>
  \<open>leadingFraction\<close> stops to accumulate once the value would leave 63 bits; the first component is
  the number, the second its scale.
\<close>

fun fraction :: "int \<Rightarrow> nat \<Rightarrow> bool \<Rightarrow> string \<Rightarrow> int \<times> nat" where
  "fraction x k overflow [] = (x, k)"
| "fraction x k overflow (c # cs) =
     (if overflow then fraction x k overflow cs
      else if (2 ^ 63 - 1) div 10 < x then fraction x k True cs
      else let y = x * 10 + digit_val c
           in if 2 ^ 63 < y then fraction x k True cs else fraction y (Suc k) False cs)"

text \<open>\<open>uint64(float64(f) * (float64(unit) / scale))\<close>; the scale is a product of floats by ten.\<close>

fun scale_of :: "nat \<Rightarrow> float64" where
  "scale_of 0 = Fin 1"
| "scale_of (Suc k) = (case scale_of k of Fin x \<Rightarrow> of_rat64 (x * 10) | y \<Rightarrow> y)"

definition fraction_ns :: "int \<times> nat \<Rightarrow> int \<Rightarrow> int" where
  "fraction_ns f unit_size =
     (case (of_rat64 (of_int (fst f)), of_rat64 (of_int unit_size), scale_of (snd f)) of
        (Fin x, Fin u, Fin s) \<Rightarrow>
          (case of_rat64 (u / s) of
             Fin q \<Rightarrow> (case of_rat64 (x * q) of Fin p \<Rightarrow> floor p | _ \<Rightarrow> 0)
           | _ \<Rightarrow> 0)
      | _ \<Rightarrow> 0)"

text \<open>One number with its unit, added to \<open>d\<close>; the sum may reach 2 to the 63 for the negative case.\<close>

definition duration_part :: "int \<Rightarrow> string \<Rightarrow> (int \<times> string) option" where
  "duration_part d s =
     (if \<not> (hd s = CHR ''.'' \<or> is_digit (hd s)) then None
      else let whole = takeWhile is_digit s;
               v = digits_val whole;
               s1 = dropWhile is_digit s;
               dot = HasPrefix s1 ''.'';
               frac = (if dot then takeWhile is_digit (drop 1 s1) else []);
               s2 = (if dot then dropWhile is_digit (drop 1 s1) else s1);
               u = takeWhile (\<lambda>c. c \<noteq> CHR ''.'' \<and> \<not> is_digit c) s2
           in if 2 ^ 63 < v \<or> whole = [] \<and> frac = [] \<or> u = [] then None
              else case unit_ns u of
                     None \<Rightarrow> None
                   | Some step \<Rightarrow>
                       if 2 ^ 63 div step < v then None
                       else let total_part = v * step + (if frac = [] then 0 else fraction_ns (fraction 0 0 False frac) step)
                            in if 2 ^ 63 < total_part \<or> 2 ^ 63 < d + total_part then None
                               else Some (d + total_part, drop (length u) s2))"

text \<open>Every part consumes a byte, so the length of the text is fuel enough.\<close>

fun duration_parts :: "nat \<Rightarrow> int \<Rightarrow> string \<Rightarrow> int option" where
  "duration_parts n d [] = Some d"
| "duration_parts 0 d (c # cs) = None"
| "duration_parts (Suc n) d (c # cs) =
     (case duration_part d (c # cs) of None \<Rightarrow> None | Some (d', rest) \<Rightarrow> duration_parts n d' rest)"

definition ParseDuration :: "string \<Rightarrow> duration option" where
  "ParseDuration s =
     (let neg = HasPrefix s ''-'';
          body = (if neg \<or> HasPrefix s ''+'' then drop 1 s else s)
      in if body = ''0'' then Some 0
         else if body = [] then None
         else case duration_parts (length body) 0 body of
                None \<Rightarrow> None
              | Some d \<Rightarrow> if neg then Some (- d) else if 2 ^ 63 - 1 < d then None else Some d)"

section \<open>Flags\<close>

datatype flag_value = VBool bool | VString string | VInt int | VDuration duration

type_synonym flag_values = "string \<Rightarrow> flag_value option"

datatype flag_err =
    BadSyntax string | HelpRequested | NotDefined string | BadValue string string | NeedsArgument string

definition is_bool :: "flag_value \<Rightarrow> bool" where
  "is_bool v \<longleftrightarrow> (case v of VBool _ \<Rightarrow> True | _ \<Rightarrow> False)"

text \<open>\<open>Value.Set\<close>: the text is read as the kind of value the flag has.\<close>

definition set_value :: "flag_value \<Rightarrow> string \<Rightarrow> flag_value option" where
  "set_value old s =
     (case old of
        VBool _ \<Rightarrow> map_option VBool (ParseBool s)
      | VString _ \<Rightarrow> Some (VString s)
      | VInt _ \<Rightarrow> map_option VInt (ParseInt0 s)
      | VDuration _ \<Rightarrow> map_option VDuration (ParseDuration s))"

text \<open>\<open>-name\<close>, \<open>--name\<close>, each with an optional \<open>=value\<close>.\<close>

definition flag_body :: "string \<Rightarrow> string" where
  "flag_body s = (if HasPrefix s ''--'' then drop 2 s else drop 1 s)"

definition flag_name :: "string \<Rightarrow> string" where
  "flag_name b = takeWhile (\<lambda>c. c \<noteq> CHR ''='') b"

definition flag_text :: "string \<Rightarrow> string option" where
  "flag_text b = (if CHR ''='' \<in> set b then Some (drop (Suc (length (flag_name b))) b) else None)"

text \<open>
  \<open>FlagSet.Parse\<close>: the values and the remaining arguments. A flag that is not boolean and has no
  \<open>=value\<close> takes the next argument.
\<close>

fun parse_flags :: "flag_values \<Rightarrow> string list \<Rightarrow> flag_err + flag_values \<times> string list" where
  "parse_flags vs [] = Inr (vs, [])"
| "parse_flags vs (s # rest) =
     (if length s < 2 \<or> hd s \<noteq> CHR ''-'' then Inr (vs, s # rest)
      else if s = ''--'' then Inr (vs, rest)
      else let b = flag_body s; name = flag_name b
           in if b = [] \<or> hd b = CHR ''-'' \<or> hd b = CHR ''='' then Inl (BadSyntax s)
              else case vs name of
                     None \<Rightarrow> if name = ''help'' \<or> name = ''h'' then Inl HelpRequested else Inl (NotDefined name)
                   | Some old \<Rightarrow>
                       (case flag_text b of
                          Some t \<Rightarrow>
                            (case set_value old t of
                               None \<Rightarrow> Inl (BadValue name t)
                             | Some v \<Rightarrow> parse_flags (vs(name \<mapsto> v)) rest)
                        | None \<Rightarrow>
                            if is_bool old then parse_flags (vs(name \<mapsto> VBool True)) rest
                            else (case rest of
                                    [] \<Rightarrow> Inl (NeedsArgument name)
                                  | t # rest' \<Rightarrow>
                                      (case set_value old t of
                                         None \<Rightarrow> Inl (BadValue name t)
                                       | Some v \<Rightarrow> parse_flags (vs(name \<mapsto> v)) rest'))))"

definition string_flag :: "flag_values \<Rightarrow> string \<Rightarrow> string" where
  "string_flag vs n = (case vs n of Some (VString s) \<Rightarrow> s | _ \<Rightarrow> [])"

definition bool_flag :: "flag_values \<Rightarrow> string \<Rightarrow> bool" where
  "bool_flag vs n \<longleftrightarrow> vs n = Some (VBool True)"

definition int_flag :: "flag_values \<Rightarrow> string \<Rightarrow> int" where
  "int_flag vs n = (case vs n of Some (VInt i) \<Rightarrow> i | _ \<Rightarrow> 0)"

definition duration_flag :: "flag_values \<Rightarrow> string \<Rightarrow> duration" where
  "duration_flag vs n = (case vs n of Some (VDuration d) \<Rightarrow> d | _ \<Rightarrow> 0)"

text \<open>An argument that is no flag ends the flags, so it can be moved behind flags that end before it.\<close>

lemma parse_flags_append:
  assumes "parse_flags vs flags = Inr (vs', [])" and "length j < 2 \<or> hd j \<noteq> CHR ''-''"
  shows "parse_flags vs (flags @ j # others) = Inr (vs', j # others)"
  using assms
proof (induction vs flags rule: parse_flags.induct)
  case (1 vs)
  then show ?case by simp
next
  case (2 vs s rest)
  show ?case
  proof (cases "length s < 2 \<or> hd s \<noteq> CHR ''-'' \<or> s = ''--''")
    case True
    with 2(4) have "s = ''--''" "rest = []" "vs' = vs" by (auto split: if_splits)
    then show ?thesis by simp
  next
    case False
    define b where "b = flag_body s"
    define name where "name = flag_name b"
    have ok: "\<not> (b = [] \<or> hd b = CHR ''-'' \<or> hd b = CHR ''='')"
      using 2(4) False by (auto simp: b_def Let_def split: if_splits)
    from 2(4) False ok obtain old where old: "vs name = Some old"
      by (auto simp: b_def name_def Let_def split: option.splits if_splits)
    show ?thesis
    proof (cases "flag_text b")
      case (Some t)
      with 2(4) False ok old obtain v where v: "set_value old t = Some v" "parse_flags (vs(name \<mapsto> v)) rest = Inr (vs', [])"
        by (auto simp: b_def name_def Let_def split: option.splits if_splits)
      have "parse_flags (vs(name \<mapsto> v)) (rest @ j # others) = Inr (vs', j # others)"
        unfolding name_def b_def by (rule 2(3) [OF _ _ refl refl]) (use False ok old Some v 2(5) in \<open>auto simp: b_def name_def simp del: fun_upd_apply\<close>)
      with False ok old Some v show ?thesis by (simp add: b_def name_def Let_def)
    next
      case None
      show ?thesis
      proof (cases "is_bool old")
        case True
        with 2(4) False ok old None have v: "parse_flags (vs(name \<mapsto> VBool True)) rest = Inr (vs', [])"
          by (auto simp: b_def name_def Let_def split: option.splits if_splits)
        have "parse_flags (vs(name \<mapsto> VBool True)) (rest @ j # others) = Inr (vs', j # others)"
          unfolding name_def b_def by (rule 2(1) [OF _ _ refl refl]) (use False ok old None True v 2(5) in \<open>auto simp: b_def name_def simp del: fun_upd_apply\<close>)
        with False ok old None True show ?thesis by (simp add: b_def name_def Let_def)
      next
        case nb: False
        with 2(4) False ok old None obtain t rest' v where v: "rest = t # rest'" "set_value old t = Some v"
          "parse_flags (vs(name \<mapsto> v)) rest' = Inr (vs', [])"
          by (auto simp: b_def name_def Let_def split: option.splits if_splits list.splits)
        have "parse_flags (vs(name \<mapsto> v)) (rest' @ j # others) = Inr (vs', j # others)"
          unfolding name_def b_def by (rule 2(2) [OF _ _ refl refl]) (use False ok old None nb v 2(5) in \<open>auto simp: b_def name_def simp del: fun_upd_apply\<close>)
        with False ok old None nb v show ?thesis by (simp add: b_def name_def Let_def)
      qed
    qed
  qed
qed

end
