(* ===== verification/Cli.thy ===== *)
theory Cli
  imports Pane Launchd GoFlag
begin

text \<open>
  \<open>cmd/herdr-bots\<close>: the commands of the program over the engine, the store and the inbox. A
  command is a transformer of the world of the engine that gives the text it prints and its
  error; what the process gets from its host is a \<open>program\<close> record.
\<close>

section \<open>The process\<close>

record build_info =
  main_version :: string
  settings :: "(string \<times> string) list"

text \<open>
  \<open>engine_at c\<close> is the engine of a configuration file, \<open>open_store\<close> is \<open>store.Open\<close>, \<open>next_tick\<close> the next
  tick of the daemon's ticker or \<open>None\<close> for a signal, \<open>inbox\<close> the event loop of the pane. \<open>getenv\<close>
  gives the empty text for a variable that is not set.
\<close>

record 'x program =
  getenv :: "string \<Rightarrow> string"
  user_home :: string
  working_dir :: string
  engine_at :: "string \<Rightarrow> 'x env"
  mkdir_all :: "string \<Rightarrow> ('x world, eng_err option) state"
  open_store :: "string \<Rightarrow> ('x world, eng_err option) state"
  next_tick :: "('x world, time option) state"
  half_second :: "('x world, unit) state"
  inbox :: "('x world, eng_err option) state"
  stat_path :: "string \<Rightarrow> ('x world, eng_err option) state"
  herdr_on_path :: "('x world, bool) state"
  executable :: "('x world, eng_err + string) state"
  linked_version :: string
  build :: "build_info option"
  zone :: location
  key_order1 :: "string list"
  key_order2 :: "string list"

datatype main_err =
    FlagsRefused flag_err | NoCommand | Says string | Failed eng_err | FailedWith string eng_err
  | NotRendered launchd_err | NeverReturns

type_synonym 'x command = "('x world, string \<times> main_err option) state"

definition refuse_command :: "main_err \<Rightarrow> 'x command" where
  "refuse_command e = ret ([], Some e)"

text \<open>Go on with the value of an operation of the engine.\<close>

definition using_result :: "('x world, eng_err + 'a) state \<Rightarrow> ('a \<Rightarrow> 'x command) \<Rightarrow> 'x command" where
  "using_result m f = attempt m (\<lambda>e. refuse_command (Failed e)) f"

definition printing :: "string \<Rightarrow> 'x command \<Rightarrow> 'x command" where
  "printing s m = do { r \<leftarrow> m; ret (s @ fst r, snd r) }"

definition done_with :: "string \<Rightarrow> 'x command" where
  "done_with s = ret (s, None)"

section \<open>Versions and paths\<close>

text \<open>The last setting of a key counts.\<close>

definition setting :: "string \<Rightarrow> (string \<times> string) list \<Rightarrow> string" where
  "setting k ss = (case find (\<lambda>p. fst p = k) (rev ss) of None \<Rightarrow> [] | Some p \<Rightarrow> snd p)"

definition resolveVersion :: "string \<Rightarrow> build_info option \<Rightarrow> string" where
  "resolveVersion linked info =
     (if linked \<noteq> [] \<and> linked \<noteq> ''dev'' then linked
      else let fallback = (if linked \<noteq> [] then linked else ''dev'')
           in case info of
                None \<Rightarrow> fallback
              | Some b \<Rightarrow>
                  if main_version b \<noteq> [] \<and> main_version b \<noteq> ''(devel)'' then main_version b
                  else let revision = setting ''vcs.revision'' (settings b)
                       in if revision = [] then fallback
                          else if setting ''vcs.modified'' (settings b) = ''true'' then revision @ ''-dirty''
                          else revision)"

definition defaultConfigPath :: "'x program \<Rightarrow> string" where
  "defaultConfigPath X =
     (if getenv X ''HERDR_BOTS_CONFIG'' \<noteq> [] then getenv X ''HERDR_BOTS_CONFIG''
      else PathJoin (user_home X) ''.config/herdr-bots/bots.yaml'')"

definition defaultStatePath :: "'x program \<Rightarrow> string" where
  "defaultStatePath X =
     (if getenv X ''HERDR_BOTS_STATE'' \<noteq> [] then getenv X ''HERDR_BOTS_STATE''
      else PathJoin (user_home X) ''.local/state/herdr-bots/state.sqlite3'')"

definition state_flags :: "'x program \<Rightarrow> flag_values" where
  "state_flags X = [''state'' \<mapsto> VString (defaultStatePath X)]"

definition common :: "'x program \<Rightarrow> flag_values" where
  "common X = (state_flags X)(''config'' \<mapsto> VString (defaultConfigPath X))"

definition positionalFirst :: "string list \<Rightarrow> string list" where
  "positionalFirst args =
     (case args of
        first # second # rest \<Rightarrow> if \<not> HasPrefix first ''-'' then (second # rest) @ [first] else args
      | _ \<Rightarrow> args)"

definition with_flags :: "flag_values \<Rightarrow> string list \<Rightarrow> (flag_values \<Rightarrow> string list \<Rightarrow> 'x command) \<Rightarrow> 'x command" where
  "with_flags vs args f =
     (case parse_flags vs args of Inl e \<Rightarrow> refuse_command (FlagsRefused e) | Inr (vs', rest) \<Rightarrow> f vs' rest)"

definition displayField :: "string \<Rightarrow> string" where
  "displayField value = (if value = [] then ''-'' else value)"

definition receiptField :: "string \<Rightarrow> string" where
  "receiptField value = (if value = [] then ''-'' else value)"

definition terminal :: "string \<Rightarrow> bool" where
  "terminal st \<longleftrightarrow> st \<in> {StateSucceeded, StateFailed, StateBlocked, StateTimedOut, StateCancelled, StateInterrupted}"

definition usage_text :: string where
  "usage_text = Join
     [''herdr-bots - durable local coding-agent schedules'',
      [],
      ''Usage:'',
      ''  herdr-bots daemon [--config PATH] [--state PATH]'',
      ''  herdr-bots list [--config PATH] [--state PATH]'',
      ''  herdr-bots runs [JOB] [--state PATH]'',
      ''  herdr-bots show RUN [--state PATH]'',
      ''  herdr-bots pane [--state PATH]'',
      ''  herdr-bots run JOB [--config PATH] [--state PATH] [--canary]'',
      ''  herdr-bots enqueue JOB --event-id ID [--config PATH] [--state PATH]'',
      ''  herdr-bots cancel RUN [--config PATH] [--state PATH]'',
      ''  herdr-bots recover RUN [--config PATH] [--state PATH]'',
      ''  herdr-bots pause JOB|--all [--state PATH]'',
      ''  herdr-bots resume JOB|--all [--state PATH]'',
      ''  herdr-bots doctor [--config PATH] [--state PATH]'',
      ''  herdr-bots service render [--config PATH] [--state PATH]'',
      [],
      ''Service rendering is read-only. Installing, loading, or changing a launchd'',
      ''service remains a separate explicit action.'',
      [],
      ''Recover is an explicit, owner-directed retirement of one stuck provisioning'',
      ''run after verified workspace absence. It is not daemon reconciliation and'',
      ''never schedules, dispatches, provisions, or closes workspaces.''] NL @ NL"

section \<open>Opening\<close>

definition openEngine :: "'x program \<Rightarrow> string \<Rightarrow> string \<Rightarrow> ('x env \<Rightarrow> 'x command) \<Rightarrow> 'x command" where
  "openEngine X configPath statePath f = do {
     made \<leftarrow> mkdir_all X (filepathDir statePath);
     (case made of
        Some e \<Rightarrow> refuse_command (Failed e)
      | None \<Rightarrow> do {
          opened_store \<leftarrow> open_store X statePath;
          (case opened_store of Some e \<Rightarrow> refuse_command (Failed e) | None \<Rightarrow> f (engine_at X configPath)) }) }"

text \<open>The commands that only read or pause open the store without its directory.\<close>

definition openStore :: "'x program \<Rightarrow> string \<Rightarrow> ('x env \<Rightarrow> 'x command) \<Rightarrow> 'x command" where
  "openStore X statePath f = do {
     opened_store \<leftarrow> open_store X statePath;
     (case opened_store of Some e \<Rightarrow> refuse_command (Failed e) | None \<Rightarrow> f (engine_at X [])) }"

definition engine_flags :: "'x program \<Rightarrow> flag_values \<Rightarrow> ('x env \<Rightarrow> 'x command) \<Rightarrow> 'x command" where
  "engine_flags X vs f = openEngine X (string_flag vs ''config'') (string_flag vs ''state'') f"

section \<open>The daemon\<close>

text \<open>A failed evaluation is logged; a failed reconciliation is logged and skips the evaluation.\<close>

definition daemon_round :: "'x program \<Rightarrow> 'x env \<Rightarrow> unit \<Rightarrow> ('x world, unit + unit) state" where
  "daemon_round X E _ = do {
     event \<leftarrow> next_tick X;
     (case event of
        None \<Rightarrow> ret (Inl ())
      | Some now \<Rightarrow> do {
          reconciled \<leftarrow> Reconcile E;
          (case reconciled of
             Inl _ \<Rightarrow> ret (Inr ())
           | Inr _ \<Rightarrow> do { _ \<leftarrow> Evaluate E now; ret (Inr ()) }) }) }"

definition looping :: "('x world \<Rightarrow> ('r \<times> 'x world) option) \<Rightarrow> ('r \<Rightarrow> string \<times> main_err option) \<Rightarrow> 'x command" where
  "looping f g = State (\<lambda>w. case f w of None \<Rightarrow> (([], Some NeverReturns), w) | Some (r, w') \<Rightarrow> (g r, w'))"

definition daemonCmd :: "'x program \<Rightarrow> string list \<Rightarrow> 'x command" where
  "daemonCmd X args =
     with_flags ((common X)(''interval'' \<mapsto> VDuration (30 * second_ns))) args (\<lambda>vs _.
       if duration_flag vs ''interval'' < second_ns then refuse_command (Says ''interval must be at least one second'')
       else engine_flags X vs (\<lambda>E.
         using_result (Reconcile E) (\<lambda>_. do {
           now \<leftarrow> wall E;
           _ \<leftarrow> Evaluate E now;
           looping (loop (daemon_round X E) ()) (\<lambda>_. ([], None)) })))"

section \<open>Listings\<close>

definition list_line :: "string \<Rightarrow> string \<Rightarrow> string \<Rightarrow> string \<Rightarrow> string \<Rightarrow> string \<Rightarrow> string \<Rightarrow> string" where
  "list_line a b c d e f g =
     pad_right 24 a @ '' '' @ pad_right 8 b @ '' '' @ pad_right 10 c @ '' '' @ pad_right 18 d @ '' ''
     @ pad_right 22 e @ '' '' @ pad_right 20 f @ '' '' @ pad_right 10 g @ NL"

definition list_job :: "'x env \<Rightarrow> job \<Rightarrow> ('x world, string) state" where
  "list_job E j = do {
     result \<leftarrow> store_read E (\<lambda>d. Inr (LastJobResult (ID j) d));
     saved \<leftarrow> store_read E (Job (ID j));
     ret (let last_result = (case result of Inr r \<Rightarrow> if r \<noteq> [] then r else ''never'' | Inl _ \<Rightarrow> ''never'');
              pause_text = (case saved of
                          Inr s \<Rightarrow> if \<not> paused s then ''-'' else if pause_reason s = [] then ''paused'' else pause_reason s
                        | Inl _ \<Rightarrow> ''-'');
              ex = Execution j
          in list_line (ID j) (if IsEnabled j then ''true'' else ''false'') (Harness ex) (displayField (Provider ex))
               (Model ex) pause_text last_result) }"

fun each_line :: "('a \<Rightarrow> ('w, string) state) \<Rightarrow> 'a list \<Rightarrow> ('w, string) state" where
  "each_line f [] = ret []"
| "each_line f (x # xs) = do { s \<leftarrow> f x; t \<leftarrow> each_line f xs; ret (s @ t) }"

definition listCmd :: "'x program \<Rightarrow> string list \<Rightarrow> 'x command" where
  "listCmd X args =
     with_flags (common X) args (\<lambda>vs _.
       using_result (load_config (engine_at X (string_flag vs ''config''))) (\<lambda>cfg.
         engine_flags X vs (\<lambda>E. do {
           rows \<leftarrow> each_line (list_job E) (Jobs cfg);
           done_with (list_line ''JOB'' ''ENABLED'' ''HARNESS'' ''PROVIDER'' ''MODEL'' ''PAUSED'' ''LAST'' @ rows) })))"

definition runs_line :: "string list \<Rightarrow> string \<Rightarrow> string" where
  "runs_line cells final =
     concat (map2 (\<lambda>n s. pad_right n s @ '' '') [1, 38, 22, 10, 11, 18, 12] cells) @ final @ NL"

definition fmt_minute :: "civil \<Rightarrow> string" where
  "fmt_minute c = fmt_date c @ '' '' @ fmt_2 (c_hour c) @ '':'' @ fmt_2 (c_minute c)"

definition run_line :: "location \<Rightarrow> run \<Rightarrow> string" where
  "run_line loc r =
     runs_line [if unread r then ''*'' else '' '', run_id r, job_id r, task_verdict r, displayField (acceptance_lane r),
                displayField (acceptance_reason r), state r]
       (fmt_minute (wall_clock loc (updated_at r)))"

definition runsCmd :: "'x program \<Rightarrow> string list \<Rightarrow> 'x command" where
  "runsCmd X args =
     with_flags ((state_flags X)(''limit'' \<mapsto> VInt 30)) (positionalFirst args) (\<lambda>vs rest.
       if 1 < length rest then refuse_command (Says ''runs takes at most one job id'')
       else let jobID = (case rest of [j] \<Rightarrow> j | _ \<Rightarrow> [])
            in openStore X (string_flag vs ''state'') (\<lambda>E.
                 using_result (store_read E (\<lambda>d. Inr (ListRunsGroupedByAcceptance jobID (int_flag vs ''limit'') d))) (\<lambda>rs.
                   done_with
                     (if rs = [] then ''No runs.'' @ NL
                      else runs_line [[], ''RUN'', ''JOB'', ''VERDICT'', ''LANE'', ''REASON'', ''STATE''] ''UPDATED''
                           @ concat (map (run_line (zone X)) rs)))))"

definition show_text :: "run \<Rightarrow> string" where
  "show_text r =
     concat (map (\<lambda>(k, v). k @ '': '' @ v @ NL)
       [(''run'', run_id r), (''job'', job_id r), (''state'', state r), (''infrastructure'', infrastructure_result r),
        (''agent'', agent_result r), (''verdict'', task_verdict r), (''lane'', displayField (acceptance_lane r)),
        (''reason'', displayField (acceptance_reason r)), (''model-attestation'', receiptField (model_attestation r)),
        (''input-receipt'', receiptField (input_receipt r)), (''change-receipt'', receiptField (change_receipt r)),
        (''source-base'', source_base_revision r), (''source'', source_revision r), (''workspace'', workspace_id r),
        (''pane'', pane_id r), (''worktree'', worktree_path r), (''error'', error_code r @ '' '' @ error_detail r)])"

definition showCmd :: "'x program \<Rightarrow> string list \<Rightarrow> 'x command" where
  "showCmd X args =
     with_flags (state_flags X) (positionalFirst args) (\<lambda>vs rest.
       case rest of
         [i] \<Rightarrow> openStore X (string_flag vs ''state'') (\<lambda>E.
                  using_result (store_read E (GetRun i)) (\<lambda>r.
                    printing (show_text r) (using_result (store_op E (MarkRead (run_id r))) (\<lambda>_. done_with []))))
       | _ \<Rightarrow> refuse_command (Says ''show requires one run id''))"

definition paneCmd :: "'x program \<Rightarrow> string list \<Rightarrow> 'x command" where
  "paneCmd X args =
     with_flags (state_flags X) args (\<lambda>vs rest.
       if rest \<noteq> [] then refuse_command (Says ''pane takes no positional arguments'')
       else openStore X (string_flag vs ''state'') (\<lambda>E. do {
         ended \<leftarrow> inbox X;
         ret ([], map_option Failed ended) }))"

section \<open>Runs\<close>

definition enqueueCmd :: "'x program \<Rightarrow> string list \<Rightarrow> 'x command" where
  "enqueueCmd X args =
     with_flags ((common X)(''event-id'' \<mapsto> VString [])) (positionalFirst args) (\<lambda>vs rest.
       case rest of
         [i] \<Rightarrow>
           (let eventID = string_flag vs ''event-id''
            in if eventID = [] then refuse_command (Says ''enqueue requires --event-id ID'')
               else engine_flags X vs (\<lambda>E. do {
                 now \<leftarrow> wall E;
                 using_result (Enqueue E i eventID now) (\<lambda>res.
                   done_with (''event '' @ eventID @ '': '' @ ar_Outcome res @ '' run ''
                              @ (case ar_Run res of None \<Rightarrow> [] | Some r \<Rightarrow> run_id r) @ NL)) }))
       | _ \<Rightarrow> refuse_command (Says ''enqueue requires one job id''))"

text \<open>The text of the error of a run that ended otherwise, and of the two reasons not to wait on.\<close>

definition attend_round ::
  "'x program \<Rightarrow> 'x env \<Rightarrow> string \<Rightarrow> time \<Rightarrow> unit \<Rightarrow> ('x world, (string \<times> main_err option) + unit) state" where
  "attend_round X E runID deadline _ = do {
     got \<leftarrow> store_read E (GetRun runID);
     (case got of
        Inl e \<Rightarrow> ret (Inl ([], Some (Failed e)))
      | Inr r \<Rightarrow>
          if terminal (state r) then
            ret (Inl (''run '' @ run_id r @ '': '' @ state r @ '' ('' @ task_verdict r @ '')'' @ NL,
                      if state r \<noteq> StateSucceeded then Some (Says (''run ended '' @ state r @ '': '' @ error_detail r)) else None))
          else if state r = StateAccepted then
            ret (Inl ([], Some (Says (''run '' @ runID @ '' was accepted but held by pause, overlap, concurrency, or disk admission; inspect runs and doctor''))))
          else do {
            now \<leftarrow> wall E;
            if deadline < now
            then ret (Inl ([], Some (Says (''run '' @ runID @ '' exceeded the attended wait deadline in '' @ state r))))
            else do { _ \<leftarrow> half_second X; ret (Inr ()) } }) }"

definition awaitRun :: "'x program \<Rightarrow> 'x env \<Rightarrow> string \<Rightarrow> time \<Rightarrow> 'x command" where
  "awaitRun X E runID deadline = looping (loop (attend_round X E runID deadline) ()) id"

definition attended_deadline :: "job \<Rightarrow> time \<Rightarrow> time" where
  "attended_deadline j now = now + int64 (int64 (TimeoutMinutes j * minute_ns) + 2 * minute_ns)"

definition accepted_line :: "bool \<Rightarrow> string \<Rightarrow> string" where
  "accepted_line canary i = (if canary then ''canary run accepted: '' else ''run accepted: '') @ i @ NL"

definition attend_run :: "'x program \<Rightarrow> 'x env \<Rightarrow> bool \<Rightarrow> run \<Rightarrow> 'x command" where
  "attend_run X E canary r =
     (case decode_job (run_definition r) of
        None \<Rightarrow> refuse_command (FailedWith (''run '' @ run_id r @ '' has invalid snapshot'') BadSnapshot)
      | Some j \<Rightarrow> do {
          now \<leftarrow> wall E;
          printing (accepted_line canary (run_id r)) (awaitRun X E (run_id r) (attended_deadline j now)) })"

definition runCmd :: "'x program \<Rightarrow> string list \<Rightarrow> 'x command" where
  "runCmd X args =
     with_flags ((common X)(''canary'' \<mapsto> VBool False)) (positionalFirst args) (\<lambda>vs rest.
       case rest of
         [i] \<Rightarrow> engine_flags X vs (\<lambda>E. do {
                  now \<leftarrow> wall E;
                  using_result (RunNow E i (bool_flag vs ''canary'') now) (attend_run X E (bool_flag vs ''canary'')) })
       | _ \<Rightarrow> refuse_command (Says ''run requires one job id''))"

definition cancelCmd :: "'x program \<Rightarrow> string list \<Rightarrow> 'x command" where
  "cancelCmd X args =
     with_flags (common X) (positionalFirst args) (\<lambda>vs rest.
       case rest of
         [i] \<Rightarrow> engine_flags X vs (\<lambda>E. do {
                  now \<leftarrow> wall E;
                  using_result (Cancel E i now) (\<lambda>_. done_with (''cancelled '' @ i @ NL)) })
       | _ \<Rightarrow> refuse_command (Says ''cancel requires one run id''))"

definition recoverCmd :: "'x program \<Rightarrow> string list \<Rightarrow> 'x command" where
  "recoverCmd X args =
     with_flags (common X) (positionalFirst args) (\<lambda>vs rest.
       case rest of
         [i] \<Rightarrow> engine_flags X vs (\<lambda>E. do {
                  now \<leftarrow> wall E;
                  using_result (RecoverProvisioning E i now)
                    (\<lambda>r. done_with (''recovered '' @ run_id r @ '': '' @ state r @ NL)) })
       | _ \<Rightarrow> refuse_command (Says ''recover requires one run id''))"

section \<open>Pauses\<close>

definition bool_text :: "bool \<Rightarrow> string" where
  "bool_text b = (if b then ''true'' else ''false'')"

definition pauseCmd :: "'x program \<Rightarrow> string list \<Rightarrow> bool \<Rightarrow> 'x command" where
  "pauseCmd X args pausing =
     with_flags ((state_flags X)(''all'' \<mapsto> VBool False)) (positionalFirst args) (\<lambda>vs rest.
       openStore X (string_flag vs ''state'') (\<lambda>E.
         if bool_flag vs ''all'' then
           (if rest \<noteq> [] then refuse_command (Says ''--all does not take a job id'')
            else using_result (store_op E (SetGlobalPaused pausing)) (\<lambda>_.
                   done_with (''global pause: '' @ bool_text pausing @ NL)))
         else case rest of
                [i] \<Rightarrow> do {
                  clock \<leftarrow> wall E;
                  using_result (store_op E (SetPaused i pausing clock)) (\<lambda>_.
                    done_with (i @ '': paused='' @ bool_text pausing @ NL)) }
              | _ \<Rightarrow> refuse_command (Says ((if pausing then ''pause'' else ''resume'') @ '' requires one job id or --all''))))"

section \<open>The doctor\<close>

definition doctor_disk :: "'x env \<Rightarrow> config \<Rightarrow> job \<Rightarrow> (float64 \<Rightarrow> 'x command) \<Rightarrow> 'x command" where
  "doctor_disk E cfg j f = do {
     probed \<leftarrow> ProbeDiskCapacity (disk_env E) (Repository (Execution j));
     (case probed of
        Inl e \<Rightarrow> refuse_command (FailedWith (ID j @ '': disk capacity'') (ProbeDiskFailed e))
      | Inr cap \<Rightarrow>
          (let required = fadd (MinFreeDisk (Capacity cfg)) (DiskReserve j)
           in if fless (FreeGiB cap) required
              then refuse_command (Says (ID j @ '': disk capacity '' @ gib_text (FreeGiB cap) @ '' GiB is below ''
                     @ gib_text required @ '' GiB candidate requirement''))
              else f (FreeGiB cap))) }"

definition doctor_job :: "'x program \<Rightarrow> 'x env \<Rightarrow> config \<Rightarrow> job \<Rightarrow> 'x command" where
  "doctor_job X E cfg j = (
     let ex = Execution j; with_id = (\<lambda>what e. refuse_command (FailedWith (ID j @ what) e))
     in do {
       found \<leftarrow> stat_path X (Repository ex);
       (case found of
          Some e \<Rightarrow> with_id '': repository'' e
        | None \<Rightarrow>
            attempt (if BaseRef ex \<noteq> [] then ResolveSourceRevision E (Repository ex) (BaseRef ex) else ret (Inr []))
              (with_id '': base ref'') (\<lambda>_.
            doctor_disk E cfg j (\<lambda>free. do {
              probed \<leftarrow> Probe (runner_env E) j;
              (case probed of
                 Some e \<Rightarrow> with_id [] (ProbeFailed e)
               | None \<Rightarrow> done_with (''ok  '' @ pad_right 24 (ID j) @ '' '' @ Harness ex @ '' '' @ Provider ex @ ''/'' @ Model ex
                   @ '' disk='' @ gib_text free @ ''GiB reserve='' @ gib_text (DiskReserve j) @ ''GiB'' @ NL)) }))) })"

text \<open>The checks stop at the first job that fails; what was printed before stays.\<close>

fun doctor_jobs :: "('a \<Rightarrow> 'x command) \<Rightarrow> 'a list \<Rightarrow> 'x command \<Rightarrow> 'x command" where
  "doctor_jobs f [] last_part = last_part"
| "doctor_jobs f (x # xs) last_part = do {
     r \<leftarrow> f x;
     (case snd r of Some e \<Rightarrow> ret r | None \<Rightarrow> printing (fst r) (doctor_jobs f xs last_part)) }"

definition doctorCmd :: "'x program \<Rightarrow> string list \<Rightarrow> 'x command" where
  "doctorCmd X args =
     with_flags (common X) args (\<lambda>vs _.
       let E = engine_at X (string_flag vs ''config'')
       in using_result (load_config E) (\<lambda>cfg.
          openStore X (string_flag vs ''state'') (\<lambda>_. do {
            present \<leftarrow> herdr_on_path X;
            if \<not> present then refuse_command (Says ''herdr is not on PATH'')
            else doctor_jobs (doctor_job X E cfg) (Jobs cfg)
                   (done_with (''ok  capacity max='' @ show_int (MaxConcurrent (Capacity cfg)) @ '' min-free=''
                      @ gib_text (MinFreeDisk (Capacity cfg)) @ ''GiB'' @ NL @ ''ok  config '' @ string_flag vs ''config'' @ NL
                      @ ''ok  state '' @ string_flag vs ''state'' @ NL)) })))"

section \<open>The service file\<close>

definition serviceCmd :: "'x program \<Rightarrow> string list \<Rightarrow> 'x command" where
  "serviceCmd X args =
     (case args of
        [] \<Rightarrow> refuse_command (Says ''service supports only the read-only render command'')
      | verb # rest_args \<Rightarrow>
          if verb \<noteq> ''render'' then refuse_command (Says ''service supports only the read-only render command'')
          else with_flags (common X) rest_args (\<lambda>vs _.
            using_result (executable X) (\<lambda>path.
              let binary = (if IsAbs path then Clean path else PathJoin (working_dir X) path);
                  search = (if getenv X ''PATH'' = [] then ''/opt/homebrew/bin:/usr/local/bin:/usr/bin:/bin'' else getenv X ''PATH'');
                  log_file = PathJoin (user_home X) ''.local/state/herdr-bots/herdr-bots.log''
              in case RenderLaunchd (key_order1 X) (key_order2 X)
                        \<lparr> Binary = binary, ConfigPath = string_flag vs ''config'', StatePath = string_flag vs ''state'',
                          LogPath = log_file, Home = user_home X, EnvPath = search \<rparr> of
                   Inl e \<Rightarrow> refuse_command (NotRendered e)
                 | Inr raw \<Rightarrow> done_with raw)))"

section \<open>The program\<close>

definition run_command :: "'x program \<Rightarrow> string list \<Rightarrow> 'x command" where
  "run_command X args =
     (case args of
        [] \<Rightarrow> ret (usage_text, Some NoCommand)
      | name # rest \<Rightarrow>
          if name = ''daemon'' then daemonCmd X rest
          else if name = ''list'' then listCmd X rest
          else if name = ''runs'' then runsCmd X rest
          else if name = ''show'' then showCmd X rest
          else if name = ''pane'' then paneCmd X rest
          else if name = ''run'' then runCmd X rest
          else if name = ''enqueue'' then enqueueCmd X rest
          else if name = ''cancel'' then cancelCmd X rest
          else if name = ''recover'' then recoverCmd X rest
          else if name = ''pause'' then pauseCmd X rest True
          else if name = ''resume'' then pauseCmd X rest False
          else if name = ''doctor'' then doctorCmd X rest
          else if name = ''service'' then serviceCmd X rest
          else if name \<in> {''version'', ''--version'', ''-v''} then done_with (resolveVersion (linked_version X) (build X) @ NL)
          else if name \<in> {''help'', ''--help'', ''-h''} then done_with usage_text
          else ret (usage_text, Some (Says (''unknown command '' @ Quote name))))"

text \<open>The text on the standard output and the exit status.\<close>

definition main_program :: "'x program \<Rightarrow> string list \<Rightarrow> ('x world, string \<times> int) state" where
  "main_program X args = do { r \<leftarrow> run_command X args; ret (fst r, if snd r = None then 0 else 1) }"

end
