(* ===== verification/CliProperties.thy ===== *)
theory CliProperties
  imports Cli
begin

text \<open>
  What the commands promise their caller: the exit status of an attended run, the end of its wait,
  and the two orders of arguments that the usage text documents.
\<close>

section \<open>The exit status of a run\<close>

lemma store_read_final:
  assumes "run_state (store_read E f) w = (Inr x, w')"
  shows "f (wdb w') = Inr x"
proof -
  obtain fault v where "run_state (turn E) w = (fault, v)" by fastforce
  with assms show ?thesis
    by (cases fault; cases "f (wdb v)") (auto simp: store_read_def store_op_def apply_db_def)
qed

lemma await_succeeded:
  assumes "run_state (awaitRun X E i deadline) w = ((out, None), w')"
  shows "\<exists>r. find_run i (wdb w') = Some r \<and> state r = StateSucceeded
    \<and> out = ''run '' @ i @ '': '' @ state r @ '' ('' @ task_verdict r @ '')'' @ NL"
proof -
  from assms have "loop (attend_round X E i deadline) () w = Some ((out, None), w')"
    by (auto simp: awaitRun_def looping_def split: option.splits)
  from loop_last_round [OF this, of "\<lambda>_ _. True"] obtain s v where
    final: "run_state (attend_round X E i deadline s) v = (Inl (out, None), w')" by auto
  obtain got v1 where got: "run_state (store_read E (GetRun i)) v = (got, v1)" by fastforce
  obtain now v2 where now: "run_state (wall E) v1 = (now, v2)" by fastforce
  from final got now obtain r where r: "got = Inr r" "v1 = w'" "terminal (state r)" "state r = StateSucceeded"
      "out = ''run '' @ run_id r @ '': '' @ state r @ '' ('' @ task_verdict r @ '')'' @ NL"
    by (auto simp: attend_round_def split: sum.splits if_splits prod.splits)
  from store_read_final [OF got [unfolded r(1)]] r(2) have "GetRun i (wdb w') = Inr r" by simp
  then obtain r0 where r0: "find_run i (wdb w') = Some r0" "r = scanRun r0"
    by (auto simp: GetRun_def split: option.splits)
  then have "run_id r0 = i" by (auto simp: find_run_def simp: find_Some_iff)
  moreover have "task_verdict (scanRun r0) = task_verdict r0" by (simp add: scanRun_def)
  ultimately show ?thesis using r r0 by auto
qed

lemma using_resultD:
  assumes "run_state (using_result m f) w = ((out, None), w')"
  obtains x v where "run_state m w = (Inr x, v)" and "run_state (f x) v = ((out, None), w')"
proof -
  obtain r v where "run_state m w = (r, v)" by fastforce
  with assms that show thesis
    by (cases r) (auto simp: using_result_def attempt_def refuse_command_def)
qed

lemma printingD:
  assumes "run_state (printing s m) w = ((out, None), w')"
  obtains out' where "run_state m w = ((out', None), w')" and "out = s @ out'"
  using assms that by (auto simp: printing_def split: prod.splits)

lemma engine_flagsD:
  assumes "run_state (engine_flags X vs f) w = ((out, None), w')"
  obtains E v where "run_state (f E) v = ((out, None), w')"
  using assms that
  by (auto simp: engine_flags_def openEngine_def refuse_command_def split: prod.splits option.splits)

lemma attend_run_succeeded:
  assumes "run_state (attend_run X E canary r) w = ((out, None), w')"
  shows "\<exists>r'. find_run (run_id r) (wdb w') = Some r' \<and> state r' = StateSucceeded
    \<and> out = accepted_line canary (run_id r) @ ''run '' @ run_id r @ '': '' @ state r' @ '' ('' @ task_verdict r' @ '')'' @ NL"
proof -
  from assms obtain dl v where "run_state (printing (accepted_line canary (run_id r)) (awaitRun X E (run_id r) dl)) v = ((out, None), w')"
    by (auto simp: attend_run_def refuse_command_def split: option.splits prod.splits)
  then obtain out' where "run_state (awaitRun X E (run_id r) dl) v = ((out', None), w')"
    "out = accepted_line canary (run_id r) @ out'"
    by (elim printingD)
  with await_succeeded [OF this(1)] show ?thesis by auto
qed

lemma runCmdD:
  assumes "run_state (runCmd X args) w = ((out, None), w')"
  obtains E canary r v where "run_state (attend_run X E canary r) v = ((out, None), w')"
proof -
  from assms obtain vs rest where vs: "parse_flags ((common X)(''canary'' \<mapsto> VBool False)) (positionalFirst args) = Inr (vs, rest)"
    by (auto simp: runCmd_def with_flags_def refuse_command_def split: sum.splits)
  from assms vs obtain j where "rest = [j]"
    by (auto simp: runCmd_def with_flags_def refuse_command_def split: list.splits)
  with assms vs obtain E v where
    "run_state (do { now \<leftarrow> wall E; using_result (RunNow E j (bool_flag vs ''canary'') now) (attend_run X E (bool_flag vs ''canary'')) }) v
     = ((out, None), w')"
    by (auto simp: runCmd_def with_flags_def elim: engine_flagsD)
  then obtain now v1 where
    "run_state (using_result (RunNow E j (bool_flag vs ''canary'') now) (attend_run X E (bool_flag vs ''canary''))) v1
     = ((out, None), w')"
    by (auto split: prod.splits)
  then show thesis by (elim using_resultD) (rule that)
qed

text \<open>\<open>herdr-bots run\<close> exits with status zero only for a run that succeeded.\<close>

lemma run_exit_zero:
  assumes "run_state (main_program X (''run'' # args)) w = ((out, 0), w')"
  shows "\<exists>canary i r. find_run i (wdb w') = Some r \<and> state r = StateSucceeded
    \<and> out = accepted_line canary i @ ''run '' @ i @ '': '' @ state r @ '' ('' @ task_verdict r @ '')'' @ NL"
proof -
  obtain res v where "run_state (runCmd X args) w = (res, v)" by fastforce
  with assms have "run_state (runCmd X args) w = ((out, None), w')"
    by (cases res) (auto simp: main_program_def run_command_def split: if_splits)
  then show ?thesis by (elim runCmdD) (blast dest: attend_run_succeeded)
qed

lemma attend_round_answer:
  assumes "run_state (attend_round X E i deadline s) v = (Inl (out, e), w')"
  shows "e \<noteq> Some NeverReturns"
proof -
  obtain got v1 where got: "run_state (store_read E (GetRun i)) v = (got, v1)" by fastforce
  obtain now v2 where now: "run_state (wall E) v1 = (now, v2)" by fastforce
  obtain u v3 where u: "run_state (half_second X) v2 = (u, v3)" by (cases "run_state (half_second X) v2") blast
  show ?thesis
  proof (cases got)
    case (Inl x)
    with assms got show ?thesis by (auto simp: attend_round_def)
  next
    case (Inr r)
    show ?thesis
    proof (cases "terminal (state r)")
      case True
      with assms got Inr show ?thesis by (cases "state r = StateSucceeded") (auto simp: attend_round_def)
    next
      case False
      with assms got Inr now u show ?thesis
        by (cases "state r = StateAccepted"; cases "deadline < now") (auto simp: attend_round_def)
    qed
  qed
qed

text \<open>C39: The attended wait decides. As long as time passes between its rounds, the wait for a run
  returns, whatever happens to the run meanwhile; and it reports success only for a run that is
  recorded as succeeded when it returns, with the line that says so.\<close>

theorem attended_wait_decides:
  fixes c :: "'x world \<Rightarrow> time"
  assumes "\<And>w. fst (run_state (wall E) w) = c w"
    and "\<And>w. c w \<le> c (snd (run_state (store_read E (GetRun i)) w))"
    and "\<And>w. c w \<le> c (snd (run_state (wall E) w))" and "\<And>w. c w < c (snd (run_state (half_second X) w))"
  shows "\<exists>out e w'. run_state (awaitRun X E i deadline) w = ((out, e), w') \<and> e \<noteq> Some NeverReturns
    \<and> (e = None \<longrightarrow> (\<exists>r. find_run i (wdb w') = Some r \<and> state r = StateSucceeded
          \<and> out = ''run '' @ i @ '': '' @ state r @ '' ('' @ task_verdict r @ '')'' @ NL))"
proof -
  have "\<exists>r w'. loop (attend_round X E i deadline) () w = Some (r, w')"
  proof (rule loop_ends [where I = "\<lambda>_ _. True" and m = "\<lambda>_ w. nat (deadline + 1 - c w)"])
    fix s w s' w'
    assume run: "run_state (attend_round X E i deadline s) w = (Inr s', w')"
    obtain got w1 where got: "run_state (store_read E (GetRun i)) w = (got, w1)" by fastforce
    obtain now w2 where now: "run_state (wall E) w1 = (now, w2)" by fastforce
    obtain u w3 where u: "run_state (half_second X) w2 = (u, w3)" by (cases "run_state (half_second X) w2") blast
    from run got now u have w': "w' = w3" "\<not> deadline < now"
      by (auto simp: attend_round_def split: sum.splits if_splits prod.splits)
    have "c w \<le> c w1" using assms(2) [of w] got by simp
    moreover have "now = c w1" "c w1 \<le> c w2" using assms(1,3) [of w1] now by simp_all
    moreover have "c w2 < c w3" using assms(4) [of w2] u by simp
    ultimately show "True \<and> nat (deadline + 1 - c w') < nat (deadline + 1 - c w)"
      using w' by simp
  qed simp
  then obtain out e w' where l: "loop (attend_round X E i deadline) () w = Some ((out, e), w')" by auto
  from loop_last_round [OF l, of "\<lambda>_ _. True"] obtain s v where
    "run_state (attend_round X E i deadline s) v = (Inl (out, e), w')" by auto
  then have decided: "e \<noteq> Some NeverReturns" by (rule attend_round_answer)
  have run: "run_state (awaitRun X E i deadline) w = ((out, e), w')"
    using l by (simp add: awaitRun_def looping_def)
  show ?thesis
  proof (rule exI [of _ out], rule exI [of _ e], rule exI [of _ w'], intro conjI impI)
    assume "e = None"
    with run show "\<exists>r. find_run i (wdb w') = Some r \<and> state r = StateSucceeded
        \<and> out = ''run '' @ i @ '': '' @ state r @ '' ('' @ task_verdict r @ '')'' @ NL"
      by (intro await_succeeded) simp
  qed (rule run, rule decided)
qed

text \<open>A clock that advances with every pause, and a run that has succeeded.\<close>

definition ticking :: "int env" where
  "ticking = \<lparr> turn = ret None, now_at = ret 7, wall = State (\<lambda>w. (outer w, w)), token = ret (replicate 16 0),
     cfg_file = ret \<lparr> opened = OpenError, current = None, decoded = None, euid = 0 \<rparr>,
     host_env = \<lparr> home_dir = [], LoadLocation = (\<lambda>_. None), cron_parse = (\<lambda>_. None) \<rparr>,
     herdr = silent_cli, runner_env = \<lparr> LookPath = (\<lambda>_. ret False), Run = (\<lambda>_ _. ret (Inl [])) \<rparr>,
     git_run = (\<lambda>_. ret ([], None)), disk_probe = (\<lambda>_. ret (Inl [])), files_env = silent_files,
     review_git = (\<lambda>_. ret \<lparr> git_stdout = [], git_stderr = [], git_read_error = None, git_wait_error = None \<rparr>),
     disk_env = silent_disk, kernel_env = silent_kernel, launcher_env = silent_launcher, state_dir = ''/s'', owner_id = ''me'',
     random_id = ret [1, 2, 3, 4, 5], err_text = (\<lambda>_. ''error'') \<rparr>"

definition ticking_program :: "int program" where
  "ticking_program = \<lparr> getenv = (\<lambda>_. []), user_home = ''/h'', working_dir = ''/'', engine_at = (\<lambda>_. ticking),
     mkdir_all = (\<lambda>_. ret None), open_store = (\<lambda>_. ret None), next_tick = ret None,
     half_second = State (\<lambda>w. ((), w\<lparr>outer := outer w + 1\<rparr>)), inbox = ret None, stat_path = (\<lambda>_. ret None),
     herdr_on_path = ret False, executable = ret (Inr ''/b''), linked_version = ''dev'', build = None, zone = utc,
     key_order1 = [], key_order2 = [] \<rparr>"

definition succeeded_run :: run where
  "succeeded_run = demo_run\<lparr>state := StateSucceeded, task_verdict := ''passed''\<rparr>"

definition ticking_world :: "int world" where
  "ticking_world = \<lparr> wdb = db_run\<lparr>runs := [succeeded_run]\<rparr>, inFlight = {}, asyncErr = None, tasks = [], outer = 0 \<rparr>"

lemma ticking_read:
  "run_state (store_read ticking f) w = (map_sum StoreErr id (f (wdb w)), w)"
  by (simp add: store_read_def store_op_def ticking_def apply_db_def)

lemma succeeded_found: "GetRun (run_id demo_run) (wdb ticking_world) = Inr (scanRun succeeded_run)"
  by (simp add: GetRun_def find_run_def ticking_world_def succeeded_run_def del: demo_run_simps(6))

theorem attended_wait_decides_witness:
  "\<exists>out w' r. run_state (awaitRun ticking_program ticking (run_id demo_run) 60) ticking_world = ((out, None), w')
    \<and> find_run (run_id demo_run) (wdb w') = Some r \<and> state r = StateSucceeded"
proof -
  have wall: "run_state (wall ticking) w = (outer w, w)" for w by (simp add: ticking_def)
  have half: "run_state (half_second ticking_program) w = ((), w\<lparr>outer := outer w + 1\<rparr>)" for w
    by (simp add: ticking_program_def)
  have "state (scanRun succeeded_run) = StateSucceeded" "terminal StateSucceeded"
    by (simp_all add: succeeded_run_def terminal_def)
  then have "loop (attend_round ticking_program ticking (run_id demo_run) 60) () ticking_world =
      Some ((''run '' @ run_id (scanRun succeeded_run) @ '': '' @ StateSucceeded @ '' ('' @ task_verdict (scanRun succeeded_run) @ '')'' @ NL,
        None), ticking_world)"
    by (subst loop.simps) (simp add: attend_round_def ticking_read succeeded_found del: scanRun_simps demo_run_simps(6))
  then have none: "snd (fst (run_state (awaitRun ticking_program ticking (run_id demo_run) 60) ticking_world)) = None"
    by (simp add: awaitRun_def looping_def)
  show ?thesis
    using attended_wait_decides [where E = ticking and c = outer and i = "run_id demo_run" and X = ticking_program
        and w = ticking_world and deadline = 60] none
    by (auto simp: wall half ticking_read)
qed

section \<open>The order of arguments\<close>

lemma flags_start:
  assumes "parse_flags vs (s # flags) = Inr (vs', [])"
  shows "HasPrefix s ''-''"
  using assms by (cases s) (auto simp: HasPrefix_def split: if_splits)

text \<open>The positional argument may stand before or behind the flags. For any flags that parse on
  their own, and an argument that is not itself a flag, both orders give the values of those
  flags and exactly that one argument.\<close>

theorem either_order_parses:
  assumes "parse_flags vs flags = Inr (vs', [])" and "length j < 2 \<or> hd j \<noteq> CHR ''-''" and "\<not> HasPrefix j ''-''"
  shows "parse_flags vs (positionalFirst (j # flags)) = Inr (vs', [j])
    \<and> parse_flags vs (positionalFirst (flags @ [j])) = Inr (vs', [j])"
proof -
  note both = parse_flags_append [OF assms(1,2), of "[]"]
  have "positionalFirst (j # flags) = flags @ [j]"
    using assms(3) by (cases flags) (simp_all add: positionalFirst_def)
  moreover have "positionalFirst (flags @ [j]) = flags @ [j]"
  proof (cases flags)
    case (Cons s rest)
    with flags_start assms(1) have "HasPrefix s ''-''" by blast
    with Cons show ?thesis by (cases rest) (simp_all add: positionalFirst_def)
  qed (simp add: positionalFirst_def)
  ultimately show ?thesis using both by simp
qed

text \<open>A flag whose value is missing takes the positional argument that was moved behind it.\<close>

lemma missing_value_takes_argument:
  assumes "vs ''event-id'' = Some (VString s)" and "\<not> HasPrefix j ''-''"
  shows "parse_flags vs (positionalFirst [j, ''--event-id'']) = Inr (vs(''event-id'' \<mapsto> VString j), [])"
  using assms
  by (simp add: positionalFirst_def flag_body_def flag_name_def flag_text_def HasPrefix_def is_bool_def set_value_def)

theorem either_order_parses_witness:
  "parse_flags (common ticking_program) (positionalFirst [''nightly'', ''--state'', ''/x'']) =
     Inr ((common ticking_program)(''state'' \<mapsto> VString ''/x''), [''nightly''])"
proof -
  have "parse_flags (common ticking_program) [''--state'', ''/x''] = Inr ((common ticking_program)(''state'' \<mapsto> VString ''/x''), [])"
    by (simp add: common_def state_flags_def flag_body_def flag_name_def flag_text_def HasPrefix_def is_bool_def set_value_def)
  from either_order_parses [OF this, of "''nightly''"] show ?thesis by (simp add: HasPrefix_def)
qed

end
