(* ===== verification/Spec2Isabelle.thy ===== *)
theory Spec2Isabelle
  imports Schedule AcceptanceProperties ClaimProperties StoreQueries StoreReopen EngineTextProperties EngineProcess
    HerdrProperties AdmissionProperties RecoveryProperties ReviewProperties VerifierProperties CliProperties
begin

text \<open>
  A verification library for herdr-bots, a scheduler that starts coding agents in isolated
  workspaces and keeps every decision in one SQLite database.

  The program. A configuration file (\<open>internal/config\<close>) declares jobs with a schedule
  (\<open>internal/schedule\<close>), an execution, limits and an acceptance policy. A daemon
  (\<open>cmd/herdr-bots\<close>) asks the engine (\<open>internal/engine\<close>) at every tick to reconcile what earlier
  processes left behind and to evaluate the schedules. Due occurrences become runs in the store
  (\<open>internal/store\<close>); accepted runs are admitted within the capacity of the machine, provisioned
  through the client of the herdr program (\<open>internal/herdr\<close>), started with the launch of an adapter
  (\<open>internal/adapter\<close>), watched, reviewed (\<open>bounded_review.go\<close>), verified by a command of the job, and
  closed. Any number of processes share the database: everything they agree on is a claim with a
  lease in a row, and every change of a run is one guarded statement with an event. The same
  engine serves the commands of the user, the inbox pane (\<open>internal/pane\<close>) shows the runs, and
  \<open>internal/service\<close> prints a launchd file.

  How it is modelled. A transaction of the store is a function from a database to a result and a
  database. Everything with effects outside is a \<open>state\<close> transformer over a world; what is called
  there is a record of functions: \<open>cli\<close> (the herdr binary), \<open>runner\<close> (programs on the path), \<open>files\<close> and
  \<open>disk\<close> (system calls), \<open>kernel\<close> (process table, signals, clock), \<open>launcher\<close> (a started verifier) and
  \<open>env\<close> (all of them for an engine). A field may change the world in any way, so nothing is assumed of
  the outside but what a theorem names. Before every statement of an engine the other processes
  have their \<open>turn\<close> and the statement may fail: the properties of the store hold under any
  interleaving. Errors are values of a sum type that follow the wrapping of the code. Loops that
  wait on the outside are \<open>partial_function (option)\<close>, \<open>None\<close> being the loop that never ends; loops over
  data are structural or have fuel that is the length of the text they consume.

  The base. Prelude.thy: strings, paths, rows. GoText.thy, GoTime.thy, GoFloat.thy, GoFlag.thy,
  Json.thy, JsonEncode.thy, Sha256.thy: the parts of Go's standard library the program uses, the
  64-bit wrap-around of durations and the rounding of float64 included. Loops.thy: fallible steps,
  loops, and the rules for both.

  Configuration and schedule. Config.thy is \<open>config.go\<close> after the YAML decoder: defaults, validation
  in the order of the code, classification of finished runs, sampling. Snapshot.thy is
  \<open>Job.Snapshot\<close>. Schedule.thy is \<open>Between\<close>: which fire times are due, caught up or missed
  (\<open>occurrence_classified\<close>), that they are exactly the fire times of the interval
  (\<open>Between_cron_exact\<close>) and that the loop returns when the cron package moves forward.

  The store. StoreTypes.thy has the tables, errors and statements; StoreAdmission.thy the authority
  of jobs, occurrences and acceptance; StoreRuns.thy every change of an existing run;
  StoreQueries.thy the listings and the migration of rows. StoreLaws.thy states the contract of a
  write on one row, with the locales \<open>state_keeper\<close> and \<open>transitioner\<close> interpreted on every statement;
  StoreContracts.thy the write-once columns and bounded leases, again interpreted on all providers;
  StoreSteps.thy composes all operations with arbitrary arguments to a step relation and the
  reachable databases; StoreInvariants.thy proves their invariants. StoreProperties.thy,
  AcceptanceProperties.thy and ClaimProperties.thy state what follows: final outcomes, the event log
  as history, limits of accepted runs, one decision per occurrence, fencing by live claims, and
  recovery of claims after their lease.

  Opening the store. StoreSchema.thy is a database file of any version (tables, columns, keys,
  indexes, rows) and a connection with one transaction, whose calls may fail on any schedule.
  StoreOpen.thy is \<open>Open\<close>, \<open>migrate\<close> and \<open>retrySQLiteBusy\<close> on it, statement by statement.
  StoreOpenProperties.thy shows that every step implements a function on the contents of the
  transaction, that the loop over a busy file ends at its deadline, and what \<open>Open\<close> leaves behind;
  StoreMigrated.thy that the migration is all or nothing, gives the schema of this version and
  refines the migration of rows; StoreReopen.thy that doing it again changes nothing.

  The clients. HerdrClient.thy is \<open>client.go\<close> with its decoding of inventories and its waits;
  HerdrProperties.thy shows what an absence, a submission and an exit code rest on. Adapter.thy is
  \<open>adapter.go\<close> with the tool profiles, the probe and the attestation of a model.

  The engine. EngineWorld.thy is its world, errors and statements; EngineText.thy the texts it
  hands to shells and reads back; EngineHost.thy prompt files, free space and owners;
  EngineProcess.thy the process group of a verifier; VerifierFiles.thy running it and the files of
  its receipt; BoundedPaths.thy, BoundedFiles.thy and BoundedReview.thy the bounded review;
  EngineClose.thy the close of workspaces and the failure paths; EngineRun.thy one run on its
  goroutine; EngineDispatch.thy the public operations. Frame.thy proves once, in the locale \<open>frame\<close>,
  that whatever the calls to the outside keep is kept by every client operation, and
  EngineRefinement.thy interprets it for the database: the engine moves it only by operations of
  the store. EngineProperties.thy, AdmissionProperties.thy, RecoveryProperties.thy,
  ReviewProperties.thy and VerifierProperties.thy state what the engine guarantees beyond that.

  The surface. Pane.thy is the inbox, Launchd.thy the service file, Cli.thy all commands of
  \<open>main.go\<close> and \<open>recovery.go\<close>; CliProperties.thy is about the exit of an attended run and the order of
  arguments.

  Bounds. The numbers of the code are used as they are: leases of two minutes and more, 16 MiB per
  bounded file, 1 MiB of verifier output, 64 KiB of a receipt, 4 MiB of a process table. Fuel occurs
  in the parsers and in the readers of texts and is the length of the text (plus one), which every
  round shortens.

  Not modelled. SQLite itself: a transaction is atomic and serial; a statement that fails, for any
  reason, is a fault of the environment; the pragmas change how SQLite waits and writes, not the
  contents. Other processes that commit between the opening of a file and its \<open>BEGIN\<close> are part of
  the file it begins with. YAML decoding, cron expressions, time zones, the terminal library: arguments. Contexts:
  cancellation and deadlines appear where the code reads them, as results of the calls that
  observe them. The two mutexes of the engine: operations of one engine are interleaved statement
  by statement, which allows more than the locks do. Goroutines are queued tasks that run whole
  between calls, interleaved with the turns of others. Logging and the usage text on the standard
  error. The text of most errors is kept as a structured value; \<open>err_text\<close> turns it to a string where
  the code stores it.
\<close>

end
